(* ===== verification/Prelude.thy ===== *)
theory Prelude
  imports Main "HOL-Library.Word" "HOL-Library.Code_Target_Numeral"
begin

text \<open>
  Generic material shared by every component: the collections of rewrite rules the
  component proofs use, abbreviations for the control characters that occur in the
  source's string literals, and lemmas on lists and options.

  A Go \<open>string\<close> is a sequence of bytes, so it is modelled by Isabelle's \<open>string\<close>, a list
  of 8-bit characters; \<open>length\<close> is Go's \<open>len\<close>.
\<close>

named_theorems go_defs "definitions of the Go library functions the source calls"
named_theorems step_simps "equations of the operations, used by the invariant proofs"
named_theorems frame "fields an operation leaves unchanged"

abbreviation NL :: char where "NL \<equiv> CHR 0x0A"
abbreviation TAB :: char where "TAB \<equiv> CHR 0x09"
abbreviation CRET :: char where "CRET \<equiv> CHR 0x0D"
abbreviation DQ :: char where "DQ \<equiv> CHR 0x22"
abbreviation BSL :: char where "BSL \<equiv> CHR 0x5C"
abbreviation SQ :: char where "SQ \<equiv> CHR 0x27"

text \<open>The result of a fallible Go call: \<open>Inl\<close> is the error's message, \<open>Inr\<close> the value.\<close>

type_synonym 'a result = "string + 'a"

lemma concat_map_eq_Nil [simp]: "concat (map f xs) = [] \<longleftrightarrow> (\<forall>x\<in>set xs. f x = [])"
  by (induction xs) auto

lemma takeWhile_all [simp]: "\<forall>x\<in>set xs. P x \<Longrightarrow> takeWhile P xs = xs"
  by (induction xs) auto

lemma dropWhile_all [simp]: "\<forall>x\<in>set xs. P x \<Longrightarrow> dropWhile P xs = []"
  by (induction xs) auto

lemma takeWhile_set: "c \<in> set (takeWhile P xs) \<Longrightarrow> P c"
  by (induction xs) (auto split: if_splits)

lemma dropWhile_hd: "dropWhile P xs = y # ys \<Longrightarrow> \<not> P y"
  by (induction xs) (auto split: if_splits)

lemma last_filter_snoc: "P x \<Longrightarrow> filter P (xs @ [x]) = filter P xs @ [x]"
  by simp

end
