(* ===== verification/GoStrings.thy ===== *)
theory GoStrings
  imports Prelude
begin

text \<open>
  The parts of Go's \<open>strings\<close>, \<open>strconv\<close> and \<open>fmt\<close> packages the source uses, on byte
  strings. Separators and trim sets of the source are ASCII; case mapping and white space
  are therefore modelled on ASCII and leave bytes above 127 alone.
\<close>

subsection \<open>Searching\<close>

definition has_prefix :: "string \<Rightarrow> string \<Rightarrow> bool" where
  "has_prefix s p = (take (length p) s = p)"

definition has_suffix :: "string \<Rightarrow> string \<Rightarrow> bool" where
  "has_suffix s p = has_prefix (rev s) (rev p)"

definition trim_prefix :: "string \<Rightarrow> string \<Rightarrow> string" where
  "trim_prefix s p = (if has_prefix s p then drop (length p) s else s)"

definition trim_suffix :: "string \<Rightarrow> string \<Rightarrow> string" where
  "trim_suffix s p = (if has_suffix s p then take (length s - length p) s else s)"

fun str_index :: "string \<Rightarrow> string \<Rightarrow> nat option" where
  "str_index [] sub = (if sub = [] then Some 0 else None)"
| "str_index (c # cs) sub =
     (if has_prefix (c # cs) sub then Some 0 else map_option Suc (str_index cs sub))"

definition str_contains :: "string \<Rightarrow> string \<Rightarrow> bool" where
  "str_contains s sub = (str_index s sub \<noteq> None)"

subsection \<open>Splitting and joining\<close>

fun split_when :: "(char \<Rightarrow> bool) \<Rightarrow> string \<Rightarrow> string list" where
  "split_when p [] = [[]]"
| "split_when p (c # cs) =
     (if p c then [] # split_when p cs
      else (case split_when p cs of [] \<Rightarrow> [[c]] | w # ws \<Rightarrow> (c # w) # ws))"

definition split_on :: "char \<Rightarrow> string \<Rightarrow> string list" where
  "split_on d = split_when (\<lambda>c. c = d)"

text \<open>\<open>strings.Cut\<close> and \<open>strings.SplitN(s, sep, 2)\<close> for a one-byte separator.\<close>

fun cut_on :: "char \<Rightarrow> string \<Rightarrow> (string \<times> string) option" where
  "cut_on d [] = None"
| "cut_on d (c # cs) =
     (if c = d then Some ([], cs)
      else map_option (\<lambda>(a, b). (c # a, b)) (cut_on d cs))"

text \<open>\<open>strings.SplitAfter\<close>: every piece but the last keeps its separator.\<close>

fun split_after :: "char \<Rightarrow> string \<Rightarrow> string list" where
  "split_after d [] = [[]]"
| "split_after d (c # cs) =
     (if c = d then [c] # split_after d cs
      else (case split_after d cs of [] \<Rightarrow> [[c]] | w # ws \<Rightarrow> (c # w) # ws))"

fun join :: "string \<Rightarrow> string list \<Rightarrow> string" where
  "join sep [] = []"
| "join sep [x] = x"
| "join sep (x # y # ys) = x @ sep @ join sep (y # ys)"

fun count_char :: "char \<Rightarrow> string \<Rightarrow> nat" where
  "count_char d [] = 0"
| "count_char d (c # cs) = (if c = d then Suc (count_char d cs) else count_char d cs)"

subsection \<open>Replacing\<close>

definition replace_first :: "string \<Rightarrow> string \<Rightarrow> string \<Rightarrow> string" where
  "replace_first s old new =
     (case str_index s old of None \<Rightarrow> s
      | Some i \<Rightarrow> take i s @ new @ drop (i + length old) s)"

function replace_all_str :: "string \<Rightarrow> string \<Rightarrow> string \<Rightarrow> string" where
  "replace_all_str [] old new = []"
| "replace_all_str (c # cs) old new =
     (if old \<noteq> [] \<and> has_prefix (c # cs) old
      then new @ replace_all_str (drop (length old) (c # cs)) old new
      else c # replace_all_str cs old new)"
  by pat_completeness auto
termination
  by (relation "measure (\<lambda>(s, old, new). length s)") auto

subsection \<open>Trimming and case\<close>

definition is_space :: "char \<Rightarrow> bool" where
  "is_space c = (c \<in> {CHR 0x20, TAB, NL, CHR 0x0B, CHR 0x0C, CRET})"

definition trim_left_when :: "(char \<Rightarrow> bool) \<Rightarrow> string \<Rightarrow> string" where
  "trim_left_when p s = dropWhile p s"

definition trim_right_when :: "(char \<Rightarrow> bool) \<Rightarrow> string \<Rightarrow> string" where
  "trim_right_when p s = rev (dropWhile p (rev s))"

definition trim_when :: "(char \<Rightarrow> bool) \<Rightarrow> string \<Rightarrow> string" where
  "trim_when p s = trim_right_when p (trim_left_when p s)"

definition trim_space :: "string \<Rightarrow> string" where
  "trim_space = trim_when is_space"

definition str_fields :: "string \<Rightarrow> string list" where
  "str_fields s = filter (\<lambda>w. w \<noteq> []) (split_when is_space s)"

definition lower_char :: "char \<Rightarrow> char" where
  "lower_char c =
     (if 65 \<le> (of_char c :: nat) \<and> (of_char c :: nat) \<le> 90 then char_of (of_char c + 32 :: nat) else c)"

definition upper_char :: "char \<Rightarrow> char" where
  "upper_char c =
     (if 97 \<le> (of_char c :: nat) \<and> (of_char c :: nat) \<le> 122 then char_of (of_char c - 32 :: nat) else c)"

definition to_lower :: "string \<Rightarrow> string" where
  "to_lower = map lower_char"

definition to_upper :: "string \<Rightarrow> string" where
  "to_upper = map upper_char"

subsection \<open>Numbers\<close>

definition digit_char :: "nat \<Rightarrow> char" where
  "digit_char d = char_of (48 + d)"

definition is_digit :: "char \<Rightarrow> bool" where
  "is_digit c = (48 \<le> (of_char c :: nat) \<and> (of_char c :: nat) \<le> 57)"

fun show_nat :: "nat \<Rightarrow> string" where
  "show_nat n = (if n < 10 then [digit_char n] else show_nat (n div 10) @ [digit_char (n mod 10)])"

declare show_nat.simps [simp del]

definition itoa :: "int \<Rightarrow> string" where
  "itoa i = (if i < 0 then CHR ''-'' # show_nat (nat (- i)) else show_nat (nat i))"

definition digits_val :: "string \<Rightarrow> nat" where
  "digits_val s = foldl (\<lambda>n c. 10 * n + (of_char c - 48)) 0 s"

definition parse_digits :: "string \<Rightarrow> nat option" where
  "parse_digits s = (if s \<noteq> [] \<and> list_all is_digit s then Some (digits_val s) else None)"

text \<open>
  \<open>strconv.Atoi\<close> and \<open>ParseInt(s, 10, 64)\<close> on a 64-bit platform: an optional sign, at
  least one digit, and a value in the range of \<open>int64\<close>; \<open>ParseUint(s, 10, 64)\<close> takes no sign.
\<close>

fun atoi :: "string \<Rightarrow> int option" where
  "atoi [] = None"
| "atoi (c # cs) =
     (if c = CHR ''-'' then
        (case parse_digits cs of None \<Rightarrow> None
         | Some n \<Rightarrow> if n \<le> 2 ^ 63 then Some (- int n) else None)
      else
        (case parse_digits (if c = CHR ''+'' then cs else c # cs) of None \<Rightarrow> None
         | Some n \<Rightarrow> if n < 2 ^ 63 then Some (int n) else None))"

definition parse_uint :: "string \<Rightarrow> nat option" where
  "parse_uint s =
     (case parse_digits s of None \<Rightarrow> None | Some n \<Rightarrow> if n < 2 ^ 64 then Some n else None)"

subsection \<open>Quoting (\<open>fmt\<close>'s \<open>%q\<close>)\<close>

definition hex_digit :: "nat \<Rightarrow> char" where
  "hex_digit d = (if d < 10 then char_of (48 + d) else char_of (87 + d))"

definition quote_char :: "char \<Rightarrow> string" where
  "quote_char c =
     (if c = DQ then [BSL, DQ]
      else if c = BSL then [BSL, BSL]
      else if c = CHR 0x07 then BSL # ''a''
      else if c = CHR 0x08 then BSL # ''b''
      else if c = CHR 0x0C then BSL # ''f''
      else if c = NL then BSL # ''n''
      else if c = CRET then BSL # ''r''
      else if c = TAB then BSL # ''t''
      else if c = CHR 0x0B then BSL # ''v''
      else if (of_char c :: nat) < 32 \<or> (of_char c :: nat) = 127
        then [BSL, CHR ''x'', hex_digit (of_char c div 16), hex_digit (of_char c mod 16)]
      else [c])"

definition go_quote :: "string \<Rightarrow> string" where
  "go_quote s = DQ # concat (map quote_char s) @ [DQ]"


subsection \<open>Laws\<close>

lemma has_prefix_iff: "has_prefix s p \<longleftrightarrow> (\<exists>t. s = p @ t)"
  unfolding has_prefix_def by (metis append_eq_conv_conj append_take_drop_id)

lemma has_prefix_append [simp]: "has_prefix (p @ t) p"
  by (auto simp: has_prefix_iff)

lemma has_prefix_Nil [simp]: "has_prefix s []"
  by (simp add: has_prefix_def)

lemma has_prefix_Nil_left [simp]: "has_prefix [] p \<longleftrightarrow> p = []"
  by (auto simp: has_prefix_def)

lemma has_prefix_Cons [simp]: "has_prefix (c # s) (d # p) \<longleftrightarrow> c = d \<and> has_prefix s p"
  by (auto simp: has_prefix_def)

lemma has_suffix_iff: "has_suffix s p \<longleftrightarrow> (\<exists>t. s = t @ p)"
proof
  assume "has_suffix s p"
  then obtain t where "rev s = rev p @ t" by (auto simp: has_suffix_def has_prefix_iff)
  then have "s = rev t @ p" by (metis rev_append rev_rev_ident)
  then show "\<exists>t. s = t @ p" ..
next
  assume "\<exists>t. s = t @ p"
  then show "has_suffix s p" by (auto simp: has_suffix_def)
qed

lemma str_index_Some: "str_index s sub = Some i \<Longrightarrow> \<exists>b. s = take i s @ sub @ b"
proof (induction s sub arbitrary: i rule: str_index.induct)
  case (1 sub)
  then show ?case by (auto split: if_splits)
next
  case (2 c cs sub)
  show ?case
  proof (cases "has_prefix (c # cs) sub")
    case True
    then show ?thesis using 2 by (auto simp: has_prefix_iff)
  next
    case False
    then obtain j where "str_index cs sub = Some j" "i = Suc j" using "2.prems" by auto
    then show ?thesis using "2.IH" [OF False] by auto
  qed
qed

lemma str_contains_iff: "str_contains s sub \<longleftrightarrow> (\<exists>a b. s = a @ sub @ b)"
proof
  assume "str_contains s sub"
  then show "\<exists>a b. s = a @ sub @ b"
    unfolding str_contains_def using str_index_Some by blast
next
  have 0: "str_index (sub @ b) sub \<noteq> None" for b
    using has_prefix_append [of sub b] by (cases "sub @ b") auto
  have *: "str_index (a @ sub @ b) sub \<noteq> None" for a b
    by (induction a) (use 0 in auto)
  assume "\<exists>a b. s = a @ sub @ b"
  with * show "str_contains s sub" unfolding str_contains_def by auto
qed

lemma split_when_not_Nil [simp]: "split_when p s \<noteq> []"
  by (induction s) (auto split: list.splits)

lemma split_on_not_Nil [simp]: "split_on d s \<noteq> []"
  by (simp add: split_on_def)

lemma split_when_elems: "w \<in> set (split_when p s) \<Longrightarrow> c \<in> set w \<Longrightarrow> \<not> p c"
  by (induction s arbitrary: w) (fastforce split: list.splits if_splits)+

lemma split_on_elems: "w \<in> set (split_on d s) \<Longrightarrow> d \<notin> set w"
  unfolding split_on_def using split_when_elems by fastforce

lemma join_Cons_append: "ws \<noteq> [] \<Longrightarrow> join sep (w # ws) = w @ sep @ join sep ws"
  by (cases ws) auto

lemma join_split_on [simp]: "join [d] (split_on d s) = s"
proof (induction s)
  case Nil
  then show ?case by (simp add: split_on_def)
next
  case (Cons c s)
  obtain w ws where ws: "split_on d s = w # ws"
    using split_on_not_Nil [of d s] by (cases "split_on d s") auto
  show ?case
  proof (cases "c = d")
    case True
    then show ?thesis using Cons ws by (simp add: split_on_def join_Cons_append)
  next
    case False
    have "join [d] ((c # w) # ws) = c # join [d] (w # ws)"
      by (cases ws) auto
    then show ?thesis using Cons ws False by (simp add: split_on_def)
  qed
qed

lemma split_on_append_sep: "d \<notin> set w \<Longrightarrow> split_on d (w @ d # s) = w # split_on d s"
  by (induction w) (auto simp: split_on_def)

lemma split_on_no_sep: "d \<notin> set w \<Longrightarrow> split_on d w = [w]"
  by (induction w) (auto simp: split_on_def)

lemma split_on_join: "ws \<noteq> [] \<Longrightarrow> \<forall>w\<in>set ws. d \<notin> set w \<Longrightarrow> split_on d (join [d] ws) = ws"
proof (induction ws)
  case Nil
  then show ?case by simp
next
  case (Cons w ws)
  then show ?case
    by (cases ws) (auto simp: split_on_no_sep split_on_append_sep)
qed

lemma join_inj:
  assumes "xs \<noteq> []" "ys \<noteq> []" "\<forall>w\<in>set xs. d \<notin> set w" "\<forall>w\<in>set ys. d \<notin> set w"
    and "join [d] xs = join [d] ys"
  shows "xs = ys"
  using assms by (metis split_on_join)

lemma trim_space_id:
  "s \<noteq> [] \<Longrightarrow> \<not> is_space (hd s) \<Longrightarrow> \<not> is_space (last s) \<Longrightarrow> trim_space s = s"
proof -
  assume s: "s \<noteq> []" "\<not> is_space (hd s)" "\<not> is_space (last s)"
  then have "dropWhile is_space s = s" by (cases s) auto
  moreover have "dropWhile is_space (rev s) = rev s"
    using s by (cases s rule: rev_cases) auto
  ultimately show ?thesis
    by (simp add: trim_space_def trim_when_def trim_left_when_def trim_right_when_def)
qed

subsection \<open>Decimal round trip\<close>

lemma of_char_digit: "d < 10 \<Longrightarrow> (of_char (digit_char d) :: nat) = 48 + d"
  by (simp add: digit_char_def)

lemma is_digit_digit_char: "d < 10 \<Longrightarrow> is_digit (digit_char d)"
  by (simp add: is_digit_def of_char_digit)

lemma show_nat_digits: "list_all is_digit (show_nat n)"
proof (induction n rule: show_nat.induct)
  case (1 n)
  show ?case
    by (cases "n < 10") (use 1 in \<open>auto simp: show_nat.simps [of n] is_digit_digit_char\<close>)
qed

lemma show_nat_not_Nil [simp]: "show_nat n \<noteq> []"
  by (subst show_nat.simps) simp

lemma digits_val_snoc: "digits_val (s @ [c]) = 10 * digits_val s + (of_char c - 48)"
  by (simp add: digits_val_def)

lemma digits_val_show_nat: "digits_val (show_nat n) = n"
proof (induction n rule: show_nat.induct)
  case (1 n)
  show ?case
  proof (cases "n < 10")
    case True
    then show ?thesis
      by (simp add: show_nat.simps [of n] digits_val_def of_char_digit)
  next
    case False
    then show ?thesis
      using 1 by (simp add: show_nat.simps [of n] digits_val_snoc of_char_digit)
  qed
qed

lemma parse_digits_show_nat [simp]: "parse_digits (show_nat n) = Some n"
  by (simp add: parse_digits_def show_nat_digits digits_val_show_nat)

lemma hd_show_nat: "is_digit (hd (show_nat n))"
  using show_nat_digits [of n] by (cases "show_nat n") auto

lemma atoi_itoa: "- (2 ^ 63) \<le> i \<Longrightarrow> i < 2 ^ 63 \<Longrightarrow> atoi (itoa i) = Some i"
proof -
  assume i: "- (2 ^ 63) \<le> i" "i < 2 ^ 63"
  show ?thesis
  proof (cases "i < 0")
    case True
    then show ?thesis using i by (simp add: itoa_def)
  next
    case False
    obtain c cs where s: "show_nat (nat i) = c # cs"
      by (cases "show_nat (nat i)") auto
    have "is_digit c" using hd_show_nat [of "nat i"] s by simp
    then have c: "c \<noteq> CHR ''-''" "c \<noteq> CHR ''+''" by (auto simp: is_digit_def)
    have "parse_digits (c # cs) = Some (nat i)"
      using parse_digits_show_nat [of "nat i"] s by simp
    then show ?thesis using False i c s by (simp add: itoa_def nat_less_iff)
  qed
qed

lemma itoa_inj: "itoa i = itoa j \<Longrightarrow> i = j"
proof -
  have p: "show_nat a = show_nat b \<Longrightarrow> a = b" for a b
    by (metis digits_val_show_nat)
  have q: "show_nat a \<noteq> CHR ''-'' # s" for a s
    using hd_show_nat [of a] by (auto simp: is_digit_def)
  have q': "CHR ''-'' # s \<noteq> show_nat a" for a s
    using q by metis
  assume "itoa i = itoa j"
  then show "i = j"
    by (auto simp: itoa_def q q' split: if_splits dest!: p)
qed

subsection \<open>Quoting keeps a value on one line\<close>

lemma hex_digit_not_NL: "d < 16 \<Longrightarrow> hex_digit d \<noteq> NL"
proof -
  assume d: "d < 16"
  have "(of_char (hex_digit d) :: nat) \<noteq> 10"
    using d by (auto simp: hex_digit_def)
  then show ?thesis by auto
qed

lemma quote_char_no_NL: "NL \<notin> set (quote_char c)"
proof -
  have "(of_char c :: nat) < 256"
    using range_nat_of_char by (metis atLeastLessThan_iff rangeI)
  then have "(of_char c :: nat) div 16 < 16" "(of_char c :: nat) mod 16 < 16"
    by (simp_all add: less_mult_imp_div_less)
  then have "hex_digit (of_char c div 16) \<noteq> NL" "hex_digit (of_char c mod 16) \<noteq> NL"
    using hex_digit_not_NL by blast+
  then show ?thesis
    by (auto simp: quote_char_def)
qed

lemma go_quote_no_NL: "NL \<notin> set (go_quote s)"
  using quote_char_no_NL by (auto simp: go_quote_def)

lemma replace_all_absent: "\<not> str_contains s old \<Longrightarrow> replace_all_str s old new = s"
  by (induction s old new rule: replace_all_str.induct) (auto simp: str_contains_def split: if_splits option.splits)

end
