(* ===== verification/GoRegexp.thy ===== *)
theory GoRegexp
  imports GoStrings
begin

text \<open>
  The part of Go's \<open>regexp\<close> package the source uses: patterns as a datatype, matching as
  the priority-ordered list of all ways to match at a position (its head is the
  leftmost-first match), and \<open>MatchString\<close>, \<open>FindStringSubmatch\<close>, \<open>ReplaceAllString\<close>
  (with the expansion of \<open>$name\<close> in the replacement) and \<open>ReplaceAllStringFunc\<close> on top.
  A pattern of the source is written as a term of \<open>rx\<close> next to the function using it.
\<close>

subsection \<open>Patterns\<close>

text \<open>
  \<open>RBol\<close>/\<open>REol\<close> are \<open>^\<close> and \<open>$\<close> under \<open>(?m)\<close>, \<open>RBot\<close>/\<open>REot\<close> without the flag; \<open>RStar\<close> is the
  greedy star; \<open>RGrp n\<close> is the n-th capture group.
\<close>

datatype rx = RSet "char \<Rightarrow> bool" | REps | RSeq rx rx | RAlt rx rx | RStar rx
  | RBol | REol | RBot | REot | RGrp nat rx

text \<open>A match state: the text before the position (reversed), the text after it, the captures.\<close>

type_synonym captures = "(nat \<times> string) list"
type_synonym mstate = "string \<times> string \<times> captures"

primrec star_n :: "nat \<Rightarrow> (mstate \<Rightarrow> mstate list) \<Rightarrow> mstate \<Rightarrow> mstate list" where
  "star_n 0 f s = [s]"
| "star_n (Suc n) f s =
     concat (map (star_n n f) (filter (\<lambda>t. length (fst (snd t)) < length (fst (snd s))) (f s))) @ [s]"

primrec rxm :: "rx \<Rightarrow> mstate \<Rightarrow> mstate list" where
  "rxm (RSet p) s = (case s of (b, a, cs) \<Rightarrow>
     (case a of [] \<Rightarrow> [] | c # a' \<Rightarrow> if p c then [(c # b, a', cs)] else []))"
| "rxm REps s = [s]"
| "rxm (RSeq r1 r2) s = concat (map (rxm r2) (rxm r1 s))"
| "rxm (RAlt r1 r2) s = rxm r1 s @ rxm r2 s"
| "rxm (RStar r) s = star_n (length (fst (snd s))) (rxm r) s"
| "rxm RBol s = (if fst s = [] \<or> hd (fst s) = NL then [s] else [])"
| "rxm REol s = (if fst (snd s) = [] \<or> hd (fst (snd s)) = NL then [s] else [])"
| "rxm RBot s = (if fst s = [] then [s] else [])"
| "rxm REot s = (if fst (snd s) = [] then [s] else [])"
| "rxm (RGrp n r) s =
     map (\<lambda>(b, a, cs). (b, a, (n, take (length (fst (snd s)) - length a) (fst (snd s))) # cs)) (rxm r s)"

text \<open>Literal strings (\<open>regexp.QuoteMeta\<close>) and the usual character classes.\<close>

fun rlit :: "string \<Rightarrow> rx" where
  "rlit [] = REps"
| "rlit (c # cs) = RSeq (RSet (\<lambda>d. d = c)) (rlit cs)"

fun rseq :: "rx list \<Rightarrow> rx" where
  "rseq [] = REps"
| "rseq (r # rs) = RSeq r (rseq rs)"

definition rplus :: "rx \<Rightarrow> rx" where "rplus r = RSeq r (RStar r)"
definition ropt :: "rx \<Rightarrow> rx" where "ropt r = RAlt r REps"

definition blank :: "char \<Rightarrow> bool" where "blank c = (c = CHR 0x20 \<or> c = TAB)"

text \<open>Go's \<open>\s\<close> is \<open>[\t\n\f\r ]\<close>; \<open>\w\<close> is \<open>[0-9A-Za-z_]\<close>.\<close>

definition rspace :: "char \<Rightarrow> bool" where
  "rspace c = (c \<in> {CHR 0x20, TAB, NL, CHR 0x0C, CRET})"

definition is_alpha :: "char \<Rightarrow> bool" where
  "is_alpha c = (let n = (of_char c :: nat) in (65 \<le> n \<and> n \<le> 90) \<or> (97 \<le> n \<and> n \<le> 122))"

definition is_word :: "char \<Rightarrow> bool" where
  "is_word c = (is_alpha c \<or> is_digit c \<or> c = CHR ''_'')"

definition rblanks :: rx where "rblanks = RStar (RSet blank)"
definition rspaces :: rx where "rspaces = RStar (RSet rspace)"
definition rdots :: rx where "rdots = RStar (RSet (\<lambda>c. c \<noteq> NL))"

subsection \<open>Searching and replacing\<close>

definition rx_first :: "rx \<Rightarrow> string \<Rightarrow> string \<Rightarrow> mstate option" where
  "rx_first r b a = (case rxm r (b, a, []) of [] \<Rightarrow> None | m # ms \<Rightarrow> Some m)"

fun rx_find :: "rx \<Rightarrow> string \<Rightarrow> string \<Rightarrow> (string \<times> captures) option" where
  "rx_find r b [] =
     (case rx_first r b [] of None \<Rightarrow> None | Some (b', a', cs) \<Rightarrow> Some ([], cs))"
| "rx_find r b (c # a) =
     (case rx_first r b (c # a) of
        Some (b', a', cs) \<Rightarrow> Some (take (length (c # a) - length a') (c # a), cs)
      | None \<Rightarrow> rx_find r (c # b) a)"

definition rx_matches :: "rx \<Rightarrow> string \<Rightarrow> bool" where
  "rx_matches r s = (rx_find r [] s \<noteq> None)"

text \<open>
  \<open>ReplaceAllStringFunc\<close>: matches do not overlap, and an empty match right after another
  match is not replaced.
\<close>

function replace_from ::
  "rx \<Rightarrow> (string \<Rightarrow> captures \<Rightarrow> string) \<Rightarrow> bool \<Rightarrow> string \<Rightarrow> string \<Rightarrow> string" where
  "replace_from r f adj b a =
     (case rx_first r b a of
        None \<Rightarrow> (case a of [] \<Rightarrow> [] | c # cs \<Rightarrow> c # replace_from r f False (c # b) cs)
      | Some (b', a', caps) \<Rightarrow>
          let m = take (length a - length a') a in
          if m = [] then
            (let out = if adj then [] else f [] caps in
             (case a of [] \<Rightarrow> out | c # cs \<Rightarrow> out @ c # replace_from r f False (c # b) cs))
          else f m caps @ replace_from r f True b' a')"
  by pat_completeness auto
termination
  by (relation "measure (\<lambda>(r, f, adj, b, a). length a)") auto

declare replace_from.simps [simp del]

definition replace_func :: "rx \<Rightarrow> (string \<Rightarrow> captures \<Rightarrow> string) \<Rightarrow> string \<Rightarrow> string" where
  "replace_func r f s = replace_from r f False [] s"

text \<open>
  The replacement template of \<open>ReplaceAllString\<close>: \<open>$$\<close> is a dollar, \<open>$name\<close> and \<open>${name}\<close>
  the capture of that number, a name that is no group's expands to nothing, and a dollar
  that starts no name stays.
\<close>

definition capture :: "captures \<Rightarrow> string \<Rightarrow> string \<Rightarrow> string" where
  "capture caps m name =
     (case parse_digits name of
        None \<Rightarrow> []
      | Some n \<Rightarrow>
          if hd name = CHR ''0'' \<and> length name > 1 then []
          else if n = 0 then m
          else (case map_of caps n of None \<Rightarrow> [] | Some s \<Rightarrow> s))"

function expand :: "captures \<Rightarrow> string \<Rightarrow> string \<Rightarrow> string" where
  "expand caps m [] = []"
| "expand caps m (c # cs) =
     (if c \<noteq> CHR ''$'' then c # expand caps m cs
      else (case cs of
              [] \<Rightarrow> [c]
            | d # ds \<Rightarrow>
                if d = CHR ''$'' then CHR ''$'' # expand caps m ds
                else if d = CHR ''{'' then
                  (let name = takeWhile is_word ds; rest = drop (length name) ds in
                   if name \<noteq> [] \<and> rest \<noteq> [] \<and> hd rest = CHR ''}''
                   then capture caps m name @ expand caps m (tl rest)
                   else c # expand caps m cs)
                else
                  (let name = takeWhile is_word cs; rest = drop (length name) cs in
                   if name \<noteq> [] then capture caps m name @ expand caps m rest
                   else c # expand caps m cs)))"
  by pat_completeness auto
termination
  by (relation "measure (\<lambda>(caps, m, t). length t)") (auto simp: Let_def)

definition replace_tmpl :: "rx \<Rightarrow> string \<Rightarrow> string \<Rightarrow> string" where
  "replace_tmpl r tmpl s = replace_func r (\<lambda>m caps. expand caps m tmpl) s"


subsection \<open>What the patterns match\<close>

definition bol :: "string \<Rightarrow> bool" where "bol b = (b = [] \<or> hd b = NL)"

lemma rxm_set_eqs [simp]:
  "rxm (RSet p) (b, [], cs) = []"
  "rxm (RSet p) (b, c # a, cs) = (if p c then [(c # b, a, cs)] else [])"
  by simp_all

declare rxm.simps(1) [simp del]

lemma set_star_n:
  "length a \<le> n \<Longrightarrow> set (star_n n (rxm (RSet p)) (b, a, cs)) =
     {(rev m @ b, a', cs) |m a'. a = m @ a' \<and> (\<forall>c\<in>set m. p c)}"
proof (induction n arbitrary: a b)
  case 0
  then show ?case by auto
next
  case (Suc n)
  show ?case
  proof (cases a)
    case Nil
    then show ?thesis by auto
  next
    case (Cons c a2)
    have L: "length a2 \<le> n" using Suc.prems Cons by simp
    have IH: "set (star_n n (rxm (RSet p)) (c # b, a2, cs)) =
        {(rev m @ c # b, a', cs) |m a'. a2 = m @ a' \<and> (\<forall>c\<in>set m. p c)}"
      using Suc.IH [OF L] .
    have E: "{(rev m @ b, a', cs) |m a'. c # a2 = m @ a' \<and> (\<forall>c\<in>set m. p c)} =
        insert (b, c # a2, cs)
          (if p c then {(rev m @ c # b, a', cs) |m a'. a2 = m @ a' \<and> (\<forall>c\<in>set m. p c)} else {})"
      by (auto simp: Cons_eq_append_conv)
    show ?thesis unfolding E Cons using IH by auto
  qed
qed

lemma set_rxm_star [simp]:
  "set (rxm (RStar (RSet p)) (b, a, cs)) =
     {(rev m @ b, a', cs) |m a'. a = m @ a' \<and> (\<forall>c\<in>set m. p c)}"
  by (simp add: set_star_n)

declare rxm.simps(5) [simp del]

lemma set_rxm_set [simp]:
  "set (rxm (RSet p) (b, a, cs)) = {(c # b, a', cs) |c a'. a = c # a' \<and> p c}"
  by (cases a) auto

lemma set_rxm_lit [simp]:
  "set (rxm (rlit k) (b, a, cs)) = {(rev k @ b, a', cs) |a'. a = k @ a'}"
  by (induction k arbitrary: a b) (auto split: list.splits)

lemma set_rxm_seq: "set (rxm (RSeq r1 r2) s) = (\<Union>t\<in>set (rxm r1 s). set (rxm r2 t))"
  by simp

lemma mem_star_seq:
  "\<lbrakk>a = m @ a'; \<forall>c\<in>set m. p c; t \<in> set (rxm r (rev m @ b, a', cs))\<rbrakk> \<Longrightarrow>
   t \<in> set (rxm (RSeq (RStar (RSet p)) r) (b, a, cs))"
  unfolding set_rxm_seq set_rxm_star by blast

subsection \<open>Patterns that match whole lines\<close>

text \<open>
  The configuration edits of the source are written as multi-line patterns anchored at both
  ends of a line. Such a pattern selects lines by a predicate \<open>P\<close>; searching and replacing
  with it are then operations on the list of lines.
\<close>

lemma replace_from_miss:
  "rx_first r b a = None \<Longrightarrow> replace_from r f adj b a =
     (case a of [] \<Rightarrow> [] | c # s \<Rightarrow> c # replace_from r f False (c # b) s)"
  by (subst replace_from.simps) simp

lemma replace_from_hit:
  "rx_first r b (l @ rest) = Some (b', rest, caps) \<Longrightarrow> l \<noteq> [] \<Longrightarrow>
   replace_from r f adj b (l @ rest) = f l caps @ replace_from r f True b' rest"
  by (subst replace_from.simps) simp

locale line_pattern =
  fixes r :: rx and P :: "string \<Rightarrow> bool"
  assumes at_line: "NL \<notin> set l \<Longrightarrow> rest = [] \<or> hd rest = NL \<Longrightarrow>
      set (rxm r (b, l @ rest, [])) = (if bol b \<and> P l then {(rev l @ b, rest, [])} else {})"
    and not_empty: "\<not> P []"
begin

lemma first_hit:
  assumes "NL \<notin> set l" "rest = [] \<or> hd rest = NL" "bol b" "P l"
  shows "rx_first r b (l @ rest) = Some (rev l @ b, rest, [])"
proof -
  have *: "set (rxm r (b, l @ rest, [])) = {(rev l @ b, rest, [])}"
    using at_line [OF assms(1,2)] assms by simp
  then obtain m ms where m: "rxm r (b, l @ rest, []) = m # ms"
    by (cases "rxm r (b, l @ rest, [])") auto
  with * have "m = (rev l @ b, rest, [])" by auto
  with m show ?thesis by (simp add: rx_first_def)
qed

lemma first_miss:
  assumes "NL \<notin> set l" "rest = [] \<or> hd rest = NL" "\<not> (bol b \<and> P l)"
  shows "rx_first r b (l @ rest) = None"
  using at_line [OF assms(1,2), of b] assms by (auto simp: rx_first_def split: list.splits)

lemma bol_Cons: "c \<noteq> NL \<Longrightarrow> \<not> bol (c # b)"
  by (simp add: bol_def)

lemma inside_line:
  assumes "NL \<notin> set l" "rest = [] \<or> hd rest = NL" "\<not> bol b"
  shows "replace_from r f adj b (l @ rest) =
    l @ (case rest of [] \<Rightarrow> [] | c # s \<Rightarrow> c # replace_from r f False (c # rev l @ b) s)"
  using assms
proof (induction l arbitrary: b adj)
  case Nil
  then have "rx_first r b rest = None" using first_miss [of "[]" rest b] by simp
  from replace_from_miss [OF this] show ?case by (cases rest) simp_all
next
  case (Cons c l)
  then have "rx_first r b ((c # l) @ rest) = None"
    using first_miss [of "c # l" rest b] by (metis (full_types))
  from replace_from_miss [OF this, of f adj]
  have "replace_from r f adj b ((c # l) @ rest) = c # replace_from r f False (c # b) (l @ rest)"
    by simp
  moreover have "\<not> bol (c # b)" using Cons.prems by (auto simp: bol_def)
  ultimately show ?case using Cons by (cases rest) auto
qed

lemma one_line:
  assumes "NL \<notin> set l" "rest = [] \<or> hd rest = NL" "bol b"
  shows "replace_from r f adj b (l @ rest) =
    (if P l then f l [] else l) @
    (case rest of [] \<Rightarrow> [] | c # s \<Rightarrow> c # replace_from r f False (c # rev l @ b) s)"
proof (cases "P l")
  case True
  then have ne: "l \<noteq> []" using not_empty by auto
  have nb: "\<not> bol (rev l @ b)"
    using ne assms(1) by (cases l rule: rev_cases) (auto simp: bol_def)
  have "replace_from r f adj b (l @ rest) = f l [] @ replace_from r f True (rev l @ b) ([] @ rest)"
    using replace_from_hit [OF first_hit [OF assms True] ne] by simp
  then show ?thesis
    using inside_line [of "[]" rest "rev l @ b" f True] nb assms(2) True by (cases rest) auto
next
  case False
  show ?thesis
  proof (cases l)
    case Nil
    then show ?thesis
      using replace_from_miss [OF first_miss [OF assms(1,2)], of b f adj] False
      by (cases rest) simp_all
  next
    case (Cons c l2)
    then have c: "c \<noteq> NL" "NL \<notin> set l2" using assms by auto
    have "replace_from r f adj b (l @ rest) = c # replace_from r f False (c # b) (l2 @ rest)"
      using replace_from_miss [OF first_miss [OF assms(1,2)], of b f adj] False Cons by simp
    then show ?thesis
      using inside_line [of l2 rest "c # b" f False] c assms(2) bol_Cons False Cons by (cases rest) auto
  qed
qed


theorem replace_lines:
  "bol b \<Longrightarrow> replace_from r f adj b s = join [NL] (map (\<lambda>l. if P l then f l [] else l) (split_on NL s))"
proof (induction "length s" arbitrary: s b adj rule: less_induct)
  case less
  let ?l = "takeWhile (\<lambda>c. c \<noteq> NL) s" and ?rest = "dropWhile (\<lambda>c. c \<noteq> NL) s"
  have nl: "NL \<notin> set ?l" using takeWhile_set by fastforce
  have rest: "?rest = [] \<or> hd ?rest = NL" using hd_dropWhile [of "\<lambda>c. c \<noteq> NL" s] by blast
  have one: "replace_from r f adj b s = (if P ?l then f ?l [] else ?l) @
      (case ?rest of [] \<Rightarrow> [] | c # s \<Rightarrow> c # replace_from r f False (c # rev ?l @ b) s)"
    using one_line [OF nl rest less.prems, of f adj] by (simp only: takeWhile_dropWhile_id)
  show ?case
  proof (cases ?rest)
    case Nil
    then have "s = ?l" by (metis append.right_neutral takeWhile_dropWhile_id)
    with nl have "split_on NL s = [?l]" using split_on_no_sep by metis
    with one Nil show ?thesis by simp
  next
    case (Cons c s2)
    with rest have c: "c = NL" by simp
    have "s = ?l @ NL # s2" using Cons c by (metis takeWhile_dropWhile_id)
    then have sp: "split_on NL s = ?l # split_on NL s2"
      using split_on_append_sep [OF nl] by metis
    have len: "length s2 < length s"
      using length_dropWhile_le [of "\<lambda>c. c \<noteq> NL" s] Cons by simp
    have "bol (NL # rev ?l @ b)" by (simp add: bol_def)
    from less.hyps [OF len this] one Cons c sp
    show ?thesis by (simp add: join_Cons_append)
  qed
qed

lemma replace_func_lines:
  "replace_func r f s = join [NL] (map (\<lambda>l. if P l then f l [] else l) (split_on NL s))"
  by (simp add: replace_func_def replace_lines bol_def)

lemma find_inside_line:
  assumes "NL \<notin> set l" "rest = [] \<or> hd rest = NL" "\<not> bol b"
  shows "rx_find r b (l @ rest) =
    (case rest of [] \<Rightarrow> None | c # s \<Rightarrow> rx_find r (c # rev l @ b) s)"
  using assms
proof (induction l arbitrary: b)
  case Nil
  then have "rx_first r b rest = None" using first_miss [of "[]" rest b] by simp
  then show ?case by (cases rest) simp_all
next
  case (Cons c l)
  then have "rx_first r b ((c # l) @ rest) = None"
    using first_miss [of "c # l" rest b] by (metis (full_types))
  then have "rx_find r b ((c # l) @ rest) = rx_find r (c # b) (l @ rest)" by simp
  moreover have "\<not> bol (c # b)" using Cons.prems by (auto simp: bol_def)
  ultimately show ?case using Cons by (cases rest) auto
qed

theorem find_lines:
  "bol b \<Longrightarrow> rx_find r b s \<noteq> None \<longleftrightarrow> (\<exists>l\<in>set (split_on NL s). P l)"
proof (induction "length s" arbitrary: s b rule: less_induct)
  case less
  let ?l = "takeWhile (\<lambda>c. c \<noteq> NL) s" and ?rest = "dropWhile (\<lambda>c. c \<noteq> NL) s"
  have nl: "NL \<notin> set ?l" using takeWhile_set by fastforce
  have rest: "?rest = [] \<or> hd ?rest = NL" using hd_dropWhile [of "\<lambda>c. c \<noteq> NL" s] by blast
  have s: "s = ?l @ ?rest" by simp
  have tail: "\<not> P ?l \<Longrightarrow> rx_find r b (?l @ ?rest) =
      (case ?rest of [] \<Rightarrow> None | c # s \<Rightarrow> rx_find r (c # rev ?l @ b) s)"
  proof (cases ?l)
    case Nil
    assume "\<not> P ?l"
    with first_miss [OF nl rest, of b] Nil have "rx_first r b ?rest = None" by simp
    with Nil show ?thesis by (cases ?rest) simp_all
  next
    case (Cons c l2)
    assume "\<not> P ?l"
    with first_miss [OF nl rest, of b] Cons have "rx_first r b (c # l2 @ ?rest) = None" by simp
    moreover have "NL \<notin> set l2" "c \<noteq> NL" using nl Cons by auto
    ultimately show ?thesis
      using find_inside_line [of l2 ?rest "c # b"] rest bol_Cons Cons by (cases ?rest) auto
  qed
  have hit: "P ?l \<Longrightarrow> rx_find r b (?l @ ?rest) \<noteq> None"
    using first_hit [OF nl rest less.prems]
    by (cases "?l @ ?rest") (auto split: option.splits)
  show ?case
  proof (cases ?rest)
    case Nil
    then have sl: "split_on NL s = [?l]"
      using s nl split_on_no_sep by (metis append.right_neutral)
    show ?thesis using hit tail sl Nil s by (cases "P ?l") auto
  next
    case (Cons c s2)
    with rest have c: "c = NL" by simp
    have s2: "s = ?l @ NL # s2" using Cons c s by metis
    have sp: "split_on NL s = ?l # split_on NL s2"
      using split_on_append_sep [OF nl] s2 by metis
    have len: "length s2 < length s"
      using length_dropWhile_le [of "\<lambda>c. c \<noteq> NL" s] Cons by simp
    have "bol (NL # rev ?l @ b)" by (simp add: bol_def)
    from less.hyps [OF len this] hit tail Cons c sp s
    show ?thesis by (cases "P ?l") auto
  qed
qed

lemma matches_lines: "rx_matches r s \<longleftrightarrow> (\<exists>l\<in>set (split_on NL s). P l)"
  using find_lines [of "[]" s] by (simp only: rx_matches_def bol_def simp_thms)

end

end
