(* ===== verification/GoOs.thy ===== *)
theory GoOs
  imports GoStrings
begin

text \<open>
  The operating system as the source sees it. The state (\<open>world\<close>) is the file system, the
  commands run so far and the clock; what the source cannot decide (which system calls fail
  and what an external command prints) is the environment \<open>env\<close>, an argument of every
  operation. The answer of a command may depend on all commands run before it.
\<close>

subsection \<open>Files\<close>

type_synonym mode = "12 word"

record os_file =
  f_content :: string
  f_mode :: mode
  f_mtime :: int

datatype fsop = OpOpen | OpRead | OpWrite | OpChmod | OpStat | OpRename | OpRemove | OpMkdir | OpAppend

record command =
  c_prog :: string
  c_args :: "string list"
  c_stdin :: string

record world =
  w_files :: "string \<Rightarrow> os_file option"
  w_cmds :: "command list"
  w_clock :: int

text \<open>\<open>e_exec\<close> gives the output of a command and its error, \<open>None\<close> on exit status 0. \<open>e_torn\<close> is what a
  failing write leaves: \<open>None\<close> when the file could not be opened, else how many bytes were written
  before the error, a full disk for instance.\<close>

record env =
  e_fault :: "fsop \<Rightarrow> string \<Rightarrow> string option"
  e_torn :: "string \<Rightarrow> nat option"
  e_umask :: mode
  e_exec :: "command list \<Rightarrow> command \<Rightarrow> string \<times> string option"

definition read_file :: "env \<Rightarrow> world \<Rightarrow> string \<Rightarrow> string result" where
  "read_file e w p =
     (case e_fault e OpRead p of Some err \<Rightarrow> Inl err
      | None \<Rightarrow> (case w_files w p of
            None \<Rightarrow> Inl (''open '' @ p @ '': no such file or directory'')
          | Some f \<Rightarrow> Inr (f_content f)))"

text \<open>\<open>os.WriteFile\<close>: the mode counts only when the file is created. It truncates the file before it
  writes, so a write that fails after the file was opened leaves a beginning of the new text.\<close>

definition new_mode :: "env \<Rightarrow> world \<Rightarrow> string \<Rightarrow> mode \<Rightarrow> mode" where
  "new_mode e w p m =
     (case w_files w p of None \<Rightarrow> and m (not (e_umask e)) | Some f \<Rightarrow> f_mode f)"

definition put_file :: "string \<Rightarrow> os_file \<Rightarrow> world \<Rightarrow> world" where
  "put_file p f w = w\<lparr>w_files := (w_files w)(p := Some f)\<rparr>"

definition write_file :: "env \<Rightarrow> world \<Rightarrow> string \<Rightarrow> string \<Rightarrow> mode \<Rightarrow> string option \<times> world" where
  "write_file e w p s m =
     (case e_fault e OpWrite p of
        Some err \<Rightarrow> (Some err, case e_torn e p of None \<Rightarrow> w
          | Some n \<Rightarrow> put_file p \<lparr>f_content = take n s, f_mode = new_mode e w p m, f_mtime = w_clock w\<rparr> w)
      | None \<Rightarrow> (None, put_file p \<lparr>f_content = s, f_mode = new_mode e w p m, f_mtime = w_clock w\<rparr> w))"

definition chmod :: "env \<Rightarrow> world \<Rightarrow> string \<Rightarrow> mode \<Rightarrow> string option \<times> world" where
  "chmod e w p m =
     (case e_fault e OpChmod p of Some err \<Rightarrow> (Some err, w)
      | None \<Rightarrow> (case w_files w p of
            None \<Rightarrow> (Some (''chmod '' @ p @ '': no such file or directory''), w)
          | Some f \<Rightarrow> (None, put_file p (f\<lparr>f_mode := m\<rparr>) w)))"

definition stat :: "env \<Rightarrow> world \<Rightarrow> string \<Rightarrow> os_file result" where
  "stat e w p =
     (case e_fault e OpStat p of Some err \<Rightarrow> Inl err
      | None \<Rightarrow> (case w_files w p of
            None \<Rightarrow> Inl (''stat '' @ p @ '': no such file or directory'')
          | Some f \<Rightarrow> Inr f))"

definition rename_file :: "env \<Rightarrow> world \<Rightarrow> string \<Rightarrow> string \<Rightarrow> string option \<times> world" where
  "rename_file e w p q =
     (case e_fault e OpRename p of Some err \<Rightarrow> (Some err, w)
      | None \<Rightarrow> (case w_files w p of
            None \<Rightarrow> (Some (''rename '' @ p @ '' '' @ q @ '': no such file or directory''), w)
          | Some f \<Rightarrow> (None, w\<lparr>w_files := (w_files w)(p := None, q := Some f)\<rparr>)))"

definition remove_file :: "env \<Rightarrow> world \<Rightarrow> string \<Rightarrow> string option \<times> world" where
  "remove_file e w p =
     (case e_fault e OpRemove p of Some err \<Rightarrow> (Some err, w)
      | None \<Rightarrow> (case w_files w p of
            None \<Rightarrow> (Some (''remove '' @ p @ '': no such file or directory''), w)
          | Some f \<Rightarrow> (None, w\<lparr>w_files := (w_files w)(p := None)\<rparr>)))"

definition mkdir_all :: "env \<Rightarrow> world \<Rightarrow> string \<Rightarrow> string option" where
  "mkdir_all e w p = e_fault e OpMkdir p"

definition append_file :: "env \<Rightarrow> world \<Rightarrow> string \<Rightarrow> string \<Rightarrow> mode \<Rightarrow> string option \<times> world" where
  "append_file e w p s m =
     (let old = (case w_files w p of None \<Rightarrow> [] | Some f \<Rightarrow> f_content f);
          put = (\<lambda>t. put_file p \<lparr>f_content = old @ t, f_mode = new_mode e w p m, f_mtime = w_clock w\<rparr> w)
      in case e_fault e OpAppend p of
           Some err \<Rightarrow> (Some err, case e_torn e p of None \<Rightarrow> w | Some n \<Rightarrow> put (take n s))
         | None \<Rightarrow> (None, put s))"

subsection \<open>External commands\<close>

definition run_stdin :: "env \<Rightarrow> world \<Rightarrow> string \<Rightarrow> string list \<Rightarrow> string \<Rightarrow>
    (string \<times> string option) \<times> world" where
  "run_stdin e w prog args stdin =
     (let c = \<lparr>c_prog = prog, c_args = args, c_stdin = stdin\<rparr>
      in (e_exec e (w_cmds w) c, w\<lparr>w_cmds := w_cmds w @ [c]\<rparr>))"

definition run_cmd :: "env \<Rightarrow> world \<Rightarrow> string \<Rightarrow> string list \<Rightarrow>
    (string \<times> string option) \<times> world" where
  "run_cmd e w prog args = run_stdin e w prog args []"

text \<open>\<open>fmt.Errorf("prefix: %w", err)\<close>.\<close>

definition wrap_err :: "string \<Rightarrow> string \<Rightarrow> string" where
  "wrap_err pre err = pre @ '': '' @ err"

subsection \<open>Laws\<close>

lemma put_file_files [simp]: "w_files (put_file p f w) = (w_files w)(p := Some f)"
  by (simp add: put_file_def)

lemma put_file_frame [simp]: "w_cmds (put_file p f w) = w_cmds w" "w_clock (put_file p f w) = w_clock w"
  by (simp_all add: put_file_def)

lemma write_file_frame [frame]:
  "w_cmds (snd (write_file e w p s m)) = w_cmds w"
  "q \<noteq> p \<Longrightarrow> w_files (snd (write_file e w p s m)) q = w_files w q"
  by (auto simp: write_file_def split: option.splits)

lemma chmod_frame [frame]:
  "w_cmds (snd (chmod e w p m)) = w_cmds w"
  "q \<noteq> p \<Longrightarrow> w_files (snd (chmod e w p m)) q = w_files w q"
  by (auto simp: chmod_def split: option.splits)

lemma write_file_files: "write_file e w p s m = (r, w') \<Longrightarrow> q \<noteq> p \<Longrightarrow> w_files w' q = w_files w q"
  by (auto simp: write_file_def split: option.splits)

lemma chmod_files: "chmod e w p m = (r, w') \<Longrightarrow> q \<noteq> p \<Longrightarrow> w_files w' q = w_files w q"
  by (auto simp: chmod_def split: option.splits)

lemma run_stdin_frame [frame]: "w_files (snd (run_stdin e w c a s)) = w_files w"
  by (simp add: run_stdin_def Let_def)

lemma run_cmd_frame [frame]: "w_files (snd (run_cmd e w c a)) = w_files w"
  by (simp add: run_cmd_def frame)

lemma run_cmd_files: "run_cmd e w c a = (r, w') \<Longrightarrow> w_files w' = w_files w"
  by (auto simp: run_cmd_def run_stdin_def Let_def)

lemma run_cmd_cmds [simp]:
  "w_cmds (snd (run_cmd e w c a)) = w_cmds w @ [\<lparr>c_prog = c, c_args = a, c_stdin = []\<rparr>]"
  by (simp add: run_cmd_def run_stdin_def Let_def)

lemma remove_file_frame [frame]:
  "w_cmds (snd (remove_file e w p)) = w_cmds w"
  "q \<noteq> p \<Longrightarrow> w_files (snd (remove_file e w p)) q = w_files w q"
  by (auto simp: remove_file_def split: option.splits)

lemma rename_file_frame [frame]:
  "q \<noteq> p \<Longrightarrow> q \<noteq> p' \<Longrightarrow> w_files (snd (rename_file e w p p')) q = w_files w q"
  by (auto simp: rename_file_def split: option.splits)

lemma rename_file_err: "rename_file e w p q = (Some err, w') \<Longrightarrow> w' = w"
  by (auto simp: rename_file_def split: option.splits)

lemma write_file_ok:
  "write_file e w p s m = (None, w') \<Longrightarrow> w_files w' p = Some \<lparr>f_content = s, f_mode = new_mode e w p m, f_mtime = w_clock w\<rparr>"
  by (auto simp: write_file_def split: option.splits)

lemma write_file_err:
  "write_file e w p s m = (Some err, w') \<Longrightarrow>
     w' = w \<or> (\<exists>n f. e_torn e p = Some n \<and> w' = put_file p f w \<and> f_content f = take n s)"
  by (auto simp: write_file_def split: option.splits)

lemma write_file_untorn: "write_file e w p s m = (Some err, w') \<Longrightarrow> e_torn e p = None \<Longrightarrow> w' = w"
  by (auto simp: write_file_def split: option.splits)

lemma chmod_content:
  "map_option f_content (w_files (snd (chmod e w p m)) q) = map_option f_content (w_files w q)"
  by (auto simp: chmod_def split: option.splits)

text \<open>An environment without failures, for concrete runs.\<close>

definition quiet_env :: env where
  "quiet_env = \<lparr>e_fault = (\<lambda>_ _. None), e_torn = (\<lambda>_. None), e_umask = 0, e_exec = (\<lambda>_ _. ([], None))\<rparr>"

text \<open>A full disk: files are opened and emptied, and nothing is written.\<close>

definition full_disk :: env where
  "full_disk = quiet_env\<lparr>e_fault := (\<lambda>op p. if op = OpWrite then Some ''no space left on device'' else None),
     e_torn := (\<lambda>_. Some 0)\<rparr>"

definition one_file :: "string \<Rightarrow> string \<Rightarrow> mode \<Rightarrow> world" where
  "one_file p s m =
     \<lparr>w_files = [p \<mapsto> \<lparr>f_content = s, f_mode = m, f_mtime = 1\<rparr>], w_cmds = [], w_clock = 2\<rparr>"

end
