(* ===== verification/Config.thy ===== *)
theory Config
  imports GoRegexp GoOs "HOL-Library.Char_ord" "HOL-Library.List_Lexorder"
begin

text \<open>
  \<open>config.go\<close>: the agent's configuration, its accessors, the line edits of \<open>agent.yml\<close> and the
  \<open>ConfigManager\<close> that keeps the running configuration. The YAML decoder is third-party code:
  it is the argument \<open>decode\<close> of the operations that load a file.
\<close>

subsection \<open>Data\<close>

record capabilities =
  cap_telemetry :: bool
  cap_configure_ldap :: bool
  cap_reboot :: bool
  cap_service_control :: "string list"
  cap_arbitrary_bash :: bool
  cap_ldap_tunnel :: bool
  cap_secrets :: bool
  cap_iam :: bool
  cap_wireguard :: "bool option"
  cap_service_registration :: bool
  cap_storage :: bool

record secret_target =
  st_template :: string
  st_target :: string
  st_reload :: string

record wireguard_config =
  wg_tunnel_name :: string
  wg_conf :: string
  wg_executable :: string

record registered_service =
  rs_name :: string
  rs_subtype :: string

record config =
  server_url :: string
  auth_token :: string
  join_key :: string
  prev_auth_token :: string
  location :: string
  public_key :: string
  ldap_socket :: string
  secrets :: "secret_target list"
  services :: "registered_service list"
  caps :: capabilities
  service_name :: string
  desktop_helper :: string
  public_ip_detect :: "bool option"
  auto_vpn :: bool
  wireguard :: wireguard_config
  local_discovery :: "bool option"
  ldap_base_dn :: string
  ldap_admin_group :: string
  ldap_local_admin_group :: string
  credential_provider_name :: string
  credential_provider_logo :: string
  verbose_logging :: bool
  organization_name :: string

text \<open>Go's zero \<open>Config\<close>.\<close>

definition zero_caps :: capabilities where
  "zero_caps = \<lparr>cap_telemetry = False, cap_configure_ldap = False, cap_reboot = False,
     cap_service_control = [], cap_arbitrary_bash = False, cap_ldap_tunnel = False,
     cap_secrets = False, cap_iam = False, cap_wireguard = None,
     cap_service_registration = False, cap_storage = False\<rparr>"

definition zero_config :: config where
  "zero_config = \<lparr>server_url = [], auth_token = [], join_key = [], prev_auth_token = [],
     location = [], public_key = [], ldap_socket = [], secrets = [], services = [],
     caps = zero_caps, service_name = [], desktop_helper = [], public_ip_detect = None,
     auto_vpn = False, wireguard = \<lparr>wg_tunnel_name = [], wg_conf = [], wg_executable = []\<rparr>,
     local_discovery = None, ldap_base_dn = [], ldap_admin_group = [],
     ldap_local_admin_group = [], credential_provider_name = [], credential_provider_logo = [],
     verbose_logging = False, organization_name = []\<rparr>"

subsection \<open>Accessors\<close>

definition detect_public_ip :: "config \<Rightarrow> bool" where
  "detect_public_ip c = (case public_ip_detect c of None \<Rightarrow> True | Some b \<Rightarrow> b)"

definition service_name_or_default :: "config \<Rightarrow> string" where
  "service_name_or_default c = (if service_name c \<noteq> [] then service_name c else ''theta-agent'')"

definition credential :: "config \<Rightarrow> string" where
  "credential c = (if auth_token c \<noteq> [] then auth_token c else join_key c)"

definition wireguard_enabled :: "capabilities \<Rightarrow> bool" where
  "wireguard_enabled c = (cap_wireguard c = None \<or> the (cap_wireguard c))"

fun can_manage :: "string list \<Rightarrow> string \<Rightarrow> bool" where
  "can_manage [] s = False"
| "can_manage (a # as) s = (if a = s then True else can_manage as s)"

definition can_manage_service :: "capabilities \<Rightarrow> string \<Rightarrow> bool" where
  "can_manage_service c s = can_manage (cap_service_control c) s"

text \<open>\<open>UnmarshalYAML\<close>: a scalar node is a name, any other node is decoded as the two fields.\<close>

datatype yaml_node = YScalar string | YOther

definition unmarshal_service ::
  "(yaml_node \<Rightarrow> registered_service result) \<Rightarrow> yaml_node \<Rightarrow> registered_service result" where
  "unmarshal_service decode_raw node =
     (case node of
        YScalar v \<Rightarrow> Inr \<lparr>rs_name = v, rs_subtype = []\<rparr>
      | YOther \<Rightarrow> (case decode_raw node of Inl e \<Rightarrow> Inl e
          | Inr r \<Rightarrow> Inr \<lparr>rs_name = rs_name r, rs_subtype = rs_subtype r\<rparr>))"

definition sub_type_or :: "registered_service \<Rightarrow> string \<Rightarrow> string" where
  "sub_type_or s def =
     (let t = to_lower (trim_space (rs_subtype s)) in if t \<noteq> [] then t else def)"

text \<open>\<open>serviceNamePattern\<close> is one character class between \<open>^\<close> and \<open>$\<close>, 1 to 128 times.\<close>

definition service_char :: "char \<Rightarrow> bool" where
  "service_char c = (is_alpha c \<or> is_digit c \<or> c \<in> set ''._@+-'')"

definition service_name_ok :: "string \<Rightarrow> bool" where
  "service_name_ok s = (1 \<le> length s \<and> length s \<le> 128 \<and> list_all service_char s)"

definition service_name_pattern :: string where
  "service_name_pattern = ''^[A-Za-z0-9._@+-]{1,128}$''"

definition validate_service_name :: "string \<Rightarrow> string option" where
  "validate_service_name name =
     (if service_name_ok name then None
      else Some (''invalid service name '' @ go_quote name @ '': must match '' @ service_name_pattern))"

subsection \<open>Line edits of agent.yml\<close>

definition end_with_newline :: "string \<Rightarrow> string" where
  "end_with_newline doc = (if has_suffix doc [NL] then doc else doc @ [NL])"

definition yaml_line :: "string \<Rightarrow> string \<Rightarrow> bool \<Rightarrow> string" where
  "yaml_line key value quote = key @ '': '' @ (if quote then go_quote value else value)"

text \<open>\<open>(?m)^[ \t]*KEY[ \t]*:.*$\<close>\<close>

definition scalar_re :: "string \<Rightarrow> rx" where
  "scalar_re key =
     rseq [RBol, rblanks, rlit key, rblanks, RSet (\<lambda>c. c = CHR '':''), rdots, REol]"

definition set_yaml_scalar_value :: "string \<Rightarrow> string \<Rightarrow> string \<Rightarrow> bool \<Rightarrow> string" where
  "set_yaml_scalar_value doc key value quote =
     (let line = yaml_line key value quote in
      if rx_matches (scalar_re key) doc then replace_func (scalar_re key) (\<lambda>_ _. line) doc
      else end_with_newline doc @ line @ [NL])"

definition set_yaml_scalar :: "string \<Rightarrow> string \<Rightarrow> string \<Rightarrow> string" where
  "set_yaml_scalar doc key value = set_yaml_scalar_value doc key value True"

text \<open>\<open>(?m)^KEY[ \t]*:.*$\<close> and \<open>(?m)^[ \t]+KEY[ \t]*:.*$\<close>\<close>

definition top_level_key_re :: "string \<Rightarrow> rx" where
  "top_level_key_re key =
     rseq [RBol, rlit key, rblanks, RSet (\<lambda>c. c = CHR '':''), rdots, REol]"

definition nested_key_re :: "string \<Rightarrow> rx" where
  "nested_key_re key =
     rseq [RBol, RSet blank, rblanks, rlit key, rblanks, RSet (\<lambda>c. c = CHR '':''), rdots, REol]"

definition set_top_level_yaml_scalar :: "string \<Rightarrow> string \<Rightarrow> string \<Rightarrow> bool \<Rightarrow> string" where
  "set_top_level_yaml_scalar doc key value quote =
     (let line = yaml_line key value quote in
      if rx_matches (top_level_key_re key) doc then replace_tmpl (top_level_key_re key) line doc
      else end_with_newline doc @ line @ [NL])"


text \<open>The four patterns of \<open>addYamlListItem\<close> and the three of \<open>removeYamlListItem\<close>.\<close>

definition item_re :: "string \<Rightarrow> rx" where
  "item_re item = rseq [RBol, rblanks, RSet (\<lambda>c. c = CHR ''-''), rspaces, rlit item, rspaces, REol]"

definition named_re :: "string \<Rightarrow> rx" where
  "named_re item =
     rseq [RBol, rblanks, RSet (\<lambda>c. c = CHR ''-''), rspaces, rlit ''name:'', rspaces, rlit item, rspaces, REol]"

definition inline_empty_re :: "string \<Rightarrow> rx" where
  "inline_empty_re key =
     rseq [RBol, rblanks, rlit key, rblanks, rlit '':'', rspaces, rlit ''['', rspaces, rlit '']'', rspaces, REol]"

definition block_key_re :: "string \<Rightarrow> rx" where
  "block_key_re key = rseq [RBot, rblanks, rlit key, rblanks, rlit '':'', rspaces, REot]"

definition list_entry :: "string \<Rightarrow> string \<Rightarrow> string" where
  "list_entry item subtype =
     ''  '' @ (if subtype \<noteq> [] then ''- name: '' @ item @ [NL] @ ''    subtype: '' @ subtype
              else ''- '' @ item) @ [NL]"

text \<open>The last line that matches the key (the source's loop keeps overwriting \<open>blockIndex\<close>).\<close>

fun block_index :: "rx \<Rightarrow> nat \<Rightarrow> string list \<Rightarrow> nat option \<Rightarrow> nat option" where
  "block_index re i [] found = found"
| "block_index re i (l # ls) found =
     block_index re (Suc i) ls (if rx_matches re l then Some i else found)"

definition top_level_line :: "string \<Rightarrow> bool" where
  "top_level_line l = (l \<noteq> [NL] \<and> \<not> has_prefix l '' '' \<and> \<not> has_prefix l [TAB])"

fun block_end :: "nat \<Rightarrow> string list \<Rightarrow> nat" where
  "block_end i [] = i"
| "block_end i (l # ls) = (if top_level_line l then i else block_end (Suc i) ls)"

definition add_yaml_list_item :: "string \<Rightarrow> string \<Rightarrow> string \<Rightarrow> string \<Rightarrow> string result" where
  "add_yaml_list_item doc0 key item subtype =
     (let doc = end_with_newline doc0; entry = list_entry item subtype in
      if rx_matches (item_re item) doc \<or> rx_matches (named_re item) doc
      then Inl (''service '' @ go_quote item @ '' already registered'')
      else if rx_matches (inline_empty_re key) doc
      then Inr (replace_tmpl (inline_empty_re key) (key @ '':'' @ [NL] @ entry) doc)
      else
        (let lines = split_after NL doc in
         case block_index (block_key_re key) 0 lines None of
           None \<Rightarrow> Inr (doc @ key @ '':'' @ [NL] @ entry)
         | Some b \<Rightarrow>
             (let en = block_end (b + 1) (drop (b + 1) lines) in
              if en = length lines then Inr (doc @ entry)
              else Inr (concat (take en lines @ [entry] @ drop en lines)))))"

definition rcrlf :: rx where
  "rcrlf = RSeq (ropt (RSet (\<lambda>c. c = CRET))) (RSet (\<lambda>c. c = NL))"

definition object_re :: "string \<Rightarrow> rx" where
  "object_re item =
     rseq [RBol, rblanks, RSet (\<lambda>c. c = CHR ''-''), rspaces, rlit ''name:'', rspaces, rlit item, rblanks, rcrlf,
       RStar (rseq [rplus (RSet blank), RSet (\<lambda>c. c \<noteq> CHR ''-'' \<and> \<not> rspace c),
                    RStar (RSet (\<lambda>c. c \<noteq> CRET \<and> c \<noteq> NL)), rcrlf])]"

definition scalar_item_re :: "string \<Rightarrow> rx" where
  "scalar_item_re item =
     rseq [RBol, rblanks, RSet (\<lambda>c. c = CHR ''-''), rspaces, rlit item, rblanks, rcrlf]"

definition scalar_item_no_nl_re :: "string \<Rightarrow> rx" where
  "scalar_item_no_nl_re item =
     rseq [RBol, rblanks, RSet (\<lambda>c. c = CHR ''-''), rspaces, rlit item, rblanks, REol]"

definition remove_yaml_list_item :: "string \<Rightarrow> string \<Rightarrow> string \<Rightarrow> string result" where
  "remove_yaml_list_item doc key item =
     (if rx_matches (object_re item) doc then Inr (replace_tmpl (object_re item) [] doc)
      else if \<not> rx_matches (scalar_item_re item) doc then
        (if \<not> rx_matches (scalar_item_no_nl_re item) doc
         then Inl (''service '' @ go_quote item @ '' is not registered'')
         else Inr (replace_tmpl (scalar_item_no_nl_re item) [] doc))
      else Inr (replace_tmpl (scalar_item_re item) [] doc))"

subsection \<open>Loading\<close>

definition load_config :: "(string \<Rightarrow> config result) \<Rightarrow> env \<Rightarrow> world \<Rightarrow> string \<Rightarrow> config result" where
  "load_config decode e w path =
     (case read_file e w path of
        Inl err \<Rightarrow> Inl (wrap_err ''failed to open config file'' err)
      | Inr s \<Rightarrow> (case decode s of
            Inl err \<Rightarrow> Inl (wrap_err ''failed to decode YAML config'' err)
          | Inr cfg \<Rightarrow>
              Inr (if cap_configure_ldap (caps cfg)
                   then cfg\<lparr>caps := (caps cfg)\<lparr>cap_ldap_tunnel := True\<rparr>\<rparr> else cfg)))"

subsection \<open>The configuration manager\<close>

text \<open>\<open>cm_last_mod\<close> is \<open>None\<close> for Go's zero time.\<close>

record config_manager =
  cm_current :: config
  cm_path :: string
  cm_last_size :: nat
  cm_last_mod :: "int option"

definition new_config_manager ::
  "(string \<Rightarrow> config result) \<Rightarrow> env \<Rightarrow> world \<Rightarrow> string \<Rightarrow> config_manager result" where
  "new_config_manager decode e w path =
     (case load_config decode e w path of
        Inl err \<Rightarrow> Inl err
      | Inr cfg \<Rightarrow> Inr \<lparr>cm_current = cfg, cm_path = path, cm_last_size = 0, cm_last_mod = None\<rparr>)"

definition reload ::
  "(string \<Rightarrow> config result) \<Rightarrow> env \<Rightarrow> world \<Rightarrow> config_manager \<Rightarrow> string option \<times> config_manager" where
  "reload decode e w cm =
     (case load_config decode e w (cm_path cm) of
        Inl err \<Rightarrow> (Some (wrap_err ''reload failed'' err), cm)
      | Inr cfg \<Rightarrow> (None, cm\<lparr>cm_current := cfg\<rparr>))"

definition reload_if_changed ::
  "(string \<Rightarrow> config result) \<Rightarrow> env \<Rightarrow> world \<Rightarrow> config_manager \<Rightarrow> bool result \<times> config_manager" where
  "reload_if_changed decode e w cm =
     (case stat e w (cm_path cm) of
        Inl err \<Rightarrow> (Inl err, cm)
      | Inr fi \<Rightarrow>
          if cm_last_mod cm = Some (f_mtime fi) \<and> cm_last_size cm = length (f_content fi)
          then (Inr False, cm)
          else (case load_config decode e w (cm_path cm) of
              Inl err \<Rightarrow> (Inl (wrap_err (''reload '' @ cm_path cm) err), cm)
            | Inr cfg \<Rightarrow>
                (Inr (cm_last_mod cm \<noteq> None),
                 cm\<lparr>cm_current := cfg, cm_last_size := length (f_content fi),
                    cm_last_mod := Some (f_mtime fi)\<rparr>)))"

text \<open>
  Every \<open>Persist\<close> operation ends the same way in the source: write with mode 0600, chmod
  0600, load the file again, install the result.
\<close>

abbreviation mode600 :: mode where "mode600 \<equiv> 0x180"
abbreviation mode640 :: mode where "mode640 \<equiv> 0x1A0"

definition write_and_reload ::
  "(string \<Rightarrow> config result) \<Rightarrow> env \<Rightarrow> world \<Rightarrow> config_manager \<Rightarrow> string \<Rightarrow> string \<Rightarrow>
   string option \<times> world \<times> config_manager" where
  "write_and_reload decode e w cm out what =
     (case write_file e w (cm_path cm) out mode600 of
        (Some err, w1) \<Rightarrow> (Some (wrap_err (''write '' @ cm_path cm) err), w1, cm)
      | (None, w1) \<Rightarrow>
          (case chmod e w1 (cm_path cm) mode600 of
             (Some err, w2) \<Rightarrow> (Some (wrap_err (''chmod '' @ cm_path cm) err), w2, cm)
           | (None, w2) \<Rightarrow>
               (case load_config decode e w2 (cm_path cm) of
                  Inl err \<Rightarrow> (Some (wrap_err (''reload after '' @ what) err), w2, cm)
                | Inr cfg \<Rightarrow> (None, w2, cm\<lparr>cm_current := cfg\<rparr>))))"

definition enrollment_doc :: "string \<Rightarrow> string \<Rightarrow> string \<Rightarrow> string" where
  "enrollment_doc raw token pub =
     (let out = set_yaml_scalar raw ''auth_token'' token;
          out = (if pub \<noteq> [] then set_yaml_scalar out ''public_key'' pub else out);
          out = set_yaml_scalar out ''join_key'' []
      in set_yaml_scalar out ''prev_auth_token'' [])"

definition persist_enrollment ::
  "(string \<Rightarrow> config result) \<Rightarrow> env \<Rightarrow> world \<Rightarrow> config_manager \<Rightarrow> string \<Rightarrow> string \<Rightarrow>
   string option \<times> world \<times> config_manager" where
  "persist_enrollment decode e w cm token pub =
     (if token = [] then (Some ''server reported enrollment but sent no token'', w, cm)
      else (case read_file e w (cm_path cm) of
          Inl err \<Rightarrow> (Some (wrap_err (''read '' @ cm_path cm) err), w, cm)
        | Inr raw \<Rightarrow> write_and_reload decode e w cm (enrollment_doc raw token pub) ''enrollment''))"

definition persist_auto_vpn ::
  "(string \<Rightarrow> config result) \<Rightarrow> env \<Rightarrow> world \<Rightarrow> config_manager \<Rightarrow> bool \<Rightarrow>
   string option \<times> world \<times> config_manager" where
  "persist_auto_vpn decode e w cm v =
     (case read_file e w (cm_path cm) of
        Inl err \<Rightarrow> (Some (wrap_err (''read '' @ cm_path cm) err), w, cm)
      | Inr raw \<Rightarrow> write_and_reload decode e w cm
          (set_yaml_scalar_value raw ''auto_vpn'' (if v then ''true'' else ''false'') False) ''auto_vpn'')"

definition clear_doc :: "config \<Rightarrow> string \<Rightarrow> string" where
  "clear_doc cur raw =
     (let tok = trim_space (auth_token cur);
          prev = (if tok \<noteq> [] then tok else prev_auth_token cur);
          out = set_yaml_scalar raw ''auth_token'' [];
          out = set_yaml_scalar out ''public_key'' []
      in set_yaml_scalar out ''prev_auth_token'' prev)"

definition clear_enrollment ::
  "(string \<Rightarrow> config result) \<Rightarrow> env \<Rightarrow> world \<Rightarrow> config_manager \<Rightarrow> string option \<times> world \<times> config_manager" where
  "clear_enrollment decode e w cm =
     (case read_file e w (cm_path cm) of
        Inl err \<Rightarrow> (Some (wrap_err (''read '' @ cm_path cm) err), w, cm)
      | Inr raw \<Rightarrow> write_and_reload decode e w cm (clear_doc (cm_current cm) raw) ''enrollment clear'')"

definition persist_service ::
  "(string \<Rightarrow> config result) \<Rightarrow> env \<Rightarrow> world \<Rightarrow> config_manager \<Rightarrow> string \<Rightarrow> string \<Rightarrow> bool \<Rightarrow>
   string option \<times> world \<times> config_manager" where
  "persist_service decode e w cm name subtype remove =
     (case validate_service_name name of
        Some err \<Rightarrow> (Some err, w, cm)
      | None \<Rightarrow> (case read_file e w (cm_path cm) of
            Inl err \<Rightarrow> (Some (wrap_err (''read '' @ cm_path cm) err), w, cm)
          | Inr raw \<Rightarrow>
              (case (if remove then remove_yaml_list_item raw ''services'' name
                     else add_yaml_list_item raw ''services'' name subtype) of
                 Inl err \<Rightarrow> (Some err, w, cm)
               | Inr out \<Rightarrow> write_and_reload decode e w cm out ''service edit'')))"

subsection \<open>config-set\<close>

definition unquoted_value :: "string \<Rightarrow> bool" where
  "unquoted_value v = (v = ''true'' \<or> v = ''false'' \<or> (atoi v \<noteq> None \<and> v \<noteq> []))"

fun apply_keys :: "string \<Rightarrow> (string \<Rightarrow> string) \<Rightarrow> string list \<Rightarrow> string \<Rightarrow> string result" where
  "apply_keys path val [] doc = Inr doc"
| "apply_keys path val (k # ks) doc =
     (if \<not> rx_matches (top_level_key_re k) doc \<and> rx_matches (nested_key_re k) doc
      then Inl (go_quote k @ '' exists only as a nested key; config-set handles top-level keys only -- edit ''
                @ path @ '' by hand for nested settings'')
      else apply_keys path val ks
             (set_top_level_yaml_scalar doc k (val k) (\<not> unquoted_value (val k))))"

definition apply_config_values ::
  "(string \<Rightarrow> string option) \<Rightarrow> env \<Rightarrow> world \<Rightarrow> string \<Rightarrow> (string \<times> string) list \<Rightarrow>
   string option \<times> world" where
  "apply_config_values yaml_error e w path pairs =
     (case read_file e w path of
        Inl err \<Rightarrow> (Some (wrap_err (''read '' @ path) err), w)
      | Inr raw \<Rightarrow>
          (case apply_keys path (\<lambda>k. the (map_of pairs k)) (sort (map fst pairs)) raw of
             Inl err \<Rightarrow> (Some err, w)
           | Inr doc \<Rightarrow>
               (case yaml_error doc of
                  Some err \<Rightarrow> (Some (wrap_err (''refusing to write '' @ path @ '': result is not valid YAML'') err), w)
                | None \<Rightarrow>
                    (let mode = (case stat e w path of Inl _ \<Rightarrow> mode640 | Inr fi \<Rightarrow> and (f_mode fi) 0x1FF);
                         tmp = path @ ''.tmp'' in
                     case write_file e w tmp doc mode of
                       (Some err, w1) \<Rightarrow> (Some (wrap_err (''write '' @ tmp) err), w1)
                     | (None, w1) \<Rightarrow>
                         (case rename_file e w1 tmp path of
                            (Some err, w2) \<Rightarrow>
                              (Some (wrap_err (''replace '' @ path) err), snd (remove_file e w2 tmp))
                          | (None, w2) \<Rightarrow> (None, w2))))))"


subsection \<open>The scalar edit is an edit of lines\<close>

definition starts_colon :: "string \<Rightarrow> bool" where
  "starts_colon l = (l \<noteq> [] \<and> hd l = CHR '':'')"

definition flush_line :: "string \<Rightarrow> string \<Rightarrow> bool" where
  "flush_line key l = (has_prefix l key \<and> starts_colon (dropWhile blank (drop (length key) l)))"

text \<open>The lines \<open>setYamlScalarValue\<close> rewrites: \<open>key:\<close> at any indentation.\<close>

definition scalar_line :: "string \<Rightarrow> string \<Rightarrow> bool" where
  "scalar_line key l = flush_line key (dropWhile blank l)"

definition yaml_key :: "string \<Rightarrow> bool" where
  "yaml_key key = (key \<noteq> [] \<and> \<not> blank (hd key) \<and> NL \<notin> set key)"

lemma blank_not: "\<not> blank NL" "\<not> blank (CHR '':'')"
  by (simp_all add: blank_def)

lemma dropWhile_blank_append:
  "\<forall>c\<in>set w. blank c \<Longrightarrow> dropWhile blank (w @ s) = dropWhile blank s"
  by (induction w) auto

lemma flush_line_iff:
  "flush_line key l \<longleftrightarrow> (\<exists>w x. l = key @ w @ CHR '':'' # x \<and> (\<forall>c\<in>set w. blank c))"
proof
  assume a: "flush_line key l"
  then obtain t where t: "l = key @ t" by (auto simp: flush_line_def has_prefix_iff)
  with a have "starts_colon (dropWhile blank t)" by (simp add: flush_line_def)
  then obtain x where "dropWhile blank t = CHR '':'' # x"
    by (cases "dropWhile blank t") (auto simp: starts_colon_def)
  then have "t = takeWhile blank t @ CHR '':'' # x" by (metis takeWhile_dropWhile_id)
  moreover have "\<forall>c\<in>set (takeWhile blank t). blank c" by (auto dest: takeWhile_set)
  ultimately show "\<exists>w x. l = key @ w @ CHR '':'' # x \<and> (\<forall>c\<in>set w. blank c)"
    using t by metis
next
  assume "\<exists>w x. l = key @ w @ CHR '':'' # x \<and> (\<forall>c\<in>set w. blank c)"
  then show "flush_line key l"
    by (auto simp: flush_line_def dropWhile_blank_append blank_not starts_colon_def)
qed

lemma scalar_line_iff:
  assumes "yaml_key key"
  shows "scalar_line key l \<longleftrightarrow>
    (\<exists>v w x. l = v @ key @ w @ CHR '':'' # x \<and> (\<forall>c\<in>set v. blank c) \<and> (\<forall>c\<in>set w. blank c))"
proof
  assume "scalar_line key l"
  then obtain w x where "dropWhile blank l = key @ w @ CHR '':'' # x" "\<forall>c\<in>set w. blank c"
    unfolding scalar_line_def flush_line_iff by blast
  moreover have "\<forall>c\<in>set (takeWhile blank l). blank c" by (auto dest: takeWhile_set)
  ultimately show "\<exists>v w x. l = v @ key @ w @ CHR '':'' # x \<and> (\<forall>c\<in>set v. blank c) \<and> (\<forall>c\<in>set w. blank c)"
    by (metis takeWhile_dropWhile_id)
next
  assume "\<exists>v w x. l = v @ key @ w @ CHR '':'' # x \<and> (\<forall>c\<in>set v. blank c) \<and> (\<forall>c\<in>set w. blank c)"
  then obtain v w x where l: "l = v @ key @ w @ CHR '':'' # x"
    and v: "\<forall>c\<in>set v. blank c" and w: "\<forall>c\<in>set w. blank c" by blast
  obtain k ks where k: "key = k # ks" "\<not> blank k" using assms by (cases key) (auto simp: yaml_key_def)
  have "dropWhile blank l = key @ w @ CHR '':'' # x"
    using l v k by (simp add: dropWhile_blank_append)
  then show "scalar_line key l" unfolding scalar_line_def flush_line_iff using w by blast
qed

text \<open>The common tail of the three key patterns, from the key on, matches to the end of the line.\<close>

definition key_tail :: "string \<Rightarrow> rx" where
  "key_tail key = rseq [rlit key, rblanks, RSet (\<lambda>c. c = CHR '':''), rdots, REol]"

lemma set_key_tail:
  assumes "NL \<notin> set key" "NL \<notin> set l" "rest = [] \<or> hd rest = NL"
  shows "set (rxm (key_tail key) (b, l @ rest, cs)) =
    (if flush_line key l then {(rev l @ b, rest, cs)} else {})" (is "?L = ?R")
proof -
  have dots: "m = x \<and> a' = rest"
    if "x @ rest = m @ a'" "NL \<notin> set m" "NL \<notin> set x" "a' = [] \<or> hd a' = NL"
    for m a' x :: string
    using that assms(3) by (auto simp: append_eq_append_conv2 hd_append split: if_splits)
       (metis append_Nil2 hd_in_set in_set_conv_decomp list.collapse)+
  have "t \<in> ?L \<longleftrightarrow> t \<in> ?R" for t
  proof
    assume "t \<in> ?L"
    then obtain w m a' where t: "t = (rev (key @ w @ CHR '':'' # m) @ b, a', cs)"
      and e: "l @ rest = key @ w @ CHR '':'' # m @ a'" and w: "\<forall>c\<in>set w. blank c"
      and m: "NL \<notin> set m" and a': "a' = [] \<or> hd a' = NL"
      by (auto simp: key_tail_def rblanks_def rdots_def split: if_splits)
    have "NL \<notin> set (key @ w @ CHR '':'' # m)" using assms(1) w m blank_not by auto
    then have "l = key @ w @ CHR '':'' # m \<and> a' = rest"
      using dots [of l "key @ w @ CHR '':'' # m" a'] e assms(2) a' by auto
    then show "t \<in> ?R" using t w flush_line_iff by auto
  next
    assume r: "t \<in> ?R"
    then have "flush_line key l" by (auto split: if_splits)
    then obtain w x where l: "l = key @ w @ CHR '':'' # x" and w: "\<forall>c\<in>set w. blank c"
      unfolding flush_line_iff by blast
    have "NL \<notin> set x" using l assms(2) by auto
    with r l w assms(3) show "t \<in> ?L"
      by (fastforce simp: key_tail_def rblanks_def rdots_def split: if_splits)
  qed
  then show ?thesis by blast
qed


lemma rxm_bol: "set (rxm (RSeq RBol r) (b, a, cs)) = (if bol b then set (rxm r (b, a, cs)) else {})"
  by (simp add: bol_def)

lemma line_pattern_flush: "yaml_key key \<Longrightarrow> line_pattern (top_level_key_re key) (flush_line key)"
proof
  fix l rest b
  assume k: "yaml_key key" and l: "NL \<notin> set l" and r: "rest = [] \<or> hd rest = NL"
  have "top_level_key_re key = RSeq RBol (key_tail key)"
    by (simp add: top_level_key_re_def key_tail_def)
  then show "set (rxm (top_level_key_re key) (b, l @ rest, [])) =
      (if bol b \<and> flush_line key l then {(rev l @ b, rest, [])} else {})"
    using set_key_tail [OF _ l r] k by (simp only: rxm_bol yaml_key_def) auto
qed (auto simp: flush_line_def starts_colon_def)

lemma blanks_then_key:
  assumes k: "yaml_key key" and l: "NL \<notin> set l" and r: "rest = [] \<or> hd rest = NL"
  shows "set (rxm (RSeq rblanks (key_tail key)) (b, l @ rest, [])) =
    (if scalar_line key l then {(rev l @ b, rest, [])} else {})" (is "?L = ?R")
proof -
  have kn: "NL \<notin> set key" using k by (simp add: yaml_key_def)
  have split: "\<exists>l2. l = m @ l2 \<and> a' = l2 @ rest" if "l @ rest = m @ a'" "\<forall>c\<in>set m. blank c" for m a'
  proof -
    have "NL \<notin> set m" using that(2) blank_not by auto
    then show ?thesis using that(1) r
      by (auto simp: append_eq_append_conv2 hd_append split: if_splits)
         (metis append_Nil2 hd_in_set in_set_conv_decomp list.collapse)+
  qed
  have "t \<in> ?L \<longleftrightarrow> t \<in> ?R" for t
  proof
    assume "t \<in> ?L"
    then obtain m a' where m: "l @ rest = m @ a'" "\<forall>c\<in>set m. blank c"
      and t: "t \<in> set (rxm (key_tail key) (rev m @ b, a', []))"
      by (auto simp: rblanks_def)
    obtain l2 where l2: "l = m @ l2" "a' = l2 @ rest" using split [OF m] by blast
    have "t \<in> (if flush_line key l2 then {(rev l2 @ rev m @ b, rest, [])} else {})"
      using t set_key_tail [OF kn _ r, of l2 "rev m @ b" "[]"] l l2 by auto
    then have "flush_line key l2" "t = (rev l @ b, rest, [])" using l2 by (auto split: if_splits)
    moreover have "scalar_line key l"
      using calculation(1) l2 m(2) flush_line_iff scalar_line_iff [OF k] by metis
    ultimately show "t \<in> ?R" by simp
  next
    assume "t \<in> ?R"
    then have s: "scalar_line key l" and t: "t = (rev l @ b, rest, [])" by (auto split: if_splits)
    let ?m = "takeWhile blank l" and ?l2 = "dropWhile blank l"
    have d: "l = ?m @ ?l2" by simp
    have "flush_line key ?l2" using s by (simp add: scalar_line_def)
    moreover have "NL \<notin> set ?l2" using l set_dropWhileD by metis
    ultimately have h: "(rev ?l2 @ rev ?m @ b, rest, []) \<in> set (rxm (key_tail key) (rev ?m @ b, ?l2 @ rest, []))"
      using set_key_tail [OF kn _ r] by simp
    have e: "rev ?l2 @ rev ?m @ b = rev l @ b"
      by (simp flip: append_assoc rev_append)
    have a: "l @ rest = ?m @ ?l2 @ rest" by (metis append_assoc d)
    have "\<forall>c\<in>set ?m. blank c" by (auto dest: takeWhile_set)
    from mem_star_seq [OF a this h] show "t \<in> ?L" unfolding t e rblanks_def .
  qed
  then show ?thesis by blast
qed

lemma line_pattern_scalar: "yaml_key key \<Longrightarrow> line_pattern (scalar_re key) (scalar_line key)"
proof
  fix l rest b
  assume k: "yaml_key key" and l: "NL \<notin> set l" and r: "rest = [] \<or> hd rest = NL"
  have "scalar_re key = RSeq RBol (RSeq rblanks (key_tail key))"
    by (simp add: scalar_re_def key_tail_def)
  then show "set (rxm (scalar_re key) (b, l @ rest, [])) =
      (if bol b \<and> scalar_line key l then {(rev l @ b, rest, [])} else {})"
    using blanks_then_key [OF k l r] by (simp only: rxm_bol) auto
qed (auto simp: scalar_line_def flush_line_def starts_colon_def)

text \<open>The two credentials the enrollment edits write, as patterns on lines.\<close>

interpretation auth_token_line: line_pattern "scalar_re ''auth_token''" "scalar_line ''auth_token''"
  by (rule line_pattern_scalar) (simp add: yaml_key_def blank_def)

interpretation join_key_line: line_pattern "scalar_re ''join_key''" "scalar_line ''join_key''"
  by (rule line_pattern_scalar) (simp add: yaml_key_def blank_def)

subsection \<open>What the scalar edit does to the lines\<close>

abbreviation lines_of :: "string \<Rightarrow> string list" where "lines_of \<equiv> split_on NL"

lemma set_scalar_lines:
  assumes "yaml_key key"
  shows "set_yaml_scalar_value doc key value q =
    (if \<exists>l\<in>set (lines_of doc). scalar_line key l
     then join [NL] (map (\<lambda>l. if scalar_line key l then yaml_line key value q else l) (lines_of doc))
     else end_with_newline doc @ yaml_line key value q @ [NL])"
  using line_pattern.matches_lines [OF line_pattern_scalar [OF assms]]
    line_pattern.replace_func_lines [OF line_pattern_scalar [OF assms]]
  by (simp add: set_yaml_scalar_value_def Let_def)

definition body_lines :: "string \<Rightarrow> string list" where
  "body_lines doc = lines_of (trim_suffix doc [NL])"

lemma lines_of_append_line: "lines_of (x @ NL # y) = lines_of x @ lines_of y"
proof (induction "length x" arbitrary: x rule: less_induct)
  case less
  show ?case
  proof (cases "NL \<in> set x")
    case False
    then show ?thesis by (simp add: split_on_append_sep split_on_no_sep)
  next
    case True
    then obtain a b where x: "x = a @ NL # b" "NL \<notin> set a" by (meson split_list_first)
    have "lines_of (b @ NL # y) = lines_of b @ lines_of y" by (rule less) (simp add: x)
    then show ?thesis using x by (simp add: split_on_append_sep)
  qed
qed

lemma end_with_newline_body: "end_with_newline doc = trim_suffix doc [NL] @ [NL]"
  by (auto simp: end_with_newline_def trim_suffix_def has_suffix_iff)

lemma lines_of_doc: "lines_of doc = body_lines doc \<or> lines_of doc = body_lines doc @ [[]]"
proof (cases "has_suffix doc [NL]")
  case True
  then obtain x where "doc = x @ [NL]" by (auto simp: has_suffix_iff)
  then show ?thesis
    using lines_of_append_line [of x "[]"] True by (simp add: body_lines_def trim_suffix_def split_on_no_sep)
next
  case False
  then show ?thesis by (simp add: body_lines_def trim_suffix_def)
qed

lemma yaml_line_one_line:
  "NL \<notin> set key \<Longrightarrow> q \<or> NL \<notin> set value \<Longrightarrow> NL \<notin> set (yaml_line key value q)"
  by (auto simp: yaml_line_def go_quote_no_NL)

lemma flush_yaml_line [simp]: "flush_line key (yaml_line key value q)"
  unfolding flush_line_iff yaml_line_def by (rule exI [of _ "[]"]) auto

lemma scalar_yaml_line [simp]: "yaml_key key \<Longrightarrow> scalar_line key (yaml_line key value q)"
  using flush_yaml_line [of key "value" q]
  by (cases key) (auto simp: scalar_line_def yaml_key_def yaml_line_def)

text \<open>All lines of the edited document.\<close>

lemma lines_of_set_scalar:
  assumes k: "yaml_key key" and v: "q \<or> NL \<notin> set value"
  shows "lines_of (set_yaml_scalar_value doc key value q) =
    (if \<exists>l\<in>set (lines_of doc). scalar_line key l
     then map (\<lambda>l. if scalar_line key l then yaml_line key value q else l) (lines_of doc)
     else body_lines doc @ [yaml_line key value q, []])"
proof -
  let ?y = "yaml_line key value q"
  have y: "NL \<notin> set ?y" using k v by (intro yaml_line_one_line) (auto simp: yaml_key_def)
  have m: "lines_of (join [NL] (map (\<lambda>l. if scalar_line key l then ?y else l) (lines_of doc))) =
      map (\<lambda>l. if scalar_line key l then ?y else l) (lines_of doc)"
    by (rule split_on_join) (auto simp: y dest: split_on_elems)
  have "lines_of (end_with_newline doc @ ?y @ [NL]) = body_lines doc @ [?y, []]"
    using lines_of_append_line [of "trim_suffix doc [NL]" "?y @ [NL]"]
      lines_of_append_line [of ?y "[]"] y
    by (simp add: end_with_newline_body body_lines_def split_on_no_sep)
  with m show ?thesis by (simp add: set_scalar_lines [OF k])
qed

text \<open>A line's key, for keys made of word characters: no line is the line of two such keys.\<close>

definition word_key :: "string \<Rightarrow> bool" where
  "word_key key = (key \<noteq> [] \<and> list_all is_word key)"

lemma not_word: "\<not> is_word (CHR '':'')" "\<not> is_word NL" "blank c \<Longrightarrow> \<not> is_word c"
  by (auto simp: is_word_def is_alpha_def is_digit_def blank_def)

lemma word_key_yaml_key: "word_key key \<Longrightarrow> yaml_key key"
  by (cases key) (auto simp: word_key_def yaml_key_def list_all_iff dest: not_word(3) simp: not_word)

lemma scalar_line_key:
  assumes "word_key key" "scalar_line key l"
  shows "takeWhile is_word (dropWhile blank l) = key"
proof -
  obtain w x where "dropWhile blank l = key @ w @ CHR '':'' # x" and w: "\<forall>c\<in>set w. blank c"
    using assms(2) unfolding scalar_line_def flush_line_iff by blast
  moreover have "takeWhile is_word (w @ CHR '':'' # x) = []"
    using w by (cases w) (auto simp: not_word)
  moreover have "\<forall>c\<in>set key. is_word c" using assms(1) by (simp add: word_key_def list_all_iff)
  ultimately show ?thesis by (simp add: takeWhile_append2)
qed

lemma scalar_line_unique:
  "word_key k1 \<Longrightarrow> word_key k2 \<Longrightarrow> scalar_line k1 l \<Longrightarrow> scalar_line k2 l \<Longrightarrow> k1 = k2"
  using scalar_line_key by metis

text \<open>Lines selected by \<open>P\<close> survive the edit of a key whose lines \<open>P\<close> excludes.\<close>

lemma filter_set_scalar:
  assumes "yaml_key key" "q \<or> NL \<notin> set value"
    and P: "\<not> P []" "\<And>l. scalar_line key l \<Longrightarrow> \<not> P l"
  shows "filter P (lines_of (set_yaml_scalar_value doc key value q)) = filter P (lines_of doc)"
proof -
  have "filter P (map (\<lambda>l. if scalar_line key l then yaml_line key value q else l) ls) = filter P ls" for ls
    using P(2) assms(1) by (induction ls) auto
  moreover have "filter P (lines_of doc) = filter P (body_lines doc)"
    using lines_of_doc [of doc] P(1) by auto
  ultimately show ?thesis
    using P assms(1) by (simp add: lines_of_set_scalar [OF assms(1,2)])
qed

text \<open>The lines of the edited key: as many as before, at least one, each the new line.\<close>

lemma filter_set_scalar_same:
  assumes "yaml_key key" "q \<or> NL \<notin> set value"
  shows "filter (scalar_line key) (lines_of (set_yaml_scalar_value doc key value q)) =
    replicate (max 1 (length (filter (scalar_line key) (lines_of doc)))) (yaml_line key value q)"
proof -
  let ?y = "yaml_line key value q"
  have m: "filter (scalar_line key) (map (\<lambda>l. if scalar_line key l then ?y else l) ls) =
      replicate (length (filter (scalar_line key) ls)) ?y" for ls
    using assms(1) by (induction ls) auto
  have n: "\<not> scalar_line key []" by (simp add: scalar_line_def flush_line_def starts_colon_def)
  have "filter (scalar_line key) (body_lines doc) = filter (scalar_line key) (lines_of doc)"
    using lines_of_doc [of doc] n by auto
  then show ?thesis
    using m n assms(1)
    by (auto simp: lines_of_set_scalar [OF assms] filter_empty_conv max_def)
       (auto simp: Suc_le_eq filter_empty_conv)
qed


subsection \<open>The persisting operations\<close>

lemmas persist_defs = persist_enrollment_def persist_auto_vpn_def clear_enrollment_def persist_service_def

lemma write_and_reload_ok:
  assumes "write_and_reload decode e w cm out what = (None, w', cm')"
  shows "\<exists>f cfg. w_files w' (cm_path cm) = Some f \<and> f_content f = out \<and> f_mode f = mode600 \<and>
    load_config decode e w' (cm_path cm) = Inr cfg \<and> cm' = cm\<lparr>cm_current := cfg\<rparr>"
proof -
  obtain w1 where w1: "write_file e w (cm_path cm) out mode600 = (None, w1)"
    using assms by (auto simp: write_and_reload_def split: prod.splits option.splits)
  obtain w2 where w2: "chmod e w1 (cm_path cm) mode600 = (None, w2)"
    using assms w1 by (auto simp: write_and_reload_def split: prod.splits option.splits)
  obtain cfg where cfg: "load_config decode e w2 (cm_path cm) = Inr cfg" "w' = w2" "cm' = cm\<lparr>cm_current := cfg\<rparr>"
    using assms w1 w2 by (auto simp: write_and_reload_def split: sum.splits)
  have "w_files w1 (cm_path cm) =
      Some \<lparr>f_content = out, f_mode = new_mode e w (cm_path cm) mode600, f_mtime = w_clock w\<rparr>"
    using w1 by (auto simp: write_file_def split: option.splits)
  then show ?thesis
    using w2 cfg by (auto simp: chmod_def split: option.splits)
qed

lemma write_and_reload_err:
  "write_and_reload decode e w cm out what = (Some err, w', cm') \<Longrightarrow> cm' = cm"
  by (auto simp: write_and_reload_def split: prod.splits option.splits sum.splits)

lemma write_and_reload_frame:
  "q \<noteq> cm_path cm \<Longrightarrow> w_files (fst (snd (write_and_reload decode e w cm out what))) q = w_files w q"
  by (auto simp: write_and_reload_def write_file_def chmod_def split: prod.splits option.splits sum.splits)

text \<open>The document after enrollment, line by line.\<close>

lemma credential_keys [simp]:
  "word_key ''auth_token''" "word_key ''public_key''" "word_key ''join_key''" "word_key ''prev_auth_token''"
  by (simp_all add: word_key_def is_word_def is_alpha_def is_digit_def)

lemma filter_set_scalar_other:
  assumes "word_key k" "word_key key" "k \<noteq> key"
  shows "filter (scalar_line k) (lines_of (set_yaml_scalar doc key v)) = filter (scalar_line k) (lines_of doc)"
  unfolding set_yaml_scalar_def
  by (rule filter_set_scalar) (use assms scalar_line_unique word_key_yaml_key in
      \<open>auto simp: scalar_line_def flush_line_def starts_colon_def\<close>)

lemma set_filter_scalar_same:
  "word_key key \<Longrightarrow> set (filter (scalar_line key) (lines_of (set_yaml_scalar doc key v))) = {yaml_line key v True}"
  unfolding set_yaml_scalar_def
  by (subst filter_set_scalar_same) (auto simp: word_key_yaml_key max_def)

definition other_lines :: "string list \<Rightarrow> string \<Rightarrow> string list" where
  "other_lines keys doc = filter (\<lambda>l. l \<noteq> [] \<and> list_all (\<lambda>k. \<not> scalar_line k l) keys) (lines_of doc)"

lemma other_lines_set_scalar:
  "word_key key \<Longrightarrow> key \<in> set keys \<Longrightarrow> other_lines keys (set_yaml_scalar doc key v) = other_lines keys doc"
  unfolding set_yaml_scalar_def other_lines_def
  by (rule filter_set_scalar) (auto simp: word_key_yaml_key list_all_iff)

definition enroll_keys :: "string list" where
  "enroll_keys = [''auth_token'', ''public_key'', ''join_key'', ''prev_auth_token'']"

lemma enrollment_doc_lines:
  "set (filter (scalar_line ''auth_token'') (lines_of (enrollment_doc raw tok pub))) = {yaml_line ''auth_token'' tok True}"
  "set (filter (scalar_line ''join_key'') (lines_of (enrollment_doc raw tok pub))) = {yaml_line ''join_key'' [] True}"
  "set (filter (scalar_line ''prev_auth_token'') (lines_of (enrollment_doc raw tok pub))) = {yaml_line ''prev_auth_token'' [] True}"
  "pub \<noteq> [] \<Longrightarrow> set (filter (scalar_line ''public_key'') (lines_of (enrollment_doc raw tok pub))) = {yaml_line ''public_key'' pub True}"
  "other_lines enroll_keys (enrollment_doc raw tok pub) = other_lines enroll_keys raw"
  by (simp_all only: enrollment_doc_def Let_def)
     (simp_all add: filter_set_scalar_other set_filter_scalar_same other_lines_set_scalar enroll_keys_def
       del: set_filter)

lemma clear_doc_lines:
  "set (filter (scalar_line ''auth_token'') (lines_of (clear_doc cur raw))) = {yaml_line ''auth_token'' [] True}"
  "set (filter (scalar_line ''public_key'') (lines_of (clear_doc cur raw))) = {yaml_line ''public_key'' [] True}"
  "set (filter (scalar_line ''prev_auth_token'') (lines_of (clear_doc cur raw))) =
     {yaml_line ''prev_auth_token''
        (if trim_space (auth_token cur) \<noteq> [] then trim_space (auth_token cur) else prev_auth_token cur) True}"
  "other_lines enroll_keys (clear_doc cur raw) = other_lines enroll_keys raw"
  "filter (scalar_line ''join_key'') (lines_of (clear_doc cur raw)) = filter (scalar_line ''join_key'') (lines_of raw)"
  by (simp_all only: clear_doc_def Let_def)
     (simp_all add: filter_set_scalar_other set_filter_scalar_same other_lines_set_scalar enroll_keys_def
       del: set_filter)


subsection \<open>Properties\<close>

text \<open>C35: \<open>setYamlScalarValue\<close> is an edit of lines: when some line assigns the key (at any
  indentation), each such line becomes the new \<open>key: value\<close> line and every other line stays
  where it is; otherwise the new line is appended after a final newline. The pattern
  \<open>(?m)^[ \t]*key[ \t]*:.*$\<close> never reaches over a line end.\<close>

theorem set_yaml_scalar_value_lines:
  assumes "yaml_key key" and "q \<or> NL \<notin> set v"
  shows "lines_of (set_yaml_scalar_value doc key v q) =
    (if \<exists>l\<in>set (lines_of doc). scalar_line key l
     then map (\<lambda>l. if scalar_line key l then yaml_line key v q else l) (lines_of doc)
     else body_lines doc @ [yaml_line key v q, []])"
  by (rule lines_of_set_scalar [OF assms])

lemma set_yaml_scalar_value_lines_witness:
  "lines_of (set_yaml_scalar_value ''a: 1'' ''b'' ''2'' False) = [''a: 1'', ''b: 2'', []]"
  using set_yaml_scalar_value_lines [of "''b''" False "''2''" "''a: 1''"]
  by (simp add: yaml_key_def blank_def split_on_def scalar_line_def flush_line_def starts_colon_def
      body_lines_def trim_suffix_def has_suffix_def yaml_line_def)

text \<open>What \<open>PersistEnrollment\<close> promises: when it succeeds, agent.yml has mode 0600, every
  \<open>auth_token\<close> line holds the issued token, the join key and the previous token are blanked,
  the public key is pinned when one was sent, every line that assigns none of the four keys
  survives in order, and the running configuration is the one loaded from that file.\<close>

theorem enrollment_persisted:
  assumes "persist_enrollment decode e w cm tok pub = (None, w', cm')"
  shows "tok \<noteq> [] \<and> (\<exists>raw f cfg. read_file e w (cm_path cm) = Inr raw \<and>
    w_files w' (cm_path cm) = Some f \<and> f_mode f = mode600 \<and>
    set (filter (scalar_line ''auth_token'') (lines_of (f_content f))) = {yaml_line ''auth_token'' tok True} \<and>
    set (filter (scalar_line ''join_key'') (lines_of (f_content f))) = {yaml_line ''join_key'' [] True} \<and>
    set (filter (scalar_line ''prev_auth_token'') (lines_of (f_content f))) = {yaml_line ''prev_auth_token'' [] True} \<and>
    (pub \<noteq> [] \<longrightarrow>
      set (filter (scalar_line ''public_key'') (lines_of (f_content f))) = {yaml_line ''public_key'' pub True}) \<and>
    other_lines enroll_keys (f_content f) = other_lines enroll_keys raw \<and>
    load_config decode e w' (cm_path cm) = Inr cfg \<and> cm' = cm\<lparr>cm_current := cfg\<rparr>)"
proof -
  have t: "tok \<noteq> []" using assms by (auto simp: persist_enrollment_def split: if_splits)
  then obtain raw where raw: "read_file e w (cm_path cm) = Inr raw"
    using assms by (auto simp: persist_enrollment_def split: sum.splits)
  then have "write_and_reload decode e w cm (enrollment_doc raw tok pub) ''enrollment'' = (None, w', cm')"
    using assms t by (simp add: persist_enrollment_def)
  from write_and_reload_ok [OF this] obtain f cfg where
    f: "w_files w' (cm_path cm) = Some f" "f_content f = enrollment_doc raw tok pub" "f_mode f = mode600"
      "load_config decode e w' (cm_path cm) = Inr cfg" "cm' = cm\<lparr>cm_current := cfg\<rparr>" by blast
  show ?thesis
    by (rule conjI [OF t], rule exI [of _ raw], rule exI [of _ f], rule exI [of _ cfg])
       (simp add: raw f enrollment_doc_lines del: set_filter)
qed

definition sample_cm :: config_manager where
  "sample_cm = \<lparr>cm_current = zero_config\<lparr>auth_token := ''old''\<rparr>, cm_path = ''agent.yml'',
     cm_last_size = 0, cm_last_mod = None\<rparr>"

lemmas sample_run_defs = sample_cm_def quiet_env_def one_file_def read_file_def write_file_def chmod_def
  load_config_def write_and_reload_def put_file_def new_mode_def zero_config_def zero_caps_def

lemma enrollment_persisted_witness:
  "\<exists>w' cm' f. persist_enrollment (\<lambda>_. Inr zero_config) quiet_env (one_file ''agent.yml'' ''a: 1'' 0) sample_cm ''tok'' []
     = (None, w', cm') \<and> w_files w' ''agent.yml'' = Some f \<and> f_mode f = mode600"
proof -
  obtain w' cm' where r: "persist_enrollment (\<lambda>_. Inr zero_config) quiet_env (one_file ''agent.yml'' ''a: 1'' 0) sample_cm ''tok'' []
      = (None, w', cm')"
    by (simp add: persist_enrollment_def sample_run_defs)
  have "cm_path sample_cm = ''agent.yml''" by (simp add: sample_cm_def)
  with enrollment_persisted [OF r] r show ?thesis by auto
qed

text \<open>\<open>ClearEnrollment\<close> keeps the proof of continuity: afterwards the \<open>auth_token\<close> and
  \<open>public_key\<close> lines are blank, the join key is untouched, and \<open>prev_auth_token\<close> holds the token
  this host had, or the one already kept when it had none, so a second clear loses nothing.\<close>

theorem clear_enrollment_keeps_proof:
  assumes "clear_enrollment decode e w cm = (None, w', cm')"
  shows "\<exists>raw f. read_file e w (cm_path cm) = Inr raw \<and>
    w_files w' (cm_path cm) = Some f \<and> f_mode f = mode600 \<and>
    set (filter (scalar_line ''auth_token'') (lines_of (f_content f))) = {yaml_line ''auth_token'' [] True} \<and>
    set (filter (scalar_line ''public_key'') (lines_of (f_content f))) = {yaml_line ''public_key'' [] True} \<and>
    set (filter (scalar_line ''prev_auth_token'') (lines_of (f_content f))) =
      {yaml_line ''prev_auth_token''
        (if trim_space (auth_token (cm_current cm)) \<noteq> [] then trim_space (auth_token (cm_current cm))
         else prev_auth_token (cm_current cm)) True} \<and>
    filter (scalar_line ''join_key'') (lines_of (f_content f)) = filter (scalar_line ''join_key'') (lines_of raw) \<and>
    other_lines enroll_keys (f_content f) = other_lines enroll_keys raw"
proof -
  obtain raw where raw: "read_file e w (cm_path cm) = Inr raw"
    using assms by (auto simp: clear_enrollment_def split: sum.splits)
  then have "write_and_reload decode e w cm (clear_doc (cm_current cm) raw) ''enrollment clear'' = (None, w', cm')"
    using assms by (simp add: clear_enrollment_def)
  from write_and_reload_ok [OF this] obtain f where
    f: "w_files w' (cm_path cm) = Some f" "f_content f = clear_doc (cm_current cm) raw" "f_mode f = mode600"
    by blast
  show ?thesis
    by (rule exI [of _ raw], rule exI [of _ f]) (simp only: raw f clear_doc_lines simp_thms)
qed

lemma clear_enrollment_keeps_proof_witness:
  "\<exists>w' cm' f. clear_enrollment (\<lambda>_. Inr zero_config) quiet_env (one_file ''agent.yml'' ''a: 1'' 0) sample_cm
     = (None, w', cm') \<and> w_files w' ''agent.yml'' = Some f \<and>
     set (filter (scalar_line ''prev_auth_token'') (lines_of (f_content f))) = {yaml_line ''prev_auth_token'' ''old'' True}"
proof -
  obtain w' cm' where r: "clear_enrollment (\<lambda>_. Inr zero_config) quiet_env (one_file ''agent.yml'' ''a: 1'' 0) sample_cm
      = (None, w', cm')"
    by (simp add: clear_enrollment_def sample_run_defs)
  have "cm_path sample_cm = ''agent.yml''" "trim_space (auth_token (cm_current sample_cm)) = ''old''"
    by (simp_all add: sample_cm_def trim_space_id is_space_def)
  with clear_enrollment_keeps_proof [OF r] r show ?thesis by auto
qed


text \<open>C38: the error behaviour all four persisting operations share: when one of them fails, for
  whatever reason (an unreadable file, a failing write or chmod, a file that no longer parses,
  a refused name), the running configuration is the one it was, and whether it fails or not no
  file other than agent.yml is touched.\<close>

theorem persist_errors_keep_config:
  assumes r: "r \<in> {persist_enrollment decode e w cm tok pub, persist_auto_vpn decode e w cm v,
      clear_enrollment decode e w cm, persist_service decode e w cm name sub remove}"
  shows "(fst r \<noteq> None \<longrightarrow> snd (snd r) = cm) \<and> (\<forall>q. q \<noteq> cm_path cm \<longrightarrow> w_files (fst (snd r)) q = w_files w q)"
proof -
  have "snd r = (w, cm) \<or> (\<exists>out what. r = write_and_reload decode e w cm out what)"
    using r by (auto simp: persist_defs split: if_splits sum.splits option.splits)
  then show ?thesis
  proof
    assume "\<exists>out what. r = write_and_reload decode e w cm out what"
    then obtain out what where o: "r = write_and_reload decode e w cm out what" by blast
    then have "fst r = Some err \<Longrightarrow> snd (snd r) = cm" for err
      using write_and_reload_err by (metis prod.collapse)
    then show ?thesis using write_and_reload_frame o by auto
  qed auto
qed

lemma persist_errors_keep_config_witness:
  "fst (persist_enrollment (\<lambda>_. Inl ''bad yaml'') quiet_env (one_file ''agent.yml'' ''a: 1'' 0) sample_cm ''tok'' []) \<noteq> None \<and>
   snd (snd (persist_enrollment (\<lambda>_. Inl ''bad yaml'') quiet_env (one_file ''agent.yml'' ''a: 1'' 0) sample_cm ''tok'' [])) = sample_cm"
proof -
  let ?r = "persist_enrollment (\<lambda>_. Inl ''bad yaml'') quiet_env (one_file ''agent.yml'' ''a: 1'' 0) sample_cm ''tok'' []"
  have n: "fst ?r \<noteq> None" by (simp add: persist_enrollment_def sample_run_defs)
  with persist_errors_keep_config [of ?r "\<lambda>_. Inl ''bad yaml''" quiet_env
      "one_file ''agent.yml'' ''a: 1'' 0" sample_cm "''tok''" "[]"]
  show ?thesis by blast
qed

subsection \<open>config-set\<close>

lemma expand_no_dollar: "CHR ''$'' \<notin> set t \<Longrightarrow> expand cs m t = t"
  by (induction t) auto

lemma set_top_level_lines:
  assumes "yaml_key key" "CHR ''$'' \<notin> set (yaml_line key v q)"
  shows "set_top_level_yaml_scalar doc key v q =
    (if \<exists>l\<in>set (lines_of doc). flush_line key l
     then join [NL] (map (\<lambda>l. if flush_line key l then yaml_line key v q else l) (lines_of doc))
     else end_with_newline doc @ yaml_line key v q @ [NL])"
  using line_pattern.matches_lines [OF line_pattern_flush [OF assms(1)]]
    line_pattern.replace_func_lines [OF line_pattern_flush [OF assms(1)]]
  by (simp add: set_top_level_yaml_scalar_def Let_def replace_tmpl_def expand_no_dollar [OF assms(2)])

text \<open>\<open>ApplyConfigValues\<close> replaces the file as a whole or not at all: on any error the
  configuration file is exactly as it was (content and mode); on success it holds the edited
  document, which parses, with the permission bits it had. Whatever happens no third file
  changes.\<close>

theorem apply_config_atomic:
  "case apply_config_values yaml_error e w path pairs of
     (Some err, w') \<Rightarrow> {q. w_files w' q \<noteq> w_files w q} \<subseteq> {path @ ''.tmp''}
   | (None, w') \<Rightarrow> (\<exists>raw doc f.
       read_file e w path = Inr raw \<and>
       apply_keys path (\<lambda>k. the (map_of pairs k)) (sort (map fst pairs)) raw = Inr doc \<and>
       yaml_error doc = None \<and> w_files w' path = Some f \<and> f_content f = doc \<and>
       w_files w' (path @ ''.tmp'') = None \<and>
       {q. w_files w' q \<noteq> w_files w q} \<subseteq> {path, path @ ''.tmp''})"
  by (auto simp: apply_config_values_def write_file_def rename_file_def remove_file_def Let_def
      split: sum.splits option.splits if_splits)

text \<open>The other half of the repair \<open>setYamlScalarValue\<close>'s comment describes was not made in
  \<open>setTopLevelYamlScalar\<close>: setting an existing key goes through \<open>ReplaceAllString\<close>, which expands
  dollar signs in the value. Setting \<open>token\<close> to \<open>pa$ss\<close> writes \<open>pa\<close> when the key exists and
  \<open>pa$ss\<close> when it does not.\<close>

lemma config_set_expands_dollar:
  "set_top_level_yaml_scalar ''token: x'' ''token'' ''pa$ss'' True = ''token: '' @ [DQ] @ ''pa'' @ [DQ] \<and>
   set_top_level_yaml_scalar ''a: 1'' ''token'' ''pa$ss'' True =
     ''a: 1'' @ [NL] @ ''token: '' @ [DQ] @ ''pa$ss'' @ [DQ, NL] \<and>
   set_yaml_scalar_value ''token: x'' ''token'' ''pa$ss'' True = ''token: '' @ [DQ] @ ''pa$ss'' @ [DQ]"
  by code_simp


subsection \<open>The services list\<close>

lemma concat_split_after: "concat (split_after d s) = s"
  by (induction s) (auto split: list.splits)

lemma concat_insert: "concat (take n ls @ [x] @ drop n ls) = concat (take n ls) @ x @ concat (drop n ls)"
  by simp

text \<open>Registering a service only inserts text: unless the block is written as the inline
  empty list, the new document is the old one (with a final newline) with the entry, preceded by
  the key when no block existed, put in at one place; it refuses exactly when a list item of
  that name is already somewhere in the document.\<close>

theorem add_yaml_list_item_inserts:
  "case add_yaml_list_item doc key item sub of
     Inl err \<Rightarrow> rx_matches (item_re item) (end_with_newline doc) \<or>
                rx_matches (named_re item) (end_with_newline doc)
   | Inr out \<Rightarrow> rx_matches (inline_empty_re key) (end_with_newline doc) \<or>
       (\<exists>a b. end_with_newline doc = a @ b \<and>
          (out = a @ list_entry item sub @ b \<or> out = a @ key @ '':'' @ [NL] @ list_entry item sub @ b))"
proof -
  let ?d = "end_with_newline doc" and ?ls = "split_after NL (end_with_newline doc)"
  have d: "concat (take n ?ls) @ concat (drop n ?ls) = ?d" for n
    by (simp add: concat_split_after flip: concat_append)
  have ins: "\<exists>a b. ?d = a @ b \<and> concat (take n ?ls @ [x] @ drop n ?ls) = a @ x @ b" for n x
    by (rule exI [of _ "concat (take n ?ls)"], rule exI [of _ "concat (drop n ?ls)"])
       (simp add: d)
  have app: "\<exists>a b. ?d = a @ b \<and> ?d @ y = a @ y @ b" for y
    by (rule exI [of _ "?d"], rule exI [of _ "[]"]) simp
  have err: "rx_matches (item_re item) ?d \<or> rx_matches (named_re item) ?d"
    if "add_yaml_list_item doc key item sub = Inl msg" for msg
    using that by (auto simp: add_yaml_list_item_def Let_def split: if_splits option.splits)
  have "rx_matches (inline_empty_re key) ?d \<or> out = ?d @ key @ '':'' @ [NL] @ list_entry item sub \<or>
      out = ?d @ list_entry item sub \<or> (\<exists>n. out = concat (take n ?ls @ [list_entry item sub] @ drop n ?ls))"
    if "add_yaml_list_item doc key item sub = Inr out" for out
    using that unfolding add_yaml_list_item_def Let_def by (fastforce split: if_splits option.splits)
  then have "rx_matches (inline_empty_re key) ?d \<or> (\<exists>a b. ?d = a @ b \<and>
      (out = a @ list_entry item sub @ b \<or> out = a @ key @ '':'' @ [NL] @ list_entry item sub @ b))"
    if "add_yaml_list_item doc key item sub = Inr out" for out
    using that ins [of _ "list_entry item sub"] app [of "list_entry item sub"]
      app [of "key @ '':'' @ [NL] @ list_entry item sub"]
    by (metis append.assoc)
  with err show ?thesis by (cases "add_yaml_list_item doc key item sub") auto
qed

text \<open>Unregistering searches the whole document and not the \<open>services:\<close> block: with \<open>nginx\<close>
  both in \<open>service_control\<close> and in \<open>services\<close>, unregistering it also deletes the permission to
  manage it; and registering \<open>nginx\<close> is refused as already registered because of that
  permission.\<close>

lemma services_edit_ignores_block:
  "remove_yaml_list_item
     (join [NL] [''capabilities:'', ''  service_control:'', ''    - nginx'', ''services:'', ''  - nginx'', []])
     ''services'' ''nginx''
   = Inr (join [NL] [''capabilities:'', ''  service_control:'', ''services:'', []]) \<and>
   isl (add_yaml_list_item
     (join [NL] [''capabilities:'', ''  service_control:'', ''    - nginx'', []]) ''services'' ''nginx'' ''systemd'')"
  by code_simp

text \<open>\<open>PersistService\<close> checks the name and writes the subtype as it comes, so a subtype with
  line breaks adds settings of its own to agent.yml: here it grants \<open>arbitrary_bash\<close>.\<close>

lemma register_subtype_injects:
  "add_yaml_list_item ''a: 1'' ''services'' ''web''
     (''systemd'' @ [NL] @ ''capabilities:'' @ [NL] @ ''  arbitrary_bash: true'')
   = Inr (join [NL] [''a: 1'', ''services:'', ''  - name: web'', ''    subtype: systemd'',
       ''capabilities:'', ''  arbitrary_bash: true'', []]) \<and>
   validate_service_name ''web'' = None"
  by code_simp

text \<open>Adding to a document without the key and removing again gives the document back.\<close>

lemma add_remove_sample:
  "case add_yaml_list_item ''a: 1'' ''services'' ''web'' ''docker'' of Inl _ \<Rightarrow> False
   | Inr d \<Rightarrow> remove_yaml_list_item d ''services'' ''web'' = Inr (join [NL] [''a: 1'', ''services:'', []])"
  by code_simp

subsection \<open>Watching the file\<close>

text \<open>\<open>ReloadIfChanged\<close> settles: after a call that did not fail, a second call on the same
  file reports no change and keeps the manager as it is; and a failing call keeps the running
  configuration.\<close>

theorem reload_if_changed_settles:
  "case reload_if_changed decode e w cm of
     (Inl err, cm') \<Rightarrow> cm' = cm
   | (Inr b, cm') \<Rightarrow> reload_if_changed decode e w cm' = (Inr False, cm') \<and>
       (if b then load_config decode e w (cm_path cm) = Inr (cm_current cm') \<and> cm_last_mod cm \<noteq> None
        else cm' = cm \<or> cm_last_mod cm = None \<and> load_config decode e w (cm_path cm) = Inr (cm_current cm'))"
  by (auto simp: reload_if_changed_def split: sum.splits)

end
