(* ===== verification/GoBase64.thy ===== *)
theory GoBase64
  imports GoStrings
begin

text \<open>
  \<open>encoding/base64\<close>'s \<open>StdEncoding\<close>: encoding with padding, and the decoder, which skips
  carriage returns and newlines, wants complete groups of four, takes padding only at the end
  and ignores the unused low bits before it.
\<close>

subsection \<open>The alphabet\<close>

definition b64_char :: "nat \<Rightarrow> char" where
  "b64_char n =
     (if n < 26 then char_of (65 + n) else if n < 52 then char_of (71 + n)
      else if n < 62 then char_of (n - 4) else if n = 62 then CHR ''+'' else CHR ''/'')"

definition b64_val :: "char \<Rightarrow> nat option" where
  "b64_val c =
     (let n = (of_char c :: nat) in
      if 65 \<le> n \<and> n \<le> 90 then Some (n - 65)
      else if 97 \<le> n \<and> n \<le> 122 then Some (n - 71)
      else if 48 \<le> n \<and> n \<le> 57 then Some (n + 4)
      else if c = CHR ''+'' then Some 62
      else if c = CHR ''/'' then Some 63 else None)"

abbreviation byte :: "char \<Rightarrow> nat" where "byte c \<equiv> of_char c"

subsection \<open>Encoding and decoding\<close>

fun b64_encode :: "string \<Rightarrow> string" where
  "b64_encode [] = []"
| "b64_encode [a] = [b64_char (byte a div 4), b64_char (byte a mod 4 * 16), CHR ''='', CHR ''='']"
| "b64_encode [a, b] =
     [b64_char (byte a div 4), b64_char (byte a mod 4 * 16 + byte b div 16),
      b64_char (byte b mod 16 * 4), CHR ''='']"
| "b64_encode (a # b # c # s) =
     [b64_char (byte a div 4), b64_char (byte a mod 4 * 16 + byte b div 16),
      b64_char (byte b mod 16 * 4 + byte c div 64), b64_char (byte c mod 64)] @ b64_encode s"

definition b64_quad :: "nat \<Rightarrow> nat \<Rightarrow> nat \<Rightarrow> nat \<Rightarrow> string" where
  "b64_quad w x y z =
     [char_of (w * 4 + x div 16), char_of (x mod 16 * 16 + y div 4), char_of (y mod 4 * 64 + z)]"

fun b64_decode_groups :: "string \<Rightarrow> string option" where
  "b64_decode_groups [] = Some []"
| "b64_decode_groups (a # b # c # d # s) =
     (case (b64_val a, b64_val b) of
        (Some w, Some x) \<Rightarrow>
          (case (b64_val c, b64_val d) of
             (Some y, Some z) \<Rightarrow> map_option (\<lambda>r. b64_quad w x y z @ r) (b64_decode_groups s)
           | (Some y, None) \<Rightarrow>
               if d = CHR ''='' \<and> s = [] then Some (take 2 (b64_quad w x y 0)) else None
           | (None, _) \<Rightarrow>
               if c = CHR ''='' \<and> d = CHR ''='' \<and> s = [] then Some (take 1 (b64_quad w x 0 0)) else None)
      | _ \<Rightarrow> None)"
| "b64_decode_groups _ = None"

definition b64_decode :: "string \<Rightarrow> string option" where
  "b64_decode s = b64_decode_groups (filter (\<lambda>c. c \<noteq> CRET \<and> c \<noteq> NL) s)"

subsection \<open>Codecs of byte strings\<close>

text \<open>
  What the clients of the encoding rely on: every byte string comes back, so no two have the
  same encoding, and the encoded text travels on one line.
\<close>

locale byte_codec =
  fixes enc :: "string \<Rightarrow> string" and dec :: "string \<Rightarrow> string option"
  assumes dec_enc: "dec (enc s) = Some s"
    and enc_line: "NL \<notin> set (enc s)"
begin

lemma enc_inj: "enc s = enc t \<Longrightarrow> s = t"
  using dec_enc by (metis option.inject)

lemma enc_eq_iff: "enc s = enc t \<longleftrightarrow> s = t"
  using enc_inj by blast

lemma enc_lines: "split_on NL (join [NL] (map enc (s # ss))) = map enc (s # ss)"
  by (rule split_on_join) (auto simp: enc_line)

text \<open>A sequence of chunks sent in encoded frames arrives as the same bytes.\<close>

lemma frames_reassemble: "map_option concat (those (map (dec \<circ> enc) ss)) = Some (concat ss)"
proof -
  have "those (map (dec \<circ> enc) ss) = Some ss"
    by (induction ss) (auto simp: dec_enc)
  then show ?thesis by simp
qed

end

subsection \<open>The standard encoding is a codec\<close>

lemma char_byte_eq: "c = d \<longleftrightarrow> byte c = byte d"
  by simp

lemma b64_val_char [simp]: "n < 64 \<Longrightarrow> b64_val (b64_char n) = Some n"
  by (auto simp: b64_char_def b64_val_def Let_def char_byte_eq simp del: of_char_eq_iff)

lemma b64_char_ne [simp]: "n < 64 \<Longrightarrow> b64_char n \<noteq> NL" "n < 64 \<Longrightarrow> b64_char n \<noteq> CRET"
  by (auto simp: b64_char_def char_byte_eq simp del: of_char_eq_iff)

lemma b64_val_pad [simp]: "b64_val (CHR ''='') = None"
  by (simp add: b64_val_def)

lemma byte_less: "byte c < 256"
  using range_nat_of_char by (metis atLeastLessThan_iff rangeI)

lemma six_bits:
  "byte a div 4 < 64" "byte a mod 4 * 16 + byte b div 16 < 64"
  "byte b mod 16 * 4 + byte c div 64 < 64" "byte c mod 64 < 64"
  "byte a mod 4 * 16 < 64" "byte b mod 16 * 4 < 64"
proof -
  have "byte b div 16 < 16" "byte c div 64 < 4" "byte a mod 4 < 4" "byte b mod 16 < 16" "byte a div 4 < 64"
    using byte_less [of a] byte_less [of b] byte_less [of c] by (simp_all add: less_mult_imp_div_less)
  then show "byte a div 4 < 64" "byte a mod 4 * 16 + byte b div 16 < 64"
    "byte b mod 16 * 4 + byte c div 64 < 64" "byte c mod 64 < 64"
    "byte a mod 4 * 16 < 64" "byte b mod 16 * 4 < 64" by simp_all
qed

lemma quad_bytes:
  "b64_quad (byte a div 4) (byte a mod 4 * 16 + byte b div 16) (byte b mod 16 * 4 + byte c div 64) (byte c mod 64)
     = [a, b, c]"
proof -
  have b: "byte b div 16 < 16" and c: "byte c div 64 < 4"
    using byte_less [of b] byte_less [of c] by (simp_all add: less_mult_imp_div_less)
  have "(byte a mod 4 * 16 + byte b div 16) div 16 = byte a mod 4"
    "(byte a mod 4 * 16 + byte b div 16) mod 16 = byte b div 16"
    "(byte b mod 16 * 4 + byte c div 64) div 4 = byte b mod 16"
    "(byte b mod 16 * 4 + byte c div 64) mod 4 = byte c div 64" using b c by simp_all
  then show ?thesis by (simp add: b64_quad_def)
qed

lemma decode_groups_encode: "b64_decode_groups (b64_encode s) = Some s"
proof (induction s rule: b64_encode.induct)
  case (2 a)
  then show ?case
    using quad_bytes [of a "CHR 0x00" "CHR 0x00"] six_bits by (simp add: b64_quad_def)
next
  case (3 a b)
  then show ?case
    using quad_bytes [of a b "CHR 0x00"] six_bits by (simp add: b64_quad_def)
next
  case (4 a b c s)
  then show ?case
    using quad_bytes [of a b c] six_bits by simp
qed simp

lemma b64_encode_Nil [simp]: "b64_encode s = [] \<longleftrightarrow> s = []"
  by (cases s rule: b64_encode.cases) auto

lemma encode_chars: "c \<in> set (b64_encode s) \<Longrightarrow> c \<noteq> NL \<and> c \<noteq> CRET"
  by (induction s rule: b64_encode.induct) (auto simp: six_bits dest: b64_char_ne)

lemma b64_decode_encode: "b64_decode (b64_encode s) = Some s"
proof -
  have "filter (\<lambda>c. c \<noteq> CRET \<and> c \<noteq> NL) (b64_encode s) = b64_encode s"
    using encode_chars by (auto intro: filter_True)
  then show ?thesis by (simp add: b64_decode_def decode_groups_encode)
qed

interpretation b64: byte_codec b64_encode b64_decode
  by unfold_locales (use b64_decode_encode encode_chars in auto)

end
