(* ===== verification/GoJson.thy ===== *)
theory GoJson
  imports GoStrings "HOL-Library.Char_ord" "HOL-Library.List_Lexorder"
begin

text \<open>
  JSON values as \<open>encoding/json\<close> decodes them into \<open>interface{}\<close>, and its encoder. An integral
  number (of magnitude below 10^21, which Go prints as plain digits) is \<open>JNum\<close>; any other
  number is \<open>JDec\<close> with the shortest text Go prints for it. An object is an association list:
  the encoder sorts a map by key, as Go does. Strings are valid UTF-8.
\<close>

subsection \<open>Values\<close>

datatype json = JNull | JBool bool | JNum int | JDec string | JStr string
  | JArr "json list" | JObj "(string \<times> json) list"

type_synonym fields_map = "(string \<times> json) list"

text \<open>The comma-ok type assertions of the source.\<close>

definition get_str :: "fields_map \<Rightarrow> string \<Rightarrow> string option" where
  "get_str m k = (case map_of m k of Some (JStr s) \<Rightarrow> Some s | _ \<Rightarrow> None)"

definition get_bool :: "fields_map \<Rightarrow> string \<Rightarrow> bool option" where
  "get_bool m k = (case map_of m k of Some (JBool b) \<Rightarrow> Some b | _ \<Rightarrow> None)"

definition get_obj :: "fields_map \<Rightarrow> string \<Rightarrow> fields_map option" where
  "get_obj m k = (case map_of m k of Some (JObj o') \<Rightarrow> Some o' | _ \<Rightarrow> None)"

definition get_arr :: "fields_map \<Rightarrow> string \<Rightarrow> json list option" where
  "get_arr m k = (case map_of m k of Some (JArr a) \<Rightarrow> Some a | _ \<Rightarrow> None)"

subsection \<open>Encoding\<close>

text \<open>
  With \<open>SetEscapeHTML(false)\<close> the characters below 0x20, the quote and the backslash are
  escaped, and so are U+2028 and U+2029 (three bytes each); otherwise also \<open>< > &\<close>.
\<close>

definition json_char :: "bool \<Rightarrow> char \<Rightarrow> string" where
  "json_char html c =
     (if c = DQ then [BSL, DQ]
      else if c = BSL then [BSL, BSL]
      else if c = CHR 0x08 then BSL # ''b''
      else if c = CHR 0x0C then BSL # ''f''
      else if c = NL then BSL # ''n''
      else if c = CRET then BSL # ''r''
      else if c = TAB then BSL # ''t''
      else if (of_char c :: nat) < 32 \<or> (html \<and> c \<in> {CHR ''<'', CHR ''>'', CHR ''&''})
        then BSL # ''u00'' @ [hex_digit (of_char c div 16), hex_digit (of_char c mod 16)]
      else [c])"

fun json_esc :: "bool \<Rightarrow> string \<Rightarrow> string" where
  "json_esc html [] = []"
| "json_esc html (c # s) =
     (if c = CHR 0xE2 \<and> take 2 s = [CHR 0x80, CHR 0xA8] then BSL # ''u2028'' @ json_esc html (drop 2 s)
      else if c = CHR 0xE2 \<and> take 2 s = [CHR 0x80, CHR 0xA9] then BSL # ''u2029'' @ json_esc html (drop 2 s)
      else json_char html c @ json_esc html s)"

definition json_str :: "bool \<Rightarrow> string \<Rightarrow> string" where
  "json_str html s = DQ # json_esc html s @ [DQ]"

text \<open>Members and elements, comma separated; the closing bracket comes with the last one.\<close>

fun json_elems :: "string list \<Rightarrow> string" where
  "json_elems [] = '']''"
| "json_elems [v] = v @ '']''"
| "json_elems (v # w # vs) = v @ CHR '','' # json_elems (w # vs)"

fun json_members :: "bool \<Rightarrow> (string \<times> string) list \<Rightarrow> string" where
  "json_members html [] = ''}''"
| "json_members html [(k, v)] = json_str html k @ CHR '':'' # v @ ''}''"
| "json_members html ((k, v) # m # ms) =
     json_str html k @ CHR '':'' # v @ CHR '','' # json_members html (m # ms)"

fun json_enc :: "bool \<Rightarrow> json \<Rightarrow> string" where
  "json_enc html JNull = ''null''"
| "json_enc html (JBool b) = (if b then ''true'' else ''false'')"
| "json_enc html (JNum n) = itoa n"
| "json_enc html (JDec t) = t"
| "json_enc html (JStr s) = json_str html s"
| "json_enc html (JArr vs) = CHR ''['' # json_elems (map (json_enc html) vs)"
| "json_enc html (JObj ms) =
     CHR ''{'' # json_members html (sort_key fst (map (\<lambda>(k, v). (k, json_enc html v)) ms))"

text \<open>\<open>json.Marshal\<close> escapes HTML; the canonical encoder of the signatures does not.\<close>

definition json_marshal :: "json \<Rightarrow> string" where "json_marshal = json_enc True"

subsection \<open>Structs\<close>

text \<open>
  Decoding into Go structs: an absent field or \<open>null\<close> is the zero value, a value of another
  type is an error. Field names match without regard to ASCII case, the last in key order
  counts.
\<close>

definition struct_field :: "fields_map \<Rightarrow> string \<Rightarrow> json" where
  "struct_field m k =
     (case rev (filter (\<lambda>(k', v). to_lower k' = k) (sort_key fst m)) of
        [] \<Rightarrow> JNull | (k', v) # _ \<Rightarrow> v)"

definition dec_str :: "json \<Rightarrow> string option" where
  "dec_str v = (case v of JNull \<Rightarrow> Some [] | JStr s \<Rightarrow> Some s | _ \<Rightarrow> None)"

definition dec_bool :: "json \<Rightarrow> bool option" where
  "dec_bool v = (case v of JNull \<Rightarrow> Some False | JBool b \<Rightarrow> Some b | _ \<Rightarrow> None)"

definition dec_int :: "json \<Rightarrow> int option" where
  "dec_int v = (case v of JNull \<Rightarrow> Some 0
     | JNum n \<Rightarrow> if - (2 ^ 63) \<le> n \<and> n < 2 ^ 63 then Some n else None | _ \<Rightarrow> None)"

definition dec_list :: "(json \<Rightarrow> 'a option) \<Rightarrow> json \<Rightarrow> 'a list option" where
  "dec_list f v = (case v of JNull \<Rightarrow> Some [] | JArr vs \<Rightarrow> those (map f vs) | _ \<Rightarrow> None)"

definition dec_struct :: "(fields_map \<Rightarrow> 'a option) \<Rightarrow> json \<Rightarrow> 'a option" where
  "dec_struct f v = (case v of JNull \<Rightarrow> f [] | JObj m \<Rightarrow> f m | _ \<Rightarrow> None)"

definition dec_opt_int :: "json \<Rightarrow> int option option" where
  "dec_opt_int v = (case v of JNull \<Rightarrow> Some None | _ \<Rightarrow> map_option Some (dec_int v))"

text \<open>A Go struct is encoded with its fields in declaration order, each value encoded before.\<close>

definition json_struct :: "(string \<times> string) list \<Rightarrow> string" where
  "json_struct ms = CHR ''{'' # json_members True ms"

lemma filter_key_map_of:
  "distinct (map fst m) \<Longrightarrow> filter (\<lambda>(k', v). k' = k) m = (case map_of m k of Some v \<Rightarrow> [(k, v)] | None \<Rightarrow> [])"
  by (induction m) (auto split: option.splits intro: rev_image_eqI)

text \<open>On lower-case, distinct keys a struct field is looked up like a map entry.\<close>

lemma struct_field_map_of:
  assumes "distinct (map fst m)" "\<forall>p\<in>set m. to_lower (fst p) = fst p"
  shows "struct_field m k = (case map_of m k of Some v \<Rightarrow> v | None \<Rightarrow> JNull)"
proof -
  have "filter (\<lambda>(k', v). to_lower k' = k) (sort_key fst m) = filter (\<lambda>(k', v). k' = k) (sort_key fst m)"
    using assms(2) by (intro filter_cong) auto
  then show ?thesis
    using assms(1) by (simp add: struct_field_def filter_sort filter_key_map_of split: option.splits)
qed

subsection \<open>The encoder loses nothing\<close>

text \<open>
  A normalised value has its object keys sorted and distinct (a Go map has no order and no
  duplicates), and the text of a \<open>JDec\<close> is a number that is not a plain integer.
\<close>

definition num_char :: "char \<Rightarrow> bool" where
  "num_char c = (is_digit c \<or> c \<in> set ''-+.eE'')"

definition dec_text :: "string \<Rightarrow> bool" where
  "dec_text t = (t \<noteq> [] \<and> (is_digit (hd t) \<or> hd t = CHR ''-'') \<and> list_all num_char t \<and>
     \<not> list_all (\<lambda>c. is_digit c \<or> c = CHR ''-'') t)"

fun json_norm :: "json \<Rightarrow> bool" where
  "json_norm (JDec t) = dec_text t"
| "json_norm (JArr vs) = list_all json_norm vs"
| "json_norm (JObj ms) = (sorted (map fst ms) \<and> distinct (map fst ms) \<and> list_all (\<lambda>(k, v). json_norm v) ms)"
| "json_norm _ = True"

text \<open>What may follow a value in a document.\<close>

definition json_delim :: "string \<Rightarrow> bool" where
  "json_delim s = (s = [] \<or> \<not> num_char (hd s))"

text \<open>Reading an escaped string back, up to the closing quote.\<close>

definition hex_val :: "char \<Rightarrow> nat" where
  "hex_val c = (if is_digit c then of_char c - 48 else of_char c - 87)"

definition simple_escape :: "char \<Rightarrow> char" where
  "simple_escape d =
     (if d = CHR ''b'' then CHR 0x08 else if d = CHR ''f'' then CHR 0x0C else if d = CHR ''n'' then NL
      else if d = CHR ''r'' then CRET else if d = CHR ''t'' then TAB else d)"

definition unicode_escape :: "string \<Rightarrow> string" where
  "unicode_escape h =
     (if h = ''2028'' then [CHR 0xE2, CHR 0x80, CHR 0xA8]
      else if h = ''2029'' then [CHR 0xE2, CHR 0x80, CHR 0xA9]
      else [char_of (hex_val (h ! 2) * 16 + hex_val (h ! 3))])"

fun json_unesc :: "string \<Rightarrow> (string \<times> string) option" where
  "json_unesc [] = None"
| "json_unesc (c # s) =
     (if c = DQ then Some ([], s)
      else if c = BSL then
        (case s of [] \<Rightarrow> None
         | d # s2 \<Rightarrow>
            if d = CHR ''u''
            then map_option (\<lambda>(r, t). (unicode_escape (take 4 s2) @ r, t)) (json_unesc (drop 4 s2))
            else map_option (\<lambda>(r, t). (simple_escape d # r, t)) (json_unesc s2))
      else map_option (\<lambda>(r, t). (c # r, t)) (json_unesc s))"

lemma hex_val_digit: "d < 16 \<Longrightarrow> hex_val (hex_digit d) = d"
  by (auto simp: hex_val_def hex_digit_def is_digit_def)

lemma unesc_char:
  "json_unesc (json_char html c @ r) = map_option (\<lambda>(x, t). (c # x, t)) (json_unesc r)"
proof -
  have "(of_char c :: nat) < 256" using range_nat_of_char by (metis atLeastLessThan_iff rangeI)
  then have "(of_char c :: nat) div 16 < 16" "(of_char c :: nat) mod 16 < 16"
    by (simp_all add: less_mult_imp_div_less)
  then have "unicode_escape (''00'' @ [hex_digit (of_char c div 16), hex_digit (of_char c mod 16)]) = [c]"
    by (simp add: unicode_escape_def hex_val_digit)
  then have hex: "json_unesc (BSL # ''u00'' @ [hex_digit (of_char c div 16), hex_digit (of_char c mod 16)] @ r) =
      map_option (\<lambda>(x, t). (c # x, t)) (json_unesc r)"
    by simp
  have "c \<notin> {DQ, BSL, CHR 0x08, CHR 0x0C, NL, CRET, TAB} \<Longrightarrow>
      json_char html c \<in> {BSL # ''u00'' @ [hex_digit (of_char c div 16), hex_digit (of_char c mod 16)], [c]}"
    by (simp add: json_char_def)
  then consider "c \<in> {DQ, BSL, CHR 0x08, CHR 0x0C, NL, CRET, TAB}"
    | "json_char html c = BSL # ''u00'' @ [hex_digit (of_char c div 16), hex_digit (of_char c mod 16)]"
    | "json_char html c = [c]" "c \<noteq> DQ" "c \<noteq> BSL"
    by blast
  then show ?thesis
  proof cases
    case 1
    then show ?thesis by (auto simp: json_char_def simple_escape_def)
  next
    case 2
    then show ?thesis using hex by simp
  next
    case 3
    then show ?thesis by simp
  qed
qed

lemma unesc_esc: "json_unesc (json_esc html s @ DQ # t) = Some (s, t)"
proof (induction html s rule: json_esc.induct)
  case (1 html)
  then show ?case by simp
next
  case (2 html c s)
  show ?case
  proof (cases "c = CHR 0xE2 \<and> (take 2 s = [CHR 0x80, CHR 0xA8] \<or> take 2 s = [CHR 0x80, CHR 0xA9])")
    case True
    have "s = take 2 s @ drop 2 s" by simp
    with True consider r where "c = CHR 0xE2" "s = CHR 0x80 # CHR 0xA8 # r"
      | r where "c = CHR 0xE2" "s = CHR 0x80 # CHR 0xA9 # r"
      by (metis append_Cons append_Nil)
    then show ?thesis
      by cases (use 2 in \<open>auto simp: unicode_escape_def\<close>)
  next
    case False
    then have "json_esc html (c # s) = json_char html c @ json_esc html s" by auto
    then show ?thesis using 2(3) False by (simp add: unesc_char del: json_esc.simps)
  qed
qed

lemma json_str_inj:
  assumes "json_str html s @ t = json_str html s' @ t'"
  shows "s = s' \<and> t = t'"
proof -
  have "json_esc html s @ DQ # t = json_esc html s' @ DQ # t'"
    using assms by (simp add: json_str_def)
  then have "Some (s, t) = Some (s', t')" by (metis unesc_esc)
  then show ?thesis by simp
qed

lemma itoa_chars: "list_all (\<lambda>c. is_digit c \<or> c = CHR ''-'') (itoa n)" "itoa n \<noteq> []"
  using show_nat_digits [of "nat n"] show_nat_digits [of "nat (- n)"]
  by (auto simp: itoa_def list_all_iff)

lemma num_run:
  assumes "list_all num_char a" "list_all num_char b" "json_delim s" "json_delim t" "a @ s = b @ t"
  shows "a = b \<and> s = t"
proof -
  have "takeWhile num_char s = []" "takeWhile num_char t = []"
    using assms(3,4) by (cases s; cases t; auto simp: json_delim_def)+
  then have "takeWhile num_char (a @ s) = a" "takeWhile num_char (b @ t) = b"
    using assms(1,2) by (simp_all add: list_all_iff takeWhile_append2)
  with assms(5) show ?thesis by auto
qed



lemma enc_start:
  assumes "json_norm v"
  shows "\<exists>c r. json_enc html v = c # r \<and> c \<noteq> CHR '']'' \<and> (c = CHR ''n'' \<longleftrightarrow> v = JNull) \<and>
    (c = CHR ''t'' \<longleftrightarrow> v = JBool True) \<and> (c = CHR ''f'' \<longleftrightarrow> v = JBool False) \<and>
    (c = DQ \<longleftrightarrow> (\<exists>x. v = JStr x)) \<and> (c = CHR ''['' \<longleftrightarrow> (\<exists>x. v = JArr x)) \<and>
    (c = CHR ''{'' \<longleftrightarrow> (\<exists>x. v = JObj x))"
proof (cases v)
  case (JNum n)
  obtain c r where "itoa n = c # r" "is_digit c \<or> c = CHR ''-''"
    using itoa_chars [of n] by (cases "itoa n") auto
  then show ?thesis using JNum by (auto simp: is_digit_def)
next
  case (JDec t)
  then obtain c r where "t = c # r" "is_digit c \<or> c = CHR ''-''"
    using assms by (cases t) (auto simp: dec_text_def)
  then show ?thesis using JDec by (auto simp: is_digit_def)
qed (auto simp: json_str_def)

lemma enc_start_brackets:
  assumes "json_norm w"
  shows "json_enc html w @ t = CHR ''['' # x \<Longrightarrow> \<exists>ws. w = JArr ws"
    and "json_enc html w @ t = CHR ''{'' # x \<Longrightarrow> \<exists>ms. w = JObj ms"
    and "json_enc html w @ t = DQ # x \<Longrightarrow> \<exists>y. w = JStr y"
    and "json_enc html w @ t = CHR ''n'' # x \<Longrightarrow> w = JNull"
    and "json_enc html w @ t = CHR ''t'' # x \<Longrightarrow> w = JBool True"
    and "json_enc html w @ t = CHR ''f'' # x \<Longrightarrow> w = JBool False"
proof -
  obtain c r where c: "json_enc html w = c # r" "(c = CHR ''n'') = (w = JNull)"
    "(c = CHR ''t'') = (w = JBool True)" "(c = CHR ''f'') = (w = JBool False)"
    "(c = DQ) = (\<exists>x. w = JStr x)" "(c = CHR ''['') = (\<exists>x. w = JArr x)"
    "(c = CHR ''{'') = (\<exists>x. w = JObj x)"
    using enc_start [OF assms, of html] by (elim exE conjE) rule
  show "json_enc html w @ t = CHR ''['' # x \<Longrightarrow> \<exists>ws. w = JArr ws"
    and "json_enc html w @ t = CHR ''{'' # x \<Longrightarrow> \<exists>ms. w = JObj ms"
    and "json_enc html w @ t = DQ # x \<Longrightarrow> \<exists>y. w = JStr y"
    and "json_enc html w @ t = CHR ''n'' # x \<Longrightarrow> w = JNull"
    and "json_enc html w @ t = CHR ''t'' # x \<Longrightarrow> w = JBool True"
    and "json_enc html w @ t = CHR ''f'' # x \<Longrightarrow> w = JBool False"
    using c by (simp_all only: append_Cons list.inject)
qed

lemma enc_start_elem: "json_norm v \<Longrightarrow> \<exists>c r. json_enc html v = c # r \<and> c \<noteq> CHR '']''"
  by (drule enc_start [of _ html], elim exE conjE, intro exI conjI)

lemma elems_Cons:
  "json_elems (x # xs) @ s = x @ (if xs = [] then CHR '']'' # s else CHR '','' # json_elems xs @ s)"
  by (cases xs) auto

lemma members_Cons:
  "json_members html ((k, x) # xs) @ s = json_str html k @ CHR '':'' # x @
     (if xs = [] then CHR ''}'' # s else CHR '','' # json_members html xs @ s)"
  by (cases xs) auto

lemma delim_punct [simp]:
  "json_delim (CHR '']'' # s)" "json_delim (CHR '','' # s)" "json_delim (CHR ''}'' # s)"
  by (auto simp: json_delim_def num_char_def is_digit_def)

definition enc_unique :: "bool \<Rightarrow> json \<Rightarrow> bool" where
  "enc_unique html v = (\<forall>w s t. json_norm v \<and> json_norm w \<and> json_delim s \<and> json_delim t \<and>
      json_enc html v @ s = json_enc html w @ t \<longrightarrow> v = w \<and> s = t)"

lemma enc_uniqueD:
  "\<lbrakk>enc_unique html v; json_norm v; json_norm w; json_delim s; json_delim t;
    json_enc html v @ s = json_enc html w @ t\<rbrakk> \<Longrightarrow> v = w \<and> s = t"
  by (simp add: enc_unique_def)

lemma elems_inj:
  assumes "\<forall>v\<in>set vs. enc_unique html v" "list_all json_norm vs" "list_all json_norm ws"
    and "json_elems (map (json_enc html) vs) @ s = json_elems (map (json_enc html) ws) @ t"
  shows "vs = ws \<and> s = t"
  using assms
proof (induction vs arbitrary: ws)
  case Nil
  show ?case
  proof (cases ws)
    case (Cons w ws')
    then obtain c r where "json_enc html w = c # r" "c \<noteq> CHR '']''"
      using Nil.prems(3) enc_start_elem [of w html] by auto
    then show ?thesis using Nil.prems(4) Cons by (simp add: elems_Cons)
  qed (use Nil in simp)
next
  case (Cons v vs)
  have "ws \<noteq> []"
  proof
    assume n: "ws = []"
    obtain c r where "json_enc html v = c # r" "c \<noteq> CHR '']''"
      using Cons.prems(2) enc_start_elem [of v html] by auto
    then show False using Cons.prems(4) n by (simp add: elems_Cons)
  qed
  then obtain w ws' where ws: "ws = w # ws'" by (cases ws) auto
  define D where "D = (\<lambda>us r. if us = [] then CHR '']'' # r else CHR '','' # json_elems (map (json_enc html) us) @ r)"
  have "json_enc html v @ D vs s = json_enc html w @ D ws' t"
    using Cons.prems(4) ws by (simp add: elems_Cons D_def)
  from this have e: "json_enc html v @ D vs s = json_enc html w @ D ws' t" .
  have d: "json_delim (D vs s)" "json_delim (D ws' t)" by (simp_all add: D_def)
  have "enc_unique html v" "json_norm v" "json_norm w" using Cons.prems(1-3) ws by auto
  from enc_uniqueD [OF this d e] have v: "v = w" and D: "D vs s = D ws' t" by blast+
  have "vs = [] \<longleftrightarrow> ws' = []" using D by (auto simp: D_def split: if_splits)
  then show ?case
    using Cons.IH [of ws'] Cons.prems ws v D by (cases "vs = []") (simp_all add: D_def)
qed

lemma members_inj:
  assumes "\<forall>m\<in>set ms. enc_unique html (snd m)"
    and "list_all (\<lambda>(k, v). json_norm v) ms" "list_all (\<lambda>(k, v). json_norm v) ns"
    and "json_members html (map (\<lambda>(k, v). (k, json_enc html v)) ms) @ s =
         json_members html (map (\<lambda>(k, v). (k, json_enc html v)) ns) @ t"
  shows "ms = ns \<and> s = t"
  using assms
proof (induction ms arbitrary: ns)
  case Nil
  then show ?case by (cases ns) (auto simp: members_Cons json_str_def)
next
  case (Cons m ms)
  obtain k v where m: "m = (k, v)" by (cases m)
  obtain l w ns' where ns: "ns = (l, w) # ns'"
    using Cons.prems m by (cases ns) (auto simp: members_Cons json_str_def)
  define D where "D = (\<lambda>us r. if us = [] then CHR ''}'' # r
    else CHR '','' # json_members html (map (\<lambda>(k, v). (k, json_enc html v)) us) @ r)"
  have "json_str html k @ CHR '':'' # json_enc html v @ D ms s =
      json_str html l @ CHR '':'' # json_enc html w @ D ns' t"
    using Cons.prems(4) m ns by (simp add: members_Cons D_def)
  from json_str_inj [OF this] have k: "k = l" "json_enc html v @ D ms s = json_enc html w @ D ns' t"
    by auto
  have d: "json_delim (D ms s)" "json_delim (D ns' t)" by (simp_all add: D_def)
  have "enc_unique html v" "json_norm v" "json_norm w" using Cons.prems(1-3) m ns by auto
  from enc_uniqueD [OF this d k(2)] have v: "v = w" and D: "D ms s = D ns' t" by blast+
  have "ms = [] \<longleftrightarrow> ns' = []" using D by (auto simp: D_def split: if_splits)
  then show ?case
    using Cons.IH [of ns'] Cons.prems m ns k v D by (cases "ms = []") (simp_all add: D_def)
qed

lemma sort_members:
  "sorted (map fst ms) \<Longrightarrow>
   sort_key fst (map (\<lambda>(k, v). (k, json_enc html v)) ms) = map (\<lambda>(k, v). (k, json_enc html v)) ms"
proof (rule sort_key_id_if_sorted)
  have "map fst (map (\<lambda>(k, v). (k, json_enc html v)) ms) = map fst ms" by (induction ms) auto
  then show "sorted (map fst ms) \<Longrightarrow> sorted (map fst (map (\<lambda>(k, v). (k, json_enc html v)) ms))"
    by (simp only:)
qed


lemma enc_unique_num:
  assumes "json_norm v" "json_norm w" "json_delim s" "json_delim t"
    and "json_enc html v @ s = json_enc html w @ t" "(\<exists>n. v = JNum n) \<or> (\<exists>x. v = JDec x)"
  shows "v = w \<and> s = t"
proof -
  have num: "list_all num_char (json_enc html u) \<and> json_enc html u \<noteq> []"
    if "json_norm u" "(\<exists>n. u = JNum n) \<or> (\<exists>x. u = JDec x)" for u
    using that(2)
  proof (elim disjE exE)
    fix n
    assume "u = JNum n"
    then show ?thesis using itoa_chars [of n] by (auto simp: num_char_def elim: list.pred_mono_strong)
  qed (use that(1) in \<open>auto simp: dec_text_def\<close>)
  obtain c r where v: "json_enc html v = c # r" "num_char c"
    using num [OF assms(1,6)] by (cases "json_enc html v") auto
  have w: "(\<exists>n. w = JNum n) \<or> (\<exists>x. w = JDec x)"
    using assms(5) v by (cases w) (auto simp: num_char_def is_digit_def json_str_def split: if_splits)
  have "json_enc html v = json_enc html w" "s = t"
    using num_run [of "json_enc html v" "json_enc html w" s t] num [OF assms(1,6)] num [OF assms(2) w] assms(3-5)
    by blast+
  moreover have "\<not> dec_text (itoa n)" for n
    using itoa_chars(1) [of n] by (auto simp: dec_text_def list_all_iff)
  ultimately show ?thesis
    using assms(1,2,6) w itoa_inj by auto
qed

lemma enc_unique_all: "enc_unique html v"
proof (induction v rule: json_norm.induct [case_names Dec Arr Obj Null Bool Num Str])
  case (Dec t)
  show ?case unfolding enc_unique_def using enc_unique_num by blast
next
  case (Arr vs)
  have "JArr vs = w \<and> s = t"
    if n: "json_norm (JArr vs)" "json_norm w" and e: "json_enc html (JArr vs) @ s = json_enc html w @ t" for w s t
  proof -
    obtain ws where w: "w = JArr ws"
      using enc_start_brackets(1) [OF n(2) e [symmetric, unfolded json_enc.simps append_Cons]] by blast
    then show ?thesis using elems_inj [of vs html ws s t] Arr n e by simp
  qed
  then show ?case unfolding enc_unique_def by blast
next
  case (Obj ms)
  have "JObj ms = w \<and> s = t"
    if n: "json_norm (JObj ms)" "json_norm w" and e: "json_enc html (JObj ms) @ s = json_enc html w @ t" for w s t
  proof -
    obtain ns where w: "w = JObj ns"
      using enc_start_brackets(2) [OF n(2) e [symmetric, unfolded json_enc.simps append_Cons]] by blast
    have "\<forall>m\<in>set ms. enc_unique html (snd m)" using Obj by auto
    then show ?thesis using members_inj [of ms html ns s t] n e w by (simp add: sort_members)
  qed
  then show ?case unfolding enc_unique_def by blast
next
  case Null
  have "JNull = w \<and> s = t" if "json_norm w" "json_enc html JNull @ s = json_enc html w @ t" for w s t
    using enc_start_brackets(4) [OF that(1) that(2) [symmetric, unfolded json_enc.simps append_Cons]] that(2)
    by simp
  then show ?case unfolding enc_unique_def by blast
next
  case (Bool b)
  have "JBool b = w \<and> s = t" if n: "json_norm w" and e: "json_enc html (JBool b) @ s = json_enc html w @ t" for w s t
  proof (cases b)
    case True
    then show ?thesis using enc_start_brackets(5) [OF n, of html t "''rue'' @ s"] e by simp
  next
    case False
    then show ?thesis using enc_start_brackets(6) [OF n, of html t "''alse'' @ s"] e by simp
  qed
  then show ?case unfolding enc_unique_def by blast
next
  case (Num n)
  show ?case unfolding enc_unique_def using enc_unique_num by blast
next
  case (Str x)
  have "JStr x = w \<and> s = t"
    if n: "json_norm w" and e: "json_enc html (JStr x) @ s = json_enc html w @ t" for w s t
  proof -
    obtain y where w: "w = JStr y"
      using enc_start_brackets(3) [OF n e [symmetric, unfolded json_enc.simps json_str_def append_Cons]] by blast
    then show ?thesis using json_str_inj [of html x s y t] e by simp
  qed
  then show ?case unfolding enc_unique_def by blast
qed

text \<open>Two normalised values with the same text are the same value.\<close>

lemma json_enc_inj: "json_norm v \<Longrightarrow> json_norm w \<Longrightarrow> json_enc html v = json_enc html w \<Longrightarrow> v = w"
  using enc_uniqueD [OF enc_unique_all, of v w "[]" "[]" html] by (simp add: json_delim_def)

end
