(* ===== verification/Signature.thy ===== *)
theory Signature
  imports Config GoBase64 GoJson "HOL-Library.AList"
begin

text \<open>
  \<open>websocket.go\<close>, the signature envelope of the commands: \<open>canonicalize\<close> and
  \<open>verifySignature\<close>. The Ed25519 verification itself is library code: it is the argument
  \<open>ed key message signature\<close>.
\<close>

subsection \<open>Messages\<close>

record ws_message =
  ws_type :: string
  ws_payload :: fields_map

text \<open>A Go map as an association list with distinct keys; \<open>json_put\<close> is \<open>m[k] = v\<close>.\<close>

definition json_put :: "string \<Rightarrow> json \<Rightarrow> fields_map \<Rightarrow> fields_map" where
  "json_put k v m = AList.update k v m"

definition canonicalize :: "fields_map \<Rightarrow> string" where
  "canonicalize payload = trim_right_when (\<lambda>c. c = NL) (json_enc False (JObj payload) @ [NL])"

text \<open>The object the signature covers: the type first, then the payload over it.\<close>

definition signed_fields :: "ws_message \<Rightarrow> fields_map" where
  "signed_fields msg =
     fold (\<lambda>(k, v) m. json_put k v m)
       (filter (\<lambda>(k, v). k \<noteq> ''signature'') (ws_payload msg))
       (json_put ''type'' (JStr (ws_type msg)) [])"

definition verify_signature :: "(string \<Rightarrow> string \<Rightarrow> string \<Rightarrow> bool) \<Rightarrow> config \<Rightarrow> ws_message \<Rightarrow> bool" where
  "verify_signature ed cfg msg =
     (if public_key cfg = [] then False
      else (case get_str (ws_payload msg) ''signature'' of
          None \<Rightarrow> False
        | Some s64 \<Rightarrow>
            (case b64_decode s64 of
               None \<Rightarrow> False
             | Some sig \<Rightarrow>
                 (let canonical = canonicalize (signed_fields msg) in
                  case b64_decode (public_key cfg) of
                    None \<Rightarrow> False
                  | Some pub \<Rightarrow> if length pub \<noteq> 32 then False else ed pub canonical sig))))"

subsection \<open>Laws\<close>

definition plain_payload :: "fields_map \<Rightarrow> bool" where
  "plain_payload p = (distinct (map fst p) \<and> list_all (\<lambda>(k, v). json_norm v) p)"

lemma fold_put_map:
  "distinct (map fst ps) \<Longrightarrow>
   map_of (fold (\<lambda>(k, v) m. json_put k v m) ps m) = map_of m ++ map_of ps"
proof (induction ps arbitrary: m)
  case (Cons p ps)
  obtain k v where p: "p = (k, v)" by (cases p)
  have "(map_of m)(k \<mapsto> v) ++ map_of ps = map_of m ++ (map_of ps)(k \<mapsto> v)"
    using Cons.prems p
    by (auto simp: map_add_def fun_eq_iff split: option.splits) (metis fst_conv image_eqI map_of_SomeD)
  moreover have "map_of (fold (\<lambda>(k, v) m. json_put k v m) (p # ps) m) = map_of (json_put k v m) ++ map_of ps"
    using Cons p by simp
  moreover have "map_of (json_put k v m) = (map_of m)(k \<mapsto> v)"
    by (simp only: json_put_def update_conv')
  moreover have "map_of (p # ps) = (map_of ps)(k \<mapsto> v)" using p by simp
  ultimately show ?case by (simp only:)
qed simp

lemma fold_put_distinct:
  "distinct (map fst m) \<Longrightarrow> distinct (map fst (fold (\<lambda>(k, v) m. json_put k v m) ps m))"
  by (induction ps arbitrary: m) (auto simp: json_put_def distinct_update)

lemma fold_put_values:
  "list_all (\<lambda>(k, v). P v) m \<Longrightarrow> list_all (\<lambda>(k, v). P v) ps \<Longrightarrow>
   list_all (\<lambda>(k, v). P v) (fold (\<lambda>(k, v) m. json_put k v m) ps m)"
proof (induction ps arbitrary: m)
  case (Cons p ps)
  obtain k v where p: "p = (k, v)" by (cases p)
  have "list_all (\<lambda>(k, v). P v) (AList.update k w m)" if "P w" "list_all (\<lambda>(k, v). P v) m" for w
    using that by (induction m) auto
  then show ?case using Cons p by (simp add: json_put_def)
qed simp

lemma insort_key_map:
  "(\<And>x. f' (g x) = f x) \<Longrightarrow> map g (insort_key f x xs) = insort_key f' (g x) (map g xs)"
  by (induction xs) auto

lemma sort_key_map_key:
  "(\<And>x. f' (g x) = f x) \<Longrightarrow> sort_key f' (map g xs) = map g (sort_key f xs)"
proof (induction xs)
  case (Cons x xs)
  then show ?case using insort_key_map [of f' g f x "sort_key f xs"] by simp
qed simp

lemma json_obj_sorted: "json_enc html (JObj (sort_key fst ms)) = json_enc html (JObj ms)"
proof -
  have m: "sort_key fst (map (\<lambda>(k, v). (k, json_enc html v)) xs) =
      map (\<lambda>(k, v). (k, json_enc html v)) (sort_key fst xs)" for xs
    by (rule sort_key_map_key) auto
  show ?thesis by (simp add: m sort_key_id_if_sorted)
qed

lemma canonicalize_enc: "canonicalize p = json_enc False (JObj p)"
proof -
  have "\<exists>y. json_members False xs = y @ ''}''" for xs
    by (induction "False" xs rule: json_members.induct) auto
  then obtain y where "json_enc False (JObj p) = y @ ''}''"
    by (metis append_Cons json_enc.simps(7))
  then show ?thesis
    by (simp add: canonicalize_def trim_right_when_def)
qed

lemma signed_fields_norm:
  assumes "plain_payload (ws_payload msg)"
  shows "distinct (map fst (signed_fields msg)) \<and> list_all (\<lambda>(k, v). json_norm v) (signed_fields msg)"
proof -
  have "list_all (\<lambda>(k, v). json_norm v) (filter (\<lambda>(k, v). k \<noteq> ''signature'') (ws_payload msg))"
    using assms by (auto simp: plain_payload_def list_all_iff)
  then show ?thesis
    unfolding signed_fields_def
    by (auto intro!: fold_put_distinct fold_put_values simp: json_put_def)
qed

lemma signed_fields_map:
  assumes "plain_payload (ws_payload msg)"
  shows "map_of (signed_fields msg) k =
    (if k = ''signature'' then None
     else case map_of (ws_payload msg) k of
        Some v \<Rightarrow> Some v
      | None \<Rightarrow> if k = ''type'' then Some (JStr (ws_type msg)) else None)"
proof -
  have d: "distinct (map fst (filter (\<lambda>(k, v). k \<noteq> ''signature'') (ws_payload msg)))"
    using assms by (auto simp: plain_payload_def distinct_map_filter)
  have "map_of (filter (\<lambda>(k, v). k \<noteq> ''signature'') xs) k = (if k = ''signature'' then None else map_of xs k)" for xs :: fields_map
    by (induction xs) auto
  then show ?thesis
    unfolding signed_fields_def
    by (subst fold_put_map [OF d]) (auto simp: json_put_def map_add_def split: option.splits)
qed

lemma map_of_sort_key:
  "distinct (map fst ms) \<Longrightarrow> map_of (sort_key fst ms) = map_of ms"
  by (rule map_of_eqI) (auto simp: distinct_map map_of_eq_Some_iff intro!: map_of_is_SomeI)

text \<open>Equal canonical bytes are equal signed objects.\<close>

lemma canonicalize_inj:
  assumes "distinct (map fst p)" "distinct (map fst q)"
    and "list_all (\<lambda>(k, v). json_norm v) p" "list_all (\<lambda>(k, v). json_norm v) q"
    and "canonicalize p = canonicalize q"
  shows "map_of p = map_of q"
proof -
  have n: "json_norm (JObj (sort_key fst r))" if "distinct (map fst r)" "list_all (\<lambda>(k, v). json_norm v) r" for r
    using that by (auto simp: list_all_iff distinct_map)
  have "JObj (sort_key fst p) = JObj (sort_key fst q)"
    by (rule json_enc_inj [OF n n, of _ _ False]) (use assms in \<open>simp_all only: json_obj_sorted canonicalize_enc\<close>)
  then have "map_of (sort_key fst p) = map_of (sort_key fst q)" by simp
  then show ?thesis using assms(1,2) by (simp add: map_of_sort_key)
qed


subsection \<open>Properties\<close>

text \<open>\<open>verifySignature\<close> fails closed. It accepts only when a 32-byte public key is configured
  and the payload carries a base64 signature that Ed25519 accepts under that key for exactly the
  canonical bytes of type and payload.\<close>

theorem verify_signature_iff:
  "verify_signature ed cfg msg \<longleftrightarrow>
     public_key cfg \<noteq> [] \<and>
     (\<exists>s64 sig pub. get_str (ws_payload msg) ''signature'' = Some s64 \<and> b64_decode s64 = Some sig \<and>
        b64_decode (public_key cfg) = Some pub \<and> length pub = 32 \<and>
        ed pub (canonicalize (signed_fields msg)) sig)"
  by (auto simp: verify_signature_def Let_def split: option.splits)

text \<open>C1: the envelope binds the command: when two messages that carry no payload field named
  \<open>type\<close> have the same canonical bytes, so that one signature fits both, they have the same type
  and the same payload (up to the signature field). This rests on the injectivity of the JSON
  encoder, string escapes, nesting and member order included.\<close>

theorem signature_binds_type_and_payload:
  assumes "plain_payload (ws_payload m1)" "plain_payload (ws_payload m2)"
    and "map_of (ws_payload m1) ''type'' = None" "map_of (ws_payload m2) ''type'' = None"
    and "canonicalize (signed_fields m1) = canonicalize (signed_fields m2)"
  shows "ws_type m1 = ws_type m2 \<and>
    (\<forall>k. k \<noteq> ''signature'' \<longrightarrow> map_of (ws_payload m1) k = map_of (ws_payload m2) k)"
proof -
  have e: "map_of (signed_fields m1) = map_of (signed_fields m2)"
    using canonicalize_inj signed_fields_norm assms(1,2,5) by blast
  have "map_of (signed_fields m1) ''type'' = Some (JStr (ws_type m1))"
    "map_of (signed_fields m2) ''type'' = Some (JStr (ws_type m2))"
    using assms by (simp_all add: signed_fields_map)
  with e have t: "ws_type m1 = ws_type m2" by simp
  have "map_of (ws_payload m1) k = map_of (ws_payload m2) k" if "k \<noteq> ''signature''" for k
    using fun_cong [OF e, of k] that assms
    by (cases "k = ''type''") (auto simp: signed_fields_map split: option.splits)
  with t show ?thesis by blast
qed

definition reboot_msg :: ws_message where
  "reboot_msg = \<lparr>ws_type = ''reboot'', ws_payload = [(''signature'', JStr ''AAAA''), (''force'', JBool True)]\<rparr>"

lemma signature_binds_type_and_payload_witness:
  "ws_type reboot_msg = ws_type (reboot_msg\<lparr>ws_payload := [(''force'', JBool True)]\<rparr>)"
  using signature_binds_type_and_payload [of reboot_msg "reboot_msg\<lparr>ws_payload := [(''force'', JBool True)]\<rparr>"]
  by (simp add: reboot_msg_def plain_payload_def signed_fields_def json_put_def)

text \<open>The binding fails for a payload with a field named \<open>type\<close>, which overwrites the bound
  type. A command \<open>T\<close> signed with payload \<open>P\<close> is accepted as a command of any other type \<open>U\<close> once
  the sender adds \<open>"type": "T"\<close> to the payload: the type-portable replay the envelope is meant to
  rule out.\<close>

theorem type_field_replays_signature:
  assumes "plain_payload p" "map_of p ''type'' = None"
    and "verify_signature ed cfg \<lparr>ws_type = t, ws_payload = p\<rparr>"
  shows "verify_signature ed cfg \<lparr>ws_type = u, ws_payload = (''type'', JStr t) # p\<rparr>"
proof -
  have pp: "plain_payload ((''type'', JStr t) # p)"
    using assms(1,2) by (auto simp: plain_payload_def map_of_eq_None_iff)
  let ?m = "\<lparr>ws_type = t, ws_payload = p\<rparr>" and ?n = "\<lparr>ws_type = u, ws_payload = (''type'', JStr t) # p\<rparr>"
  have "signed_fields ?n = signed_fields ?m"
    by (simp add: signed_fields_def json_put_def)
  moreover have "get_str ((''type'', JStr t) # p) ''signature'' = get_str p ''signature''"
    by (simp add: get_str_def)
  ultimately show ?thesis
    using assms(3) by (auto simp: verify_signature_def Let_def split: option.splits if_splits)
qed

lemma type_field_replays_signature_witness:
  "verify_signature (\<lambda>_ _ _. True) (zero_config\<lparr>public_key := b64_encode (replicate 32 (CHR ''k''))\<rparr>)
     \<lparr>ws_type = ''arbitrary_bash'', ws_payload = (''type'', JStr ''reboot'') # ws_payload reboot_msg\<rparr>"
proof (rule type_field_replays_signature)
  define K where "K = b64_encode (replicate 32 (CHR ''k''))"
  have k: "K \<noteq> []" "b64_decode K = Some (replicate 32 (CHR ''k''))"
    by (simp_all add: K_def b64.dec_enc)
  obtain s where "b64_decode ''AAAA'' = Some s"
    by (simp add: b64_decode_def b64_val_def)
  with k have "verify_signature (\<lambda>_ _ _. True) (zero_config\<lparr>public_key := K\<rparr>)
     \<lparr>ws_type = ''reboot'', ws_payload = ws_payload reboot_msg\<rparr>"
    by (simp add: verify_signature_def get_str_def reboot_msg_def Let_def)
  then show "verify_signature (\<lambda>_ _ _. True) (zero_config\<lparr>public_key := b64_encode (replicate 32 (CHR ''k''))\<rparr>)
     \<lparr>ws_type = ''reboot'', ws_payload = ws_payload reboot_msg\<rparr>"
    by (simp only: K_def)
qed (simp_all add: reboot_msg_def plain_payload_def)

end
