(* ===== verification/GoPath.thy ===== *)
theory GoPath
  imports GoOs
begin

text \<open>
  \<open>path/filepath\<close> on a POSIX host (\<open>Clean\<close>, \<open>Join\<close>, \<open>Dir\<close>), \<open>Dir\<close> on Windows, and \<open>os.CreateTemp\<close>.
\<close>

subsection \<open>Clean and Join\<close>

text \<open>The components of a path are processed from the left; \<open>..\<close> removes the last kept one.\<close>

fun clean_parts :: "bool \<Rightarrow> string list \<Rightarrow> string list \<Rightarrow> string list" where
  "clean_parts rooted acc [] = rev acc"
| "clean_parts rooted acc (p # ps) =
     (if p = [] \<or> p = ''.'' then clean_parts rooted acc ps
      else if p = ''..'' then
        (case acc of
           [] \<Rightarrow> clean_parts rooted (if rooted then [] else [p]) ps
         | a # as \<Rightarrow> if a = ''..'' then clean_parts rooted (p # acc) ps else clean_parts rooted as ps)
      else clean_parts rooted (p # acc) ps)"

definition path_clean :: "string \<Rightarrow> string" where
  "path_clean p =
     (let rooted = has_prefix p ''/'';
          body = join ''/'' (clean_parts rooted [] (split_on (CHR ''/'') p))
      in if rooted then CHR ''/'' # body else if body = [] then ''.'' else body)"

text \<open>\<open>filepath.Join\<close> ignores empty elements.\<close>

definition path_join :: "string list \<Rightarrow> string" where
  "path_join ps =
     (let qs = filter (\<lambda>p. p \<noteq> []) ps in if qs = [] then [] else path_clean (join ''/'' qs))"

definition path_dir :: "string \<Rightarrow> string" where
  "path_dir p =
     path_clean (rev (dropWhile (\<lambda>c. c \<noteq> CHR ''/'') (rev p)))"

text \<open>\<open>filepath.Dir\<close> on Windows: what comes before the last separator, and the separator itself at a root.\<close>

definition win_dir :: "string \<Rightarrow> string" where
  "win_dir p =
     (let d = rev (dropWhile (\<lambda>c. c \<noteq> BSL \<and> c \<noteq> CHR ''/'') (rev p)); b = butlast d in
      if d = [] then ''.'' else if b = [] \<or> last b = CHR '':'' then d else b)"

definition own_dir :: "string \<Rightarrow> string \<Rightarrow> string" where
  "own_dir os p = (if os = ''windows'' then win_dir p else path_dir p)"

text \<open>A name that is one ordinary path component.\<close>

definition plain_name :: "string \<Rightarrow> bool" where
  "plain_name n = (n \<noteq> [] \<and> n \<noteq> ''.'' \<and> n \<noteq> ''..'' \<and> CHR ''/'' \<notin> set n)"

definition clean_dir :: "string \<Rightarrow> bool" where
  "clean_dir d = (\<exists>ps. ps \<noteq> [] \<and> list_all plain_name ps \<and> d = CHR ''/'' # join ''/'' ps)"

lemma clean_parts_plain:
  "list_all plain_name ps \<Longrightarrow> clean_parts r acc ps = rev acc @ ps"
  by (induction ps arbitrary: acc) (auto simp: plain_name_def)

lemma split_join_plain:
  "ps \<noteq> [] \<Longrightarrow> list_all plain_name ps \<Longrightarrow> split_on (CHR ''/'') (join ''/'' ps) = ps"
  using split_on_join [of ps "CHR ''/''"] by (auto simp: list_all_iff plain_name_def)

lemma split_on_sep_first: "split_on d (d # s) = [] # split_on d s"
  by (simp add: split_on_def)

text \<open>Joining an ordinary name to a clean directory stays in that directory.\<close>

lemma path_join_plain:
  assumes "clean_dir d" "plain_name n"
  shows "path_join [d, n] = d @ ''/'' @ n"
proof -
  obtain ps where ps: "ps \<noteq> []" "list_all plain_name ps" "d = CHR ''/'' # join ''/'' ps"
    using assms(1) by (auto simp: clean_dir_def)
  have j: "join ''/'' ps @ ''/'' @ n = join ''/'' (ps @ [n])"
    using ps(1)
  proof (induction ps)
    case (Cons a as)
    then show ?case by (cases "as = []") (simp_all add: join_Cons_append)
  qed simp
  have "d @ ''/'' @ n = CHR ''/'' # join ''/'' (ps @ [n])" using ps(3) j by simp
  moreover have "list_all plain_name (ps @ [n])" using ps assms(2) by simp
  ultimately show ?thesis
    using ps(3) assms(2) split_join_plain [of "ps @ [n]"]
    by (simp add: path_join_def path_clean_def Let_def clean_parts_plain split_on_sep_first plain_name_def [of n])
qed

subsection \<open>Temporary files\<close>

text \<open>The random part of the name comes from the caller; Go retries until the name is new.\<close>

definition create_temp :: "env \<Rightarrow> (world \<Rightarrow> string) \<Rightarrow> world \<Rightarrow> string \<Rightarrow> string \<Rightarrow> string result \<times> world" where
  "create_temp e rand w dir prefix =
     (case e_fault e OpOpen dir of
        Some err \<Rightarrow> (Inl err, w)
      | None \<Rightarrow>
          (let p = dir @ ''/'' @ prefix @ rand w in
           (Inr p, put_file p \<lparr>f_content = [], f_mode = 0x180, f_mtime = w_clock w\<rparr> w)))"

lemma create_temp_simps:
  "create_temp e rand w d pre = (Inr tmp, w1) \<Longrightarrow> tmp = d @ ''/'' @ pre @ rand w \<and>
     w1 = put_file tmp \<lparr>f_content = [], f_mode = 0x180, f_mtime = w_clock w\<rparr> w"
  "create_temp e rand w d pre = (Inl err, w1) \<Longrightarrow> w1 = w"
  by (auto simp: create_temp_def Let_def split: option.splits)

lemma create_temp_put:
  "create_temp e rand w d pre = (Inr tmp, w1) \<Longrightarrow> tmp = d @ ''/'' @ pre @ rand w \<and> (\<forall>q. q \<noteq> tmp \<longrightarrow> w_files w1 q = w_files w q)"
  using create_temp_simps(1) by fastforce

end
