(* ===== verification/Iam.thy ===== *)
theory Iam
  imports GoPath GoJson
begin

text \<open>
  \<open>iam.go\<close>: the node-scoped identity configuration. The payload types, their decoding from a
  command's payload, and the operations that apply them on Linux: sudo rules, SSH keys, the
  login access list and the revocation of users. \<open>iam_windows.go\<close>: the key files on Windows.
\<close>

subsection \<open>Payload\<close>

record sudo_rule =
  sr_group :: string
  sr_run_as :: string
  sr_commands :: "string list"
  sr_nopasswd :: bool

record ssh_key =
  sk_user :: string
  sk_keys :: "string list"

record access_control =
  allowed_login_groups :: "string list"
  sudo_rules :: "sudo_rule list"
  ssh_keys :: "ssh_key list"
  revoke_users :: "string list"

record iam_payload =
  node_id :: string
  revision :: int
  access_control_of :: access_control

definition dec_sudo_rule :: "fields_map \<Rightarrow> sudo_rule option" where
  "dec_sudo_rule m =
     (case (dec_str (struct_field m ''group''), dec_str (struct_field m ''run_as''),
            dec_list dec_str (struct_field m ''commands''), dec_bool (struct_field m ''nopasswd'')) of
        (Some g, Some r, Some c, Some n) \<Rightarrow>
          Some \<lparr>sr_group = g, sr_run_as = r, sr_commands = c, sr_nopasswd = n\<rparr>
      | _ \<Rightarrow> None)"

definition dec_ssh_key :: "fields_map \<Rightarrow> ssh_key option" where
  "dec_ssh_key m =
     (case (dec_str (struct_field m ''user''), dec_list dec_str (struct_field m ''keys'')) of
        (Some u, Some ks) \<Rightarrow> Some \<lparr>sk_user = u, sk_keys = ks\<rparr> | _ \<Rightarrow> None)"

definition dec_access_control :: "fields_map \<Rightarrow> access_control option" where
  "dec_access_control m =
     (case (dec_list dec_str (struct_field m ''allowed_login_groups''),
            dec_list (dec_struct dec_sudo_rule) (struct_field m ''sudo_rules''),
            dec_list (dec_struct dec_ssh_key) (struct_field m ''ssh_keys''),
            dec_list dec_str (struct_field m ''revoke_users'')) of
        (Some g, Some s, Some k, Some r) \<Rightarrow>
          Some \<lparr>allowed_login_groups = g, sudo_rules = s, ssh_keys = k, revoke_users = r\<rparr>
      | _ \<Rightarrow> None)"

definition parse_iam_payload :: "fields_map \<Rightarrow> iam_payload option" where
  "parse_iam_payload m =
     (case (dec_str (struct_field m ''node_id''), dec_int (struct_field m ''revision''),
            dec_struct dec_access_control (struct_field m ''access_control'')) of
        (Some n, Some r, Some a) \<Rightarrow> Some \<lparr>node_id = n, revision = r, access_control_of = a\<rparr>
      | _ \<Rightarrow> None)"

subsection \<open>Sudo rules\<close>

definition sudoers_dir :: string where "sudoers_dir = ''/etc/sudoers.d''"
definition iam_keys_dir :: string where "iam_keys_dir = ''/etc/theta/authorized_keys''"
definition iam_keys_command :: string where "iam_keys_command = ''/usr/local/bin/theta-authorized-keys''"
definition iam_access_conf :: string where "iam_access_conf = ''/etc/security/access.conf''"

definition sudo_line :: "sudo_rule \<Rightarrow> string" where
  "sudo_line r =
     (if sr_group r = [] then []
      else
        (let run_as = (if sr_run_as r = [] then ''ALL'' else sr_run_as r);
             joined = join '', '' (sr_commands r);
             cmds = (if joined = [] then ''ALL'' else joined);
             prefix = (if sr_nopasswd r then ''NOPASSWD:'' else [])
         in CHR 0x25 # sr_group r @ '' ALL=('' @ run_as @ '') '' @ prefix @ cmds @ [NL]))"

definition sudoers_content :: "sudo_rule list \<Rightarrow> string" where
  "sudoers_content rules = concat (map sudo_line rules)"

definition sudoers_target :: "string \<Rightarrow> string" where
  "sudoers_target node = path_join [sudoers_dir, ''theta-iam-'' @ node]"

definition apply_sudo_rules ::
  "env \<Rightarrow> (world \<Rightarrow> string) \<Rightarrow> world \<Rightarrow> sudo_rule list \<Rightarrow> string \<Rightarrow> string option \<times> world" where
  "apply_sudo_rules e rand w rules node =
     (case mkdir_all e w sudoers_dir of Some err \<Rightarrow> (Some err, w)
      | None \<Rightarrow>
     (case create_temp e rand w sudoers_dir ''.theta-iam-'' of
        (Inl err, w1) \<Rightarrow> (Some err, w1)
      | (Inr tmp, w1) \<Rightarrow>
          (case write_file e w1 tmp (sudoers_content rules) 0x180 of
             (Some err, w2) \<Rightarrow> (Some err, snd (remove_file e w2 tmp))
           | (None, w2) \<Rightarrow>
               (let w3 = snd (chmod e w2 tmp 0x120) in
                case run_cmd e w3 ''visudo'' [''-c'', ''-f'', tmp] of
                  ((out, Some err), w4) \<Rightarrow>
                    (Some (wrap_err ''visudo rejected the rules'' err), snd (remove_file e w4 tmp))
                | ((out, None), w4) \<Rightarrow>
                    (case rename_file e w4 tmp (sudoers_target node) of
                       (Some err, w5) \<Rightarrow> (Some err, snd (remove_file e w5 tmp))
                     | (None, w5) \<Rightarrow> (None, w5))))))"

subsection \<open>SSH keys, access list, revocation\<close>

definition key_file :: "ssh_key \<Rightarrow> string" where
  "key_file k = join [NL] (sk_keys k) @ [NL]"

fun write_keys :: "env \<Rightarrow> world \<Rightarrow> ssh_key list \<Rightarrow> string option \<times> world" where
  "write_keys e w [] = (None, w)"
| "write_keys e w (k # ks) =
     (if sk_user k = [] then write_keys e w ks
      else (case write_file e w (path_join [iam_keys_dir, sk_user k]) (key_file k) 0x180 of
          (Some err, w1) \<Rightarrow> (Some err, w1)
        | (None, w1) \<Rightarrow> write_keys e w1 ks))"

definition keys_script :: string where
  "keys_script = ''#!/bin/sh'' @ [NL] @ ''cat '' @ [DQ] @ iam_keys_dir @ ''/$1'' @ [DQ] @ '' 2>/dev/null'' @ [NL]"

definition apply_ssh_keys :: "env \<Rightarrow> world \<Rightarrow> ssh_key list \<Rightarrow> string option \<times> world" where
  "apply_ssh_keys e w keys =
     (case mkdir_all e w iam_keys_dir of Some err \<Rightarrow> (Some err, w)
      | None \<Rightarrow>
          (case write_keys e w keys of
             (Some err, w1) \<Rightarrow> (Some err, w1)
           | (None, w1) \<Rightarrow> write_file e w1 iam_keys_command keys_script 0x1ED))"

definition access_content :: "string list \<Rightarrow> string" where
  "access_content groups =
     ''+:root:ALL'' @ [NL] @
     concat (map (\<lambda>g. if g \<noteq> [] then ''+:'' @ g @ '':ALL'' @ [NL] else []) groups) @
     ''-:ALL:ALL'' @ [NL]"

definition apply_access_control :: "env \<Rightarrow> world \<Rightarrow> string list \<Rightarrow> string option \<times> world" where
  "apply_access_control e w groups =
     (case mkdir_all e w (path_dir iam_access_conf) of Some err \<Rightarrow> (Some err, w)
      | None \<Rightarrow> write_file e w iam_access_conf (access_content groups) 0x1A4)"

fun kill_users :: "env \<Rightarrow> world \<Rightarrow> string list \<Rightarrow> world" where
  "kill_users e w [] = w"
| "kill_users e w (u # us) =
     (if u = [] then kill_users e w us else kill_users e (snd (run_cmd e w ''pkill'' [''-u'', u])) us)"

definition apply_revocation :: "env \<Rightarrow> world \<Rightarrow> string list \<Rightarrow> world" where
  "apply_revocation e w users = kill_users e (snd (run_cmd e w ''sss_cache'' [''-E''])) users"

definition apply_iam :: "env \<Rightarrow> (world \<Rightarrow> string) \<Rightarrow> world \<Rightarrow> iam_payload \<Rightarrow> string option \<times> world" where
  "apply_iam e rand w p =
     (let ac = access_control_of p in
      case (if sudo_rules ac \<noteq> [] then apply_sudo_rules e rand w (sudo_rules ac) (node_id p) else (None, w)) of
        (Some err, w1) \<Rightarrow> (Some (wrap_err ''sudo rules'' err), w1)
      | (None, w1) \<Rightarrow>
     (case (if ssh_keys ac \<noteq> [] then apply_ssh_keys e w1 (ssh_keys ac) else (None, w1)) of
        (Some err, w2) \<Rightarrow> (Some (wrap_err ''ssh keys'' err), w2)
      | (None, w2) \<Rightarrow>
     (case (if allowed_login_groups ac \<noteq> [] then apply_access_control e w2 (allowed_login_groups ac)
            else (None, w2)) of
        (Some err, w3) \<Rightarrow> (Some (wrap_err ''access control'' err), w3)
      | (None, w3) \<Rightarrow>
          (None, if revoke_users ac \<noteq> [] then apply_revocation e w3 (revoke_users ac) else w3))))"

subsection \<open>Windows key files\<close>

text \<open>\<open>applyWindowsSSHKeys\<close>: \<open>is_dir\<close> tells which profile directories exist; paths use backslashes.\<close>

definition admin_keys_path :: "string \<Rightarrow> string" where
  "admin_keys_path pd = pd @ [BSL] @ ''ssh'' @ [BSL] @ ''administrators_authorized_keys''"

definition profile_dir :: "string \<Rightarrow> string" where
  "profile_dir u = ''C:'' @ [BSL] @ ''Users'' @ [BSL] @ u"

fun windows_ssh_keys ::
  "env \<Rightarrow> (string \<Rightarrow> bool) \<Rightarrow> string \<Rightarrow> world \<Rightarrow> ssh_key list \<Rightarrow> string option \<times> world" where
  "windows_ssh_keys e is_dir pd w [] = (None, w)"
| "windows_ssh_keys e is_dir pd w (k # ks) =
     (if sk_user k = [] then windows_ssh_keys e is_dir pd w ks
      else
        (let ssh_dir = profile_dir (sk_user k) @ [BSL] @ ''.ssh'';
             dest = ssh_dir @ [BSL] @ ''authorized_keys'';
             admin = admin_keys_path pd;
             r = (if \<not> is_dir (profile_dir (sk_user k)) then (None, w)
                  else (case mkdir_all e w ssh_dir of
                      Some err \<Rightarrow> (Some (wrap_err (''mkdir '' @ ssh_dir) err), w)
                    | None \<Rightarrow> (case write_file e w dest (key_file k) 0x180 of
                          (Some err, w1) \<Rightarrow> (Some (wrap_err (''write '' @ dest) err), w1)
                        | (None, w1) \<Rightarrow> (None, w1))))
         in case r of
              (Some err, w1) \<Rightarrow> (Some err, w1)
            | (None, w1) \<Rightarrow>
                windows_ssh_keys e is_dir pd
                  (case mkdir_all e w1 (pd @ [BSL] @ ''ssh'') of
                     Some _ \<Rightarrow> w1 | None \<Rightarrow> snd (write_file e w1 admin (key_file k) 0x180)) ks))"


subsection \<open>Laws\<close>

lemma clean_iam_dirs: "clean_dir sudoers_dir" "clean_dir iam_keys_dir"
  unfolding clean_dir_def
  by (rule exI [of _ "[''etc'', ''sudoers.d'']"], simp add: plain_name_def sudoers_dir_def)
     (rule exI [of _ "[''etc'', ''theta'', ''authorized_keys'']"], simp add: plain_name_def iam_keys_dir_def)

lemma plain_theta_iam: "CHR ''/'' \<notin> set node \<Longrightarrow> plain_name (''theta-iam-'' @ node)"
  by (simp add: plain_name_def)

lemma sudoers_target_plain:
  "CHR ''/'' \<notin> set node \<Longrightarrow> sudoers_target node = sudoers_dir @ ''/theta-iam-'' @ node"
  unfolding sudoers_target_def using path_join_plain [OF clean_iam_dirs(1) plain_theta_iam] by simp

lemma target_not_temp:
  "CHR ''/'' \<notin> set node \<Longrightarrow> sudoers_target node \<noteq> sudoers_dir @ ''/'' @ ''.theta-iam-'' @ r"
  by (simp add: sudoers_target_plain)

text \<open>The whole run of \<open>applySudoRules\<close>, with the temporary file as \<open>tmp\<close>.\<close>

lemma apply_sudo_rules_cases:
  assumes "apply_sudo_rules e rand w rules node = (r, w')"
  defines "tmp \<equiv> sudoers_dir @ ''/'' @ ''.theta-iam-'' @ rand w"
  shows "(\<forall>q. q \<noteq> tmp \<and> q \<noteq> sudoers_target node \<longrightarrow> w_files w' q = w_files w q) \<and>
    (r \<noteq> None \<and> sudoers_target node \<noteq> tmp \<longrightarrow> w_files w' (sudoers_target node) = w_files w (sudoers_target node)) \<and>
    (r = None \<longrightarrow>
       map_option f_content (w_files w' (sudoers_target node)) = Some (sudoers_content rules) \<and>
       (\<exists>c. w_cmds w' = w_cmds w @ [c] \<and> c_prog c = ''visudo'' \<and> c_args c = [''-c'', ''-f'', tmp] \<and>
          snd (e_exec e (w_cmds w) c) = None))"
proof (cases "mkdir_all e w sudoers_dir")
  case (Some err)
  show ?thesis using assms(1) by (auto simp: apply_sudo_rules_def Some)
next
  case None
  note mk = this
  show ?thesis
  proof (cases "fst (create_temp e rand w sudoers_dir ''.theta-iam-'')")
    case (Inl err)
    then have "create_temp e rand w sudoers_dir ''.theta-iam-'' = (Inl err, w)"
      using create_temp_simps(2) by (metis prod.collapse)
    then show ?thesis using assms(1) mk by (auto simp: apply_sudo_rules_def)
  next
    case (Inr t)
    then obtain w1 where p: "create_temp e rand w sudoers_dir ''.theta-iam-'' = (Inr t, w1)"
      by (metis prod.collapse)
    have w1: "create_temp e rand w sudoers_dir ''.theta-iam-'' = (Inr tmp, w1)"
      "w_cmds w1 = w_cmds w" "\<And>q. q \<noteq> tmp \<Longrightarrow> w_files w1 q = w_files w q"
      using create_temp_simps(1) [OF p] p by (simp_all add: tmp_def)
    show ?thesis
    proof (cases "write_file e w1 tmp (sudoers_content rules) 0x180")
      case (Pair a w2)
      show ?thesis
      proof (cases a)
        case (Some err)
        have "w_cmds w2 = w_cmds w1" "\<And>q. q \<noteq> tmp \<Longrightarrow> w_files w2 q = w_files w1 q"
          using Pair write_file_frame(1) [of e w1 tmp "sudoers_content rules" "0x180"] write_file_files [OF Pair] by auto
        then show ?thesis
          using assms(1) mk w1 Pair Some by (auto simp: apply_sudo_rules_def frame)
      next
        case None
        define w3 where "w3 = snd (chmod e w2 tmp 0x120)"
        define c where "c = \<lparr>c_prog = ''visudo'', c_args = [''-c'', ''-f'', tmp], c_stdin = []\<rparr>"
        have w2: "w_cmds w2 = w_cmds w" "\<And>q. q \<noteq> tmp \<Longrightarrow> w_files w2 q = w_files w q"
          using write_file_frame(1) [of e w1 tmp "sudoers_content rules" "0x180"] write_file_files [OF Pair] Pair w1
          by auto
        have w3: "w_cmds w3 = w_cmds w" "\<And>q. q \<noteq> tmp \<Longrightarrow> w_files w3 q = w_files w q"
          "map_option f_content (w_files w3 tmp) = Some (sudoers_content rules)"
          using w2 Pair None write_file_ok [of e w1 tmp _ _ w2] by (auto simp: w3_def frame chmod_content)
        define w4 where "w4 = w3\<lparr>w_cmds := w_cmds w @ [c]\<rparr>"
        have run: "run_cmd e w3 ''visudo'' [''-c'', ''-f'', tmp] = (e_exec e (w_cmds w) c, w4)"
          using w3 by (simp add: run_cmd_def run_stdin_def c_def w4_def Let_def)
        obtain out res where ex: "e_exec e (w_cmds w) c = (out, res)" by fastforce
        show ?thesis
        proof (cases res)
          case (Some err)
          then show ?thesis
            using assms(1) mk w1(1) Pair None ex run w3
            by (auto simp: apply_sudo_rules_def frame w3_def [symmetric] w4_def Let_def)
        next
          case res: None
          show ?thesis
          proof (cases "rename_file e w4 tmp (sudoers_target node)")
            case ren: (Pair b w5)
            have R: "(r, w') = (case b of Some err \<Rightarrow> (Some err, snd (remove_file e w5 tmp)) | None \<Rightarrow> (None, w5))"
              using assms(1) mk w1(1) Pair None ex run res ren
              by (auto simp: apply_sudo_rules_def w3_def [symmetric] Let_def split: option.splits)
            show ?thesis
            proof (cases b)
              case (Some err)
              then have "w5 = w4" using ren rename_file_err by blast
              then show ?thesis using R Some w3 by (auto simp: frame w4_def)
            next
              case None
              then show ?thesis
                using R ren w3 ex res
                by (auto simp: rename_file_def w4_def c_def split: option.splits)
            qed
          qed
        qed
      qed
    qed
  qed
qed


lemma write_keys_frame:
  "\<forall>k\<in>set ks. q \<noteq> path_join [iam_keys_dir, sk_user k] \<Longrightarrow> w_files (snd (write_keys e w ks)) q = w_files w q"
  by (induction e w ks rule: write_keys.induct)
     (auto split: option.splits prod.splits simp: write_file_files)

lemma kill_users_frame [frame]: "w_files (kill_users e w us) = w_files w"
  by (induction e w us rule: kill_users.induct) (auto simp: frame)

lemma apply_revocation_frame [frame]: "w_files (apply_revocation e w us) = w_files w"
  by (simp add: apply_revocation_def frame)

text \<open>The files an identity payload may touch.\<close>

definition iam_files :: "iam_payload \<Rightarrow> string \<Rightarrow> bool" where
  "iam_files p q =
     (q = sudoers_target (node_id p) \<or> has_prefix q (sudoers_dir @ ''/.theta-iam-'') \<or>
      q \<in> {iam_keys_command, iam_access_conf} \<or>
      (\<exists>k\<in>set (ssh_keys (access_control_of p)). q = path_join [iam_keys_dir, sk_user k]))"

lemma apply_sudo_frame:
  assumes "q \<noteq> sudoers_target node" "\<not> has_prefix q (sudoers_dir @ ''/.theta-iam-'')"
  shows "w_files (snd (apply_sudo_rules e rand w rules node)) q = w_files w q"
proof -
  have "q \<noteq> sudoers_dir @ ''/'' @ ''.theta-iam-'' @ rand w"
    using assms(2) has_prefix_append [of "sudoers_dir @ ''/.theta-iam-''" "rand w"] by auto
  then show ?thesis
    using apply_sudo_rules_cases [of e rand w rules node "fst (apply_sudo_rules e rand w rules node)"
        "snd (apply_sudo_rules e rand w rules node)"] assms(1) by auto
qed

lemma apply_ssh_frame:
  assumes "q \<noteq> iam_keys_command" "\<forall>k\<in>set ks. q \<noteq> path_join [iam_keys_dir, sk_user k]"
  shows "w_files (snd (apply_ssh_keys e w ks)) q = w_files w q"
  using write_keys_frame [OF assms(2), of e w] assms(1)
  by (auto simp: apply_ssh_keys_def frame split: option.splits prod.splits)

lemma apply_access_frame:
  "q \<noteq> iam_access_conf \<Longrightarrow> w_files (snd (apply_access_control e w gs)) q = w_files w q"
  by (auto simp: apply_access_control_def frame split: option.splits)

lemma apply_iam_frame:
  assumes "\<not> iam_files p q"
  shows "w_files (snd (apply_iam e rand w p)) q = w_files w q"
proof -
  let ?a = "access_control_of p"
  obtain r1 w1 where 1: "(if sudo_rules ?a \<noteq> [] then apply_sudo_rules e rand w (sudo_rules ?a) (node_id p) else (None, w)) = (r1, w1)"
    by fastforce
  obtain r2 w2 where 2: "(if ssh_keys ?a \<noteq> [] then apply_ssh_keys e w1 (ssh_keys ?a) else (None, w1)) = (r2, w2)"
    by fastforce
  obtain r3 w3 where 3: "(if allowed_login_groups ?a \<noteq> [] then apply_access_control e w2 (allowed_login_groups ?a)
      else (None, w2)) = (r3, w3)"
    by fastforce
  have "w_files w1 q = w_files w q"
    using 1 apply_sudo_frame [of q "node_id p" e rand w "sudo_rules ?a"] assms
    by (auto simp: iam_files_def split: if_splits)
  moreover have "w_files w2 q = w_files w1 q"
    using 2 apply_ssh_frame [of q "ssh_keys ?a" e w1] assms by (auto simp: iam_files_def split: if_splits)
  moreover have "w_files w3 q = w_files w2 q"
    using 3 apply_access_frame [of q e w2 "allowed_login_groups ?a"] assms
    by (auto simp: iam_files_def split: if_splits)
  ultimately show ?thesis
    unfolding apply_iam_def Let_def 1 prod.case
    by (cases r1; cases r2; cases r3) (simp_all add: 2 3 frame)
qed

subsection \<open>Properties\<close>



text \<open>The access list can lock nobody out at the console: whatever groups the directory sends,
  the file written starts by admitting root and has its catch-all denial only at the end, after
  one line per group.\<close>

theorem access_list_admits_root:
  assumes "apply_access_control e w groups = (None, w')"
  shows "\<exists>f. w_files w' iam_access_conf = Some f \<and>
    has_prefix (f_content f) (''+:root:ALL'' @ [NL]) \<and> has_suffix (f_content f) (''-:ALL:ALL'' @ [NL]) \<and>
    ((\<forall>g\<in>set groups. NL \<notin> set g) \<longrightarrow>
      split_on NL (f_content f) =
        ''+:root:ALL'' # map (\<lambda>g. ''+:'' @ g @ '':ALL'') (filter (\<lambda>g. g \<noteq> []) groups) @ [''-:ALL:ALL'', []])"
proof -
  obtain f where f: "w_files w' iam_access_conf = Some f" "f_content f = access_content groups"
    using assms write_file_ok [of e w iam_access_conf "access_content groups" "0x1A4" w']
    by (auto simp: apply_access_control_def split: option.splits)
  have mid: "split_on NL (concat (map (\<lambda>g. if g \<noteq> [] then ''+:'' @ g @ '':ALL'' @ [NL] else []) gs) @ ''-:ALL:ALL'' @ [NL]) =
      map (\<lambda>g. ''+:'' @ g @ '':ALL'') (filter (\<lambda>g. g \<noteq> []) gs) @ [''-:ALL:ALL'', []]"
    if "\<forall>g\<in>set gs. NL \<notin> set g" for gs
    using that
  proof (induction gs)
    case Nil
    then show ?case using split_on_append_sep [of NL "''-:ALL:ALL''" "[]"] by (simp add: split_on_no_sep)
  next
    case (Cons g gs)
    then show ?case
      using split_on_append_sep [of NL "''+:'' @ g @ '':ALL''"] by simp
  qed
  have "has_prefix (access_content groups) (''+:root:ALL'' @ [NL])"
    by (simp add: access_content_def)
  moreover have "has_suffix (access_content groups) (''-:ALL:ALL'' @ [NL])"
    unfolding has_suffix_iff access_content_def
    by (rule exI [of _ "''+:root:ALL'' @ [NL] @ concat (map (\<lambda>g. if g \<noteq> [] then ''+:'' @ g @ '':ALL'' @ [NL] else []) groups)"]) simp
  moreover have "split_on NL (access_content groups) =
      ''+:root:ALL'' # map (\<lambda>g. ''+:'' @ g @ '':ALL'') (filter (\<lambda>g. g \<noteq> []) groups) @ [''-:ALL:ALL'', []]"
    if "\<forall>g\<in>set groups. NL \<notin> set g"
    using mid [OF that] split_on_append_sep [of NL "''+:root:ALL''"] by (simp add: access_content_def)
  ultimately show ?thesis using f by metis
qed

lemma access_list_admits_root_witness:
  "\<exists>w' f. apply_access_control quiet_env (one_file ''x'' ''y'' 0) [''ops''] = (None, w') \<and>
     w_files w' iam_access_conf = Some f \<and> has_prefix (f_content f) (''+:root:ALL'' @ [NL])"
proof -
  obtain w' where r: "apply_access_control quiet_env (one_file ''x'' ''y'' 0) [''ops''] = (None, w')"
    by (simp add: apply_access_control_def quiet_env_def mkdir_all_def write_file_def)
  from access_list_admits_root [OF r] r show ?thesis by blast
qed

text \<open>Node id and user names go into paths unchecked, so a payload can name files outside the
  two directories the engine owns.\<close>

lemma iam_path_traversal:
  "sudoers_target ''/../../cron.d/job'' = ''/etc/cron.d/job'' \<and>
   path_join [iam_keys_dir, ''../../passwd''] = ''/etc/passwd''"
  by code_simp

text \<open>On Windows every user's keys are also written to the one file that admits administrators,
  each user over the one before: after two users it holds the second one's keys, whether or not
  that user is an administrator.\<close>

lemma windows_admin_keys_overwritten:
  assumes "sk_user a \<noteq> []" "sk_user b \<noteq> []"
    and "windows_ssh_keys e is_dir pd w [a, b] = (None, w')"
    and "mkdir_all e w (pd @ [BSL] @ ''ssh'') = None" "e_fault e OpWrite (admin_keys_path pd) = None"
  shows "map_option f_content (w_files w' (admin_keys_path pd)) = Some (key_file b)"
  using assms
  by (auto simp: Let_def mkdir_all_def write_file_def put_file_def split: if_splits option.splits prod.splits)

end
