(* ===== verification/Hosts.thy ===== *)
theory Hosts
  imports GoOs
begin

text \<open>
  \<open>hosts_override.go\<close> and \<open>hosts_override_windows.go\<close>: the managed block of the hosts file.
  The line ending and the DNS flush differ per platform and are arguments.
\<close>

subsection \<open>Lines\<close>

definition hosts_begin :: string where
  "hosts_begin = ''# BEGIN theta-agent-local-discovery (managed, do not edit by hand)''"

definition hosts_end :: string where
  "hosts_end = ''# END theta-agent-local-discovery''"

text \<open>\<open>bufio.Scanner\<close>: lines without their ending; a line of 64 KiB or more is an error.\<close>

definition drop_last_empty :: "string list \<Rightarrow> string list" where
  "drop_last_empty ls = (if ls \<noteq> [] \<and> last ls = [] then butlast ls else ls)"

definition scan_lines :: "string \<Rightarrow> string list result" where
  "scan_lines s =
     (let ls = drop_last_empty (split_on NL s) in
      if list_ex (\<lambda>l. 65536 \<le> length l) ls then Inl ''bufio.Scanner: token too long''
      else Inr (map (\<lambda>l. trim_suffix l [CRET]) ls))"

definition read_lines :: "env \<Rightarrow> world \<Rightarrow> string \<Rightarrow> string list result" where
  "read_lines e w path =
     (case e_fault e OpOpen path of Some err \<Rightarrow> Inl err
      | None \<Rightarrow> (case w_files w path of None \<Rightarrow> Inr [] | Some f \<Rightarrow> scan_lines (f_content f)))"

subsection \<open>The managed block\<close>

fun strip_block :: "bool \<Rightarrow> string list \<Rightarrow> string list" where
  "strip_block in_block [] = []"
| "strip_block in_block (line # ls) =
     (let normalized = trim_suffix line [CRET]; trimmed = trim_space normalized in
      if trimmed = hosts_begin then strip_block True ls
      else if trimmed = hosts_end then strip_block False ls
      else if in_block then strip_block in_block ls
      else normalized # strip_block in_block ls)"

definition trim_blank_tail :: "string list \<Rightarrow> string list" where
  "trim_blank_tail ls = rev (dropWhile (\<lambda>l. trim_space l = []) (rev ls))"

definition host_line :: "string \<Rightarrow> string \<times> string \<Rightarrow> string" where
  "host_line eol e = snd e @ [TAB] @ fst e @ eol"

text \<open>\<open>entries\<close> lists (hostname, address) in the order Go's map iteration yields them.\<close>

definition hosts_text :: "string \<Rightarrow> string list \<Rightarrow> (string \<times> string) list \<Rightarrow> string" where
  "hosts_text eol kept entries =
     join eol kept @
     (if entries \<noteq> [] then eol @ hosts_begin @ eol @ concat (map (host_line eol) entries) @ hosts_end @ eol
      else eol)"

definition hosts_edit :: "string \<Rightarrow> string list \<Rightarrow> (string \<times> string) list \<Rightarrow> string" where
  "hosts_edit eol existing entries = hosts_text eol (trim_blank_tail (strip_block False existing)) entries"

record hosts_platform =
  hp_path :: string
  hp_eol :: string
  hp_flush :: "(string \<times> string list) option"

text \<open>\<open>hosts_override_windows.go\<close>: path, line ending and \<open>ipconfig /flushdns\<close>.\<close>

definition windows_hosts_path :: "string \<Rightarrow> string" where
  "windows_hosts_path system_root =
     (if system_root = [] then ''C:'' @ [BSL] @ ''Windows'' else system_root) @
     [BSL] @ ''System32'' @ [BSL] @ ''drivers'' @ [BSL] @ ''etc'' @ [BSL] @ ''hosts''"

definition windows_hosts :: "string \<Rightarrow> hosts_platform" where
  "windows_hosts system_root =
     \<lparr>hp_path = windows_hosts_path system_root, hp_eol = [CRET, NL],
      hp_flush = Some (''ipconfig'', [''/flushdns''])\<rparr>"

definition unix_hosts :: hosts_platform where
  "unix_hosts = \<lparr>hp_path = ''/etc/hosts'', hp_eol = [NL], hp_flush = None\<rparr>"

definition apply_hosts_override ::
  "env \<Rightarrow> hosts_platform \<Rightarrow> world \<Rightarrow> (string \<times> string) list \<Rightarrow> string option \<times> world" where
  "apply_hosts_override e hp w entries =
     (case read_lines e w (hp_path hp) of
        Inl err \<Rightarrow> (Some (wrap_err (''reading '' @ hp_path hp) err), w)
      | Inr existing \<Rightarrow>
          (case write_file e w (hp_path hp) (hosts_edit (hp_eol hp) existing entries) 0x1A4 of
             (Some err, w1) \<Rightarrow> (Some (wrap_err (''writing '' @ hp_path hp) err), w1)
           | (None, w1) \<Rightarrow>
               (None, case hp_flush hp of None \<Rightarrow> w1 | Some (c, args) \<Rightarrow> snd (run_cmd e w1 c args))))"

subsection \<open>Laws of the line edit\<close>

text \<open>A plain line: one that is neither marker, holds no line ending and is short enough to scan.\<close>

definition plain_line :: "string \<Rightarrow> bool" where
  "plain_line l = (NL \<notin> set l \<and> (l = [] \<or> last l \<noteq> CRET) \<and> length l < 65535 \<and>
     trim_space l \<noteq> hosts_begin \<and> trim_space l \<noteq> hosts_end)"

lemma trim_suffix_plain: "plain_line l \<Longrightarrow> trim_suffix l [CRET] = l"
  by (auto simp: plain_line_def trim_suffix_def has_suffix_iff)

lemma strip_block_plain: "list_all plain_line ls \<Longrightarrow> strip_block False ls = ls"
proof (induction ls)
  case (Cons l ls)
  then have "plain_line l" by simp
  then have "trim_suffix l [CRET] = l" "trim_space l \<noteq> hosts_begin" "trim_space l \<noteq> hosts_end"
    by (auto simp: trim_suffix_plain plain_line_def)
  then show ?case using Cons by (simp add: Let_def)
qed simp

lemma strip_block_append_plain:
  "list_all plain_line ls \<Longrightarrow> strip_block False (ls @ rest) = ls @ strip_block False rest"
proof (induction ls)
  case (Cons l ls)
  then have "plain_line l" by simp
  then have "trim_suffix l [CRET] = l" "trim_space l \<noteq> hosts_begin" "trim_space l \<noteq> hosts_end"
    by (auto simp: trim_suffix_plain plain_line_def)
  then show ?case using Cons by (simp add: Let_def)
qed simp

lemma strip_block_drops:
  "list_all plain_line ls \<Longrightarrow> strip_block True (ls @ rest) = strip_block True rest"
proof (induction ls)
  case (Cons l ls)
  then have "plain_line l" by simp
  then have "trim_suffix l [CRET] = l" "trim_space l \<noteq> hosts_begin" "trim_space l \<noteq> hosts_end"
    by (auto simp: trim_suffix_plain plain_line_def)
  then show ?case using Cons by (simp add: Let_def)
qed simp

lemma trim_blank_tail_id: "ls = [] \<or> trim_space (last ls) \<noteq> [] \<Longrightarrow> trim_blank_tail ls = ls"
  by (cases ls rule: rev_cases) (auto simp: trim_blank_tail_def)

lemma trim_blank_tail_last: "trim_blank_tail ls = [] \<or> trim_space (last (trim_blank_tail ls)) \<noteq> []"
proof -
  have "dropWhile (\<lambda>l. trim_space l = []) (rev ls) = [] \<or>
      trim_space (hd (dropWhile (\<lambda>l. trim_space l = []) (rev ls))) \<noteq> []"
    using hd_dropWhile by blast
  then show ?thesis by (auto simp: trim_blank_tail_def last_rev)
qed

lemma trim_blank_tail_idem [simp]: "trim_blank_tail (trim_blank_tail ls) = trim_blank_tail ls"
  by (rule trim_blank_tail_id) (rule trim_blank_tail_last)

lemma set_trim_blank_tail: "set (trim_blank_tail ls) \<subseteq> set ls"
  unfolding trim_blank_tail_def using set_dropWhileD by fastforce

lemma strip_block_plain_out:
  "l \<in> set (strip_block b ls) \<Longrightarrow> trim_space l \<noteq> hosts_begin \<and> trim_space l \<noteq> hosts_end"
  by (induction b ls rule: strip_block.induct) (auto simp: Let_def split: if_splits)


subsection \<open>Writing and reading back\<close>

definition plain_eol :: "string \<Rightarrow> bool" where
  "plain_eol eol = (eol = [NL] \<or> eol = [CRET, NL])"

definition short_line :: "string \<Rightarrow> bool" where
  "short_line l = (NL \<notin> set l \<and> (l = [] \<or> last l \<noteq> CRET) \<and> length l < 65535)"

lemma plain_short: "plain_line l \<Longrightarrow> short_line l"
  by (simp add: plain_line_def short_line_def)

lemma marker_short [simp]: "short_line hosts_begin" "short_line hosts_end" "short_line []"
  by (simp_all add: short_line_def hosts_begin_def hosts_end_def)

lemma split_lines_text:
  "\<forall>l\<in>set ls. NL \<notin> set l \<Longrightarrow> NL \<notin> set c \<Longrightarrow>
   split_on NL (concat (map (\<lambda>l. l @ c @ [NL]) ls)) = map (\<lambda>l. l @ c) ls @ [[]]"
proof (induction ls)
  case Nil
  then show ?case by (simp add: split_on_no_sep)
next
  case (Cons l ls)
  then have "NL \<notin> set (l @ c)" by simp
  from split_on_append_sep [OF this] Cons show ?case by simp
qed

lemma trim_cr_append [simp]: "trim_suffix (l @ [CRET]) [CRET] = l"
  by (auto simp: trim_suffix_def has_suffix_def)

lemma trim_cr_short: "short_line l \<Longrightarrow> trim_suffix l [CRET] = l"
  by (auto simp: short_line_def trim_suffix_def has_suffix_iff)

lemma scan_lines_text:
  assumes "plain_eol eol" "list_all short_line ls"
  shows "scan_lines (concat (map (\<lambda>l. l @ eol) ls)) = Inr ls"
proof -
  obtain c where c: "eol = c @ [NL]" "c = [] \<or> c = [CRET]" "NL \<notin> set c"
    using assms(1) by (auto simp: plain_eol_def)
  have nl: "\<forall>l\<in>set ls. NL \<notin> set l" using assms(2) by (auto simp: list_all_iff short_line_def)
  have "drop_last_empty (split_on NL (concat (map (\<lambda>l. l @ eol) ls))) = map (\<lambda>l. l @ c) ls"
    using split_lines_text [OF nl c(3)] by (simp add: drop_last_empty_def c(1))
  moreover have "\<not> list_ex (\<lambda>l. 65536 \<le> length l) (map (\<lambda>l. l @ c) ls)"
    using assms(2) c(2) by (auto simp: list_ex_iff list_all_iff short_line_def)
  moreover have "map (\<lambda>l. trim_suffix l [CRET]) (map (\<lambda>l. l @ c) ls) = ls"
    using assms(2) c(2) by (auto simp: list_all_iff trim_cr_short intro: map_idI)
  ultimately show ?thesis by (simp add: scan_lines_def Let_def)
qed

definition block_lines :: "(string \<times> string) list \<Rightarrow> string list" where
  "block_lines es =
     (if es = [] then [] else hosts_begin # map (\<lambda>e. snd e @ [TAB] @ fst e) es @ [hosts_end])"

definition text_lines :: "string list \<Rightarrow> (string \<times> string) list \<Rightarrow> string list" where
  "text_lines kept es = (if kept = [] then [[]] else kept) @ block_lines es"

lemma join_eol: "kept \<noteq> [] \<Longrightarrow> join eol kept @ eol = concat (map (\<lambda>l. l @ eol) kept)"
proof (induction kept)
  case (Cons k ks)
  then show ?case by (cases "ks = []") (simp_all add: join_Cons_append)
qed simp

lemma hosts_text_lines: "hosts_text eol kept es = concat (map (\<lambda>l. l @ eol) (text_lines kept es))"
proof -
  have "join eol kept @ eol = concat (map (\<lambda>l. l @ eol) (if kept = [] then [[]] else kept))"
    using join_eol by simp
  moreover have "concat (map (host_line eol) es) = concat (map (\<lambda>l. l @ eol) (map (\<lambda>e. snd e @ [TAB] @ fst e) es))"
    by (induction es) (auto simp: host_line_def)
  ultimately show ?thesis
    by (auto simp: hosts_text_def text_lines_def block_lines_def simp flip: append_assoc)
qed

definition plain_entries :: "(string \<times> string) list \<Rightarrow> bool" where
  "plain_entries es = list_all (\<lambda>e. plain_line (snd e @ [TAB] @ fst e)) es"

lemma marker_trim [simp]:
  "trim_space hosts_begin = hosts_begin" "trim_space hosts_end = hosts_end"
  "trim_suffix hosts_begin [CRET] = hosts_begin" "trim_suffix hosts_end [CRET] = hosts_end"
  by (simp_all add: hosts_begin_def hosts_end_def trim_space_id is_space_def trim_suffix_def has_suffix_def
      has_prefix_def)

lemma marker_ne [simp]: "hosts_begin \<noteq> hosts_end" "hosts_end \<noteq> hosts_begin"
  by (simp_all add: hosts_begin_def hosts_end_def)

lemma strip_text_lines:
  assumes "list_all plain_line kept" "plain_entries es"
  shows "strip_block False (text_lines kept es) = (if kept = [] then [[]] else kept)"
proof -
  have p: "list_all plain_line (if kept = [] then [[]] else kept)"
    using assms(1)
    by (simp add: plain_line_def trim_space_def trim_when_def trim_left_when_def trim_right_when_def
        hosts_begin_def hosts_end_def)
  have b: "strip_block False (block_lines es) = []"
  proof (cases "es = []")
    case False
    have "list_all plain_line (map (\<lambda>e. snd e @ [TAB] @ fst e) es)"
      using assms(2) by (simp add: plain_entries_def list_all_iff)
    from strip_block_drops [OF this, of "[hosts_end]"] False show ?thesis
      by (simp add: block_lines_def Let_def)
  qed (simp add: block_lines_def)
  show ?thesis
    unfolding text_lines_def strip_block_append_plain [OF p] b by simp
qed

lemma hosts_edit_read_back:
  assumes "plain_eol eol" "list_all plain_line ls" "plain_entries es"
  shows "\<exists>ls'. scan_lines (hosts_edit eol ls es) = Inr ls' \<and> hosts_edit eol ls' es' = hosts_edit eol ls es'"
proof -
  let ?k = "trim_blank_tail ls"
  have k: "list_all plain_line ?k"
    using assms(2) set_trim_blank_tail [of ls] by (auto simp: list_all_iff)
  have e: "hosts_edit eol ls x = hosts_text eol ?k x" for x
    by (simp add: hosts_edit_def strip_block_plain [OF assms(2)])
  have sh: "list_all short_line (text_lines ?k es)"
    using k assms(3)
    by (auto simp: text_lines_def block_lines_def plain_entries_def list_all_iff intro: plain_short)
  have "scan_lines (hosts_edit eol ls es) = Inr (text_lines ?k es)"
    unfolding e hosts_text_lines by (rule scan_lines_text [OF assms(1) sh])
  moreover have "trim_blank_tail [[]] = []"
    by (simp add: trim_blank_tail_def trim_space_def trim_when_def trim_left_when_def trim_right_when_def)
  then have "hosts_edit eol (text_lines ?k es) es' = hosts_edit eol ls es'"
    unfolding hosts_edit_def strip_text_lines [OF k assms(3)] strip_block_plain [OF assms(2)] by simp
  ultimately show ?thesis by blast
qed

subsection \<open>Properties\<close>

text \<open>The last override wins and leaves no trace of earlier ones: on a hosts file without
  markers, applying one set of entries and then another writes exactly the file the second set
  alone would have written. With the empty set as the second, the file is the original one up to
  trailing blank lines and line endings, with no marker in it. This holds for both line endings.\<close>

theorem hosts_override_last_wins:
  assumes "plain_eol (hp_eol hp)" "plain_entries es"
    and "read_lines e w (hp_path hp) = Inr ls" "list_all plain_line ls"
    and "apply_hosts_override e hp w es = (None, w1)"
    and "apply_hosts_override e hp w1 es' = (None, w2)"
    and "apply_hosts_override e hp w es' = (None, w3)"
  shows "map_option f_content (w_files w2 (hp_path hp)) = map_option f_content (w_files w3 (hp_path hp)) \<and>
    (es' = [] \<longrightarrow> map_option f_content (w_files w2 (hp_path hp)) =
       Some (join (hp_eol hp) (trim_blank_tail ls) @ hp_eol hp))"
proof -
  have run: "map_option f_content (w_files w' (hp_path hp)) = Some (hosts_edit (hp_eol hp) ls0 x)"
    if "apply_hosts_override e hp w0 x = (None, w')" "read_lines e w0 (hp_path hp) = Inr ls0" for w0 w' x ls0
    using that
    by (auto simp: apply_hosts_override_def write_file_def frame split: option.splits prod.splits sum.splits)
  have f1: "map_option f_content (w_files w1 (hp_path hp)) = Some (hosts_edit (hp_eol hp) ls es)"
    by (rule run [OF assms(5,3)])
  obtain ls' where ls': "scan_lines (hosts_edit (hp_eol hp) ls es) = Inr ls'"
    "hosts_edit (hp_eol hp) ls' es' = hosts_edit (hp_eol hp) ls es'"
    using hosts_edit_read_back [OF assms(1,4,2)] by blast
  have "e_fault e OpOpen (hp_path hp) = None"
    using assms(3) by (auto simp: read_lines_def split: option.splits)
  then have "read_lines e w1 (hp_path hp) = Inr ls'"
    using f1 ls'(1) by (auto simp: read_lines_def)
  from run [OF assms(6) this] run [OF assms(7,3)] ls'(2)
  have "map_option f_content (w_files w2 (hp_path hp)) = Some (hosts_edit (hp_eol hp) ls es')"
    "map_option f_content (w_files w3 (hp_path hp)) = Some (hosts_edit (hp_eol hp) ls es')"
    by (simp_all only:)
  moreover have "hosts_edit (hp_eol hp) ls [] = join (hp_eol hp) (trim_blank_tail ls) @ hp_eol hp"
    by (simp add: hosts_edit_def hosts_text_def strip_block_plain [OF assms(4)])
  ultimately show ?thesis by auto
qed

lemma hosts_override_last_wins_witness:
  "\<exists>w1 w2. apply_hosts_override quiet_env unix_hosts (one_file ''/etc/hosts'' ''::1 localhost'' 0)
       [(''dir.example'', ''10.0.0.2'')] = (None, w1) \<and>
     apply_hosts_override quiet_env unix_hosts w1 [] = (None, w2) \<and>
     map_option f_content (w_files w2 ''/etc/hosts'') = Some (''::1 localhost'' @ [NL])"
proof -
  let ?w = "one_file ''/etc/hosts'' ''::1 localhost'' 0" and ?es = "[(''dir.example'', ''10.0.0.2'')]"
  have rd: "read_lines quiet_env ?w (hp_path unix_hosts) = Inr [''::1 localhost'']"
    by (simp add: read_lines_def quiet_env_def one_file_def unix_hosts_def scan_lines_def split_on_def
        drop_last_empty_def trim_suffix_def has_suffix_def has_prefix_def)
  have ok: "\<exists>w'. apply_hosts_override quiet_env unix_hosts w0 x = (None, w')"
    if "read_lines quiet_env w0 (hp_path unix_hosts) = Inr l" for w0 x l
    using that by (simp add: apply_hosts_override_def quiet_env_def write_file_def)
  obtain w1 where w1: "apply_hosts_override quiet_env unix_hosts ?w ?es = (None, w1)" using ok [OF rd] by blast
  obtain w3 where w3: "apply_hosts_override quiet_env unix_hosts ?w [] = (None, w3)" using ok [OF rd] by blast
  have pl: "list_all plain_line [''::1 localhost'']" "plain_entries ?es"
    by (simp_all add: plain_entries_def plain_line_def hosts_begin_def hosts_end_def trim_space_id is_space_def)
  have eol: "plain_eol (hp_eol unix_hosts)" by (simp add: plain_eol_def unix_hosts_def)
  have "w_files w1 (hp_path unix_hosts) \<noteq> None"
    "\<exists>ls. read_lines quiet_env w1 (hp_path unix_hosts) = Inr ls"
  proof -
    obtain l where l: "scan_lines (hosts_edit (hp_eol unix_hosts) [''::1 localhost''] ?es) = Inr l"
      using hosts_edit_read_back [OF eol pl] by blast
    have "\<exists>f. w_files w1 (hp_path unix_hosts) = Some f \<and> f_content f = hosts_edit (hp_eol unix_hosts) [''::1 localhost''] ?es"
      using w1 rd by (auto simp: apply_hosts_override_def write_file_def quiet_env_def unix_hosts_def)
    with l show "w_files w1 (hp_path unix_hosts) \<noteq> None"
      "\<exists>ls. read_lines quiet_env w1 (hp_path unix_hosts) = Inr ls"
      by (auto simp: read_lines_def quiet_env_def)
  qed
  then obtain w2 where w2: "apply_hosts_override quiet_env unix_hosts w1 [] = (None, w2)" using ok by blast
  from hosts_override_last_wins [OF eol pl(2) rd pl(1) w1 w2 w3] w1 w2
  show ?thesis by (simp add: unix_hosts_def trim_blank_tail_id trim_space_id is_space_def)
qed

text \<open>The hosts file is rewritten in place: on a full disk everything in it is lost, the administrator's lines
  too.\<close>

lemma torn_override_empties_hosts:
  "case apply_hosts_override full_disk unix_hosts (one_file ''/etc/hosts'' ''::1 localhost'' 0) [(''dir'', ''10.0.0.2'')] of
     (err, w) \<Rightarrow> err \<noteq> None \<and> map_option f_content (w_files w ''/etc/hosts'') = Some []"
  by code_simp

end
