(* ===== verification/GoNet.thy ===== *)
theory GoNet
  imports GoStrings
begin

text \<open>
  The address functions of Go's \<open>net\<close> package the source uses: \<open>SplitHostPort\<close>, \<open>ParseIP\<close>
  (both address families) and the classification of addresses. An address is its list of
  4 or 16 bytes.
\<close>

subsection \<open>Host and port\<close>

fun last_index :: "char \<Rightarrow> nat \<Rightarrow> string \<Rightarrow> nat option \<Rightarrow> nat option" where
  "last_index d i [] r = r"
| "last_index d i (c # cs) r = last_index d (Suc i) cs (if c = d then Some i else r)"

fun first_index :: "char \<Rightarrow> string \<Rightarrow> nat option" where
  "first_index d [] = None"
| "first_index d (c # cs) = (if c = d then Some 0 else map_option Suc (first_index d cs))"

definition split_host_port :: "string \<Rightarrow> (string \<times> string) option" where
  "split_host_port hp =
     (case last_index (CHR '':'') 0 hp None of
        None \<Rightarrow> None
      | Some i \<Rightarrow>
          if hp \<noteq> [] \<and> hd hp = CHR ''['' then
            (case first_index (CHR '']'') hp of
               None \<Rightarrow> None
             | Some en \<Rightarrow>
                 if en + 1 \<noteq> i then None
                 else if CHR ''['' \<in> set (drop 1 hp) \<or> CHR '']'' \<in> set (drop (en + 1) hp) then None
                 else Some (drop 1 (take en hp), drop (i + 1) hp))
          else if CHR '':'' \<in> set (take i hp) then None
          else if CHR ''['' \<in> set hp \<or> CHR '']'' \<in> set hp then None
          else Some (take i hp, drop (i + 1) hp))"

subsection \<open>Addresses\<close>

definition parse_octet :: "string \<Rightarrow> nat option" where
  "parse_octet s =
     (case parse_digits s of None \<Rightarrow> None
      | Some n \<Rightarrow> if n > 255 \<or> (length s > 1 \<and> hd s = CHR ''0'') then None else Some n)"

definition parse_ipv4 :: "string \<Rightarrow> nat list option" where
  "parse_ipv4 s =
     (let fs = split_on (CHR ''.'') s in
      if length fs = 4 then those (map parse_octet fs) else None)"

definition hex_value :: "char \<Rightarrow> nat option" where
  "hex_value c =
     (let n = (of_char c :: nat) in
      if is_digit c then Some (n - 48)
      else if 97 \<le> n \<and> n \<le> 102 then Some (n - 87)
      else if 65 \<le> n \<and> n \<le> 70 then Some (n - 55) else None)"

definition parse_hextet :: "string \<Rightarrow> nat list option" where
  "parse_hextet s =
     (if s = [] \<or> length s > 4 then None
      else (case those (map hex_value s) of None \<Rightarrow> None
          | Some ds \<Rightarrow> (let v = foldl (\<lambda>a d. 16 * a + d) 0 ds in Some [v div 256, v mod 256])))"

text \<open>Colon-separated groups; the last one may be a dotted quad when \<open>v4\<close> is set.\<close>

fun parse_groups :: "bool \<Rightarrow> string list \<Rightarrow> nat list option" where
  "parse_groups v4 [] = Some []"
| "parse_groups v4 [g] =
     (if v4 \<and> CHR ''.'' \<in> set g then parse_ipv4 g else parse_hextet g)"
| "parse_groups v4 (g # h # gs) =
     (case (parse_hextet g, parse_groups v4 (h # gs)) of
        (Some a, Some b) \<Rightarrow> Some (a @ b) | _ \<Rightarrow> None)"

definition groups_of :: "string \<Rightarrow> string list" where
  "groups_of s = (if s = [] then [] else split_on (CHR '':'') s)"

definition parse_ipv6 :: "string \<Rightarrow> nat list option" where
  "parse_ipv6 s =
     (case str_index s ''::'' of
        None \<Rightarrow>
          (case parse_groups True (split_on (CHR '':'') s) of
             Some bs \<Rightarrow> if length bs = 16 then Some bs else None | None \<Rightarrow> None)
      | Some i \<Rightarrow>
          (case (parse_groups False (groups_of (take i s)), parse_groups True (groups_of (drop (i + 2) s))) of
             (Some a, Some b) \<Rightarrow>
               if length a + length b < 16 then Some (a @ replicate (16 - length a - length b) 0 @ b) else None
           | _ \<Rightarrow> None))"

text \<open>\<open>ParseIP\<close>: the first dot or colon decides the family.\<close>

definition parse_ip :: "string \<Rightarrow> nat list option" where
  "parse_ip s =
     (case filter (\<lambda>c. c = CHR ''.'' \<or> c = CHR '':'') s of
        [] \<Rightarrow> None
      | c # _ \<Rightarrow> if c = CHR ''.'' then parse_ipv4 s else parse_ipv6 s)"

definition to4 :: "nat list \<Rightarrow> nat list option" where
  "to4 ip =
     (if length ip = 4 then Some ip
      else if length ip = 16 \<and> take 12 ip = replicate 10 0 @ [255, 255] then Some (drop 12 ip) else None)"

definition ip_is_private :: "nat list \<Rightarrow> bool" where
  "ip_is_private ip =
     (case to4 ip of
        Some q \<Rightarrow> q ! 0 = 10 \<or> (q ! 0 = 172 \<and> 16 \<le> q ! 1 \<and> q ! 1 \<le> 31) \<or> (q ! 0 = 192 \<and> q ! 1 = 168)
      | None \<Rightarrow> length ip = 16 \<and> (ip ! 0 = 252 \<or> ip ! 0 = 253))"

definition ip_is_loopback :: "nat list \<Rightarrow> bool" where
  "ip_is_loopback ip =
     (case to4 ip of Some q \<Rightarrow> q ! 0 = 127 | None \<Rightarrow> ip = replicate 15 0 @ [1])"

definition ip_is_link_local :: "nat list \<Rightarrow> bool" where
  "ip_is_link_local ip =
     (case to4 ip of Some q \<Rightarrow> q ! 0 = 169 \<and> q ! 1 = 254
      | None \<Rightarrow> length ip = 16 \<and> ip ! 0 = 254 \<and> 128 \<le> ip ! 1 \<and> ip ! 1 \<le> 191)"

definition ip_is_local :: "nat list \<Rightarrow> bool" where
  "ip_is_local ip = (ip_is_private ip \<or> ip_is_loopback ip \<or> ip_is_link_local ip)"

subsection \<open>Samples\<close>

lemma parse_ip_samples:
  "parse_ip ''192.168.1.20'' = Some [192, 168, 1, 20]"
  "parse_ip ''10.0.0.256'' = None"
  "parse_ip ''10.0.0.01'' = None"
  "parse_ip ''fe80::1'' = Some ([254, 128] @ replicate 13 0 @ [1])"
  "parse_ip ''::ffff:10.0.0.1'' = Some (replicate 10 0 @ [255, 255, 10, 0, 0, 1])"
  "parse_ip '':::1'' = None"
  "parse_ip ''directory.example'' = None"
  by code_simp+

lemma split_host_port_samples:
  "split_host_port ''host:443'' = Some (''host'', ''443'')"
  "split_host_port ''[::1]:443'' = Some (''::1'', ''443'')"
  "split_host_port ''::1'' = None"
  "split_host_port ''host'' = None"
  "split_host_port ''[::1]'' = None"
  by code_simp+

end
