(* ===== verification/Discovery.thy ===== *)
theory Discovery
  imports Hosts Config GoNet
begin

text \<open>
  \<open>local_discovery.go\<close>, \<open>discovery_verify.go\<close> and \<open>local_route*.go\<close>: recognising an
  announcement, deciding whether a hosts override is safe, pinning the route, and the loop that
  applies and reverts the override. What the network answers in one poll (announcements, DNS,
  the TLS handshake, the interfaces) is the record \<open>poll\<close>.
\<close>

subsection \<open>URLs\<close>

text \<open>\<open>url.Parse\<close> is the argument \<open>parse_url\<close>: \<open>None\<close> is an error, else scheme and host name.\<close>

record url =
  u_scheme :: string
  u_hostname :: string

definition host_from_url :: "(string \<Rightarrow> url option) \<Rightarrow> string \<Rightarrow> string" where
  "host_from_url parse_url raw =
     (case parse_url raw of None \<Rightarrow> [] | Some u \<Rightarrow> if u_hostname u = [] then [] else u_hostname u)"

definition server_url_uses_tls :: "(string \<Rightarrow> url option) \<Rightarrow> string \<Rightarrow> bool" where
  "server_url_uses_tls parse_url raw =
     (case parse_url raw of None \<Rightarrow> False
      | Some u \<Rightarrow> to_lower (u_scheme u) = ''https'' \<or> to_lower (u_scheme u) = ''wss'')"

subsection \<open>Announcements\<close>

record mdns_entry =
  info_fields :: "string list"
  addr_v4 :: "string option"
  addr_v6 :: "string option"

fun txt_find :: "string \<Rightarrow> string list \<Rightarrow> string" where
  "txt_find prefix [] = []"
| "txt_find prefix (f # fs) =
     (if has_prefix f prefix then trim_prefix f prefix else txt_find prefix fs)"

definition txt_field :: "mdns_entry \<Rightarrow> string \<Rightarrow> string" where
  "txt_field entry key = txt_find (key @ ''='') (info_fields entry)"

definition entry_announces_host :: "mdns_entry \<Rightarrow> string \<Rightarrow> bool" where
  "entry_announces_host entry target =
     list_ex (\<lambda>h. trim_space h = target) (split_on (CHR '','') (txt_field entry ''hosts''))"

definition entry_address :: "mdns_entry \<Rightarrow> string \<Rightarrow> string \<Rightarrow> string" where
  "entry_address entry target found =
     (let by_addr = (case addr_v4 entry of Some a \<Rightarrow> a
                     | None \<Rightarrow> (case addr_v6 entry of Some a \<Rightarrow> a | None \<Rightarrow> found));
          addr = txt_field entry ''directoryAddr'' in
      if txt_field entry ''directoryHost'' = target \<and> addr \<noteq> [] then
        (case split_host_port addr of
           Some (host, port) \<Rightarrow> if host \<noteq> [] then host else by_addr
         | None \<Rightarrow> by_addr)
      else by_addr)"

fun scan_entries :: "string \<Rightarrow> mdns_entry list \<Rightarrow> string \<Rightarrow> string" where
  "scan_entries target [] found = found"
| "scan_entries target (e # es) found =
     (if \<not> entry_announces_host e target \<or> found \<noteq> [] then scan_entries target es found
      else scan_entries target es (entry_address e target found))"

definition find_local_announcement :: "mdns_entry list result \<Rightarrow> string \<Rightarrow> string" where
  "find_local_announcement answer target =
     (case answer of Inl err \<Rightarrow> [] | Inr es \<Rightarrow> scan_entries target es [])"

record announcement =
  an_site :: string
  an_directory_host :: string
  an_directory_addr :: string
  an_version :: string

fun collect_announcements :: "string list \<Rightarrow> mdns_entry list \<Rightarrow> announcement list" where
  "collect_announcements seen [] = []"
| "collect_announcements seen (e # es) =
     (let dhost = txt_field e ''directoryHost'' in
      if dhost = [] \<or> dhost \<in> set seen then collect_announcements seen es
      else \<lparr>an_site = txt_field e ''site'', an_directory_host = dhost,
            an_directory_addr = txt_field e ''directoryAddr'', an_version = txt_field e ''version''\<rparr>
           # collect_announcements (dhost # seen) es)"

definition browse_announcements_for :: "mdns_entry list \<Rightarrow> string \<Rightarrow> announcement list" where
  "browse_announcements_for es target =
     filter (\<lambda>a. an_directory_host a = target) (collect_announcements [] es)"

definition resolve_site_hint ::
  "(string \<Rightarrow> url option) \<Rightarrow> mdns_entry list \<Rightarrow> config \<Rightarrow> string" where
  "resolve_site_hint parse_url es cfg =
     (let s = trim_space (location cfg) in
      if s \<noteq> [] \<and> s \<noteq> ''default'' \<and> s \<noteq> ''unknown'' \<and> s \<noteq> ''none'' then s
      else
        (let target = host_from_url parse_url (server_url cfg) in
         if target = [] then []
         else (case filter (\<lambda>a. an_site a \<noteq> []) (browse_announcements_for es target) of
                 [] \<Rightarrow> [] | a # _ \<Rightarrow> an_site a)))"

subsection \<open>Routes\<close>

record ip_net =
  net_addr :: "nat list"
  net_prefix :: nat

record local_iface =
  if_index :: int
  if_name :: string
  if_nets :: "ip_net list"

definition byte_bits :: "nat \<Rightarrow> bool list" where
  "byte_bits b = map (\<lambda>i. bit b i) (rev [0..<8])"

definition ip_bits :: "nat list \<Rightarrow> bool list" where
  "ip_bits ip = concat (map byte_bits ip)"

text \<open>\<open>IPNet.Contains\<close>: both addresses in the same family, equal under the mask.\<close>

definition net_contains :: "ip_net \<Rightarrow> nat list \<Rightarrow> bool" where
  "net_contains n ip =
     (let a = (case to4 (net_addr n) of Some q \<Rightarrow> q | None \<Rightarrow> net_addr n);
          b = (case to4 ip of Some q \<Rightarrow> q | None \<Rightarrow> ip) in
      length a = length b \<and>
      take (net_prefix n) (ip_bits a) = take (net_prefix n) (ip_bits b))"

fun find_iface :: "local_iface list \<Rightarrow> nat list \<Rightarrow> local_iface option" where
  "find_iface [] ip = None"
| "find_iface (i # is) ip = (if list_ex (\<lambda>n. net_contains n ip) (if_nets i) then Some i else find_iface is ip)"

definition interface_for_ip :: "local_iface list result \<Rightarrow> string \<Rightarrow> local_iface option" where
  "interface_for_ip ifaces ip =
     (case parse_ip ip of None \<Rightarrow> None
      | Some target \<Rightarrow> (case ifaces of Inl err \<Rightarrow> None | Inr is \<Rightarrow> find_iface is target))"

text \<open>The two platforms' host routes; \<open>win\<close> selects \<open>local_route_windows.go\<close>.\<close>

definition add_host_route_unix :: "env \<Rightarrow> world \<Rightarrow> string \<Rightarrow> local_iface \<Rightarrow> string option \<times> world" where
  "add_host_route_unix e w ip i =
     (case run_cmd e w ''ip'' [''route'', ''replace'', ip @ ''/32'', ''dev'', if_name i] of
        ((out, None), w1) \<Rightarrow> (None, w1)
      | ((out, Some err), w1) \<Rightarrow>
          if str_contains (to_lower out) ''already exists'' then (None, w1)
          else (Some (''ip route replace '' @ ip @ '' via '' @ if_name i @ '': '' @ err @ '': '' @ trim_space out), w1))"

definition del_host_route_unix :: "env \<Rightarrow> world \<Rightarrow> string \<Rightarrow> string option \<times> world" where
  "del_host_route_unix e w ip =
     (case run_cmd e w ''ip'' [''route'', ''del'', ip @ ''/32''] of
        ((out, None), w1) \<Rightarrow> (None, w1)
      | ((out, Some err), w1) \<Rightarrow>
          (let lower = to_lower out in
           if str_contains lower ''cannot find'' \<or> str_contains lower ''route not found'' \<or> str_contains lower ''no such process''
           then (None, w1)
           else (Some (''ip route del '' @ ip @ '': '' @ err @ '': '' @ trim_space out), w1)))"

definition add_host_route_windows :: "env \<Rightarrow> world \<Rightarrow> string \<Rightarrow> local_iface \<Rightarrow> string option \<times> world" where
  "add_host_route_windows e w ip i =
     (case run_cmd e w ''route.exe'' [''add'', ip, ''mask'', ''255.255.255.255'', ''0.0.0.0'',
             ''metric'', ''1'', ''IF'', itoa (if_index i)] of
        ((out, None), w1) \<Rightarrow> (None, w1)
      | ((out, Some err), w1) \<Rightarrow>
          if str_contains (to_lower out) ''already exists'' then (None, w1)
          else (Some (''route add '' @ ip @ '': '' @ err @ '': '' @ trim_space out), w1))"

definition del_host_route_windows :: "env \<Rightarrow> world \<Rightarrow> string \<Rightarrow> string option \<times> world" where
  "del_host_route_windows e w ip =
     (case run_cmd e w ''route.exe'' [''delete'', ip, ''mask'', ''255.255.255.255''] of
        ((out, None), w1) \<Rightarrow> (None, w1)
      | ((out, Some err), w1) \<Rightarrow>
          (let lower = to_lower out in
           if str_contains lower ''route not found'' \<or> str_contains lower ''cannot find'' then (None, w1)
           else (Some (''route delete '' @ ip @ '': '' @ err @ '': '' @ trim_space out), w1)))"

definition add_host_route :: "bool \<Rightarrow> env \<Rightarrow> world \<Rightarrow> string \<Rightarrow> local_iface \<Rightarrow> string option \<times> world" where
  "add_host_route win = (if win then add_host_route_windows else add_host_route_unix)"

definition del_host_route :: "bool \<Rightarrow> env \<Rightarrow> world \<Rightarrow> string \<Rightarrow> string option \<times> world" where
  "del_host_route win = (if win then del_host_route_windows else del_host_route_unix)"

lemmas host_route_defs = add_host_route_def del_host_route_def add_host_route_unix_def del_host_route_unix_def
  add_host_route_windows_def del_host_route_windows_def

definition apply_local_route ::
  "bool \<Rightarrow> env \<Rightarrow> local_iface list result \<Rightarrow> world \<Rightarrow> string \<Rightarrow> string option \<times> world" where
  "apply_local_route win e ifaces w ip =
     (case interface_for_ip ifaces ip of
        None \<Rightarrow> (Some (''no local interface contains '' @ ip @ '' (cannot pin a direct route)''), w)
      | Some i \<Rightarrow> add_host_route win e w ip i)"

definition remove_local_route :: "bool \<Rightarrow> env \<Rightarrow> world \<Rightarrow> string \<Rightarrow> world" where
  "remove_local_route win e w ip = snd (del_host_route win e w ip)"


subsection \<open>The discovery loop\<close>

text \<open>
  One poll: the answer of the mDNS query, the ordinary resolution of the directory's name, the
  TLS handshake with the directory's name at an address on port 443, and the interfaces.
\<close>

record poll =
  po_env :: env
  po_answer :: "mdns_entry list result"
  po_resolved :: string
  po_cert_ok :: "string \<Rightarrow> string \<Rightarrow> bool"
  po_ifaces :: "local_iface list result"

record disc =
  d_overridden :: bool
  d_last_ip :: string
  d_notified :: bool
  d_sighting :: bool
  d_world :: world

record disc_setup =
  ds_windows :: bool
  ds_hosts :: hosts_platform
  ds_server_url :: string
  ds_target :: string
  ds_enabled :: bool

definition local_discovery_enabled :: "config \<Rightarrow> bool" where
  "local_discovery_enabled cfg = (case local_discovery cfg of Some b \<Rightarrow> b | None \<Rightarrow> False)"

definition override_is_safe :: "(string \<Rightarrow> url option) \<Rightarrow> (string \<Rightarrow> string \<Rightarrow> bool) \<Rightarrow> string \<Rightarrow> string \<Rightarrow> string \<Rightarrow> bool" where
  "override_is_safe parse_url cert_ok surl host ip =
     (if \<not> server_url_uses_tls parse_url surl then False else cert_ok host ip)"

text \<open>\<open>StartLocalDiscovery\<close> up to its loop: \<open>None\<close> when no host can be read off the URL.\<close>

definition disc_start ::
  "(string \<Rightarrow> url option) \<Rightarrow> bool \<Rightarrow> hosts_platform \<Rightarrow> env \<Rightarrow> config \<Rightarrow> world \<Rightarrow> (disc_setup \<times> disc) option" where
  "disc_start parse_url win hp e cfg w =
     (let target = host_from_url parse_url (server_url cfg) in
      if target = [] then None
      else Some (\<lparr>ds_windows = win, ds_hosts = hp, ds_server_url = server_url cfg, ds_target = target,
                   ds_enabled = local_discovery_enabled cfg\<rparr>,
                 \<lparr>d_overridden = False, d_last_ip = [], d_notified = False, d_sighting = False,
                   d_world = (if local_discovery_enabled cfg then snd (apply_hosts_override e hp w []) else w)\<rparr>))"

definition revert_override :: "disc_setup \<Rightarrow> env \<Rightarrow> disc \<Rightarrow> disc" where
  "revert_override ds e s =
     (case apply_hosts_override e (ds_hosts ds) (d_world s) [] of
        (Some err, w1) \<Rightarrow> s\<lparr>d_world := w1\<rparr>
      | (None, w1) \<Rightarrow>
          s\<lparr>d_world := (if d_last_ip s \<noteq> [] then remove_local_route (ds_windows ds) e w1 (d_last_ip s) else w1),
            d_last_ip := [], d_overridden := False, d_notified := True\<rparr>)"

definition try_override :: "(string \<Rightarrow> url option) \<Rightarrow> disc_setup \<Rightarrow> poll \<Rightarrow> string \<Rightarrow> disc \<Rightarrow> disc" where
  "try_override parse_url ds p ip s =
     (if po_resolved p = ip then s
      else if \<not> override_is_safe parse_url (po_cert_ok p) (ds_server_url ds) (ds_target ds) ip then s
      else (case apply_hosts_override (po_env p) (ds_hosts ds) (d_world s) [(ds_target ds, ip)] of
          (Some err, w1) \<Rightarrow> s\<lparr>d_world := w1\<rparr>
        | (None, w1) \<Rightarrow>
            s\<lparr>d_world := snd (apply_local_route (ds_windows ds) (po_env p) (po_ifaces p) w1 ip),
              d_last_ip := ip, d_overridden := True, d_notified := True\<rparr>))"

definition disc_step :: "(string \<Rightarrow> url option) \<Rightarrow> disc_setup \<Rightarrow> poll \<Rightarrow> disc \<Rightarrow> disc" where
  "disc_step parse_url ds p s0 =
     (let ip = find_local_announcement (po_answer p) (ds_target ds);
          s = s0\<lparr>d_sighting := (ip \<noteq> [])\<rparr> in
      if \<not> ds_enabled ds then s
      else if ip \<noteq> [] \<and> \<not> d_overridden s then try_override parse_url ds p ip s
      else if ip \<noteq> [] \<and> d_overridden s then
        (if ip \<noteq> d_last_ip s then revert_override ds (po_env p) s
         else if \<not> override_is_safe parse_url (po_cert_ok p) (ds_server_url ds) (ds_target ds) ip
           then revert_override ds (po_env p) s
         else s)
      else if ip = [] \<and> d_overridden s then revert_override ds (po_env p) s
      else s)"

text \<open>The states the loop passes through after any sequence of polls in which no write of the hosts file
  stops half-way.\<close>

inductive disc_reach :: "(string \<Rightarrow> url option) \<Rightarrow> disc_setup \<Rightarrow> disc \<Rightarrow> bool"
  for parse_url ds where
  start: "disc_start parse_url win hp e cfg w = Some (ds, s) \<Longrightarrow> disc_reach parse_url ds s"
| poll: "disc_reach parse_url ds s \<Longrightarrow> e_torn (po_env p) (hp_path (ds_hosts ds)) = None \<Longrightarrow> disc_reach parse_url ds (disc_step parse_url ds p s)"

inductive_cases disc_reachE: "disc_reach parse_url ds s"

subsection \<open>Invariant of the loop\<close>

definition disc_inv :: "(string \<Rightarrow> url option) \<Rightarrow> disc_setup \<Rightarrow> disc \<Rightarrow> bool" where
  "disc_inv parse_url ds s =
     ((d_overridden s \<longleftrightarrow> d_last_ip s \<noteq> []) \<and>
      (d_overridden s \<longrightarrow> ds_enabled ds \<and> server_url_uses_tls parse_url (ds_server_url ds) \<and>
         (\<exists>ls f. w_files (d_world s) (hp_path (ds_hosts ds)) = Some f \<and>
            f_content f = hosts_edit (hp_eol (ds_hosts ds)) ls [(ds_target ds, d_last_ip s)])))"

lemma route_files [frame]:
  "w_files (snd (add_host_route win e w ip i)) = w_files w"
  "w_files (snd (del_host_route win e w ip)) = w_files w"
  by (auto simp: host_route_defs Let_def frame split: prod.splits option.splits if_splits
      dest: run_cmd_files)

lemma local_route_files [frame]:
  "w_files (snd (apply_local_route win e is w ip)) = w_files w"
  "w_files (remove_local_route win e w ip) = w_files w"
  by (auto simp: apply_local_route_def remove_local_route_def frame split: option.splits)

lemma hosts_override_result:
  "apply_hosts_override e hp w es = (None, w') \<Longrightarrow>
   \<exists>ls f. w_files w' (hp_path hp) = Some f \<and> f_content f = hosts_edit (hp_eol hp) ls es"
  "apply_hosts_override e hp w es = (Some err, w') \<Longrightarrow> e_torn e (hp_path hp) = None \<Longrightarrow> w' = w"
  by (auto simp: apply_hosts_override_def write_file_def frame split: option.splits prod.splits sum.splits)

lemma revert_cases:
  "e_torn e (hp_path (ds_hosts ds)) = None \<Longrightarrow>
   (fst (apply_hosts_override e (ds_hosts ds) (d_world s) []) \<noteq> None \<and> revert_override ds e s = s) \<or>
   (fst (apply_hosts_override e (ds_hosts ds) (d_world s) []) = None \<and>
    \<not> d_overridden (revert_override ds e s) \<and> d_last_ip (revert_override ds e s) = [])"
  by (cases "apply_hosts_override e (ds_hosts ds) (d_world s) []")
     (auto simp: revert_override_def split: option.splits dest: hosts_override_result(2))

lemma disc_inv_step:
  assumes "disc_inv parse_url ds s" and untorn: "e_torn (po_env p) (hp_path (ds_hosts ds)) = None"
  shows "disc_inv parse_url ds (disc_step parse_url ds p s)"
proof -
  let ?ip = "find_local_announcement (po_answer p) (ds_target ds)"
  define s1 where "s1 = s\<lparr>d_sighting := (?ip \<noteq> [])\<rparr>"
  have s1: "disc_inv parse_url ds s1" using assms by (simp add: disc_inv_def s1_def)
  have rev: "disc_inv parse_url ds (revert_override ds (po_env p) s1)"
    using revert_cases [OF untorn, of s1] s1 by (auto simp: disc_inv_def)
  have att: "disc_inv parse_url ds (try_override parse_url ds p ?ip s1)" if "?ip \<noteq> []" "ds_enabled ds"
  proof (cases "apply_hosts_override (po_env p) (ds_hosts ds) (d_world s1) [(ds_target ds, ?ip)]")
    case (Pair r w1)
    then show ?thesis
      using s1 that untorn hosts_override_result [of "po_env p" "ds_hosts ds" "d_world s1" "[(ds_target ds, ?ip)]"]
      by (cases r) (auto simp: try_override_def disc_inv_def override_is_safe_def frame)
  qed
  show ?thesis
    unfolding disc_step_def Let_def s1_def [symmetric]
    using s1 rev att by auto
qed

lemma disc_inv_reach: "disc_reach parse_url ds s \<Longrightarrow> disc_inv parse_url ds s"
proof (induction rule: disc_reach.induct)
  case (start win hp e cfg w s)
  then show ?case by (auto simp: disc_start_def disc_inv_def Let_def split: if_splits)
next
  case (poll s p)
  then show ?case by (simp add: disc_inv_step)
qed

subsection \<open>Properties\<close>



definition sample_setup :: disc_setup where
  "sample_setup = \<lparr>ds_windows = False, ds_hosts = unix_hosts, ds_server_url = ''https://dir'',
     ds_target = ''dir'', ds_enabled = True\<rparr>"

definition sample_parse :: "string \<Rightarrow> url option" where
  "sample_parse raw = Some \<lparr>u_scheme = ''https'', u_hostname = ''dir''\<rparr>"

definition sample_poll :: poll where
  "sample_poll = \<lparr>po_env = quiet_env,
     po_answer = Inr [\<lparr>info_fields = [''hosts=proxy, dir''], addr_v4 = Some ''10.0.0.2'', addr_v6 = None\<rparr>],
     po_resolved = ''203.0.113.9'', po_cert_ok = (\<lambda>h ip. h = ''dir'' \<and> ip = ''10.0.0.2''),
     po_ifaces = Inr [\<lparr>if_index = 2, if_name = ''eth0'', if_nets = [\<lparr>net_addr = [10, 0, 0, 1], net_prefix = 24\<rparr>]\<rparr>]\<rparr>"

definition sample_disc :: disc where
  "sample_disc = snd (the (disc_start sample_parse False unix_hosts quiet_env
     (zero_config\<lparr>server_url := ''https://dir'', local_discovery := Some True\<rparr>) (one_file ''/etc/hosts'' ''::1 localhost'' 0)))"

lemma sample_announcement: "find_local_announcement (po_answer sample_poll) ''dir'' = ''10.0.0.2''"
  by code_simp

lemma sample_hosts_write:
  "apply_hosts_override quiet_env unix_hosts w es =
    (case read_lines quiet_env w ''/etc/hosts'' of Inl err \<Rightarrow> (Some (wrap_err ''reading /etc/hosts'' err), w)
     | Inr ls \<Rightarrow> (None, snd (write_file quiet_env w ''/etc/hosts'' (hosts_edit [NL] ls es) 0x1A4)))"
  by (auto simp: apply_hosts_override_def unix_hosts_def quiet_env_def write_file_def split: sum.splits)

lemma sample_disc_reach: "disc_reach sample_parse sample_setup sample_disc"
  by (rule disc_reach.start [of _ False unix_hosts quiet_env
        "zero_config\<lparr>server_url := ''https://dir'', local_discovery := Some True\<rparr>"
        "one_file ''/etc/hosts'' ''::1 localhost'' 0"])
     (simp add: sample_disc_def disc_start_def host_from_url_def sample_parse_def sample_setup_def
        local_discovery_enabled_def Let_def)

lemma scan_ok_sample: "\<exists>ls. read_lines quiet_env (d_world sample_disc) ''/etc/hosts'' = Inr ls"
proof -
  have scan: "scan_lines (hosts_edit [NL] [''::1 localhost''] []) = Inr [''::1 localhost'']" by code_simp
  moreover have "scan_lines ''::1 localhost'' = Inr [''::1 localhost'']" by code_simp
  moreover have q: "e_fault quiet_env a b = None" for a b by (simp add: quiet_env_def)
  ultimately have r: "read_lines quiet_env (one_file ''/etc/hosts'' ''::1 localhost'' 0) ''/etc/hosts'' = Inr [''::1 localhost'']"
    by (simp add: read_lines_def one_file_def)
  have "read_lines quiet_env (snd (apply_hosts_override quiet_env unix_hosts
      (one_file ''/etc/hosts'' ''::1 localhost'' 0) [])) ''/etc/hosts'' = scan_lines (hosts_edit [NL] [''::1 localhost''] [])"
    by (simp add: sample_hosts_write r) (simp add: read_lines_def q write_file_def)
  with scan show ?thesis
    by (simp add: sample_disc_def disc_start_def host_from_url_def sample_parse_def Let_def
        local_discovery_enabled_def)
qed


text \<open>Discovery is off unless agent.yml turns it on.\<close>

lemma local_discovery_default_off: "\<not> local_discovery_enabled zero_config"
  by (simp add: local_discovery_enabled_def zero_config_def)

text \<open>The host route of an IPv6 address is added with prefix length 32, which covers far more
  than the one host.\<close>

lemma ipv6_route_prefix:
  "w_cmds (snd (apply_local_route False quiet_env
     (Inr [\<lparr>if_index = 2, if_name = ''eth0'', if_nets = [\<lparr>net_addr = [253] @ replicate 15 0, net_prefix = 64\<rparr>]\<rparr>])
     (one_file ''x'' [] 0) ''fd00::5'')) =
   [\<lparr>c_prog = ''ip'', c_args = [''route'', ''replace'', ''fd00::5/32'', ''dev'', ''eth0''], c_stdin = []\<rparr>]"
proof -
  have "interface_for_ip (Inr [\<lparr>if_index = 2, if_name = ''eth0'',
      if_nets = [\<lparr>net_addr = [253] @ replicate 15 0, net_prefix = 64\<rparr>]\<rparr>]) ''fd00::5'' =
    Some \<lparr>if_index = 2, if_name = ''eth0'', if_nets = [\<lparr>net_addr = [253] @ replicate 15 0, net_prefix = 64\<rparr>]\<rparr>"
    by code_simp
  then show ?thesis
    by (simp add: apply_local_route_def host_route_defs run_cmd_def run_stdin_def Let_def quiet_env_def one_file_def)
qed

end
