(* ===== verification/TrayIpc.thy ===== *)
theory TrayIpc
  imports GoJson GoOs
begin

text \<open>
  The protocol between the daemon and the desktop tray (\<open>tray_ipc.go\<close>) and the part of
  \<open>tray_server.go\<close> that keeps the status and sends it to the connected trays. What the trays
  may ask of the daemon is in \<open>Tray\<close>.
\<close>

subsection \<open>Messages\<close>

datatype tray_color = ColorRed | ColorYellow | ColorGreen | ColorBlue

fun color_text :: "tray_color \<Rightarrow> string" where
  "color_text ColorRed = ''red''"
| "color_text ColorYellow = ''yellow''"
| "color_text ColorGreen = ''green''"
| "color_text ColorBlue = ''blue''"

record tray_exit =
  te_site_id :: int
  te_name :: string
  te_country :: string
  te_city :: string
  te_is_local :: bool

record tray_status =
  ts_color :: tray_color
  ts_connected :: bool
  ts_is_home :: bool
  ts_vpn_active :: bool
  ts_auto_vpn :: bool
  ts_site_name :: string
  ts_agent_public_ip :: string
  ts_home_public_ip :: string
  ts_organization_name :: string
  ts_status_text :: string
  ts_config_path :: string
  ts_exits :: "tray_exit list"
  ts_current_exit :: "int option"

record tray_command =
  tc_command :: string
  tc_value :: bool
  tc_site_id :: "int option"
  tc_service :: string
  tc_subtype :: string

subsection \<open>Encoding\<close>

definition bool_text :: "bool \<Rightarrow> string" where
  "bool_text b = (if b then ''true'' else ''false'')"

definition exit_json :: "tray_exit \<Rightarrow> string" where
  "exit_json x = json_struct
     [(''site_id'', itoa (te_site_id x)), (''name'', json_str True (te_name x)),
      (''country'', json_str True (te_country x)), (''city'', json_str True (te_city x)),
      (''is_local'', bool_text (te_is_local x))]"

text \<open>\<open>omitempty\<close> leaves out the exit list when it is empty and the current exit when it is nil.\<close>

definition encode_tray_status :: "tray_status \<Rightarrow> string" where
  "encode_tray_status s = json_struct
     ([(''color'', json_str True (color_text (ts_color s))), (''connected'', bool_text (ts_connected s)),
       (''is_home'', bool_text (ts_is_home s)), (''vpn_active'', bool_text (ts_vpn_active s)),
       (''auto_vpn'', bool_text (ts_auto_vpn s)), (''site_name'', json_str True (ts_site_name s)),
       (''agent_public_ip'', json_str True (ts_agent_public_ip s)),
       (''home_public_ip'', json_str True (ts_home_public_ip s)),
       (''organization_name'', json_str True (ts_organization_name s)),
       (''status_text'', json_str True (ts_status_text s)), (''config_path'', json_str True (ts_config_path s))]
      @ (if ts_exits s = [] then []
         else [(''exits'', CHR ''['' # json_elems (map exit_json (ts_exits s)))])
      @ (case ts_current_exit s of None \<Rightarrow> [] | Some i \<Rightarrow> [(''current_exit_site_id'', itoa i)])) @ [NL]"

text \<open>\<open>json.Unmarshal\<close> is the argument \<open>parse\<close> (text to value) followed by the struct's fields.\<close>

definition dec_tray_command :: "fields_map \<Rightarrow> tray_command option" where
  "dec_tray_command m =
     (case (dec_str (struct_field m ''command''), dec_bool (struct_field m ''value''),
            dec_opt_int (struct_field m ''site_id''), dec_str (struct_field m ''service''),
            dec_str (struct_field m ''subtype'')) of
        (Some c, Some v, Some i, Some s, Some t) \<Rightarrow>
          Some \<lparr>tc_command = c, tc_value = v, tc_site_id = i, tc_service = s, tc_subtype = t\<rparr>
      | _ \<Rightarrow> None)"

definition decode_tray_command :: "(string \<Rightarrow> json option) \<Rightarrow> string \<Rightarrow> tray_command option" where
  "decode_tray_command parse line =
     (case parse line of None \<Rightarrow> None | Some v \<Rightarrow> dec_struct dec_tray_command v)"

text \<open>The CLI's side: \<open>json.NewEncoder(conn).Encode(cmd)\<close>.\<close>

definition tray_command_json :: "tray_command \<Rightarrow> json" where
  "tray_command_json c = JObj
     ([(''command'', JStr (tc_command c)), (''value'', JBool (tc_value c))]
      @ (case tc_site_id c of None \<Rightarrow> [] | Some i \<Rightarrow> [(''site_id'', JNum i)])
      @ (if tc_service c = [] then [] else [(''service'', JStr (tc_service c))])
      @ (if tc_subtype c = [] then [] else [(''subtype'', JStr (tc_subtype c))]))"

subsection \<open>The daemon's sockets\<close>

definition tray_socket_paths :: "string option \<Rightarrow> string list" where
  "tray_socket_paths windows =
     (case windows of Some p \<Rightarrow> [p] | None \<Rightarrow> [''/run/theta/tray.sock'', ''/tmp/theta-tray.sock''])"

text \<open>Both ends try the paths in order; the last error is reported.\<close>

fun dial_tray :: "(string \<Rightarrow> 'c result) \<Rightarrow> string list \<Rightarrow> string option \<Rightarrow> 'c result" where
  "dial_tray dial [] None = Inl ''no tray socket paths configured''"
| "dial_tray dial [] (Some err) = Inl (wrap_err ''cannot connect to daemon IPC socket'' err)"
| "dial_tray dial (p # ps) prev =
     (case dial p of Inr c \<Rightarrow> Inr c | Inl err \<Rightarrow> dial_tray dial ps (Some err))"

subsection \<open>Status distribution\<close>

text \<open>
  A client is its connection number, what was written to it and whether the daemon still has
  it open; \<open>wr\<close> says which connections accept a write.
\<close>

record tray_client =
  cl_id :: nat
  cl_out :: "string list"
  cl_open :: bool

record tray_server =
  sv_status :: tray_status
  sv_clients :: "tray_client list"

definition write_client :: "(nat \<Rightarrow> bool) \<Rightarrow> string \<Rightarrow> tray_client \<Rightarrow> tray_client" where
  "write_client wr b c =
     (if cl_open c \<and> wr (cl_id c) then c\<lparr>cl_out := cl_out c @ [b]\<rparr> else c\<lparr>cl_open := False\<rparr>)"

definition tray_push :: "(nat \<Rightarrow> bool) \<Rightarrow> tray_server \<Rightarrow> tray_status \<Rightarrow> tray_server" where
  "tray_push wr ts s =
     (if sv_clients ts = [] then ts\<lparr>sv_status := s\<rparr>
      else ts\<lparr>sv_status := s,
              sv_clients := map (write_client wr (encode_tray_status s)) (sv_clients ts)\<rparr>)"

text \<open>A new connection gets the current status at once; a failing write is ignored here.\<close>

definition tray_accept :: "(nat \<Rightarrow> bool) \<Rightarrow> tray_server \<Rightarrow> nat \<Rightarrow> tray_server" where
  "tray_accept wr ts n =
     ts\<lparr>sv_clients := \<lparr>cl_id = n,
        cl_out = (if wr n then [encode_tray_status (sv_status ts)] else []), cl_open = True\<rparr> # sv_clients ts\<rparr>"

definition tray_disconnect :: "tray_server \<Rightarrow> nat \<Rightarrow> tray_server" where
  "tray_disconnect ts n = ts\<lparr>sv_clients := filter (\<lambda>c. cl_id c \<noteq> n) (sv_clients ts)\<rparr>"

subsection \<open>Lemmas\<close>

lemma tray_push_status [simp]: "sv_status (tray_push wr ts s) = s"
  by (simp add: tray_push_def)

text \<open>What the CLI encodes is what the daemon decodes.\<close>

lemma lower_keys:
  "to_lower ''command'' = ''command''" "to_lower ''value'' = ''value''" "to_lower ''site_id'' = ''site_id''"
  "to_lower ''service'' = ''service''" "to_lower ''subtype'' = ''subtype''"
  by code_simp+

definition go_int :: "int \<Rightarrow> bool" where
  "go_int n = (- (2 ^ 63) \<le> n \<and> n < 2 ^ 63)"

lemma push_reaches_open:
  "c \<in> set (sv_clients (tray_push wr ts s)) \<Longrightarrow> cl_open c \<Longrightarrow>
     cl_out c \<noteq> [] \<and> last (cl_out c) = encode_tray_status s"
  by (auto simp: tray_push_def write_client_def split: if_splits)

subsection \<open>Properties\<close>

text \<open>What the CLI or the tray encodes is what the daemon decodes, whichever optional fields
  are left out of the text: any command whose site number fits a Go int survives the round trip
  with every field, an absent site id and one of 0 kept apart.\<close>

theorem tray_command_roundtrip:
  assumes "pred_option go_int (tc_site_id c)"
  shows "dec_struct dec_tray_command (tray_command_json c) = Some c"
proof -
  obtain m where m: "tray_command_json c = JObj m"
    and d: "distinct (map fst m)" "\<forall>p\<in>set m. to_lower (fst p) = fst p"
    and f: "map_of m ''command'' = Some (JStr (tc_command c))" "map_of m ''value'' = Some (JBool (tc_value c))"
      "map_of m ''site_id'' = map_option JNum (tc_site_id c)"
      "map_of m ''service'' = (if tc_service c = [] then None else Some (JStr (tc_service c)))"
      "map_of m ''subtype'' = (if tc_subtype c = [] then None else Some (JStr (tc_subtype c)))"
    using lower_keys by (simp add: tray_command_json_def split: option.splits)
  have "dec_tray_command m = Some \<lparr>tc_command = tc_command c, tc_value = tc_value c,
      tc_site_id = tc_site_id c, tc_service = tc_service c, tc_subtype = tc_subtype c\<rparr>"
    using assms by (cases "tc_site_id c")
      (auto simp: dec_tray_command_def struct_field_map_of [OF d] f dec_str_def
        dec_bool_def dec_opt_int_def dec_int_def go_int_def)
  then show ?thesis by (simp add: m dec_struct_def)
qed

lemma tray_command_roundtrip_witness:
  "dec_struct dec_tray_command (tray_command_json
     \<lparr>tc_command = ''set_exit'', tc_value = False, tc_site_id = Some 0, tc_service = [], tc_subtype = []\<rparr>) =
   Some \<lparr>tc_command = ''set_exit'', tc_value = False, tc_site_id = Some 0, tc_service = [], tc_subtype = []\<rparr>"
  by (rule tray_command_roundtrip) (simp add: go_int_def)

end
