(* ===== verification/GoHttp.thy ===== *)
theory GoHttp
  imports Prelude
begin

text \<open>
  HTTP as the source uses it: a request, and the directory's answer, which is an argument of the
  operations that ask it. \<open>hr_broken\<close> is the error that cut the body short, if any.
\<close>

record http_response =
  hr_code :: nat
  hr_status :: string
  hr_body :: string
  hr_broken :: "string option"

record http_request =
  hq_method :: string
  hq_url :: string
  hq_headers :: "(string \<times> string) list"
  hq_body :: string

type_synonym http = "http_request \<Rightarrow> http_response result"

end
