(* ===== verification/Platform.thy ===== *)
theory Platform
  imports Iam
begin

text \<open>
  \<open>platform_ops.go\<close>: the interface between command dispatch and the operating system. An
  operation is a function on the world that returns its output, its error (\<open>None\<close> on success) or
  both; \<open>linuxPlatformOps\<close> is built in theory LinuxOps.
\<close>

type_synonym 'a op = "world \<Rightarrow> 'a \<times> world"
type_synonym outcome = "string \<times> string option"

record platform =
  p_reboot :: "outcome op"
  p_shutdown :: "outcome op"
  p_fetch_logs :: "string \<Rightarrow> int \<Rightarrow> outcome op"
  p_service_control :: "string \<Rightarrow> string \<Rightarrow> outcome op"
  p_run_script :: "string \<Rightarrow> outcome op"
  p_desktop_control :: "string \<Rightarrow> string \<Rightarrow> outcome op"
  p_configure_ldap :: "string \<Rightarrow> string option op"
  p_apply_update :: "string \<Rightarrow> string \<Rightarrow> string option op"
  p_persist_wg :: "string \<Rightarrow> string option op"
  p_apply_wg :: "string \<Rightarrow> string option op"
  p_remove_wg :: "string option op"
  p_wg_state :: "bool op"
  p_connect_wg :: "string option op"
  p_disconnect_wg :: "string option op"
  p_apply_iam :: "iam_payload \<Rightarrow> string option op"
  p_zpool_scrub :: "string \<Rightarrow> outcome op"

end
