(* ===== verification/WgTools.thy ===== *)
theory WgTools
  imports GoOs GoJson
begin

text \<open>
  \<open>wg_tools.go\<close>: the preflight for the WireGuard userspace tools and the payload helpers for the
  mesh identity. Which programs are on the path is the argument \<open>look_path\<close>.
\<close>

subsection \<open>Distribution\<close>

definition trim_quotes :: "string \<Rightarrow> string" where
  "trim_quotes = trim_when (\<lambda>c. c = DQ \<or> c = SQ)"

fun os_release_ids :: "string list \<Rightarrow> string \<times> string \<Rightarrow> string \<times> string" where
  "os_release_ids [] r = r"
| "os_release_ids (line # ls) (i, like) =
     (case cut_on (CHR ''='') (trim_space line) of
        None \<Rightarrow> os_release_ids ls (i, like)
      | Some (k, v) \<Rightarrow>
          if k = ''ID'' then os_release_ids ls (trim_quotes v, like)
          else if k = ''ID_LIKE'' then os_release_ids ls (i, trim_quotes v)
          else os_release_ids ls (i, like))"

definition family_of :: "string \<Rightarrow> string option" where
  "family_of token =
     (if token \<in> {''debian'', ''ubuntu'', ''raspbian'', ''linuxmint'', ''pop''} then Some ''debian''
      else if token \<in> {''rhel'', ''fedora'', ''centos'', ''rocky'', ''almalinux''} then Some ''rhel''
      else if token \<in> {''suse'', ''opensuse'', ''opensuse-leap'', ''opensuse-tumbleweed'', ''sles''}
        then Some ''suse''
      else if token \<in> {''arch'', ''manjaro'', ''archarm''} then Some ''arch''
      else if token = ''alpine'' then Some ''alpine'' else None)"

fun first_family :: "string list \<Rightarrow> string" where
  "first_family [] = []"
| "first_family (t # ts) = (case family_of t of Some f \<Rightarrow> f | None \<Rightarrow> first_family ts)"

definition distro_family :: "env \<Rightarrow> world \<Rightarrow> string \<Rightarrow> string" where
  "distro_family e w os_release =
     (case read_file e w os_release of Inl err \<Rightarrow> []
      | Inr data \<Rightarrow> (let (i, like) = os_release_ids (split_on NL data) ([], [])
                     in first_family (i # str_fields like)))"

definition install_hint :: "string \<Rightarrow> string" where
  "install_hint family =
     (if family = ''debian'' then ''apt-get install -y wireguard-tools''
      else if family = ''rhel'' then ''dnf install -y wireguard-tools''
      else if family = ''suse'' then ''zypper install -y wireguard-tools''
      else if family = ''arch'' then ''pacman -S --noconfirm wireguard-tools''
      else if family = ''alpine'' then ''apk add wireguard-tools''
      else ''your distribution'' @ [SQ] @ ''s wireguard-tools package'')"

subsection \<open>Preflight\<close>

definition wg_required :: "string list" where "wg_required = [''wg'', ''wg-quick'']"

definition missing_tools :: "(string \<Rightarrow> bool) \<Rightarrow> string list" where
  "missing_tools look_path = filter (\<lambda>b. \<not> look_path b) wg_required"

definition check_wireguard_tools :: "bool \<Rightarrow> (string \<Rightarrow> bool) \<Rightarrow> env \<Rightarrow> world \<Rightarrow> string option" where
  "check_wireguard_tools windows look_path e w =
     (if windows then None
      else if missing_tools look_path = [] then None
      else Some (''wireguard tools are not installed: '' @ join '' and '' (missing_tools look_path) @
        '' not found in PATH. The WireGuard kernel module ships with the OS but the userspace tools are a separate package -- install them with: '' @
        install_hint (distro_family e w ''/etc/os-release'')))"

definition wireguard_tools_ready :: "bool \<Rightarrow> (string \<Rightarrow> bool) \<Rightarrow> env \<Rightarrow> world \<Rightarrow> bool" where
  "wireguard_tools_ready windows look_path e w = (check_wireguard_tools windows look_path e w = None)"

subsection \<open>Payload helpers\<close>

text \<open>
  A JSON number becomes an int by truncation. Outside the range of \<open>int\<close> Go leaves the result to
  the implementation: it is the argument \<open>conv\<close>.
\<close>

definition float_to_int :: "(int \<Rightarrow> int) \<Rightarrow> int \<Rightarrow> int" where
  "float_to_int conv n = (if - (2 ^ 63) \<le> n \<and> n < 2 ^ 63 then n else conv n)"

text \<open>The integral part of a number that is not a plain integer, from its text.\<close>

definition dec_trunc :: "(string \<Rightarrow> int) \<Rightarrow> string \<Rightarrow> int" where
  "dec_trunc big t =
     (if CHR ''e'' \<in> set t
      then (if CHR ''-'' \<in> set (dropWhile (\<lambda>c. c \<noteq> CHR ''e'') t) then 0 else big t)
      else (let neg = (t \<noteq> [] \<and> hd t = CHR ''-'');
                n = int (digits_val (takeWhile is_digit (if neg then tl t else t)))
            in if neg then - n else n))"

record number_conv =
  nc_int :: "int \<Rightarrow> int"
  nc_dec :: "string \<Rightarrow> int"

definition json_int :: "number_conv \<Rightarrow> json \<Rightarrow> int option" where
  "json_int nc v =
     (case v of JNum n \<Rightarrow> Some (float_to_int (nc_int nc) n)
      | JDec t \<Rightarrow> Some (float_to_int (nc_int nc) (dec_trunc (nc_dec nc) t))
      | _ \<Rightarrow> None)"

definition int_from_payload :: "number_conv \<Rightarrow> fields_map \<Rightarrow> string \<Rightarrow> int" where
  "int_from_payload nc m k =
     (case map_of m k of None \<Rightarrow> 0 | Some v \<Rightarrow> (case json_int nc v of Some n \<Rightarrow> n | None \<Rightarrow> 0))"

definition opt_int_from_payload :: "number_conv \<Rightarrow> fields_map \<Rightarrow> string \<Rightarrow> int option" where
  "opt_int_from_payload nc m k = (case map_of m k of None \<Rightarrow> None | Some v \<Rightarrow> json_int nc v)"

lemma check_tools_iff:
  "check_wireguard_tools windows look_path e w = None \<longleftrightarrow>
     windows \<or> (look_path ''wg'' \<and> look_path ''wg-quick'')"
  by (auto simp: check_wireguard_tools_def missing_tools_def wg_required_def)

end
