(* ===== verification/LinuxOps.thy ===== *)
theory LinuxOps
  imports GoHttp Platform WgTools
begin

text \<open>
  \<open>platform_linuxops.go\<close> and \<open>executor.go\<close>: the Linux implementation of the platform interface,
  and \<open>downloadBinary\<close> of \<open>websocket.go\<close>, which its update operation uses.
\<close>

record linux_ops =
  lo_env :: env
  lo_tunnel :: string
  lo_conf :: string
  lo_look_path :: "string \<Rightarrow> bool"
  lo_rand :: "world \<Rightarrow> string"

abbreviation exec :: "linux_ops \<Rightarrow> world \<Rightarrow> string \<Rightarrow> string list \<Rightarrow> outcome \<times> world" where
  "exec lo w c args \<equiv> run_cmd (lo_env lo) w c args"

subsection \<open>Simple commands\<close>

definition lx_reboot :: "linux_ops \<Rightarrow> outcome op" where
  "lx_reboot lo w = exec lo w ''reboot'' []"

definition lx_shutdown :: "linux_ops \<Rightarrow> outcome op" where
  "lx_shutdown lo w =
     (case exec lo w ''shutdown'' [''-h'', ''now''] of
        ((out, Some err), w1) \<Rightarrow> exec lo w1 ''poweroff'' []
      | ((out, None), w1) \<Rightarrow> ((out, None), w1))"

definition lx_fetch_logs :: "linux_ops \<Rightarrow> string \<Rightarrow> int \<Rightarrow> outcome op" where
  "lx_fetch_logs lo service lines w =
     exec lo w ''journalctl'' [''-u'', service, ''-n'', itoa lines, ''--no-pager'']"

definition lx_service_control :: "linux_ops \<Rightarrow> string \<Rightarrow> string \<Rightarrow> outcome op" where
  "lx_service_control lo service action w = exec lo w ''systemctl'' [action, service]"

definition lx_run_script :: "linux_ops \<Rightarrow> string \<Rightarrow> outcome op" where
  "lx_run_script lo script w = exec lo w ''bash'' [''-c'', script]"

definition lx_zpool_scrub :: "linux_ops \<Rightarrow> string \<Rightarrow> outcome op" where
  "lx_zpool_scrub lo pool w = exec lo w ''zpool'' [''scrub'', pool]"

subsection \<open>Desktop sessions\<close>

record desktop_session =
  ses_id :: string
  ses_user :: string
  ses_uid :: string
  ses_type :: string
  ses_display :: string
  ses_active :: bool

definition graphical :: "desktop_session \<Rightarrow> bool" where
  "graphical s = (ses_type s = ''x11'' \<or> ses_type s = ''wayland'' \<or> ses_type s = ''mir'')"

fun session_props :: "string list \<Rightarrow> desktop_session \<Rightarrow> desktop_session" where
  "session_props [] s = s"
| "session_props (kv # kvs) s =
     (case cut_on (CHR ''='') (trim_space kv) of
        None \<Rightarrow> session_props kvs s
      | Some (k, v) \<Rightarrow> session_props kvs
          (if k = ''Type'' then s\<lparr>ses_type := v\<rparr>
           else if k = ''Active'' then s\<lparr>ses_active := (v = ''yes'')\<rparr>
           else if k = ''Display'' then s\<lparr>ses_display := v\<rparr> else s))"

fun read_sessions :: "linux_ops \<Rightarrow> string \<Rightarrow> string list \<Rightarrow> world \<Rightarrow> desktop_session list \<times> world" where
  "read_sessions lo target [] w = ([], w)"
| "read_sessions lo target (line # ls) w =
     (case str_fields line of
        sid # uid # user # _ \<Rightarrow>
          if target \<noteq> [] \<and> user \<noteq> target then read_sessions lo target ls w
          else
            (let s = \<lparr>ses_id = sid, ses_user = user, ses_uid = uid, ses_type = [], ses_display = [], ses_active = False\<rparr>;
                 r = exec lo w ''loginctl'' [''show-session'', sid, ''--property=Type'', ''--property=Active'', ''--property=Display''];
                 s1 = (case snd (fst r) of None \<Rightarrow> session_props (split_on NL (fst (fst r))) s | Some _ \<Rightarrow> s);
                 rest = read_sessions lo target ls (snd r)
             in (s1 # fst rest, snd rest))
      | _ \<Rightarrow> read_sessions lo target ls w)"

definition list_sessions :: "linux_ops \<Rightarrow> string \<Rightarrow> world \<Rightarrow> desktop_session list \<times> world" where
  "list_sessions lo target w =
     (case exec lo w ''loginctl'' [''list-sessions'', ''--no-legend''] of
        ((out, Some err), w1) \<Rightarrow> ([], w1)
      | ((out, None), w1) \<Rightarrow> read_sessions lo target (split_on NL out) w1)"

definition graphical_sessions :: "linux_ops \<Rightarrow> string \<Rightarrow> world \<Rightarrow> desktop_session list \<times> world" where
  "graphical_sessions lo target w =
     (let r = list_sessions lo target w; gs = filter graphical (fst r)
      in (filter ses_active gs @ filter (\<lambda>s. \<not> ses_active s) gs, snd r))"

text \<open>One \<open>loginctl\<close> verb per session; the first failure is the error.\<close>

fun each_session ::
  "linux_ops \<Rightarrow> string \<Rightarrow> (desktop_session \<Rightarrow> string \<Rightarrow> string) \<Rightarrow> desktop_session list \<Rightarrow> world \<Rightarrow>
   outcome \<times> world" where
  "each_session lo verb line [] w = (([], None), w)"
| "each_session lo verb line (s # ss) w =
     (let r = exec lo w ''loginctl'' [verb, ses_id s];
          out = line s (trim_space (fst (fst r)));
          err = map_option (wrap_err (verb @ '' '' @ ses_id s)) (snd (fst r));
          rest = each_session lo verb line ss (snd r)
      in ((out @ fst (fst rest), case err of Some x \<Rightarrow> Some x | None \<Rightarrow> snd (fst rest)), snd rest))"

definition lock_line :: "desktop_session \<Rightarrow> string \<Rightarrow> string" where
  "lock_line s out = ''session '' @ ses_id s @ '' ('' @ ses_user s @ '', '' @ ses_type s @ ''): '' @ out @ [NL]"

definition logout_line :: "desktop_session \<Rightarrow> string \<Rightarrow> string" where
  "logout_line s out = ''session '' @ ses_id s @ '' ('' @ ses_user s @ ''): '' @ out @ [NL]"

definition desktop_lock :: "linux_ops \<Rightarrow> string \<Rightarrow> outcome op" where
  "desktop_lock lo target w =
     (case graphical_sessions lo target w of
        ([], w1) \<Rightarrow>
          (case exec lo w1 ''loginctl'' [''lock-sessions''] of
             ((out, Some err), w2) \<Rightarrow> ((out, Some (wrap_err ''no graphical session to lock'' err)), w2)
           | ((out, None), w2) \<Rightarrow> ((out, None), w2))
      | (ss, w1) \<Rightarrow> each_session lo ''lock-session'' lock_line ss w1)"

definition desktop_logout :: "linux_ops \<Rightarrow> string \<Rightarrow> outcome op" where
  "desktop_logout lo target w =
     (if target \<noteq> [] then
        (case exec lo w ''loginctl'' [''terminate-user'', target] of
           ((out, Some err), w1) \<Rightarrow> ((out, Some (wrap_err (''terminate-user '' @ target) err)), w1)
         | ((out, None), w1) \<Rightarrow> ((out, None), w1))
      else (case graphical_sessions lo [] w of
          ([], w1) \<Rightarrow> (([], Some ''no graphical session to log out''), w1)
        | (ss, w1) \<Rightarrow> each_session lo ''terminate-session'' logout_line ss w1))"

fun dpms_off :: "linux_ops \<Rightarrow> desktop_session list \<Rightarrow> world \<Rightarrow> string option \<times> world" where
  "dpms_off lo [] w = (None, w)"
| "dpms_off lo (s # ss) w =
     (if ses_type s \<noteq> ''x11'' \<or> ses_display s = [] then dpms_off lo ss w
      else (case exec lo w ''runuser'' [''-u'', ses_user s, ''--'', ''env'', ''DISPLAY='' @ ses_display s,
                 ''xset'', ''dpms'', ''force'', ''off''] of
          ((out, None), w1) \<Rightarrow> (Some out, w1)
        | ((out, Some err), w1) \<Rightarrow> dpms_off lo ss w1))"

definition desktop_display_off :: "linux_ops \<Rightarrow> string \<Rightarrow> outcome op" where
  "desktop_display_off lo target w =
     (case graphical_sessions lo target w of (ss, w1) \<Rightarrow>
       (case dpms_off lo ss w1 of
          (Some out, w2) \<Rightarrow> ((out, None), w2)
        | (None, w2) \<Rightarrow>
            (case exec lo w2 ''loginctl'' [''lock-sessions''] of
               ((out, Some err), w3) \<Rightarrow>
                 ((out, Some (wrap_err ''no X11 session for DPMS and lock fallback failed'' err)), w3)
             | ((out, None), w3) \<Rightarrow>
                 ((''no X11 session for DPMS (Wayland?); locked instead'' @ [NL] @ out, None), w3))))"

definition lx_desktop_control :: "linux_ops \<Rightarrow> string \<Rightarrow> string \<Rightarrow> outcome op" where
  "lx_desktop_control lo action target w =
     (if action = ''lock_session'' \<or> action = ''lock'' then desktop_lock lo target w
      else if action = ''logout_user'' \<or> action = ''logout'' then desktop_logout lo target w
      else if action = ''display_off'' then desktop_display_off lo target w
      else if action = ''sleep_host'' \<or> action = ''sleep'' then exec lo w ''systemctl'' [''suspend'']
      else (([], Some (''unknown desktop action '' @ [SQ] @ action @ [SQ])), w))"


subsection \<open>LDAP logon\<close>

definition nss_line :: "string \<Rightarrow> bool" where
  "nss_line line =
     (let t = trim_space line in
      (has_prefix t ''passwd:'' \<or> has_prefix t ''group:'' \<or> has_prefix t ''shadow:'' \<or> has_prefix t ''sudoers:'')
      \<and> \<not> str_contains t ''sss'')"

definition nss_edit :: "string \<Rightarrow> string" where
  "nss_edit s = join [NL] (map (\<lambda>l. if nss_line l then l @ '' sss'' else l) (split_on NL s))"

definition nss_update :: "env \<Rightarrow> world \<Rightarrow> world" where
  "nss_update e w =
     (case read_file e w ''/etc/nsswitch.conf'' of Inl err \<Rightarrow> w
      | Inr s \<Rightarrow>
          if list_ex nss_line (split_on NL s)
          then snd (write_file e w ''/etc/nsswitch.conf'' (nss_edit s) 0x1A4) else w)"

definition ssh_conf_text :: string where
  "ssh_conf_text = ''AuthorizedKeysCommand /usr/bin/sss_ssh_authorizedkeys %u'' @ [NL] @
     ''AuthorizedKeysCommandUser nobody'' @ [NL]"

definition write_sssd_ssh_conf :: "linux_ops \<Rightarrow> world \<Rightarrow> world" where
  "write_sssd_ssh_conf lo w =
     (let w1 = (case write_file (lo_env lo) w ''/etc/ssh/sshd_config.d/theta-sssd.conf'' ssh_conf_text 0x1A4 of
                  (None, w1) \<Rightarrow> snd (exec lo w1 ''systemctl'' [''reload'', ''sshd''])
                | (Some err, w1) \<Rightarrow> w1);
          w2 = (case read_file (lo_env lo) w1 ''/etc/ssh/sshd_config'' of
                  Inl err \<Rightarrow> w1
                | Inr s \<Rightarrow>
                    if str_contains s ''sss_ssh_authorizedkeys'' then w1
                    else (let w' = snd (write_file (lo_env lo) w1 ''/etc/ssh/sshd_config'' (s @ [NL] @ ssh_conf_text) 0x1A4)
                          in snd (exec lo w' ''systemctl'' [''reload'', ''sshd''])))
      in snd (exec lo w2 ''sh'' [''-c'', ''pam-auth-update --package --enable mkhomedir sss || true'']))"

definition sssd_install_script :: string where
  "sssd_install_script = ''DEBIAN_FRONTEND=noninteractive apt-get update -y -qq && DEBIAN_FRONTEND=noninteractive apt-get install -y -qq sssd sssd-ldap libnss-sss libpam-sss libsss-sudo libpam-runtime || dnf install -y sssd sssd-ldap sssd-tools || yum install -y sssd sssd-ldap sssd-tools''"

definition lx_configure_ldap :: "linux_ops \<Rightarrow> string \<Rightarrow> string option op" where
  "lx_configure_ldap lo conf w =
     (case write_file (lo_env lo) w ''/etc/sssd/sssd.conf'' conf 0x180 of
        (Some err, w1) \<Rightarrow> (Some (wrap_err ''failed to write SSSD config'' err), w1)
      | (None, w1) \<Rightarrow>
          (let w2 = nss_update (lo_env lo) w1 in
           case exec lo w2 ''systemctl'' [''restart'', ''sssd''] of
             ((out, None), w3) \<Rightarrow> (None, write_sssd_ssh_conf lo w3)
           | ((out, Some err), w3) \<Rightarrow>
               (case exec lo w3 ''sh'' [''-c'', sssd_install_script] of
                  ((out2, Some err2), w4) \<Rightarrow> (Some ''failed to restart sssd'', w4)
                | ((out2, None), w4) \<Rightarrow>
                    (let w5 = snd (exec lo w4 ''sh'' [''-c'', ''pam-auth-update --package --enable mkhomedir sss || true'']) in
                     case exec lo w5 ''systemctl'' [''restart'', ''sssd''] of
                       ((out3, None), w6) \<Rightarrow> (None, write_sssd_ssh_conf lo w6)
                     | ((out3, Some err3), w6) \<Rightarrow> (Some ''failed to restart sssd'', w6)))))"

subsection \<open>Self-update\<close>

text \<open>
  The HTTP response: status, body, and the error that ended the body early, if any. The digest
  \<open>sha\<close> (SHA-256 in lower-case hex) and the transport \<open>get\<close> are arguments.
\<close>

record update_env =
  ue_get :: "string \<Rightarrow> http_response result"
  ue_sha :: "string \<Rightarrow> string"
  ue_self :: "string result"
  ue_resolve :: "string \<Rightarrow> string option"

definition max_binary :: nat where "max_binary = 268435456"

definition download_binary ::
  "linux_ops \<Rightarrow> update_env \<Rightarrow> world \<Rightarrow> string \<Rightarrow> string \<Rightarrow> string \<Rightarrow> string result \<times> world" where
  "download_binary lo ue w url checksum dir =
     (case ue_get ue url of
        Inl err \<Rightarrow> (Inl (wrap_err ''http fetch failed'' err), w)
      | Inr resp \<Rightarrow>
          if hr_code resp \<noteq> 200 then (Inl (''unexpected http status: '' @ hr_status resp), w)
          else (case create_temp (lo_env lo) (lo_rand lo) w dir ''theta-agent-update-'' of
              (Inl err, w1) \<Rightarrow> (Inl (wrap_err ''failed to create temp file'' err), w1)
            | (Inr tmp, w1) \<Rightarrow>
                (let drop_tmp = (\<lambda>msg w'. (Inl msg, snd (remove_file (lo_env lo) w' tmp))) in
                 case write_file (lo_env lo) w1 tmp (take max_binary (hr_body resp)) 0x180 of
                   (Some err, w2) \<Rightarrow> drop_tmp (wrap_err ''failed to save binary'' err) w2
                 | (None, w2) \<Rightarrow>
                     if length (hr_body resp) < max_binary \<and> hr_broken resp \<noteq> None
                     then drop_tmp (wrap_err ''failed to save binary'' (the (hr_broken resp))) w2
                     else if max_binary \<le> length (hr_body resp)
                     then drop_tmp (''binary exceeds maximum allowed size ('' @ show_nat max_binary @ '' bytes)'') w2
                     else if to_lower (ue_sha ue (hr_body resp)) \<noteq> to_lower (trim_space checksum)
                     then drop_tmp (''sha256 mismatch: expected '' @ checksum @ '', got '' @ ue_sha ue (hr_body resp)) w2
                     else (case chmod (lo_env lo) w2 tmp 0x1ED of
                         (Some err, w3) \<Rightarrow> drop_tmp (wrap_err ''failed to set executable permissions'' err) w3
                       | (None, w3) \<Rightarrow> (Inr tmp, w3)))))"

definition self_path :: "update_env \<Rightarrow> string result" where
  "self_path ue =
     (case ue_self ue of
        Inl err \<Rightarrow> Inl (wrap_err ''failed to resolve current binary path'' err)
      | Inr p \<Rightarrow> Inr (case ue_resolve ue p of Some r \<Rightarrow> r | None \<Rightarrow> p))"

definition lx_apply_update :: "linux_ops \<Rightarrow> update_env \<Rightarrow> string \<Rightarrow> string \<Rightarrow> string option op" where
  "lx_apply_update lo ue url checksum w =
     (case self_path ue of
        Inl err \<Rightarrow> (Some err, w)
      | Inr self \<Rightarrow>
          (case download_binary lo ue w url checksum (path_dir self) of
             (Inl err, w1) \<Rightarrow> (Some err, w1)
           | (Inr tmp, w1) \<Rightarrow>
               (case rename_file (lo_env lo) w1 tmp self of
                  (Some err, w2) \<Rightarrow> (Some (wrap_err ''failed to replace binary'' err), w2)
                | (None, w2) \<Rightarrow> (None, w2))))"

subsection \<open>WireGuard\<close>

definition lx_persist_wg :: "linux_ops \<Rightarrow> string \<Rightarrow> string option op" where
  "lx_persist_wg lo conf w =
     (case check_wireguard_tools False (lo_look_path lo) (lo_env lo) w of
        Some err \<Rightarrow> (Some err, w)
      | None \<Rightarrow>
          (case mkdir_all (lo_env lo) w (path_dir (lo_conf lo)) of
             Some err \<Rightarrow> (Some (wrap_err ''wireguard: create config dir'' err), w)
           | None \<Rightarrow>
               (case write_file (lo_env lo) w (lo_conf lo) conf 0x180 of
                  (Some err, w1) \<Rightarrow> (Some (wrap_err ''wireguard: persist config'' err), w1)
                | (None, w1) \<Rightarrow> (None, w1))))"

definition lx_wg_state :: "linux_ops \<Rightarrow> bool op" where
  "lx_wg_state lo w =
     (case exec lo w ''ip'' [''link'', ''show'', lo_tunnel lo] of
        ((out, err), w1) \<Rightarrow> (err = None \<and> out \<noteq> [], w1))"

definition wg_up :: "linux_ops \<Rightarrow> string option op" where
  "wg_up lo w =
     (case exec lo w ''wg-quick'' [''up'', lo_tunnel lo] of
        ((out, Some err), w1) \<Rightarrow>
          (Some (''wireguard: wg-quick up '' @ lo_tunnel lo @ '': '' @ err @ '': '' @ out), w1)
      | ((out, None), w1) \<Rightarrow> (None, w1))"

definition lx_apply_wg :: "linux_ops \<Rightarrow> string \<Rightarrow> string option op" where
  "lx_apply_wg lo conf w =
     (case lx_persist_wg lo conf w of
        (Some err, w1) \<Rightarrow> (Some err, w1)
      | (None, w1) \<Rightarrow>
          (case lx_wg_state lo w1 of
             (False, w2) \<Rightarrow> wg_up lo w2
           | (True, w2) \<Rightarrow>
               (case exec lo w2 ''wg-quick'' [''down'', lo_tunnel lo] of
                  ((out, Some err), w3) \<Rightarrow>
                    (Some (''wireguard: wg-quick down '' @ lo_tunnel lo @ '' (before re-applying): '' @ err @ '': '' @ out), w3)
                | ((out, None), w3) \<Rightarrow> wg_up lo w3)))"

definition lx_remove_wg :: "linux_ops \<Rightarrow> string option op" where
  "lx_remove_wg lo w =
     (case check_wireguard_tools False (lo_look_path lo) (lo_env lo) w of
        Some err \<Rightarrow> (Some err, w)
      | None \<Rightarrow>
          (case exec lo w ''wg-quick'' [''down'', lo_tunnel lo] of
             ((out, Some err), w1) \<Rightarrow>
               (Some (''wireguard: wg-quick down '' @ lo_tunnel lo @ '': '' @ err @ '': '' @ out), w1)
           | ((out, None), w1) \<Rightarrow> (None, w1)))"

definition lx_connect_wg :: "linux_ops \<Rightarrow> string option op" where
  "lx_connect_wg lo w =
     (case lx_wg_state lo w of
        (True, w1) \<Rightarrow> (None, w1)
      | (False, w1) \<Rightarrow>
          (case read_file (lo_env lo) w1 (lo_conf lo) of
             Inl err \<Rightarrow> (Some (wrap_err (''wireguard: no persisted config at '' @ lo_conf lo) err), w1)
           | Inr conf \<Rightarrow> lx_apply_wg lo conf w1))"

definition lx_disconnect_wg :: "linux_ops \<Rightarrow> string option op" where
  "lx_disconnect_wg lo w =
     (case lx_wg_state lo w of (False, w1) \<Rightarrow> (None, w1) | (True, w1) \<Rightarrow> lx_remove_wg lo w1)"

subsection \<open>The Linux platform\<close>

definition linux_platform :: "linux_ops \<Rightarrow> update_env \<Rightarrow> platform" where
  "linux_platform lo ue =
     \<lparr>p_reboot = lx_reboot lo, p_shutdown = lx_shutdown lo, p_fetch_logs = lx_fetch_logs lo,
      p_service_control = lx_service_control lo, p_run_script = lx_run_script lo,
      p_desktop_control = lx_desktop_control lo, p_configure_ldap = lx_configure_ldap lo,
      p_apply_update = lx_apply_update lo ue, p_persist_wg = lx_persist_wg lo,
      p_apply_wg = lx_apply_wg lo, p_remove_wg = lx_remove_wg lo, p_wg_state = lx_wg_state lo,
      p_connect_wg = lx_connect_wg lo, p_disconnect_wg = lx_disconnect_wg lo,
      p_apply_iam = (\<lambda>p w. apply_iam (lo_env lo) (lo_rand lo) w p),
      p_zpool_scrub = lx_zpool_scrub lo\<rparr>"


subsection \<open>Tunnel drivers\<close>

text \<open>
  What the auto-VPN policy relies on: the probe of the interface decides, connecting a tunnel that
  is up does nothing more than the probe, and neither does disconnecting one that is down.
\<close>

locale wg_driver =
  fixes up :: "bool op" and connect :: "string option op" and disconnect :: "string option op"
  assumes connect_up: "fst (up w) \<Longrightarrow> connect w = (None, snd (up w))"
    and disconnect_down: "\<not> fst (up w) \<Longrightarrow> disconnect w = (None, snd (up w))"
begin

definition drive :: "bool \<Rightarrow> string option op" where
  "drive want w = (if want then connect w else disconnect w)"

lemma drive_settled: "fst (up w) = want \<Longrightarrow> drive want w = (None, snd (up w))"
  by (auto simp: drive_def connect_up disconnect_down)

end

interpretation linux_wg: wg_driver "lx_wg_state lo" "lx_connect_wg lo" "lx_disconnect_wg lo" for lo
  by unfold_locales (auto simp: lx_connect_wg_def lx_disconnect_wg_def split: prod.splits bool.splits)

subsection \<open>Laws\<close>

text \<open>A finished download is the verified body of a complete response; other files are untouched.\<close>

lemma download_binary_ok:
  assumes "download_binary lo ue w url chk dir = (Inr tmp, w')"
  shows "\<exists>resp. ue_get ue url = Inr resp \<and> hr_code resp = 200 \<and> hr_broken resp = None \<and>
      length (hr_body resp) < max_binary \<and> to_lower (ue_sha ue (hr_body resp)) = to_lower (trim_space chk) \<and>
      tmp = dir @ ''/'' @ ''theta-agent-update-'' @ lo_rand lo w \<and>
      map_option f_content (w_files w' tmp) = Some (hr_body resp) \<and>
      (\<forall>q. q \<noteq> tmp \<longrightarrow> w_files w' q = w_files w q)"
proof -
  obtain resp where r: "ue_get ue url = Inr resp" "hr_code resp = 200"
    using assms by (auto simp: download_binary_def split: sum.splits if_splits)
  obtain t w1 where t: "create_temp (lo_env lo) (lo_rand lo) w dir ''theta-agent-update-'' = (Inr t, w1)"
    using assms r by (auto simp: download_binary_def split: sum.splits prod.splits)
  obtain w2 where w2: "write_file (lo_env lo) w1 t (take max_binary (hr_body resp)) 0x180 = (None, w2)"
    using assms r t by (auto simp: download_binary_def Let_def split: option.splits prod.splits)
  obtain w3 where c: "length (hr_body resp) < max_binary" "hr_broken resp = None"
      "to_lower (ue_sha ue (hr_body resp)) = to_lower (trim_space chk)"
      "chmod (lo_env lo) w2 t 0x1ED = (None, w3)" "tmp = t" "w' = w3"
    using assms r t w2 by (auto simp: download_binary_def Let_def split: option.splits prod.splits if_splits)
  have "map_option f_content (w_files w3 t) = Some (hr_body resp)"
    using chmod_content [of "lo_env lo" w2 t "0x1ED" t] write_file_ok [OF w2] c by simp
  moreover have "w_files w3 q = w_files w q" if "q \<noteq> t" for q
    using chmod_files [OF c(4) that] write_file_files [OF w2 that] create_temp_put [OF t] that by simp
  ultimately show ?thesis using r c create_temp_put [OF t] by blast
qed

lemma download_binary_err:
  assumes "download_binary lo ue w url chk dir = (Inl err, w')"
    and "q \<noteq> dir @ ''/'' @ ''theta-agent-update-'' @ lo_rand lo w"
  shows "w_files w' q = w_files w q"
proof (cases "create_temp (lo_env lo) (lo_rand lo) w dir ''theta-agent-update-''")
  case (Pair a w1)
  show ?thesis
  proof (cases a)
    case (Inl e1)
    then have "w1 = w" using Pair create_temp_simps(2) by blast
    then show ?thesis
      using assms Pair Inl by (auto simp: download_binary_def Let_def split: sum.splits if_splits)
  next
    case (Inr t)
    have c: "create_temp (lo_env lo) (lo_rand lo) w dir ''theta-agent-update-'' = (Inr t, w1)"
      using Pair Inr by simp
    have t: "q \<noteq> t" "w_files w1 q = w_files w q"
      using create_temp_put [OF c] assms(2) by blast+
    have "w_files w2 q = w_files w q" if "write_file (lo_env lo) w1 t x m = (r, w2)" for x m r w2
      using write_file_files [OF that t(1)] t(2) by simp
    moreover have "w_files w3 q = w_files w2 q" if "chmod (lo_env lo) w2 t m = (r, w3)" for m r w2 w3
      by (rule chmod_files [OF that t(1)])
    ultimately show ?thesis
      using assms(1) Pair Inr t(1)
      by (auto simp: download_binary_def Let_def frame split: sum.splits if_splits option.splits prod.splits)
  qed
qed

subsection \<open>Properties\<close>

text \<open>C7: a self-update installs verified bytes or nothing: when it succeeds the agent's binary is the
  complete body of a 200 response, below the size cap, whose digest is the signed checksum; when it
  fails, at whatever step, the binary is what it was.\<close>

theorem update_installs_verified_binary:
  assumes "self_path ue = Inr self" and "lx_apply_update lo ue url chk w = (r, w')"
    and "self \<noteq> path_dir self @ ''/'' @ ''theta-agent-update-'' @ lo_rand lo w"
  shows "(r = None \<longrightarrow> (\<exists>resp. ue_get ue url = Inr resp \<and> hr_code resp = 200 \<and> hr_broken resp = None \<and>
      length (hr_body resp) < max_binary \<and> to_lower (ue_sha ue (hr_body resp)) = to_lower (trim_space chk) \<and>
      map_option f_content (w_files w' self) = Some (hr_body resp))) \<and>
    (r \<noteq> None \<longrightarrow> w_files w' self = w_files w self)"
proof (cases "download_binary lo ue w url chk (path_dir self)")
  case (Pair a w1)
  show ?thesis
  proof (cases a)
    case (Inl err)
    then show ?thesis
      using assms Pair download_binary_err [of lo ue w url chk "path_dir self" err w1 self]
      by (auto simp: lx_apply_update_def)
  next
    case (Inr tmp)
    note ok = download_binary_ok [of lo ue w url chk "path_dir self" tmp w1]
    obtain b w2 where b: "rename_file (lo_env lo) w1 tmp self = (b, w2)" by fastforce
    have "b = None \<Longrightarrow> w_files w2 self = w_files w1 tmp \<and> w_files w1 tmp \<noteq> None"
      using b by (auto simp: rename_file_def split: option.splits)
    moreover have "b \<noteq> None \<Longrightarrow> w2 = w1" using b rename_file_err by blast
    moreover have "r = map_option (wrap_err ''failed to replace binary'') b \<and> w' = w2"
      using assms(1,2) Pair Inr b by (auto simp: lx_apply_update_def split: option.splits)
    ultimately show ?thesis using ok Pair Inr assms(3) by (cases b) auto
  qed
qed

definition sample_ops :: linux_ops where
  "sample_ops = \<lparr>lo_env = quiet_env, lo_tunnel = ''theta-mesh'', lo_conf = ''/etc/wireguard/theta-mesh.conf'',
     lo_look_path = (\<lambda>_. True), lo_rand = (\<lambda>_. ''1'')\<rparr>"

definition sample_update :: update_env where
  "sample_update = \<lparr>ue_get = (\<lambda>_. Inr \<lparr>hr_code = 200, hr_status = ''200 OK'', hr_body = ''new'', hr_broken = None\<rparr>),
     ue_sha = (\<lambda>_. ''ab''), ue_self = Inr ''/opt/agent'', ue_resolve = (\<lambda>_. None)\<rparr>"

lemma update_installs_verified_binary_witness:
  "\<exists>w'. lx_apply_update sample_ops sample_update ''u'' ''AB'' (one_file ''/opt/agent'' ''old'' 0) = (None, w') \<and>
     map_option f_content (w_files w' ''/opt/agent'') = Some ''new''"
proof -
  have d: "path_dir ''/opt/agent'' = ''/opt''" by code_simp
  have s: "self_path sample_update = Inr ''/opt/agent''" by (simp add: self_path_def sample_update_def)
  have c: "to_lower ''ab'' = to_lower (trim_space ''AB'')" by code_simp
  obtain w' where w': "lx_apply_update sample_ops sample_update ''u'' ''AB'' (one_file ''/opt/agent'' ''old'' 0) = (None, w')"
    using c by (simp only: lx_apply_update_def s sum.case d)
      (simp add: download_binary_def sample_ops_def sample_update_def quiet_env_def
        create_temp_def write_file_def chmod_def rename_file_def put_file_def max_binary_def Let_def one_file_def)
  have n: "''/opt/agent'' \<noteq> path_dir ''/opt/agent'' @ ''/'' @ ''theta-agent-update-'' @ lo_rand sample_ops (one_file ''/opt/agent'' ''old'' 0)"
    by (simp add: d)
  from update_installs_verified_binary [OF s w' n] w' show ?thesis
    by (auto simp: sample_update_def)
qed

definition wg_cmd :: "string \<Rightarrow> string list \<Rightarrow> command" where
  "wg_cmd prog args = \<lparr>c_prog = prog, c_args = args, c_stdin = []\<rparr>"

definition wg_probe :: "linux_ops \<Rightarrow> command" where
  "wg_probe lo = wg_cmd ''ip'' [''link'', ''show'', lo_tunnel lo]"

definition wg_live :: "linux_ops \<Rightarrow> world \<Rightarrow> bool" where
  "wg_live lo w = (case e_exec (lo_env lo) (w_cmds w) (wg_probe lo) of (out, err) \<Rightarrow> err = None \<and> out \<noteq> [])"

text \<open>Applying a peer configuration never runs \<open>wg-quick up\<close> over a live interface: the
  configuration is stored first, and when the probe finds the interface up it is taken down before;
  any failure stops the sequence. The commands run are exactly a prefix of probe, down (only when
  up), up.\<close>

theorem apply_wireguard_cycles:
  assumes "lx_apply_wg lo conf w = (r, w')"
  shows "let probe = wg_probe lo; down = wg_cmd ''wg-quick'' [''down'', lo_tunnel lo];
            up = wg_cmd ''wg-quick'' [''up'', lo_tunnel lo]; before = w_cmds w in
    if r = None
    then w_cmds w' = before @ [probe] @ (if wg_live lo w then [down] else []) @ [up] \<and>
         map_option f_content (w_files w' (lo_conf lo)) = Some conf
    else w_cmds w' \<in> {before, before @ (if wg_live lo w then [probe, down] else [probe, up]),
           before @ [probe] @ (if wg_live lo w then [down] else []) @ [up]}"
proof (cases "lx_persist_wg lo conf w")
  case (Pair a w1)
  have p: "w_cmds w1 = w_cmds w" "a = None \<longrightarrow> map_option f_content (w_files w1 (lo_conf lo)) = Some conf"
    using Pair by (auto simp: lx_persist_wg_def write_file_def split: option.splits prod.splits)
  show ?thesis
    using assms(1) Pair p unfolding wg_probe_def wg_cmd_def wg_live_def
    by (auto simp: lx_apply_wg_def lx_wg_state_def wg_up_def run_cmd_def run_stdin_def Let_def
        split: option.splits prod.splits bool.splits if_splits)
qed

lemma apply_wireguard_cycles_witness:
  "\<exists>w'. lx_apply_wg sample_ops ''[Interface]'' (one_file ''/opt/agent'' ''old'' 0) = (None, w') \<and>
     length (w_cmds w') = 2 \<and>
     map_option f_content (w_files w' ''/etc/wireguard/theta-mesh.conf'') = Some ''[Interface]''"
proof -
  have "fst (lx_apply_wg sample_ops ''[Interface]'' (one_file ''/opt/agent'' ''old'' 0)) = None" by code_simp
  then obtain w' where w': "lx_apply_wg sample_ops ''[Interface]'' (one_file ''/opt/agent'' ''old'' 0) = (None, w')"
    by (metis prod.collapse)
  have "\<not> wg_live sample_ops (one_file ''/opt/agent'' ''old'' 0)"
    by (simp add: wg_live_def sample_ops_def quiet_env_def)
  with apply_wireguard_cycles [OF w'] w' show ?thesis
    by (auto simp: Let_def sample_ops_def one_file_def)
qed

end
