(* ===== verification/Home.thy ===== *)
theory Home
  imports Discovery TrayIpc LinuxOps
begin

text \<open>
  Home detection and the auto-VPN policy: \<open>home_detect.go\<close> and \<open>home_reach.go\<close>. The shared
  state of the daemon is one record that every operation takes and returns; the mutexes only
  make the operations atomic. Times are nanoseconds.
\<close>

subsection \<open>State\<close>

record home_state =
  hs_agent_ip :: string
  hs_home_ip :: string
  hs_lan_endpoint :: string
  hs_site_name :: string
  hs_vpn_active :: bool
  hs_auto_vpn :: bool
  hs_exits :: "tray_exit list"
  hs_current_exit :: "int option"
  hs_home_site :: int
  hs_is_home :: bool
  hs_home_known :: bool
  hs_organization :: string

definition zero_home :: home_state where
  "zero_home = \<lparr>hs_agent_ip = [], hs_home_ip = [], hs_lan_endpoint = [], hs_site_name = [],
     hs_vpn_active = False, hs_auto_vpn = False, hs_exits = [], hs_current_exit = None,
     hs_home_site = 0, hs_is_home = False, hs_home_known = False, hs_organization = []\<rparr>"

text \<open>The mDNS sighting; \<open>None\<close> is Go's zero time.\<close>

record local_site =
  ls_last_positive :: "int option"
  ls_polled :: "int option"

record agent =
  ag_home :: home_state
  ag_site :: local_site
  ag_last_auto :: "int option"
  ag_tray :: tray_server
  ag_cm :: "config_manager option"
  ag_world :: world

definition set_home_public_ip :: "string \<Rightarrow> home_state \<Rightarrow> home_state" where
  "set_home_public_ip ip s = s\<lparr>hs_home_ip := ip\<rparr>"

definition set_home_lan_endpoint :: "string \<Rightarrow> home_state \<Rightarrow> home_state" where
  "set_home_lan_endpoint ep s = s\<lparr>hs_lan_endpoint := ep\<rparr>"

definition set_mesh_exits :: "tray_exit list \<Rightarrow> int option \<Rightarrow> home_state \<Rightarrow> home_state" where
  "set_mesh_exits exits cur s = s\<lparr>hs_exits := exits, hs_current_exit := cur\<rparr>"

definition set_mesh_identity :: "int \<Rightarrow> int option \<Rightarrow> home_state \<Rightarrow> home_state" where
  "set_mesh_identity site cur s =
     (let s1 = (if site > 0 then s\<lparr>hs_home_site := site\<rparr> else s) in s1\<lparr>hs_current_exit := cur\<rparr>)"

definition set_home_state :: "bool \<Rightarrow> home_state \<Rightarrow> home_state" where
  "set_home_state b s = s\<lparr>hs_is_home := b, hs_home_known := True\<rparr>"

definition set_site_name :: "string \<Rightarrow> home_state \<Rightarrow> home_state" where
  "set_site_name n s = s\<lparr>hs_site_name := n\<rparr>"

definition set_vpn_active :: "bool \<Rightarrow> home_state \<Rightarrow> home_state" where
  "set_vpn_active b s = s\<lparr>hs_vpn_active := b\<rparr>"

definition set_auto_vpn :: "bool \<Rightarrow> home_state \<Rightarrow> home_state" where
  "set_auto_vpn b s = s\<lparr>hs_auto_vpn := b\<rparr>"

definition set_organization_name :: "string \<Rightarrow> home_state \<Rightarrow> home_state" where
  "set_organization_name n s = s\<lparr>hs_organization := n\<rparr>"

definition on_home :: "(home_state \<Rightarrow> home_state) \<Rightarrow> agent \<Rightarrow> agent" where
  "on_home f a = a\<lparr>ag_home := f (ag_home a)\<rparr>"

subsection \<open>The tunnel policy\<close>

definition remote_exit_selected :: "home_state \<Rightarrow> bool" where
  "remote_exit_selected s =
     (case hs_current_exit s of None \<Rightarrow> False
      | Some cur \<Rightarrow>
          if hs_home_site s > 0 then cur \<noteq> hs_home_site s
          else (case find (\<lambda>x. te_site_id x = cur) (hs_exits s) of
              Some x \<Rightarrow> \<not> te_is_local x
            | None \<Rightarrow> True))"

definition tunnel_should_be_up :: "home_state \<Rightarrow> bool \<Rightarrow> bool" where
  "tunnel_should_be_up s home = (\<not> home \<or> remote_exit_selected s)"

definition site_name :: "agent \<Rightarrow> string" where
  "site_name a =
     (if hs_site_name (ag_home a) \<noteq> [] then hs_site_name (ag_home a)
      else (case ag_cm a of
          Some cm \<Rightarrow> if location (cm_current cm) \<noteq> [] then location (cm_current cm) else ''home''
        | None \<Rightarrow> ''home''))"

definition want_wireguard_up :: "platform \<Rightarrow> agent \<Rightarrow> bool \<times> agent" where
  "want_wireguard_up P a =
     (if remote_exit_selected (ag_home a) then (True, a)
      else if \<not> hs_auto_vpn (ag_home a) then
        (let (b, w) = p_wg_state P (ag_world a) in (b, a\<lparr>ag_world := w\<rparr>))
      else if \<not> hs_home_known (ag_home a) then (False, a)
      else (tunnel_should_be_up (ag_home a) (hs_is_home (ag_home a)), a))"

subsection \<open>The tray status\<close>

definition arrow_utf8 :: string where "arrow_utf8 = [CHR 0xE2, CHR 0x86, CHR 0x92]"
definition dash_utf8 :: string where "dash_utf8 = [CHR 0xE2, CHR 0x80, CHR 0x94]"

definition status_color :: "bool \<Rightarrow> bool \<Rightarrow> bool \<Rightarrow> tray_color" where
  "status_color connected home vpn =
     (if \<not> connected then ColorRed else if vpn then ColorBlue else if home then ColorGreen else ColorYellow)"

definition status_text :: "bool \<Rightarrow> bool \<Rightarrow> bool \<Rightarrow> string \<Rightarrow> string" where
  "status_text connected home vpn site =
     (if \<not> connected then ''Not connected to directory''
      else if vpn then ''VPN active '' @ arrow_utf8 @ '' '' @ site
      else if home then ''Home '' @ dash_utf8 @ '' '' @ site
      else ''Connected (away from home)'')"

text \<open>\<open>wr\<close> says which tray connections accept a write, \<open>path\<close> is \<open>defaultConfigPath()\<close>.\<close>

definition update_tray_status ::
  "(nat \<Rightarrow> bool) \<Rightarrow> string \<Rightarrow> bool \<Rightarrow> bool \<Rightarrow> string \<Rightarrow> string \<Rightarrow> bool \<Rightarrow> bool \<Rightarrow> string \<Rightarrow> agent \<Rightarrow> agent" where
  "update_tray_status wr path connected home agent_ip home_ip vpn auto site a =
     a\<lparr>ag_tray := tray_push wr (ag_tray a)
        \<lparr>ts_color = status_color connected home vpn, ts_connected = connected, ts_is_home = home,
         ts_vpn_active = vpn, ts_auto_vpn = auto, ts_site_name = site,
         ts_agent_public_ip = agent_ip, ts_home_public_ip = home_ip,
         ts_organization_name = hs_organization (ag_home a),
         ts_status_text = status_text connected home vpn site, ts_config_path = path,
         ts_exits = hs_exits (ag_home a), ts_current_exit = hs_current_exit (ag_home a)\<rparr>\<rparr>"

definition trigger_tray_status_push :: "(nat \<Rightarrow> bool) \<Rightarrow> string \<Rightarrow> agent \<Rightarrow> agent" where
  "trigger_tray_status_push wr path a =
     (let h = ag_home a in
      update_tray_status wr path True (hs_is_home h) (hs_agent_ip h) (hs_home_ip h)
        (hs_vpn_active h) (hs_auto_vpn h) (site_name a) a)"

subsection \<open>Where am I\<close>

text \<open>\<open>fetchPublicIP\<close>: each provider's answer is an HTTP status with a body, or an error.\<close>

definition ip_providers :: "string list" where
  "ip_providers = [''https://api4.my-ip.io/ip'', ''https://ipv4.icanhazip.com'', ''https://api.ipify.org'']"

fun fetch_ip_from :: "(string \<Rightarrow> (nat \<times> string) result) \<Rightarrow> string list \<Rightarrow> string" where
  "fetch_ip_from get [] = []"
| "fetch_ip_from get (u # us) =
     (case get u of Inl err \<Rightarrow> fetch_ip_from get us
      | Inr (code, body) \<Rightarrow>
          if trim_space body \<noteq> [] \<and> \<not> str_contains (trim_space body) ''<''
          then trim_space body else fetch_ip_from get us)"

definition fetch_public_ip :: "(string \<Rightarrow> (nat \<times> string) result) \<Rightarrow> string" where
  "fetch_public_ip get = fetch_ip_from get ip_providers"

text \<open>The sighting counts for three poll intervals of 30 seconds.\<close>

definition seconds :: "int \<Rightarrow> int" where "seconds n = n * 1000000000"

definition local_site_seen_ttl :: int where "local_site_seen_ttl = 3 * seconds 30"

definition set_local_site_seen :: "int \<Rightarrow> bool \<Rightarrow> local_site \<Rightarrow> local_site" where
  "set_local_site_seen now seen ls =
     (let ls1 = ls\<lparr>ls_polled := Some now\<rparr> in
      if seen then ls1\<lparr>ls_last_positive := Some now\<rparr> else ls1)"

definition local_site_seen :: "int \<Rightarrow> local_site \<Rightarrow> bool \<times> bool" where
  "local_site_seen now ls =
     (case ls_polled ls of None \<Rightarrow> (False, False)
      | Some p \<Rightarrow>
          if now - p > local_site_seen_ttl then (False, False)
          else (case ls_last_positive ls of None \<Rightarrow> (False, True)
              | Some q \<Rightarrow> (now - q \<le> local_site_seen_ttl, True)))"

definition count_char :: "char \<Rightarrow> string \<Rightarrow> nat" where
  "count_char c s = length (filter (\<lambda>d. d = c) s)"

definition with_default_port :: "string \<Rightarrow> string \<Rightarrow> string" where
  "with_default_port hp def =
     (case split_host_port hp of Some hp' \<Rightarrow> hp
      | None \<Rightarrow> if count_char (CHR '':'') hp \<ge> 2 \<and> \<not> has_prefix hp ''[''
                then ''['' @ hp @ '']:'' @ def else hp @ '':'' @ def)"

definition trim_brackets :: "string \<Rightarrow> string" where
  "trim_brackets s = (let b = (\<lambda>c. c = CHR ''['' \<or> c = CHR '']'') in
     rev (dropWhile b (rev (dropWhile b s))))"

definition bare_host :: "string \<Rightarrow> string" where
  "bare_host hp = trim_brackets (case split_host_port hp of Some (h, p) \<Rightarrow> h | None \<Rightarrow> hp)"

definition is_private_host :: "string \<Rightarrow> bool" where
  "is_private_host hp =
     (case parse_ip (bare_host hp) of None \<Rightarrow> False | Some ip \<Rightarrow> ip_is_local ip)"

text \<open>DNS and dialling are inputs.\<close>

datatype dial = DialOk | DialTimeout | DialError string

record net_view =
  nv_lookup :: "string \<Rightarrow> nat list list result"
  nv_dial :: "string \<Rightarrow> dial"

definition resolves_private :: "net_view \<Rightarrow> string \<Rightarrow> bool" where
  "resolves_private nv hp =
     (case parse_ip (bare_host hp) of
        Some ip \<Rightarrow> is_private_host (bare_host hp)
      | None \<Rightarrow> (case nv_lookup nv (bare_host hp) of Inl err \<Rightarrow> False | Inr ips \<Rightarrow> list_ex ip_is_local ips))"

definition lan_parts :: "string \<Rightarrow> string list" where
  "lan_parts lan = (if lan = [] then []
     else filter (\<lambda>p. p \<noteq> []) (map trim_space (split_on (CHR '','') lan)))"

definition home_endpoints :: "(string \<Rightarrow> url option) \<Rightarrow> config \<Rightarrow> string \<Rightarrow> string list" where
  "home_endpoints parse_url cfg lan =
     map (\<lambda>p. with_default_port p ''443'') (lan_parts lan)
     @ (let host = host_from_url parse_url (server_url cfg) in
        if host \<noteq> [] then [with_default_port host ''443''] else [])"

definition is_pushed_lan_endpoint :: "string \<Rightarrow> string \<Rightarrow> bool" where
  "is_pushed_lan_endpoint ep lan = list_ex (\<lambda>p. ep = with_default_port p ''443'') (lan_parts lan)"

definition probe_reachable :: "net_view \<Rightarrow> string \<Rightarrow> bool" where
  "probe_reachable nv ep =
     (case nv_dial nv ep of DialOk \<Rightarrow> True | DialTimeout \<Rightarrow> False
      | DialError msg \<Rightarrow> str_contains msg ''refused'' \<or> str_contains msg ''reset'')"

definition home_only :: "net_view \<Rightarrow> string \<Rightarrow> string \<Rightarrow> bool" where
  "home_only nv lan ep = (is_pushed_lan_endpoint ep lan \<or> is_private_host ep \<or> resolves_private nv ep)"

definition detect_home ::
  "(string \<Rightarrow> url option) \<Rightarrow> net_view \<Rightarrow> int \<Rightarrow> local_site \<Rightarrow> config \<Rightarrow> string \<Rightarrow> string \<Rightarrow> string \<Rightarrow> bool \<Rightarrow> bool" where
  "detect_home parse_url nv now ls cfg agent_ip home_ip lan connected =
     (if \<not> connected then False
      else if local_site_seen now ls = (True, True) then True
      else if list_ex (\<lambda>ep. home_only nv lan ep \<and> probe_reachable nv ep) (home_endpoints parse_url cfg lan) then True
      else if home_ip \<noteq> [] \<and> agent_ip \<noteq> [] then agent_ip = home_ip
      else False)"

subsection \<open>Auto-VPN and the monitor\<close>

definition drive_tunnel :: "platform \<Rightarrow> bool \<Rightarrow> int \<Rightarrow> agent \<Rightarrow> agent" where
  "drive_tunnel P want now a =
     a\<lparr>ag_world := snd (if want then p_connect_wg P (ag_world a) else p_disconnect_wg P (ag_world a)),
       ag_last_auto := Some now\<rparr>"

definition auto_vpn_gated :: "int \<Rightarrow> agent \<Rightarrow> bool" where
  "auto_vpn_gated now a = (case ag_last_auto a of None \<Rightarrow> False | Some t \<Rightarrow> now - t < seconds 120)"

definition handle_auto_vpn :: "platform \<Rightarrow> int \<Rightarrow> bool \<Rightarrow> bool \<Rightarrow> bool \<Rightarrow> bool \<Rightarrow> agent \<Rightarrow> agent" where
  "handle_auto_vpn P now home vpn auto connected a =
     (if \<not> auto \<or> \<not> connected then a
      else if auto_vpn_gated now a then a
      else (let want = tunnel_should_be_up (ag_home a) home in
        if want = vpn then a else drive_tunnel P want now a))"

text \<open>One tick of the home monitor with what it sees.\<close>

record tick =
  tk_now :: int
  tk_ip :: "string \<Rightarrow> (nat \<times> string) result"
  tk_net :: net_view
  tk_connected :: bool
  tk_write :: "nat \<Rightarrow> bool"

definition tick_ip :: "config \<Rightarrow> tick \<Rightarrow> string" where
  "tick_ip cfg tk = (if detect_public_ip cfg then fetch_public_ip (tk_ip tk) else [])"

definition tick_home :: "(string \<Rightarrow> url option) \<Rightarrow> config \<Rightarrow> tick \<Rightarrow> agent \<Rightarrow> bool" where
  "tick_home parse_url cfg tk a =
     detect_home parse_url (tk_net tk) (tk_now tk) (ag_site a) cfg (tick_ip cfg tk)
       (hs_home_ip (ag_home a)) (hs_lan_endpoint (ag_home a)) (tk_connected tk)"

definition sensed :: "(string \<Rightarrow> url option) \<Rightarrow> config \<Rightarrow> tick \<Rightarrow> agent \<Rightarrow> agent" where
  "sensed parse_url cfg tk a =
     on_home (\<lambda>s. set_home_state (tick_home parse_url cfg tk a) (s\<lparr>hs_agent_ip := tick_ip cfg tk\<rparr>)) a"

definition check_and_push ::
  "platform \<Rightarrow> (string \<Rightarrow> url option) \<Rightarrow> string \<Rightarrow> config \<Rightarrow> tick \<Rightarrow> agent \<Rightarrow> agent" where
  "check_and_push P parse_url path cfg tk a =
     (let h = ag_home a; home = tick_home parse_url cfg tk a; a2 = sensed parse_url cfg tk a;
          site = (if location cfg = [] then ''home'' else location cfg);
          push = (\<lambda>vpn. update_tray_status (tk_write tk) path (tk_connected tk) home (tick_ip cfg tk)
                    (hs_home_ip h) vpn (hs_auto_vpn h) site)
      in if wireguard_enabled (caps cfg) then
           (let (v, w) = p_wg_state P (ag_world a2) in
            push v (handle_auto_vpn P (tk_now tk) home v (hs_auto_vpn h) (tk_connected tk)
                      (on_home (set_vpn_active v) (a2\<lparr>ag_world := w\<rparr>))))
         else push (hs_vpn_active h) a2)"

text \<open>A run of the daemon: monitor ticks and whatever else happens to its state in between.\<close>

datatype monitor_event = Tick tick | Other "agent \<Rightarrow> agent"

fun keeps_auto :: "monitor_event \<Rightarrow> bool" where
  "keeps_auto (Tick tk) = True"
| "keeps_auto (Other f) = (\<forall>x. ag_last_auto (f x) = ag_last_auto x)"

fun vpn_changes ::
  "platform \<Rightarrow> (string \<Rightarrow> url option) \<Rightarrow> string \<Rightarrow> config \<Rightarrow> monitor_event list \<Rightarrow> agent \<Rightarrow> int list" where
  "vpn_changes P parse_url path cfg [] a = []"
| "vpn_changes P parse_url path cfg (Other f # evs) a = vpn_changes P parse_url path cfg evs (f a)"
| "vpn_changes P parse_url path cfg (Tick tk # evs) a =
     (let a' = check_and_push P parse_url path cfg tk a in
      (if ag_last_auto a' = ag_last_auto a then [] else [tk_now tk]) @ vpn_changes P parse_url path cfg evs a')"

subsection \<open>Lemmas\<close>

lemma tray_status_keeps [frame]:
  "ag_world (update_tray_status wr path c h ai hi v au s a) = ag_world a"
  "ag_home (update_tray_status wr path c h ai hi v au s a) = ag_home a"
  "ag_last_auto (update_tray_status wr path c h ai hi v au s a) = ag_last_auto a"
  "ag_cm (update_tray_status wr path c h ai hi v au s a) = ag_cm a"
  by (simp_all add: update_tray_status_def)

lemma on_home_keeps [simp]:
  "ag_world (on_home f a) = ag_world a" "ag_last_auto (on_home f a) = ag_last_auto a"
  "ag_cm (on_home f a) = ag_cm a" "ag_home (on_home f a) = f (ag_home a)" "ag_site (on_home f a) = ag_site a"
  "ag_tray (on_home f a) = ag_tray a"
  by (simp_all add: on_home_def)

lemma handle_auto_vpn_cases:
  "handle_auto_vpn P now home vpn auto connected a = a \<or>
   auto \<and> connected \<and> \<not> auto_vpn_gated now a \<and> vpn \<noteq> tunnel_should_be_up (ag_home a) home \<and>
   handle_auto_vpn P now home vpn auto connected a = drive_tunnel P (tunnel_should_be_up (ag_home a) home) now a"
  by (auto simp: handle_auto_vpn_def Let_def)

lemma drive_changes: "\<not> auto_vpn_gated now a \<Longrightarrow> ag_last_auto a \<noteq> Some now"
  by (auto simp: auto_vpn_gated_def seconds_def)

lemma sorted_le_last: "sorted xs \<Longrightarrow> x \<in> set xs \<Longrightarrow> x \<le> last xs"
  by (induction xs) auto

lemma remote_exit_cong:
  "hs_current_exit s = hs_current_exit t \<Longrightarrow> hs_home_site s = hs_home_site t \<Longrightarrow> hs_exits s = hs_exits t \<Longrightarrow>
   remote_exit_selected s = remote_exit_selected t"
  by (cases "hs_current_exit t") (auto simp: remote_exit_selected_def)

lemma sensed_keeps [frame]:
  "ag_world (sensed parse_url cfg tk a) = ag_world a"
  "ag_last_auto (sensed parse_url cfg tk a) = ag_last_auto a"
  "hs_is_home (ag_home (sensed parse_url cfg tk a)) = tick_home parse_url cfg tk a"
  by (simp_all add: sensed_def set_home_state_def)

lemma sensed_remote_exit: "remote_exit_selected (ag_home (on_home (set_vpn_active v) ((sensed parse_url cfg tk a)\<lparr>ag_world := w\<rparr>)))
    = remote_exit_selected (ag_home a)"
  by (rule remote_exit_cong) (simp_all add: sensed_def set_home_state_def set_vpn_active_def on_home_def)

text \<open>A tick is the probe followed by one decision of auto-VPN.\<close>

lemma check_and_push_tick:
  fixes P parse_url path cfg tk a
  defines "a' \<equiv> check_and_push P parse_url path cfg tk a"
    and "b \<equiv> on_home (set_vpn_active (fst (p_wg_state P (ag_world a))))
      ((sensed parse_url cfg tk a)\<lparr>ag_world := snd (p_wg_state P (ag_world a))\<rparr>)"
  defines "c \<equiv> handle_auto_vpn P (tk_now tk) (tick_home parse_url cfg tk a) (fst (p_wg_state P (ag_world a)))
      (hs_auto_vpn (ag_home a)) (tk_connected tk) b"
  shows "wireguard_enabled (caps cfg) \<Longrightarrow> ag_world a' = ag_world c \<and> ag_last_auto a' = ag_last_auto c \<and> ag_home a' = ag_home c"
    and "\<not> wireguard_enabled (caps cfg) \<Longrightarrow> ag_world a' = ag_world a \<and> ag_last_auto a' = ag_last_auto a"
    and "hs_is_home (ag_home a') = tick_home parse_url cfg tk a"
    and "ag_world b = snd (p_wg_state P (ag_world a))" and "ag_last_auto b = ag_last_auto a"
    and "remote_exit_selected (ag_home b) = remote_exit_selected (ag_home a)"
proof -
  show r: "wireguard_enabled (caps cfg) \<Longrightarrow> ag_world a' = ag_world c \<and> ag_last_auto a' = ag_last_auto c \<and> ag_home a' = ag_home c"
    "\<not> wireguard_enabled (caps cfg) \<Longrightarrow> ag_world a' = ag_world a \<and> ag_last_auto a' = ag_last_auto a"
    by (simp_all add: a'_def c_def b_def check_and_push_def Let_def frame split_beta)
  have "hs_is_home (ag_home c) = tick_home parse_url cfg tk a"
    using handle_auto_vpn_cases [of P "tk_now tk" "tick_home parse_url cfg tk a" "fst (p_wg_state P (ag_world a))"
      "hs_auto_vpn (ag_home a)" "tk_connected tk" b]
    by (auto simp: c_def b_def drive_tunnel_def set_vpn_active_def on_home_def frame)
  then show "hs_is_home (ag_home a') = tick_home parse_url cfg tk a"
    using r(1) by (cases "wireguard_enabled (caps cfg)")
      (simp_all add: a'_def check_and_push_def Let_def frame)
  show "ag_world b = snd (p_wg_state P (ag_world a))" "ag_last_auto b = ag_last_auto a"
    by (simp_all add: b_def frame)
  show "remote_exit_selected (ag_home b) = remote_exit_selected (ag_home a)"
    unfolding b_def by (rule sensed_remote_exit)
qed

lemma gated_cong: "ag_last_auto b = ag_last_auto a \<Longrightarrow> auto_vpn_gated now b = auto_vpn_gated now a"
  by (simp add: auto_vpn_gated_def)

lemma check_and_push_auto:
  "ag_last_auto (check_and_push P parse_url path cfg tk a) = ag_last_auto a \<or>
   \<not> auto_vpn_gated (tk_now tk) a \<and> ag_last_auto (check_and_push P parse_url path cfg tk a) = Some (tk_now tk)"
proof (cases "wireguard_enabled (caps cfg)")
  case True
  let ?b = "on_home (set_vpn_active (fst (p_wg_state P (ag_world a))))
      ((sensed parse_url cfg tk a)\<lparr>ag_world := snd (p_wg_state P (ag_world a))\<rparr>)"
  have b: "ag_last_auto ?b = ag_last_auto a" by (rule check_and_push_tick(5))
  show ?thesis
    using handle_auto_vpn_cases [of P "tk_now tk" "tick_home parse_url cfg tk a" "fst (p_wg_state P (ag_world a))"
      "hs_auto_vpn (ag_home a)" "tk_connected tk" ?b] check_and_push_tick(1) [OF True, where P = P and parse_url = parse_url and path = path and tk = tk and a = a]
      gated_cong [OF b] b by (elim disjE conjE) (simp_all add: drive_tunnel_def)
next
  case False
  then show ?thesis using check_and_push_tick(2) by simp
qed

text \<open>Every later change keeps the distance to the time last recorded.\<close>

lemma vpn_changes_after:
  assumes "list_all keeps_auto evs"
  shows "(\<forall>t0. ag_last_auto a = Some t0 \<longrightarrow> (\<forall>t\<in>set (vpn_changes P parse_url path cfg evs a). t - t0 \<ge> seconds 120)) \<and>
         sorted_wrt (\<lambda>s t. t - s \<ge> seconds 120) (vpn_changes P parse_url path cfg evs a)"
  using assms
proof (induction evs arbitrary: a)
  case (Cons ev evs)
  show ?case
  proof (cases ev)
    case (Other f)
    have l: "ag_last_auto (f a) = ag_last_auto a" using Cons.prems Other by simp
    show ?thesis using Cons.IH [of "f a"] Cons.prems Other l by simp
  next
    case (Tick tk)
    let ?a' = "check_and_push P parse_url path cfg tk a"
    note ih = Cons.IH [of ?a']
    show ?thesis
    proof (cases "ag_last_auto ?a' = ag_last_auto a")
      case True
      then show ?thesis using ih Cons.prems Tick by (simp add: Let_def)
    next
      case False
      then have g: "\<not> auto_vpn_gated (tk_now tk) a" "ag_last_auto ?a' = Some (tk_now tk)"
        using check_and_push_auto by blast+
      have d: "tk_now tk - t0 \<ge> seconds 120" if "ag_last_auto a = Some t0" for t0
        using g(1) that by (simp add: auto_vpn_gated_def)
      have p: "seconds 120 > 0" by (simp add: seconds_def)
      let ?r = "vpn_changes P parse_url path cfg evs ?a'"
      have r: "\<forall>t\<in>set ?r. t - tk_now tk \<ge> seconds 120" "sorted_wrt (\<lambda>s t. t - s \<ge> seconds 120) ?r"
        using ih g(2) Cons.prems by simp_all
      have e: "vpn_changes P parse_url path cfg (ev # evs) a = tk_now tk # ?r"
        using False Tick by (simp add: Let_def)
      have "t - t0 \<ge> seconds 120" if "ag_last_auto a = Some t0" "t \<in> set (tk_now tk # ?r)" for t0 t
        using d [OF that(1)] r(1) that(2) p by fastforce
      then show ?thesis unfolding e using r by simp
    qed
  qed
next
  case Nil
  show ?case by simp
qed

subsection \<open>Properties\<close>


text \<open>C11: a monitor tick changes the tunnel only to what the policy asks for: when the tick drives
  it, auto-VPN is on, the directory is connected, the tunnel was in the other state, and the
  operation run is connect exactly when the device is away from home or a remote exit is selected.
  A tick that does not drive it runs nothing but the state probe.\<close>

theorem auto_vpn_follows_policy:
  "let a' = check_and_push P parse_url path cfg tk a; probe = p_wg_state P (ag_world a);
       want = tunnel_should_be_up (ag_home a) (hs_is_home (ag_home a')) in
   if ag_last_auto a' = ag_last_auto a
   then ag_world a' = (if wireguard_enabled (caps cfg) then snd probe else ag_world a)
   else wireguard_enabled (caps cfg) \<and> hs_auto_vpn (ag_home a) \<and> tk_connected tk \<and> fst probe \<noteq> want \<and>
     ag_world a' = snd (if want then p_connect_wg P (snd probe) else p_disconnect_wg P (snd probe))"
proof (cases "wireguard_enabled (caps cfg)")
  case True
  let ?v = "fst (p_wg_state P (ag_world a))" and ?home = "tick_home parse_url cfg tk a"
  let ?b = "on_home (set_vpn_active ?v) ((sensed parse_url cfg tk a)\<lparr>ag_world := snd (p_wg_state P (ag_world a))\<rparr>)"
  note t1 = check_and_push_tick(1) [OF True, where P = P and parse_url = parse_url and path = path and tk = tk and a = a]
  note t3 = check_and_push_tick(3) [where P = P and cfg = cfg and parse_url = parse_url and path = path and tk = tk and a = a]
  note t = check_and_push_tick(4-6) [where P = P and cfg = cfg and parse_url = parse_url and tk = tk and a = a]
  have w: "tunnel_should_be_up (ag_home ?b) ?home = tunnel_should_be_up (ag_home a) ?home"
    unfolding tunnel_should_be_up_def t(3) ..
  from handle_auto_vpn_cases [of P "tk_now tk" ?home ?v "hs_auto_vpn (ag_home a)" "tk_connected tk" ?b]
  show ?thesis
  proof (elim disjE conjE)
    assume "handle_auto_vpn P (tk_now tk) ?home ?v (hs_auto_vpn (ag_home a)) (tk_connected tk) ?b = ?b"
    then show ?thesis using t1 t(1,2) True by (simp add: Let_def)
  next
    assume h: "hs_auto_vpn (ag_home a)" "tk_connected tk" "\<not> auto_vpn_gated (tk_now tk) ?b"
      "?v \<noteq> tunnel_should_be_up (ag_home ?b) ?home"
      "handle_auto_vpn P (tk_now tk) ?home ?v (hs_auto_vpn (ag_home a)) (tk_connected tk) ?b
        = drive_tunnel P (tunnel_should_be_up (ag_home ?b) ?home) (tk_now tk) ?b"
    have "ag_last_auto a \<noteq> Some (tk_now tk)" using drive_changes [OF h(3)] t(2) by simp
    then show ?thesis using t1 t3 t(1,2) True h w by (simp add: Let_def drive_tunnel_def)
  qed
next
  case False
  then show ?thesis using check_and_push_tick(2) by (simp add: Let_def)
qed

text \<open>A laptop away from home, auto-VPN on, whose tunnel does not come up: it is tried every two minutes.\<close>

definition sample_status :: tray_status where
  "sample_status = \<lparr>ts_color = ColorRed, ts_connected = False, ts_is_home = False, ts_vpn_active = False,
     ts_auto_vpn = False, ts_site_name = [], ts_agent_public_ip = [], ts_home_public_ip = [],
     ts_organization_name = [], ts_status_text = [], ts_config_path = [], ts_exits = [], ts_current_exit = None\<rparr>"

definition sample_agent :: agent where
  "sample_agent = \<lparr>ag_home = set_auto_vpn True zero_home, ag_site = \<lparr>ls_last_positive = None, ls_polled = None\<rparr>,
     ag_last_auto = None, ag_tray = \<lparr>sv_status = sample_status, sv_clients = []\<rparr>, ag_cm = None,
     ag_world = one_file ''/opt/agent'' [] 0\<rparr>"

definition sample_tick :: "int \<Rightarrow> tick" where
  "sample_tick n = \<lparr>tk_now = seconds n, tk_ip = (\<lambda>_. Inl ''unreachable''),
     tk_net = \<lparr>nv_lookup = (\<lambda>_. Inl ''no such host''), nv_dial = (\<lambda>_. DialTimeout)\<rparr>,
     tk_connected = True, tk_write = (\<lambda>_. True)\<rparr>"

definition sample_wg_config :: config where
  "sample_wg_config = zero_config\<lparr>caps := zero_caps\<lparr>cap_wireguard := Some True\<rparr>\<rparr>"

definition sample_run :: "monitor_event list" where
  "sample_run = [Tick (sample_tick 0), Other (on_home (set_site_name ''home'')), Tick (sample_tick 60), Tick (sample_tick 130)]"


text \<open>What the sighting means in terms of the polls: after any polls in time order, the site
  counts as seen exactly when the loop polled within the last 90 seconds and some poll of the last
  90 seconds was positive, so one or two missed answers do not move the device away from home, and
  a stopped loop cannot pin it there.\<close>

theorem sighting_window:
  assumes "sorted (map fst polls)"
  shows "local_site_seen now (fold (\<lambda>(t, seen). set_local_site_seen t seen) polls \<lparr>ls_last_positive = None, ls_polled = None\<rparr>)
    = (let fresh = (polls \<noteq> [] \<and> now - fst (last polls) \<le> seconds 90)
       in (fresh \<and> (\<exists>(t, seen)\<in>set polls. seen \<and> now - t \<le> seconds 90), fresh))"
proof -
  let ?zero = "\<lparr>ls_last_positive = None, ls_polled = None\<rparr>"
  have "ls_polled (fold (\<lambda>(t, seen). set_local_site_seen t seen) polls ?zero) = (if polls = [] then None else Some (fst (last polls))) \<and>
    ls_last_positive (fold (\<lambda>(t, seen). set_local_site_seen t seen) polls ?zero) =
      (if filter snd polls = [] then None else Some (fst (last (filter snd polls))))"
    by (induction polls rule: rev_induct) (auto simp: set_local_site_seen_def Let_def)
  moreover have "(\<exists>(t, seen)\<in>set polls. seen \<and> now - t \<le> seconds 90) \<longleftrightarrow>
      filter snd polls \<noteq> [] \<and> now - fst (last (filter snd polls)) \<le> seconds 90" (is "?l \<longleftrightarrow> ?r")
  proof
    assume ?r
    then have "last (filter snd polls) \<in> set polls" "snd (last (filter snd polls))"
      using last_in_set [of "filter snd polls"] by auto
    with \<open>?r\<close> show ?l by (intro bexI [of _ "last (filter snd polls)"]) auto
  next
    assume ?l
    then obtain t where t: "(t, True) \<in> set (filter snd polls)" "now - t \<le> seconds 90" by auto
    have "sorted (map fst (filter snd polls))" using assms by (simp add: sorted_filter)
    then have "t \<le> last (map fst (filter snd polls))"
      using t(1) by (intro sorted_le_last) force+
    moreover have ne: "filter snd polls \<noteq> []" using t(1) by (metis empty_iff empty_set)
    ultimately have "t \<le> fst (last (filter snd polls))" by (simp add: last_map)
    with t ne show ?r by auto
  qed
  ultimately show ?thesis
    by (auto simp: local_site_seen_def local_site_seen_ttl_def seconds_def Let_def split: option.splits if_splits)
qed

lemma sighting_window_witness:
  "local_site_seen (seconds 100) (fold (\<lambda>(t, seen). set_local_site_seen t seen)
     [(seconds 30, True), (seconds 60, False), (seconds 90, False)] \<lparr>ls_last_positive = None, ls_polled = None\<rparr>) = (True, True)"
  by (subst sighting_window) (auto simp: seconds_def)

lemma last_index_acc: "last_index d i s r = (case last_index d i s None of None \<Rightarrow> r | Some j \<Rightarrow> Some j)"
proof (induction s arbitrary: i r)
  case (Cons c cs)
  show ?case using Cons.IH [of "Suc i" "if c = d then Some i else r"] Cons.IH [of "Suc i" "if c = d then Some i else None"]
    by (auto split: option.splits)
qed simp

lemma last_index_append: "d \<notin> set t \<Longrightarrow> last_index d i (s @ d # t) r = Some (i + length s)"
proof (induction s arbitrary: i r)
  case Nil
  have "d \<notin> set t \<Longrightarrow> last_index d j t q = q" for j q by (induction t arbitrary: j) auto
  then show ?case using Nil by simp
qed auto

lemma first_index_append: "d \<notin> set s \<Longrightarrow> first_index d (s @ d # t) = Some (length s)"
  by (induction s) auto

lemma last_index_None: "last_index d i s None = None \<longleftrightarrow> d \<notin> set s"
proof (induction s arbitrary: i)
  case (Cons c cs)
  then show ?case using last_index_acc [of d "Suc i" cs "Some i"] by (auto split: option.splits)
qed simp

lemma split_bracketed:
  assumes "CHR ''['' \<notin> set h" "CHR '']'' \<notin> set h" "CHR '':'' \<notin> set port" "CHR ''['' \<notin> set port" "CHR '']'' \<notin> set port"
  shows "split_host_port (''['' @ h @ '']:'' @ port) = Some (h, port)"
proof -
  have l: "last_index (CHR '':'') 0 (''['' @ h @ '']:'' @ port) None = Some (length h + 2)"
    using last_index_append [OF assms(3), of 0 "''['' @ h @ '']''" None] by simp
  have f: "first_index (CHR '']'') (''['' @ h @ '']:'' @ port) = Some (length h + 1)"
    using first_index_append [of "CHR '']''" "''['' @ h" "'':'' @ port"] assms(2) by simp
  show ?thesis using assms by (simp add: split_host_port_def l [simplified] f [simplified])
qed

lemma split_plain:
  assumes "CHR '':'' \<notin> set h" "CHR ''['' \<notin> set h" "CHR '']'' \<notin> set h"
    "CHR '':'' \<notin> set port" "CHR ''['' \<notin> set port" "CHR '']'' \<notin> set port"
  shows "split_host_port (h @ '':'' @ port) = Some (h, port)"
proof -
  have l: "last_index (CHR '':'') 0 (h @ '':'' @ port) None = Some (length h)"
    using last_index_append [OF assms(4), of 0 h None] by simp
  have "hd (h @ CHR '':'' # port) \<noteq> CHR ''[''" using assms(2) by (cases h) auto
  then show ?thesis using assms by (simp add: split_host_port_def l [simplified])
qed

lemma count_char_pos: "count_char c s = 0 \<longleftrightarrow> c \<notin> set s"
  by (auto simp: count_char_def filter_empty_conv)

lemma one_colon_splits:
  assumes "count_char (CHR '':'') h = 1" "CHR ''['' \<notin> set h" "CHR '']'' \<notin> set h"
  shows "split_host_port h \<noteq> None"
proof -
  obtain a b where h: "h = a @ CHR '':'' # b" using assms(1) count_char_pos [of "CHR '':''" h]
    by (metis split_list zero_neq_one)
  then have "CHR '':'' \<notin> set a" "CHR '':'' \<notin> set b"
    using assms(1) count_char_pos [of "CHR '':''"] by (auto simp: count_char_def)
  then show ?thesis using split_plain [of a b] h assms by simp
qed

text \<open>An endpoint completed with the default port can always be taken apart again: a host without
  port (name, IPv4 or bare IPv6) comes back unchanged with the default port, an endpoint that has a
  port is left alone.\<close>

theorem default_port_splits:
  assumes "CHR ''['' \<notin> set h" "CHR '']'' \<notin> set h" "CHR '':'' \<notin> set port" "CHR ''['' \<notin> set port" "CHR '']'' \<notin> set port"
  shows "split_host_port (with_default_port h port) = (case split_host_port h of Some hp \<Rightarrow> Some hp | None \<Rightarrow> Some (h, port))"
proof (cases "split_host_port h")
  case None
  have c: "count_char (CHR '':'') h \<noteq> 1" using one_colon_splits [of h] assms None by auto
  show ?thesis
  proof (cases "CHR '':'' \<in> set h")
    case True
    then have "count_char (CHR '':'') h \<ge> 2" using c count_char_pos [of "CHR '':''" h] by linarith
    moreover have "\<not> has_prefix h ''[''" using assms(1) by (auto simp: has_prefix_iff)
    ultimately show ?thesis using split_bracketed [OF assms] None by (simp add: with_default_port_def)
  next
    case False
    then have "\<not> count_char (CHR '':'') h \<ge> 2" using count_char_pos [of "CHR '':''" h] by simp
    then show ?thesis using split_plain [OF False assms(1,2,3-5)] None by (simp add: with_default_port_def)
  qed
qed (simp add: with_default_port_def)

lemma default_port_splits_witness:
  "split_host_port (with_default_port ''fd00::7'' ''443'') = Some (''fd00::7'', ''443'')"
proof -
  have "split_host_port ''fd00::7'' = None" by code_simp
  then show ?thesis using default_port_splits [of "''fd00::7''" "''443''"] by simp
qed

text \<open>Home is answered only on evidence: connected, and the site seen on the link, or an endpoint
  of the home network answering, or both public addresses known and equal. Without any signal the
  answer is away.\<close>

theorem home_needs_evidence:
  "detect_home parse_url nv now ls cfg agent_ip home_ip lan connected \<longleftrightarrow>
     connected \<and> (local_site_seen now ls = (True, True) \<or>
       (\<exists>ep\<in>set (home_endpoints parse_url cfg lan). probe_reachable nv ep \<and>
          (ep \<in> (\<lambda>p. with_default_port p ''443'') ` set (lan_parts lan) \<or> is_private_host ep \<or> resolves_private nv ep)) \<or>
       home_ip \<noteq> [] \<and> agent_ip = home_ip)"
  by (auto simp: detect_home_def home_only_def is_pushed_lan_endpoint_def list_ex_iff)

text \<open>\<open>TriggerTrayStatusPush\<close> reports the directory as connected whatever the connection's state:
  after a set-exit or auto-VPN command on a disconnected daemon the tray turns from red.\<close>

lemma trigger_push_claims_connected:
  "ts_connected (sv_status (ag_tray (trigger_tray_status_push wr path a))) \<and>
   ts_color (sv_status (ag_tray (trigger_tray_status_push wr path a))) \<noteq> ColorRed"
  by (simp add: trigger_tray_status_push_def update_tray_status_def Let_def status_color_def)

text \<open>The status of a provider's answer is not looked at: the text of an error page that is not
  HTML becomes this host's public address.\<close>

lemma public_ip_takes_error_text:
  "fetch_public_ip (\<lambda>_. Inr (429, ''Too Many Requests'')) = ''Too Many Requests''"
  by code_simp

end
