(* ===== verification/LocalNet.thy ===== *)
theory LocalNet
  imports Home
begin

text \<open>
  What a poll of local discovery reads from the network, as the source reads it: \<open>resolveHost\<close> of
  \<open>local_discovery.go\<close>, \<open>lanCertValidFor\<close> of \<open>discovery_verify.go\<close> and \<open>localInterfaces\<close> of \<open>local_route.go\<close>.
  The resolver, the TLS dial and the operating system's interfaces are arguments.
\<close>

subsection \<open>Addresses\<close>

definition join_host_port :: "string \<Rightarrow> string \<Rightarrow> string" where
  "join_host_port host port =
     (if CHR '':'' \<in> set host then CHR ''['' # host @ '']:'' @ port else host @ CHR '':'' # port)"

text \<open>\<open>IP.String\<close> of an IPv4 address.\<close>

definition ipv4_text :: "nat list \<Rightarrow> string" where
  "ipv4_text q = join ''.'' (map show_nat q)"

fun first_ipv4 :: "nat list list \<Rightarrow> string" where
  "first_ipv4 [] = []"
| "first_ipv4 (ip # ips) = (case to4 ip of Some q \<Rightarrow> ipv4_text q | None \<Rightarrow> first_ipv4 ips)"

definition resolve_host :: "(string \<Rightarrow> nat list list result) \<Rightarrow> string \<Rightarrow> string" where
  "resolve_host lookup host = (case lookup host of Inl err \<Rightarrow> [] | Inr ips \<Rightarrow> first_ipv4 ips)"

subsection \<open>The certificate\<close>

text \<open>\<open>dial address name\<close> is the error of a TLS dial that validates the certificate for the name.\<close>

definition discovery_verify_port :: string where "discovery_verify_port = ''443''"

definition lan_cert_valid_for :: "(string \<Rightarrow> string \<Rightarrow> string option) \<Rightarrow> string \<Rightarrow> string \<Rightarrow> bool" where
  "lan_cert_valid_for dial host ip = (dial (join_host_port ip discovery_verify_port) host = None)"

subsection \<open>Interfaces\<close>

text \<open>An address of an interface that is no subnet is \<open>None\<close>.\<close>

record os_iface =
  oi_index :: int
  oi_name :: string
  oi_up :: bool
  oi_loopback :: bool
  oi_addrs :: "ip_net option list result"

fun usable_interfaces :: "os_iface list \<Rightarrow> local_iface list" where
  "usable_interfaces [] = []"
| "usable_interfaces (i # is) =
     (if \<not> oi_up i \<or> oi_loopback i then usable_interfaces is
      else (case oi_addrs i of
          Inl err \<Rightarrow> usable_interfaces is
        | Inr addrs \<Rightarrow>
            \<lparr>if_index = oi_index i, if_name = oi_name i, if_nets = map the (filter (\<lambda>a. a \<noteq> None) addrs)\<rparr> # usable_interfaces is))"

definition local_interfaces :: "os_iface list result \<Rightarrow> local_iface list result" where
  "local_interfaces ifaces = map_sum id usable_interfaces ifaces"

subsection \<open>A poll\<close>

record net_view =
  nv_env :: env
  nv_answer :: "mdns_entry list result"
  nv_lookup :: "string \<Rightarrow> nat list list result"
  nv_dial :: "string \<Rightarrow> string \<Rightarrow> string option"
  nv_ifaces :: "os_iface list result"

definition poll_of :: "string \<Rightarrow> net_view \<Rightarrow> poll" where
  "poll_of target nv =
     \<lparr>po_env = nv_env nv, po_answer = nv_answer nv, po_resolved = resolve_host (nv_lookup nv) target,
      po_cert_ok = lan_cert_valid_for (nv_dial nv), po_ifaces = local_interfaces (nv_ifaces nv)\<rparr>"

subsection \<open>Lemmas\<close>

lemma usable_interface:
  assumes "i \<in> set (usable_interfaces is)"
  shows "\<exists>j\<in>set is. oi_up j \<and> \<not> oi_loopback j \<and> oi_index j = if_index i \<and> oi_name j = if_name i \<and>
    (\<exists>addrs. oi_addrs j = Inr addrs \<and> (\<forall>n\<in>set (if_nets i). Some n \<in> set addrs))"
  using assms
proof (induction "is")
  case (Cons j js)
  show ?case
  proof (cases "i \<in> set (usable_interfaces js)")
    case True
    then show ?thesis using Cons.IH by (meson list.set_intros(2))
  next
    case False
    with Cons.prems obtain addrs where j: "oi_up j" "\<not> oi_loopback j" "oi_addrs j = Inr addrs"
      "i = \<lparr>if_index = oi_index j, if_name = oi_name j, if_nets = map the (filter (\<lambda>a. a \<noteq> None) addrs)\<rparr>"
      by (auto split: if_splits sum.splits)
    then have "\<forall>n\<in>set (if_nets i). Some n \<in> set addrs" by auto
    with j show ?thesis by (intro bexI [of _ j]) simp_all
  qed
qed simp

lemma find_iface_contains:
  "find_iface is ip = Some i \<Longrightarrow> i \<in> set is \<and> (\<exists>n\<in>set (if_nets i). net_contains n ip)"
  by (induction "is" ip rule: find_iface.induct) (auto simp: list_ex_iff split: if_splits)

text \<open>A route is pinned only on an interface that is up, is no loopback, and has the address in a subnet.\<close>

lemma pinned_interface:
  assumes "interface_for_ip (local_interfaces ifaces) ip = Some i"
  shows "\<exists>os j n addrs q. ifaces = Inr os \<and> j \<in> set os \<and> oi_up j \<and> \<not> oi_loopback j \<and> oi_name j = if_name i \<and>
    oi_index j = if_index i \<and> oi_addrs j = Inr addrs \<and> Some n \<in> set addrs \<and> parse_ip ip = Some q \<and> net_contains n q"
proof -
  obtain os q where o: "ifaces = Inr os" "parse_ip ip = Some q" "find_iface (usable_interfaces os) q = Some i"
    using assms by (auto simp: interface_for_ip_def local_interfaces_def map_sum_def split: option.splits sum.splits)
  from find_iface_contains [OF o(3)] obtain n where n: "i \<in> set (usable_interfaces os)" "n \<in> set (if_nets i)" "net_contains n q"
    by blast
  from usable_interface [OF n(1)] n(2,3) o(1,2) show ?thesis by blast
qed

text \<open>The address dialled reads back as the announced one and port 443.\<close>

lemma dialled_address:
  assumes "CHR ''['' \<notin> set ip" and "CHR '']'' \<notin> set ip"
  shows "split_host_port (join_host_port ip discovery_verify_port) = Some (ip, ''443'')"
proof (cases "CHR '':'' \<in> set ip")
  case True
  then show ?thesis using split_bracketed [OF assms, of "''443''"] by (simp add: join_host_port_def discovery_verify_port_def)
next
  case False
  then show ?thesis using split_plain [OF _ assms, of "''443''"] by (simp add: join_host_port_def discovery_verify_port_def)
qed

text \<open>A name that resolves to the announced address already is left to the resolver.\<close>

lemma resolved_name_kept:
  assumes "resolve_host (nv_lookup nv) (ds_target ds) = find_local_announcement (nv_answer nv) (ds_target ds)"
    and "\<not> d_overridden s"
  shows "d_world (disc_step parse_url ds (poll_of (ds_target ds) nv) s) = d_world s"
  using assms by (simp add: disc_step_def poll_of_def try_override_def Let_def)

lemma first_ipv4_cases: "first_ipv4 ips = [] \<or> (\<exists>ip\<in>set ips. \<exists>q. to4 ip = Some q \<and> first_ipv4 ips = ipv4_text q)"
  by (induction ips) (auto split: option.splits)

end
