(* ===== verification/LdapTunnel.thy ===== *)
theory LdapTunnel
  imports Signature GoOs
begin

text \<open>
  \<open>ldap_tunnel.go\<close>: the byte pump between local LDAP clients and the directory. Its state is the
  connection table, the running pumps, what was written to each local client and the frames sent
  up. Each event is one step of one of the pumps or of the WebSocket reader; any interleaving of
  them is a list of events.
\<close>

subsection \<open>State and events\<close>

record ldap_tunnel =
  lt_counter :: "64 word"
  lt_conns :: "string list"
  lt_pumps :: "string list"
  lt_out :: "string \<Rightarrow> string"
  lt_sent :: "ws_message list"
  lt_listeners :: "string list"

definition new_ldap_tunnel :: "64 word \<Rightarrow> ldap_tunnel" where
  "new_ldap_tunnel n = \<lparr>lt_counter = n, lt_conns = [], lt_pumps = [], lt_out = (\<lambda>_. []), lt_sent = [], lt_listeners = []\<rparr>"

text \<open>
  \<open>LStart listen sock\<close>: the listeners are bound; \<open>listen\<close> gives each address's error. \<open>LStop\<close>: the stop
  channel closes. \<open>LAccept now\<close>: a client connects. \<open>LRead cid chunk ok okc\<close>: the pump of \<open>cid\<close> reads a
  chunk, and its frame is sent if \<open>ok\<close>; if not, \<open>okc\<close> says whether the close frame is. \<open>LEnd cid ok\<close>:
  its read fails. \<open>LDown p\<close>: an \<open>ldap_tunnel\<close> message arrives.
\<close>

datatype ldap_event = LStart "string \<Rightarrow> string option" string | LStop | LAccept int
  | LRead string string bool bool | LEnd string bool | LDown fields_map

subsection \<open>Steps\<close>

definition new_conn_id :: "int \<Rightarrow> 64 word \<Rightarrow> string" where
  "new_conn_id now n = itoa now @ ''-'' @ show_nat (unat n)"

definition data_frame :: "string \<Rightarrow> string \<Rightarrow> ws_message" where
  "data_frame cid chunk = \<lparr>ws_type = ''ldap_tunnel'',
     ws_payload = [(''conn_id'', JStr cid), (''data'', JStr (b64_encode chunk))]\<rparr>"

definition close_frame :: "string \<Rightarrow> ws_message" where
  "close_frame cid = \<lparr>ws_type = ''ldap_tunnel'',
     ws_payload = [(''conn_id'', JStr cid), (''close'', JBool True)]\<rparr>"

text \<open>The Unix socket if there is a path, and the loopback port or its substitute.\<close>

definition ldap_start :: "(string \<Rightarrow> string option) \<Rightarrow> string \<Rightarrow> ldap_tunnel \<Rightarrow> ldap_tunnel" where
  "ldap_start listen sock t =
     t\<lparr>lt_listeners := (if sock \<noteq> [] \<and> listen sock = None then [sock] else [])
        @ (if listen ''127.0.0.1:389'' = None then [''127.0.0.1:389'']
           else if listen ''127.0.0.1:3890'' = None then [''127.0.0.1:3890''] else [])\<rparr>"

text \<open>The accept loops end with their listeners; the connections they accepted stay.\<close>

definition ldap_stop :: "ldap_tunnel \<Rightarrow> ldap_tunnel" where
  "ldap_stop t = t\<lparr>lt_listeners := []\<rparr>"

definition ldap_accept :: "int \<Rightarrow> ldap_tunnel \<Rightarrow> ldap_tunnel" where
  "ldap_accept now t =
     (let n = lt_counter t + 1; cid = new_conn_id now n in
      if lt_listeners t = [] then t else
      t\<lparr>lt_counter := n, lt_conns := cid # lt_conns t, lt_pumps := cid # lt_pumps t,
        lt_out := (lt_out t)(cid := [])\<rparr>)"

text \<open>The end of a pump: the close frame (its error ignored), the table entry, the socket.\<close>

definition ldap_end :: "string \<Rightarrow> bool \<Rightarrow> ldap_tunnel \<Rightarrow> ldap_tunnel" where
  "ldap_end cid ok t =
     (if cid \<in> set (lt_pumps t) then
        t\<lparr>lt_sent := lt_sent t @ (if ok then [close_frame cid] else []),
          lt_conns := removeAll cid (lt_conns t), lt_pumps := removeAll cid (lt_pumps t)\<rparr>
      else t)"

definition ldap_read :: "string \<Rightarrow> string \<Rightarrow> bool \<Rightarrow> bool \<Rightarrow> ldap_tunnel \<Rightarrow> ldap_tunnel" where
  "ldap_read cid chunk ok okc t =
     (if cid \<in> set (lt_pumps t) \<and> chunk \<noteq> [] then
        (if ok then t\<lparr>lt_sent := lt_sent t @ [data_frame cid chunk]\<rparr> else ldap_end cid okc t)
      else t)"

definition str_field :: "fields_map \<Rightarrow> string \<Rightarrow> string" where
  "str_field p k = (case get_str p k of Some s \<Rightarrow> s | None \<Rightarrow> [])"

definition ldap_handle_message :: "fields_map \<Rightarrow> ldap_tunnel \<Rightarrow> ldap_tunnel" where
  "ldap_handle_message p t =
     (let cid = str_field p ''conn_id'' in
      if cid = [] then t
      else if get_bool p ''close'' = Some True then t\<lparr>lt_conns := removeAll cid (lt_conns t)\<rparr>
      else if str_field p ''data'' = [] then t
      else (case b64_decode (str_field p ''data'') of None \<Rightarrow> t
          | Some bytes \<Rightarrow>
              if cid \<in> set (lt_conns t) then t\<lparr>lt_out := (lt_out t)(cid := lt_out t cid @ bytes)\<rparr> else t))"

fun ldap_step :: "ldap_event \<Rightarrow> ldap_tunnel \<Rightarrow> ldap_tunnel" where
  "ldap_step (LStart listen sock) t = ldap_start listen sock t"
| "ldap_step LStop t = ldap_stop t"
| "ldap_step (LAccept now) t = ldap_accept now t"
| "ldap_step (LRead cid chunk ok okc) t = ldap_read cid chunk ok okc t"
| "ldap_step (LEnd cid ok) t = ldap_end cid ok t"
| "ldap_step (LDown p) t = ldap_handle_message p t"

subsection \<open>What the directory reads\<close>

text \<open>The directory's view: the bytes of the data frames of a connection, in order.\<close>

definition frame_bytes :: "string \<Rightarrow> ws_message \<Rightarrow> string" where
  "frame_bytes cid m =
     (if ws_type m = ''ldap_tunnel'' \<and> get_str (ws_payload m) ''conn_id'' = Some cid
      then (case get_str (ws_payload m) ''data'' of None \<Rightarrow> []
          | Some d \<Rightarrow> (case b64_decode d of None \<Rightarrow> [] | Some s \<Rightarrow> s)) else [])"

definition up_bytes :: "string \<Rightarrow> ldap_tunnel \<Rightarrow> string" where
  "up_bytes cid t = concat (map (frame_bytes cid) (lt_sent t))"

text \<open>The local side's view of the same events: what a pump read from its client and could send.\<close>

fun pumped :: "string \<Rightarrow> ldap_event list \<Rightarrow> ldap_tunnel \<Rightarrow> string" where
  "pumped cid [] t = []"
| "pumped cid (ev # evs) t =
     (case ev of LRead i chunk ok okc \<Rightarrow> (if i = cid \<and> ok \<and> cid \<in> set (lt_pumps t) then chunk else []) | _ \<Rightarrow> [])
     @ pumped cid evs (ldap_step ev t)"

subsection \<open>Lemmas\<close>

lemma frame_bytes_data [simp]: "frame_bytes cid (data_frame i chunk) = (if i = cid then chunk else [])"
  by (simp add: frame_bytes_def data_frame_def get_str_def b64_decode_encode)

lemma frame_bytes_close [simp]: "frame_bytes cid (close_frame i) = []"
  by (simp add: frame_bytes_def close_frame_def get_str_def)

lemma up_bytes_step:
  "up_bytes cid (ldap_step ev t) = up_bytes cid t @
     (case ev of LRead i chunk ok okc \<Rightarrow> (if i = cid \<and> ok \<and> cid \<in> set (lt_pumps t) then chunk else []) | _ \<Rightarrow> [])"
  by (cases ev) (auto simp: up_bytes_def ldap_start_def ldap_stop_def ldap_accept_def ldap_read_def ldap_end_def ldap_handle_message_def Let_def
      split: option.splits)

lemma out_step:
  "cid \<notin> set (lt_conns t) \<Longrightarrow> cid \<notin> set (lt_conns (ldap_step ev t)) \<Longrightarrow> lt_out (ldap_step ev t) cid = lt_out t cid"
  by (cases ev) (auto simp: ldap_start_def ldap_stop_def ldap_accept_def ldap_read_def ldap_end_def ldap_handle_message_def Let_def
      split: option.splits)

subsection \<open>Properties\<close>

text \<open>C25: the tunnel is a byte pump: whatever the interleaving of clients and messages, the bytes the
  directory decodes from the frames of a connection are exactly the bytes its pump read, in order;
  no byte of another connection is among them.\<close>

theorem tunnel_carries_bytes:
  "up_bytes cid (fold ldap_step evs t) = up_bytes cid t @ pumped cid evs t"
  by (induction evs arbitrary: t) (simp_all add: up_bytes_step)

text \<open>After a stop no client is accepted.\<close>

lemma stopped_accepts_nobody: "ldap_accept now (ldap_stop t) = ldap_stop t"
  by (simp add: ldap_accept_def ldap_stop_def Let_def)

text \<open>Bytes coming down reach only the client they are for: a message changes at most the output of
  the connection it names, only while that connection is open, and appends what it carries.\<close>

theorem tunnel_down_isolated:
  "lt_out (ldap_handle_message p t) =
     (case b64_decode (str_field p ''data'') of
        Some bytes \<Rightarrow>
          if str_field p ''conn_id'' \<in> set (lt_conns t) \<and> str_field p ''conn_id'' \<noteq> [] \<and> get_bool p ''close'' \<noteq> Some True
          then (lt_out t)(str_field p ''conn_id'' := lt_out t (str_field p ''conn_id'') @ bytes)
          else lt_out t
      | None \<Rightarrow> lt_out t) \<and>
   lt_sent (ldap_handle_message p t) = lt_sent t \<and>
   set (lt_conns (ldap_handle_message p t)) \<subseteq> set (lt_conns t)"
  by (auto simp: ldap_handle_message_def Let_def b64_decode_def split: option.splits)

end
