(* ===== verification/Secrets.thy ===== *)
theory Secrets
  imports Config Signature GoPath GoHttp
begin

text \<open>
  \<open>secrets.go\<close>: templates with \<open>{{ bao "path#key" }}\<close> references are rendered from values the
  directory serves, and written to their targets. The parser of the directory's JSON answer and
  the PEM decoder are arguments.
\<close>

subsection \<open>References\<close>

definition bao_re :: rx where
  "bao_re = rseq [rlit ''{{'', rspaces, rlit ''bao'', rplus (RSet rspace), rlit [DQ],
     RGrp 1 (rplus (RSet (\<lambda>c. c \<noteq> DQ))), rlit [DQ], rspaces, rlit ''}}'']"

text \<open>\<open>FindAllStringSubmatch\<close>: the captures of the non-overlapping matches.\<close>

function find_all_from :: "rx \<Rightarrow> string \<Rightarrow> string \<Rightarrow> captures list" where
  "find_all_from r b a =
     (case rx_first r b a of
        None \<Rightarrow> (case a of [] \<Rightarrow> [] | c # cs \<Rightarrow> find_all_from r (c # b) cs)
      | Some (b', a', cps) \<Rightarrow>
          if length a' < length a then cps # find_all_from r b' a'
          else cps # (case a of [] \<Rightarrow> [] | c # cs \<Rightarrow> find_all_from r (c # b) cs))"
  by pat_completeness auto
termination by (relation "measure (\<lambda>(r, b, a). length a)") auto

declare find_all_from.simps [simp del]

definition find_all :: "rx \<Rightarrow> string \<Rightarrow> captures list" where
  "find_all r s = find_all_from r [] s"

definition group1 :: "captures \<Rightarrow> string" where
  "group1 cps = (case map_of cps 1 of Some s \<Rightarrow> s | None \<Rightarrow> [])"

definition ref_path :: "string \<Rightarrow> string" where
  "ref_path ref =
     (let path = (case str_index ref ''#'' of Some i \<Rightarrow> take i ref | None \<Rightarrow> ref) in
      if has_prefix path ''resource/'' then ''secret/data/resources/'' @ trim_prefix path ''resource/'' @ ''/conf''
      else if has_prefix path ''resources/'' then ''secret/data/resources/'' @ trim_prefix path ''resources/'' @ ''/conf''
      else if \<not> has_prefix path ''secret/'' then ''secret/data/resources/'' @ path @ ''/conf''
      else path)"

definition ref_key :: "string \<Rightarrow> string" where
  "ref_key ref = (case str_index ref ''#'' of Some i \<Rightarrow> drop (i + 1) ref | None \<Rightarrow> [])"

subsection \<open>Values\<close>

type_synonym secret_store = "(string \<times> fields_map) list"

text \<open>
  \<open>fmt.Sprintf("%v", v)\<close>. A JSON number is a \<open>float64\<close>: from a million on it is printed with an
  exponent. What \<open>%v\<close> makes of fractions, arrays and objects is the argument \<open>fmt_v\<close>.
\<close>

definition strip_zeros :: "string \<Rightarrow> string" where
  "strip_zeros s = rev (dropWhile (\<lambda>c. c = CHR ''0'') (rev s))"

definition exponent_text :: "nat \<Rightarrow> string" where
  "exponent_text n =
     (let ds = show_nat n; m = strip_zeros ds; e = length ds - 1 in
      hd m # (if tl m = [] then [] else CHR ''.'' # tl m) @ ''e+'' @ (if e < 10 then ''0'' else []) @ show_nat e)"

definition sprint_v :: "(json \<Rightarrow> string) \<Rightarrow> json \<Rightarrow> string" where
  "sprint_v fmt_v v =
     (case v of JStr s \<Rightarrow> s | JBool b \<Rightarrow> (if b then ''true'' else ''false'') | JNull \<Rightarrow> ''<nil>''
      | JNum n \<Rightarrow>
          if \<bar>n\<bar> < 1000000 then itoa n
          else (if n < 0 then ''-'' else []) @ exponent_text (nat \<bar>n\<bar>)
      | _ \<Rightarrow> fmt_v v)"

definition secret_value :: "(json \<Rightarrow> string) \<Rightarrow> secret_store \<Rightarrow> string \<Rightarrow> string" where
  "secret_value fmt_v store ref =
     (case map_of store (ref_path ref) of None \<Rightarrow> []
      | Some m \<Rightarrow> (case map_of m (ref_key ref) of None \<Rightarrow> [] | Some v \<Rightarrow> sprint_v fmt_v v))"

definition render_text :: "(json \<Rightarrow> string) \<Rightarrow> secret_store \<Rightarrow> string \<Rightarrow> string" where
  "render_text fmt_v store content =
     replace_func bao_re (\<lambda>m cps. secret_value fmt_v store (group1 cps)) content"

subsection \<open>Rendering a target\<close>

text \<open>The library functions the renderer uses.\<close>

record secrets_env =
  se_env :: env
  se_rand :: "world \<Rightarrow> string"
  se_pem :: "string \<Rightarrow> string option"
  se_fmt :: "json \<Rightarrow> string"
  se_http :: http
  se_parse :: "string \<Rightarrow> json option"

definition backup_target :: "env \<Rightarrow> world \<Rightarrow> string \<Rightarrow> world" where
  "backup_target e w target =
     (case read_file e w target of Inl err \<Rightarrow> w
      | Inr data \<Rightarrow> snd (write_file e w (target @ ''.bak'') data 0x180))"

definition pem_ok :: "secrets_env \<Rightarrow> string \<Rightarrow> bool" where
  "pem_ok se out =
     (if str_contains out ''-----BEGIN'' then
        (case se_pem se out of None \<Rightarrow> False | Some bytes \<Rightarrow> bytes \<noteq> []) else True)"

definition install_secret :: "secrets_env \<Rightarrow> world \<Rightarrow> string \<Rightarrow> string \<Rightarrow> string option \<times> world" where
  "install_secret se w target out =
     (let e = se_env se in
      case create_temp e (se_rand se) w (path_dir target) ''.theta-secret-'' of
        (Inl err, w1) \<Rightarrow> (Some err, w1)
      | (Inr tmp, w1) \<Rightarrow>
          (case write_file e w1 tmp out 0x180 of
             (Some err, w2) \<Rightarrow> (Some err, snd (remove_file e w2 tmp))
           | (None, w2) \<Rightarrow>
               (let w3 = snd (chmod e w2 tmp 0x180) in
                case rename_file e w3 tmp target of
                  (Some err, w4) \<Rightarrow> (Some err, snd (remove_file e w4 tmp))
                | (None, w4) \<Rightarrow> (None, w4))))"

definition render_one :: "secrets_env \<Rightarrow> world \<Rightarrow> secret_target \<Rightarrow> secret_store \<Rightarrow> string option \<times> world" where
  "render_one se w t store =
     (case read_file (se_env se) w (st_template t) of
        Inl err \<Rightarrow> (Some err, w)
      | Inr content \<Rightarrow>
          (let out = render_text (se_fmt se) store content in
           if \<not> pem_ok se out
           then (Some (''rendered content for '' @ st_target t @ '' does not parse as PEM, keeping existing target''), w)
           else (let w1 = backup_target (se_env se) w (st_target t) in
             case install_secret se w1 (st_target t) out of
               (Some err, w2) \<Rightarrow> (Some err, w2)
             | (None, w2) \<Rightarrow>
                 (None, if st_reload t = [] then w2
                        else snd (run_cmd (se_env se) w2 ''sh'' [''-c'', st_reload t])))))"

subsection \<open>The whole run\<close>

fun template_paths :: "env \<Rightarrow> world \<Rightarrow> secret_target list \<Rightarrow> string list \<Rightarrow> string list" where
  "template_paths e w [] paths = paths"
| "template_paths e w (t # ts) paths =
     (case read_file e w (st_template t) of
        Inl err \<Rightarrow> template_paths e w ts paths
      | Inr content \<Rightarrow>
          template_paths e w ts
            (foldl (\<lambda>ps cps. let p = ref_path (group1 cps) in if p \<in> set ps then ps else ps @ [p])
               paths (find_all bao_re content)))"

definition http_base :: "string \<Rightarrow> string" where
  "http_base url =
     trim_right_when (\<lambda>c. c = CHR ''/'')
       (replace_first (replace_first url ''wss://'' ''https://'') ''ws://'' ''http://'')"

definition dec_store :: "json \<Rightarrow> secret_store option" where
  "dec_store v =
     (case v of JNull \<Rightarrow> Some []
      | JObj ms \<Rightarrow> those (map (\<lambda>(k, x). case x of JNull \<Rightarrow> Some (k, []) | JObj m \<Rightarrow> Some (k, m) | _ \<Rightarrow> None) ms)
      | _ \<Rightarrow> None)"

definition fetch_secrets :: "secrets_env \<Rightarrow> config \<Rightarrow> string list \<Rightarrow> secret_store result" where
  "fetch_secrets se cfg paths =
     (case se_http se \<lparr>hq_method = ''POST'', hq_url = http_base (server_url cfg) @ ''/api/v1/agent/secrets'',
         hq_headers = [(''Content-Type'', ''application/json''), (''Authorization'', ''Bearer '' @ credential cfg)],
         hq_body = json_marshal (JObj [(''paths'', JArr (map JStr paths))])\<rparr> of
        Inl err \<Rightarrow> Inl err
      | Inr resp \<Rightarrow>
          if hr_code resp \<noteq> 200 then Inl (''secrets fetch failed: '' @ hr_status resp)
          else (case se_parse se (hr_body resp) of
              None \<Rightarrow> Inl ''invalid JSON''
            | Some v \<Rightarrow> (case dec_struct (\<lambda>m. dec_store (struct_field m ''secrets'')) v of
                  None \<Rightarrow> Inl ''json: cannot unmarshal'' | Some store \<Rightarrow> Inr store)))"

fun render_each :: "secrets_env \<Rightarrow> world \<Rightarrow> secret_target list \<Rightarrow> secret_store \<Rightarrow> world" where
  "render_each se w [] store = w"
| "render_each se w (t # ts) store = render_each se (snd (render_one se w t store)) ts store"

definition render_secrets :: "secrets_env \<Rightarrow> config \<Rightarrow> world \<Rightarrow> string option \<times> world" where
  "render_secrets se cfg w =
     (if secrets cfg = [] then (None, w)
      else (let paths = template_paths (se_env se) w (secrets cfg) [] in
        if paths = [] then (None, w)
        else (case fetch_secrets se cfg paths of
            Inl err \<Rightarrow> (Some err, w)
          | Inr store \<Rightarrow> (None, render_each se w (secrets cfg) store))))"

subsection \<open>Laws\<close>

lemma backup_keeps_target: "w_files (backup_target e w target) target = w_files w target"
  by (auto simp: backup_target_def write_file_def put_file_def split: option.splits sum.splits)

lemma backup_keeps_other: "q \<noteq> target @ ''.bak'' \<Longrightarrow> w_files (backup_target e w target) q = w_files w q"
  by (auto simp: backup_target_def write_file_def put_file_def split: option.splits sum.splits)

lemma backup_content:
  assumes "read_file e w target = Inr data" "e_fault e OpWrite (target @ ''.bak'') = None"
  shows "map_option f_content (w_files (backup_target e w target) (target @ ''.bak'')) = Some data"
  using assms by (simp add: backup_target_def write_file_def put_file_def)

lemma install_secret_cases:
  assumes "install_secret se w target out = (r, w')"
    and "target \<noteq> path_dir target @ ''/'' @ ''.theta-secret-'' @ se_rand se w"
    and "q \<noteq> path_dir target @ ''/'' @ ''.theta-secret-'' @ se_rand se w"
  shows "(r = None \<longrightarrow> map_option f_content (w_files w' target) = Some out) \<and>
    (r \<noteq> None \<longrightarrow> w_files w' target = w_files w target) \<and> (q \<noteq> target \<longrightarrow> w_files w' q = w_files w q)"
proof (cases "create_temp (se_env se) (se_rand se) w (path_dir target) ''.theta-secret-''")
  case (Pair a w1)
  show ?thesis
  proof (cases a)
    case (Inl err)
    then have "w1 = w" using Pair create_temp_simps(2) by blast
    then show ?thesis using assms(1) Pair Inl by (auto simp: install_secret_def Let_def)
  next
    case (Inr tmp)
    note t = create_temp_put [OF Pair [unfolded Inr]]
    have q: "q \<noteq> tmp" "target \<noteq> tmp" using t assms by auto
    show ?thesis
      using assms(1) Pair Inr t q
      by (auto simp: install_secret_def Let_def write_file_def chmod_def rename_file_def remove_file_def put_file_def
          split: option.splits)
  qed
qed

subsection \<open>Properties\<close>

text \<open>C29: rendering replaces a secret's target as a whole or not at all. On success the target holds
  exactly the rendered template, which, if it looks like PEM, decodes to a non-empty block; on any
  error it is what it was. A target that is replaced was copied to its backup before (unless the
  backup cannot be written), and no other file changes.\<close>

theorem secret_target_atomic:
  assumes "render_one se w t store = (r, w')"
    and "st_target t \<noteq> path_dir (st_target t) @ ''/'' @ ''.theta-secret-'' @ se_rand se (backup_target (se_env se) w (st_target t))"
    and "q \<noteq> path_dir (st_target t) @ ''/'' @ ''.theta-secret-'' @ se_rand se (backup_target (se_env se) w (st_target t))"
  shows "(if r = None
     then (\<exists>content. read_file (se_env se) w (st_template t) = Inr content \<and>
             map_option f_content (w_files w' (st_target t)) = Some (render_text (se_fmt se) store content) \<and>
             pem_ok se (render_text (se_fmt se) store content))
     else w_files w' (st_target t) = w_files w (st_target t)) \<and>
    (if q \<in> {st_target t, st_target t @ ''.bak''} then True else w_files w' q = w_files w q)"
proof (cases "read_file (se_env se) w (st_template t)")
  case (Inl err)
  then show ?thesis using assms(1) by (auto simp: render_one_def)
next
  case (Inr content)
  let ?out = "render_text (se_fmt se) store content" and ?w1 = "backup_target (se_env se) w (st_target t)"
  show ?thesis
  proof (cases "pem_ok se ?out")
    case False
    then show ?thesis using assms(1) Inr by (auto simp: render_one_def Let_def)
  next
    case True
    obtain r2 w2 where i: "install_secret se ?w1 (st_target t) ?out = (r2, w2)" by fastforce
    have r: "r = r2" "w_files w' = w_files w2"
      using assms(1) Inr True i by (auto simp: render_one_def Let_def run_cmd_frame split: option.splits)
    show ?thesis
      using install_secret_cases [OF i assms(2,3)] r Inr True
        backup_keeps_target [of "se_env se" w "st_target t"] backup_keeps_other [of q "st_target t" "se_env se" w] by auto
  qed
qed

definition sample_secrets :: secrets_env where
  "sample_secrets = \<lparr>se_env = quiet_env, se_rand = (\<lambda>_. ''1''), se_pem = (\<lambda>_. None), se_fmt = (\<lambda>_. []),
     se_http = (\<lambda>_. Inl ''unreachable''), se_parse = (\<lambda>_. None)\<rparr>"

definition sample_target :: secret_target where
  "sample_target = \<lparr>st_template = ''/t/db.tpl'', st_target = ''/etc/db.env'', st_reload = ''systemctl reload db''\<rparr>"

definition sample_template :: string where
  "sample_template = ''PW={{ bao '' @ [DQ] @ ''secret/data/n1#pw'' @ [DQ] @ '' }}'' @ [NL]"

lemma secret_target_atomic_witness:
  "\<exists>w' :: world. map_option f_content (w_files w' ''/etc/db.env'') = Some (''PW=x'' @ [NL]) \<and>
     w_files w' ''/t/db.tpl'' = w_files (one_file ''/t/db.tpl'' sample_template 0) ''/t/db.tpl''"
proof -
  let ?w = "one_file ''/t/db.tpl'' sample_template 0" and ?st = "[(''secret/data/n1'', [(''pw'', JStr ''x'')])]"
  obtain r w' where c: "render_one sample_secrets ?w sample_target ?st = (r, w')" by fastforce
  have "fst (render_one sample_secrets ?w sample_target ?st) = None" by code_simp
  then have r: "r = None" using c by simp
  have t: "render_text (se_fmt sample_secrets) ?st sample_template = ''PW=x'' @ [NL]" by code_simp
  have d: "path_dir (st_target sample_target) = ''/etc''" by code_simp
  have f: "read_file (se_env sample_secrets) ?w (st_template sample_target) = Inr sample_template"
    by (simp add: read_file_def sample_secrets_def sample_target_def quiet_env_def one_file_def)
  have n: "st_target sample_target \<noteq> path_dir (st_target sample_target) @ ''/'' @ ''.theta-secret-'' @
      se_rand sample_secrets (backup_target (se_env sample_secrets) ?w (st_target sample_target))"
    "''/t/db.tpl'' \<noteq> path_dir (st_target sample_target) @ ''/'' @ ''.theta-secret-'' @
      se_rand sample_secrets (backup_target (se_env sample_secrets) ?w (st_target sample_target))"
    unfolding d by (simp_all add: sample_target_def)
  have "map_option f_content (w_files w' ''/etc/db.env'') = Some (''PW=x'' @ [NL]) \<and>
     w_files w' ''/t/db.tpl'' = w_files ?w ''/t/db.tpl''"
    using secret_target_atomic [OF c n] r t f by (auto simp: sample_target_def)
  then show ?thesis by blast
qed

text \<open>A numeric secret of a million or more is rendered with an exponent.\<close>

lemma large_number_garbled:
  "sprint_v fmt_v (JNum 5432000) = ''5.432e+06''" "sprint_v fmt_v (JNum 5432) = ''5432''"
  by code_simp+

end
