(* ===== verification/ServiceControl.thy ===== *)
theory ServiceControl
  imports LinuxOps
begin

text \<open>
  \<open>service_control.go\<close>: which tool runs an action on a service of a given subtype. The
  container and OpenRC tools run through the same executor as the platform's commands.
\<close>

definition service_actions :: "string list" where
  "service_actions = [''start'', ''stop'', ''restart'', ''reload'', ''status'']"

definition service_action_list :: string where
  "service_action_list = join '', '' (sort service_actions)"

definition container_action :: "string \<Rightarrow> string option" where
  "container_action a = map_of
     [(''start'', ''start''), (''stop'', ''stop''), (''restart'', ''restart''), (''status'', ''inspect'')] a"

definition norm_subtype :: "string \<Rightarrow> string" where
  "norm_subtype s = to_lower (trim_space s)"

definition control_service :: "env \<Rightarrow> platform \<Rightarrow> string \<Rightarrow> string \<Rightarrow> string \<Rightarrow> outcome op" where
  "control_service e P subtype service action w =
     (if service = [] then (([], Some ''service name required''), w)
      else if action \<notin> set service_actions
      then (([], Some (''unsupported service action '' @ go_quote action @ '' -- use one of: '' @ service_action_list)), w)
      else if norm_subtype subtype = ''docker'' \<or> norm_subtype subtype = ''podman'' then
        (case container_action action of
           None \<Rightarrow> (([], Some (norm_subtype subtype @ '' containers have no '' @ go_quote action
                       @ '' -- use start, stop or restart'')), w)
         | Some verb \<Rightarrow> run_cmd e w (norm_subtype subtype) [verb, service])
      else if norm_subtype subtype = ''openrc'' then run_cmd e w ''rc-service'' [service, action]
      else p_service_control P service action w)"

definition subtype_or_systemd :: "string \<Rightarrow> string" where
  "subtype_or_systemd s = (if norm_subtype s \<noteq> [] then norm_subtype s else ''systemd'')"

subsection \<open>Laws\<close>

lemma container_action_verbs: "container_action a = Some v \<Longrightarrow> v \<in> {''start'', ''stop'', ''restart'', ''inspect''}"
  by (auto simp: container_action_def split: if_splits)

definition service_command :: "string \<Rightarrow> string \<Rightarrow> command \<Rightarrow> bool" where
  "service_command service action c =
     (c_stdin c = [] \<and>
      (c_prog c \<in> {''docker'', ''podman''} \<and> c_args c \<in> (\<lambda>v. [v, service]) ` {''start'', ''stop'', ''restart'', ''inspect''} \<or>
       c_prog c = ''rc-service'' \<and> c_args c = [service, action] \<or>
       c_prog c = ''systemctl'' \<and> c_args c = [action, service]))"



text \<open>Only the action is checked: a service name that starts with a dash reaches the tool as an option.\<close>

lemma norm_empty [simp]: "norm_subtype [] = []"
  by code_simp

lemma service_name_is_option:
  "\<exists>w'. control_service quiet_env (linux_platform \<lparr>lo_env = quiet_env, lo_tunnel = [], lo_conf = [],
        lo_look_path = (\<lambda>_. True), lo_rand = (\<lambda>_. [])\<rparr> ue) [] ''--host=evil'' ''status'' w = (([], None), w') \<and>
     c_args (last (w_cmds w')) = [''status'', ''--host=evil'']"
  by (simp add: control_service_def service_actions_def linux_platform_def lx_service_control_def
      run_cmd_def run_stdin_def quiet_env_def)

end
