(* ===== verification/WgIdentity.thy ===== *)
theory WgIdentity
  imports GoBase64 GoOs GoPath
begin

text \<open>
  This host's WireGuard key (\<open>wg_identity.go\<close>): generation with the Curve25519 clamping on bytes,
  the key file and its idempotent load, and completing a pushed configuration with the private
  key. The random bytes and the X25519 base point multiplication are arguments.
\<close>

unbundle bit_operations_syntax

subsection \<open>Keys\<close>

record wg_key_pair =
  kp_private :: string
  kp_public :: string

definition bytes_text :: "8 word list \<Rightarrow> string" where
  "bytes_text bs = map (\<lambda>b. char_of (unat b)) bs"

definition clamp :: "8 word list \<Rightarrow> 8 word list" where
  "clamp priv =
     (let p1 = priv[0 := (priv ! 0) AND 248]; p2 = p1[31 := (p1 ! 31) AND 127]
      in p2[31 := (p2 ! 31) OR 64])"

text \<open>\<open>x25519\<close> maps 32 key bytes to the public key bytes.\<close>

definition generate_wireguard_key :: "(string \<Rightarrow> string) \<Rightarrow> 8 word list result \<Rightarrow> wg_key_pair result" where
  "generate_wireguard_key x25519 rnd =
     (case rnd of Inl err \<Rightarrow> Inl (wrap_err ''wireguard: generate private key'' err)
      | Inr bs \<Rightarrow> (let priv = bytes_text (clamp bs) in
          Inr \<lparr>kp_private = b64_encode priv, kp_public = b64_encode (x25519 priv)\<rparr>))"

definition public_from_private :: "(string \<Rightarrow> string) \<Rightarrow> string \<Rightarrow> string result" where
  "public_from_private x25519 b64 =
     (case b64_decode b64 of
        None \<Rightarrow> Inl ''wireguard: private key is not base64''
      | Some raw \<Rightarrow>
          if length raw \<noteq> 32
          then Inl (''wireguard: private key is '' @ show_nat (length raw) @ '' bytes, want 32'')
          else Inr (b64_encode (x25519 raw)))"

definition trim_key :: "string \<Rightarrow> string" where
  "trim_key s = filter (\<lambda>c. c \<notin> {NL, CRET, CHR '' '', TAB}) s"

subsection \<open>The key file\<close>

definition install_key :: "env \<Rightarrow> world \<Rightarrow> string \<Rightarrow> wg_key_pair \<Rightarrow> wg_key_pair result \<times> world" where
  "install_key e w path kp =
     (case mkdir_all e w (path_dir path) of Some err \<Rightarrow> (Inl (wrap_err ''wireguard: create key dir'' err), w)
      | None \<Rightarrow>
          (let tmp = path @ ''.tmp'' in
           case write_file e w tmp (kp_private kp @ [NL]) 0x180 of
             (Some err, w1) \<Rightarrow> (Inl (wrap_err (''wireguard: write '' @ tmp) err), w1)
           | (None, w1) \<Rightarrow>
               (case rename_file e w1 tmp path of
                  (Some err, w2) \<Rightarrow> (Inl (wrap_err (''wireguard: install '' @ path) err), snd (remove_file e w2 tmp))
                | (None, w2) \<Rightarrow> (Inr kp, w2))))"

definition create_key :: "(string \<Rightarrow> string) \<Rightarrow> 8 word list result \<Rightarrow> env \<Rightarrow> world \<Rightarrow> string \<Rightarrow> wg_key_pair result \<times> world" where
  "create_key x25519 rnd e w path =
     (case generate_wireguard_key x25519 rnd of Inl err \<Rightarrow> (Inl err, w)
      | Inr kp \<Rightarrow> install_key e w path kp)"

definition load_or_create_key ::
  "(string \<Rightarrow> string) \<Rightarrow> 8 word list result \<Rightarrow> env \<Rightarrow> world \<Rightarrow> string \<Rightarrow> wg_key_pair result \<times> world" where
  "load_or_create_key x25519 rnd e w path =
     (case read_file e w path of
        Inr raw \<Rightarrow>
          (let priv = trim_key raw in
           if priv \<noteq> [] then
             (case public_from_private x25519 priv of
                Inl err \<Rightarrow> (Inl (wrap_err (''wireguard: stored key at '' @ path @ '' is unusable'') err), w)
              | Inr pub \<Rightarrow> (Inr \<lparr>kp_private = priv, kp_public = pub\<rparr>, w))
           else create_key x25519 rnd e w path)
      | Inl err \<Rightarrow>
          if e_fault e OpRead path = None \<and> w_files w path = None then create_key x25519 rnd e w path
          else (Inl (wrap_err (''wireguard: read '' @ path) err), w))"

subsection \<open>Completing a configuration\<close>

definition key_placeholder :: string where "key_placeholder = ''<generated on this device>''"

definition fill_private_key :: "string \<Rightarrow> string \<Rightarrow> string result" where
  "fill_private_key conf key =
     (if \<not> str_contains conf key_placeholder then Inr conf
      else if key = []
      then Inl ''wireguard: config expects this device's private key but none is available''
      else Inr (replace_all_str conf key_placeholder key))"

definition fill_private_key_from_host ::
  "(string \<Rightarrow> string) \<Rightarrow> 8 word list result \<Rightarrow> env \<Rightarrow> world \<Rightarrow> string \<Rightarrow> string \<Rightarrow> string result \<times> world" where
  "fill_private_key_from_host x25519 rnd e w path conf =
     (if \<not> str_contains conf key_placeholder then (Inr conf, w)
      else (case load_or_create_key x25519 rnd e w path of
          (Inl err, w1) \<Rightarrow> (Inl err, w1)
        | (Inr kp, w1) \<Rightarrow> (fill_private_key conf (kp_private kp), w1)))"

text \<open>\<open>meshPubKeyRe\<close>: 42 base64 characters and two that may be padding.\<close>

definition mesh_pub_key_ok :: "string \<Rightarrow> bool" where
  "mesh_pub_key_ok s =
     (length s = 44 \<and> list_all (\<lambda>c. b64_val c \<noteq> None) (take 42 s) \<and>
      list_all (\<lambda>c. b64_val c \<noteq> None \<or> c = CHR ''='') (drop 42 s))"

subsection \<open>Lemmas\<close>

lemma clamp_length [simp]: "length (clamp bs) = length bs"
  by (simp add: clamp_def Let_def)

lemma encode_alphabet: "c \<in> set (b64_encode s) \<Longrightarrow> b64_val c \<noteq> None \<or> c = CHR ''=''"
  by (induction s rule: b64_encode.induct) (auto simp: six_bits)

lemma blank_values: "b64_val NL = None" "b64_val CRET = None" "b64_val (CHR '' '') = None" "b64_val TAB = None"
  by code_simp+

lemma encode_no_blank: "c \<in> set (b64_encode s) \<Longrightarrow> c \<notin> {NL, CRET, CHR '' '', TAB}"
  using encode_alphabet [of c s] blank_values by auto

lemma trim_key_stored: "trim_key (b64_encode s @ [NL]) = b64_encode s"
proof -
  have "filter (\<lambda>c. c \<notin> {NL, CRET, CHR '' '', TAB}) (b64_encode s) = b64_encode s"
    using encode_no_blank by (subst filter_id_conv) blast
  then show ?thesis by (simp add: trim_key_def)
qed

lemma generated_key:
  assumes "generate_wireguard_key x25519 (Inr bs) = Inr kp"
  shows "kp_private kp = b64_encode (bytes_text (clamp bs)) \<and> kp_public kp = b64_encode (x25519 (bytes_text (clamp bs)))"
  using assms by (auto simp: generate_wireguard_key_def Let_def)

lemma public_of_generated:
  "length bs = 32 \<Longrightarrow> public_from_private x25519 (b64_encode (bytes_text (clamp bs))) = Inr (b64_encode (x25519 (bytes_text (clamp bs))))"
  by (simp add: public_from_private_def b64_decode_encode bytes_text_def)

lemma install_key_ok:
  "install_key e w path kp = (Inr kp', w') \<Longrightarrow>
     kp' = kp \<and> map_option f_content (w_files w' path) = Some (kp_private kp @ [NL])"
  by (auto simp: install_key_def write_file_def rename_file_def put_file_def Let_def split: option.splits prod.splits)

lemma install_key_err:
  "install_key e w path kp = (Inl err, w') \<Longrightarrow> w_files w' path = w_files w path"
  by (auto simp: install_key_def write_file_def rename_file_def remove_file_def put_file_def Let_def
      split: option.splits prod.splits)

lemma create_key_ok:
  assumes "create_key x25519 rnd e w path = (Inr kp, w')"
  obtains bs where "rnd = Inr bs" "generate_wireguard_key x25519 rnd = Inr kp"
    "map_option f_content (w_files w' path) = Some (kp_private kp @ [NL])"
  using assms install_key_ok [of e w path _ kp w']
  by (cases rnd) (auto simp: create_key_def generate_wireguard_key_def Let_def)

lemma create_key_err: "create_key x25519 rnd e w path = (Inl err, w') \<Longrightarrow> w_files w' path = w_files w path"
  using install_key_err by (auto simp: create_key_def split: sum.splits)

subsection \<open>Properties\<close>

text \<open>The host keeps one identity: whatever the random bytes of a later call are, once a call has
  returned a key pair, every call that finds the key file of the state it left returns the same pair and
  changes nothing.\<close>

theorem key_reload:
  assumes "load_or_create_key x25519 rnd e w path = (Inr kp, w1)"
    and "\<And>bs. rnd = Inr bs \<Longrightarrow> length bs = 32"
    and "w_files w2 path = w_files w1 path" and "e_fault e2 OpRead path = None"
  shows "load_or_create_key x25519 rnd2 e2 w2 path = (Inr kp, w2) \<and> public_from_private x25519 (kp_private kp) = Inr (kp_public kp)"
proof (cases "create_key x25519 rnd e w path = (Inr kp, w1) \<and> load_or_create_key x25519 rnd e w path = create_key x25519 rnd e w path")
  case True
  then obtain bs where bs: "rnd = Inr bs" "generate_wireguard_key x25519 rnd = Inr kp"
    and f: "map_option f_content (w_files w1 path) = Some (kp_private kp @ [NL])"
    using create_key_ok by blast
  have k: "kp_private kp = b64_encode (bytes_text (clamp bs))" "kp_public kp = b64_encode (x25519 (bytes_text (clamp bs)))"
    using generated_key bs by auto
  have "length (bytes_text (clamp bs)) = 32" using assms(2) [OF bs(1)] by (simp add: bytes_text_def)
  then have "bytes_text (clamp bs) \<noteq> []" by force
  moreover have "read_file e2 w2 path = Inr (kp_private kp @ [NL])"
    using f assms(3,4) by (auto simp: read_file_def)
  ultimately show ?thesis
    using public_of_generated [OF assms(2) [OF bs(1)], of x25519] k
    by (simp add: load_or_create_key_def Let_def trim_key_stored)
next
  case False
  then obtain raw pub where r: "read_file e w path = Inr raw" "trim_key raw \<noteq> []" "w1 = w"
    "public_from_private x25519 (trim_key raw) = Inr pub" "kp = \<lparr>kp_private = trim_key raw, kp_public = pub\<rparr>"
    using assms(1) by (auto simp: load_or_create_key_def Let_def split: sum.splits if_splits)
  then have "read_file e2 w2 path = Inr raw"
    using assms(3,4) by (auto simp: read_file_def split: option.splits)
  then show ?thesis using r by (simp add: load_or_create_key_def Let_def)
qed

corollary wireguard_key_stable:
  assumes "load_or_create_key x25519 rnd e w path = (Inr kp, w')"
    and "\<And>bs. rnd = Inr bs \<Longrightarrow> length bs = 32" and "e_fault e OpRead path = None"
  shows "load_or_create_key x25519 rnd' e w' path = (Inr kp, w')"
  using key_reload [OF assms(1,2) refl assms(3)] by blast

definition sample_first_call :: "wg_key_pair result \<times> world" where
  "sample_first_call =
     load_or_create_key rev (Inr (replicate 32 255)) quiet_env (one_file ''/etc/theta42/agent.yml'' [] 0) ''/etc/theta42/wg_private.key''"

lemma wireguard_key_stable_witness:
  "\<exists>kp w'. sample_first_call = (Inr kp, w') \<and>
      load_or_create_key rev (Inl ''no entropy'') quiet_env w' ''/etc/theta42/wg_private.key'' = (Inr kp, w')"
proof -
  have "(case fst sample_first_call of Inr kp \<Rightarrow> True | Inl err \<Rightarrow> False) = True" by code_simp
  then obtain kp w' where c: "sample_first_call = (Inr kp, w')"
    by (metis (no_types, lifting) prod.collapse sum.exhaust sum.simps(5))
  have "load_or_create_key rev (Inl ''no entropy'') quiet_env w' ''/etc/theta42/wg_private.key'' = (Inr kp, w')"
    by (rule wireguard_key_stable [OF c [unfolded sample_first_call_def]]) (auto simp: quiet_env_def)
  with c show ?thesis by blast
qed

text \<open>C19: a key is never lost: a call that fails, also because the stored key is unusable, leaves the
  key file as it was, and so does every call on a host that has a key.\<close>

theorem wireguard_key_kept:
  assumes "load_or_create_key x25519 rnd e w path = (r, w')" and "w_files w' path \<noteq> w_files w path"
  shows "\<exists>kp. r = Inr kp \<and> map_option f_content (w_files w' path) = Some (kp_private kp @ [NL]) \<and>
    (w_files w path = None \<or> (\<exists>f. w_files w path = Some f \<and> trim_key (f_content f) = []))"
proof -
  have c: "create_key x25519 rnd e w path = (r, w')"
    and o: "w_files w path = None \<or> (\<exists>f. w_files w path = Some f \<and> trim_key (f_content f) = [])"
    using assms by (auto simp: load_or_create_key_def Let_def read_file_def split: sum.splits if_splits option.splits)
  show ?thesis
  proof (cases r)
    case (Inl err)
    then show ?thesis using create_key_err c assms(2) by blast
  next
    case (Inr kp)
    then show ?thesis using create_key_ok [of x25519 rnd e w path kp w'] c o by blast
  qed
qed

lemma wireguard_key_kept_witness:
  "\<exists>kp w'. sample_first_call = (Inr kp, w') \<and>
      map_option f_content (w_files w' ''/etc/theta42/wg_private.key'') = Some (kp_private kp @ [NL])"
proof -
  have "(case sample_first_call of (Inr kp, w') \<Rightarrow> w_files w' ''/etc/theta42/wg_private.key'' \<noteq> None | _ \<Rightarrow> False) = True"
    by code_simp
  then obtain kp w' where c: "sample_first_call = (Inr kp, w')" "w_files w' ''/etc/theta42/wg_private.key'' \<noteq> None"
    by (auto split: prod.splits sum.splits)
  have "w_files w' ''/etc/theta42/wg_private.key'' \<noteq> w_files (one_file ''/etc/theta42/agent.yml'' [] 0) ''/etc/theta42/wg_private.key''"
    using c(2) by (simp add: one_file_def)
  from wireguard_key_kept [OF c(1) [unfolded sample_first_call_def] this] c(1) show ?thesis by blast
qed

lemma and_248_idem: "((b :: 8 word) AND 248) AND 248 = b AND 248"
  by (simp add: and.assoc)

lemma clamp_last_idem: "((b AND 127 OR 64) AND 127) OR 64 = (b :: 8 word) AND 127 OR 64"
  by (rule bit_word_eqI) (auto simp: bit_simps)

text \<open>C40: every generated key is a Curve25519 scalar: a multiple of 8 with bit 254 set and bit 255
  clear, whatever the random bytes; the other bytes are the random ones, and clamping again changes
  nothing.\<close>

theorem clamp_scalar:
  assumes "length bs = 32"
  shows "\<not> bit (clamp bs ! 0) 0 \<and> \<not> bit (clamp bs ! 0) 1 \<and> \<not> bit (clamp bs ! 0) 2 \<and>
    bit (clamp bs ! 31) 6 \<and> \<not> bit (clamp bs ! 31) 7 \<and>
    clamp (clamp bs) = clamp bs \<and> drop 1 (take 31 (clamp bs)) = drop 1 (take 31 bs)"
proof -
  have c: "clamp bs = bs[0 := (bs ! 0) AND 248, 31 := (bs ! 31) AND 127 OR 64]"
    using assms by (simp add: clamp_def Let_def)
  have "clamp (clamp bs) = clamp bs"
    using assms by (simp add: clamp_def Let_def and_248_idem clamp_last_idem list_update_swap [of 31 0])
  moreover have "drop 1 (take 31 (clamp bs)) = drop 1 (take 31 bs)"
    unfolding c by (rule nth_equalityI) (simp_all add: assms nth_list_update)
  ultimately show ?thesis
    using assms by (simp add: c bit_simps)
qed

lemma clamp_scalar_witness:
  "clamp (replicate 32 255) = 248 # replicate 30 255 @ [127] \<and> bit (clamp (replicate 32 255) ! 31) 6"
  using clamp_scalar [of "replicate 32 255"] by (simp add: clamp_def numeral_eq_Suc)

end
