(* ===== verification/Command.thy ===== *)
theory Command
  imports Home LdapTunnel Secrets ServiceControl WgIdentity
begin

text \<open>
  Command dispatch: \<open>handleCommand\<close> of \<open>websocket.go\<close>, one definition per command. Every handler
  takes the configuration the dispatcher read on entry and the message, and returns the daemon's
  next state with the frames it handed to the connection's writer.
\<close>

subsection \<open>The daemon and its surroundings\<close>

record daemon =
  dm_agent :: agent
  dm_tunnel :: ldap_tunnel
  dm_sent :: "ws_message list"
  dm_restart :: bool

text \<open>
  What the handlers call: the platform operations, the operating system, Ed25519, the YAML
  decoder, number conversion, the secrets engine's environment, X25519 with its random bytes, and
  the tray connections that accept writes.
\<close>

record command_env =
  ce_platform :: platform
  ce_env :: env
  ce_ed :: "string \<Rightarrow> string \<Rightarrow> string \<Rightarrow> bool"
  ce_decode :: "string \<Rightarrow> config result"
  ce_num :: number_conv
  ce_secrets :: secrets_env
  ce_x25519 :: "string \<Rightarrow> string"
  ce_rand :: "8 word list result"
  ce_key_path :: string
  ce_tray_write :: "nat \<Rightarrow> bool"
  ce_config_path :: string

type_synonym handler = "command_env \<Rightarrow> config \<Rightarrow> ws_message \<Rightarrow> daemon \<Rightarrow> daemon"

definition send_response_payload :: "fields_map \<Rightarrow> daemon \<Rightarrow> daemon" where
  "send_response_payload p d = d\<lparr>dm_sent := dm_sent d @ [\<lparr>ws_type = ''response'', ws_payload = p\<rparr>]\<rparr>"

definition send_response :: "string \<Rightarrow> string \<Rightarrow> daemon \<Rightarrow> daemon" where
  "send_response status msg =
     send_response_payload [(''status'', JStr status), (''message'', JStr msg)]"

definition respond_error :: "string \<Rightarrow> daemon \<Rightarrow> daemon" where
  "respond_error msg = send_response ''error'' msg"

definition respond_ok :: "string \<Rightarrow> daemon \<Rightarrow> daemon" where
  "respond_ok msg = send_response ''ok'' msg"

text \<open>Running an operation on the world, changing the home state, replacing world and manager.\<close>

definition run_op :: "'a op \<Rightarrow> daemon \<Rightarrow> 'a \<times> daemon" where
  "run_op f d = (let (r, w) = f (ag_world (dm_agent d)) in (r, d\<lparr>dm_agent := (dm_agent d)\<lparr>ag_world := w\<rparr>\<rparr>))"

definition on_agent :: "(agent \<Rightarrow> agent) \<Rightarrow> daemon \<Rightarrow> daemon" where
  "on_agent f d = d\<lparr>dm_agent := f (dm_agent d)\<rparr>"

definition set_world_cm :: "world \<times> config_manager \<Rightarrow> daemon \<Rightarrow> daemon" where
  "set_world_cm wc = on_agent (\<lambda>a. a\<lparr>ag_world := fst wc, ag_cm := Some (snd wc)\<rparr>)"

definition tray_refresh :: "command_env \<Rightarrow> daemon \<Rightarrow> daemon" where
  "tray_refresh ce = on_agent (trigger_tray_status_push (ce_tray_write ce) (ce_config_path ce))"

definition signed :: "command_env \<Rightarrow> config \<Rightarrow> ws_message \<Rightarrow> bool" where
  "signed ce cfg msg = verify_signature (ce_ed ce) cfg msg"

text \<open>The guards at the head of a signed command: signature, then capability.\<close>

definition require_signature :: "handler \<Rightarrow> handler" where
  "require_signature h ce cfg msg d =
     (if \<not> signed ce cfg msg then respond_error ''signature verification failed'' d else h ce cfg msg d)"

definition require_capability :: "(capabilities \<Rightarrow> bool) \<Rightarrow> string \<Rightarrow> handler \<Rightarrow> handler" where
  "require_capability cap msg' h ce cfg msg d =
     (if \<not> cap (caps cfg) then respond_error msg' d else h ce cfg msg d)"

abbreviation text_field :: "ws_message \<Rightarrow> string \<Rightarrow> string" where
  "text_field msg k \<equiv> str_field (ws_payload msg) k"

subsection \<open>Unsigned commands\<close>

definition handle_reload_config :: "config_manager \<Rightarrow> handler" where
  "handle_reload_config cm ce cfg msg d =
     (case reload (ce_decode ce) (ce_env ce) (ag_world (dm_agent d)) cm of
        (Some err, cm') \<Rightarrow> respond_error ''failed to reload config'' d
      | (None, cm') \<Rightarrow>
          respond_ok ''configuration reloaded'' (on_agent (\<lambda>a. a\<lparr>ag_cm := Some cm'\<rparr>) d))"

text \<open>The number of log lines: a positive number is converted and capped.\<close>

definition positive_number :: "json \<Rightarrow> bool" where
  "positive_number v = (case v of JNum n \<Rightarrow> n > 0
     | JDec t \<Rightarrow> hd t \<noteq> CHR ''-'' \<and> (\<exists>c\<in>set (takeWhile (\<lambda>c. c \<noteq> CHR ''e'') t). c \<in> set ''123456789'') | _ \<Rightarrow> False)"

definition lines_count :: "number_conv \<Rightarrow> fields_map \<Rightarrow> int" where
  "lines_count nc p =
     (case map_of p ''lines'' of None \<Rightarrow> 100
      | Some v \<Rightarrow> if positive_number v then
                    (case json_int nc v of None \<Rightarrow> 100 | Some n \<Rightarrow> if n > 2000 then 2000 else n)
                  else 100)"

definition handle_fetch_logs :: handler where
  "handle_fetch_logs ce cfg msg d =
     (let service = (if text_field msg ''service'' = [] then ''theta-agent'' else text_field msg ''service'') in
      if service \<noteq> ''theta-agent'' \<and> \<not> can_manage_service (caps cfg) service
      then respond_error ''service log fetch rejected'' d
      else (case run_op (p_fetch_logs (ce_platform ce) service (lines_count (ce_num ce) (ws_payload msg))) d of
          ((out, Some err), d1) \<Rightarrow> respond_error ''failed to fetch logs'' d1
        | ((out, None), d1) \<Rightarrow> send_response_payload
            [(''status'', JStr ''ok''), (''service'', JStr service), (''logs'', JStr out), (''output'', JStr out)] d1))"

text \<open>The home-detection and branding fields of a \<open>config\<close> frame, each only when not empty.\<close>

definition pushed :: "ws_message \<Rightarrow> string \<Rightarrow> (string \<Rightarrow> home_state \<Rightarrow> home_state) \<Rightarrow> home_state \<Rightarrow> home_state" where
  "pushed msg k f s = (if text_field msg k = [] then s else f (text_field msg k) s)"

definition config_push :: "ws_message \<Rightarrow> home_state \<Rightarrow> home_state" where
  "config_push msg s =
     pushed msg ''site_name'' set_site_name
       (pushed msg ''organization_name'' set_organization_name
         (pushed msg ''site_lan_endpoint'' set_home_lan_endpoint
           (pushed msg ''site_public_ip'' set_home_public_ip s)))"

definition handle_config :: "config_manager \<Rightarrow> handler" where
  "handle_config cm ce cfg msg d =
     (let enrolled = (get_bool (ws_payload msg) ''enrolled'' = Some True);
          d1 = (if enrolled
                then set_world_cm (snd (persist_enrollment (ce_decode ce) (ce_env ce) (ag_world (dm_agent d)) cm
                       (text_field msg ''auth_token'') (text_field msg ''public_key''))) d
                else d);
          d2 = tray_refresh ce (on_agent (on_home (config_push msg)) d1)
      in respond_ok (if enrolled then ''enrollment stored'' else ''Configuration received'') d2)"

text \<open>\<open>systemd_action\<close>: only \<open>status\<close> goes without a signature.\<close>

definition outcome_response :: "fields_map \<Rightarrow> string \<Rightarrow> fields_map \<Rightarrow> outcome \<Rightarrow> daemon \<Rightarrow> daemon" where
  "outcome_response extra message extra2 r =
     (let err = (case snd r of None \<Rightarrow> [] | Some m \<Rightarrow> m) in
      send_response_payload
        ([(''status'', JStr (if err = [] then ''ok'' else ''error'')), (''message'', JStr message)]
         @ extra @ extra2 @ [(''output'', JStr (fst r)), (''error'', JStr err)]))"

definition handle_systemd_action :: handler where
  "handle_systemd_action ce cfg msg d =
     (let service = text_field msg ''service''; subtype = text_field msg ''subtype'';
          action = (if text_field msg ''action'' = [] then ''status'' else text_field msg ''action'') in
      if service = [] then respond_error ''service name required'' d
      else if action \<noteq> ''status'' \<and> \<not> signed ce cfg msg then respond_error ''signature verification failed'' d
      else (case run_op (control_service (ce_env ce) (ce_platform ce) subtype service action) d of (r, d1) \<Rightarrow>
          outcome_response [(''service'', JStr service), (''subtype'', JStr (subtype_or_systemd subtype))]
            (action @ '' '' @ service @ '' ('' @ subtype_or_systemd subtype @ '')'')
            [(''action'', JStr action)] r d1))"

subsection \<open>Signed commands\<close>

definition do_update_binary :: handler where
  "do_update_binary ce cfg msg d =
     (let url = text_field msg ''url''; sha = text_field msg ''sha256'' in
      if url = [] \<or> sha = [] then respond_error ''missing url or sha256 checksum'' d
      else (case run_op (p_apply_update (ce_platform ce) url sha) d of
          (Some err, d1) \<Rightarrow> respond_error (''update failed: '' @ err) d1
        | (None, d1) \<Rightarrow>
            (respond_ok ''update applied successfully; restarting agent...'' d1)\<lparr>dm_restart := True\<rparr>))"

definition do_reboot :: handler where
  "do_reboot ce cfg msg d =
     (case run_op (p_reboot (ce_platform ce)) d of
        ((out, Some err), d1) \<Rightarrow> respond_error ''reboot failed'' d1
      | ((out, None), d1) \<Rightarrow> respond_ok ''system rebooting'' d1)"

text \<open>The answer to \<open>shutdown\<close> goes out before the operation.\<close>

definition do_shutdown :: handler where
  "do_shutdown ce cfg msg d =
     snd (run_op (p_shutdown (ce_platform ce)) (respond_ok ''system shutting down'' d))"

definition desktop_actions :: "string list" where
  "desktop_actions = [''lock_session'', ''lock'', ''logout_user'', ''logout'', ''display_off'', ''sleep_host'', ''sleep'']"

definition do_desktop_control :: handler where
  "do_desktop_control ce cfg msg d =
     (let action = (if text_field msg ''subAction'' = [] then ws_type msg else text_field msg ''subAction'') in
      if action \<notin> set desktop_actions then respond_error (''unknown desktop action '' @ [SQ] @ action @ [SQ]) d
      else (case run_op (p_desktop_control (ce_platform ce) action (text_field msg ''user'')) d of (r, d1) \<Rightarrow>
          outcome_response [] (''desktop action '' @ action) [(''subAction'', JStr action)] r d1))"

definition do_service_restart :: handler where
  "do_service_restart ce cfg msg d =
     (case get_str (ws_payload msg) ''service'' of
        None \<Rightarrow> respond_error ''service restart rejected'' d
      | Some service \<Rightarrow>
          if \<not> can_manage_service (caps cfg) service then respond_error ''service restart rejected'' d
          else (case run_op (p_service_control (ce_platform ce) service ''restart'') d of
              ((out, Some err), d1) \<Rightarrow> respond_error ''restart failed'' d1
            | ((out, None), d1) \<Rightarrow> respond_ok ''service restarted'' d1))"

definition do_configure_ldap :: handler where
  "do_configure_ldap ce cfg msg d =
     (case get_str (ws_payload msg) ''config'' of
        None \<Rightarrow> respond_error ''invalid config payload'' d
      | Some data \<Rightarrow>
          (case run_op (p_configure_ldap (ce_platform ce) data) d of
             (Some err, d1) \<Rightarrow> respond_error err d1
           | (None, d1) \<Rightarrow> respond_ok ''LDAP configuration updated'' d1))"

definition do_render_secrets :: handler where
  "do_render_secrets ce cfg msg d =
     (case run_op (render_secrets (ce_secrets ce) cfg) d of
        (Some err, d1) \<Rightarrow> respond_error (''secrets render failed: '' @ err) d1
      | (None, d1) \<Rightarrow> respond_ok ''secrets rendered'' d1)"

definition do_iam_apply :: handler where
  "do_iam_apply ce cfg msg d =
     (case parse_iam_payload (ws_payload msg) of
        None \<Rightarrow> respond_error ''invalid IAM payload'' d
      | Some payload \<Rightarrow>
          (case run_op (p_apply_iam (ce_platform ce) payload) d of
             (Some err, d1) \<Rightarrow> respond_error (''iam apply failed: '' @ err) d1
           | (None, d1) \<Rightarrow> respond_ok ''iam applied'' d1))"

definition edit_service :: "config_manager \<Rightarrow> string \<Rightarrow> bool \<Rightarrow> string \<Rightarrow> handler" where
  "edit_service cm subtype remove ok ce cfg msg d =
     (case persist_service (ce_decode ce) (ce_env ce) (ag_world (dm_agent d)) cm (text_field msg ''service'') subtype remove of
        (Some err, wc) \<Rightarrow> respond_error err (set_world_cm wc d)
      | (None, wc) \<Rightarrow> respond_ok ok (set_world_cm wc d))"

definition do_register_service :: "config_manager \<Rightarrow> handler" where
  "do_register_service cm ce cfg msg d =
     (if text_field msg ''service'' = [] then respond_error ''missing service name'' d
      else edit_service cm (if text_field msg ''subtype'' = [] then ''systemd'' else text_field msg ''subtype'')
             False ''service registered'' ce cfg msg d)"

definition do_unregister_service :: "config_manager \<Rightarrow> handler" where
  "do_unregister_service cm ce cfg msg d =
     (if text_field msg ''service'' = [] then respond_error ''missing service name'' d
      else edit_service cm ''systemd'' True ''service unregistered'' ce cfg msg d)"

text \<open>A pushed peer configuration is completed and stored; whether it runs is the policy's decision.\<close>

definition store_tunnel_down :: handler where
  "store_tunnel_down ce cfg msg d =
     (case run_op (p_wg_state (ce_platform ce)) d of (up, d1) \<Rightarrow>
        (let d2 = (if up then snd (run_op (p_disconnect_wg (ce_platform ce)) d1) else d1) in
         respond_ok ''wireguard config stored'' (tray_refresh ce (on_agent (on_home (set_vpn_active False)) d2))))"

definition bring_tunnel_up :: "string \<Rightarrow> handler" where
  "bring_tunnel_up conf ce cfg msg d =
     (case run_op (p_apply_wg (ce_platform ce) conf) d of
        (Some err, d1) \<Rightarrow> respond_error (''wireguard apply failed: '' @ err) d1
      | (None, d1) \<Rightarrow>
          respond_ok ''wireguard applied'' (tray_refresh ce (on_agent (on_home (set_vpn_active True)) d1)))"

definition do_wireguard_apply :: handler where
  "do_wireguard_apply ce cfg msg d =
     (if text_field msg ''config'' = [] then respond_error ''missing wireguard config'' d
      else (case run_op (\<lambda>w. fill_private_key_from_host (ce_x25519 ce) (ce_rand ce) (ce_env ce) w (ce_key_path ce)
                (text_field msg ''config'')) d of
          (Inl err, d1) \<Rightarrow> respond_error err d1
        | (Inr conf, d1) \<Rightarrow>
            (let d2 = on_agent (on_home (set_mesh_identity (int_from_payload (ce_num ce) (ws_payload msg) ''siteId'')
                        (opt_int_from_payload (ce_num ce) (ws_payload msg) ''exitSiteId''))) d1 in
             case run_op (p_persist_wg (ce_platform ce) conf) d2 of
               (Some err, d3) \<Rightarrow> respond_error (''wireguard apply failed: '' @ err) d3
             | (None, d3) \<Rightarrow>
                 (case want_wireguard_up (ce_platform ce) (dm_agent d3) of (want, a) \<Rightarrow>
                    (if want then bring_tunnel_up conf else store_tunnel_down) ce cfg msg (d3\<lparr>dm_agent := a\<rparr>)))))"

definition do_wireguard_remove :: handler where
  "do_wireguard_remove ce cfg msg d =
     (case run_op (p_remove_wg (ce_platform ce)) d of
        (Some err, d1) \<Rightarrow> respond_error (''wireguard remove failed: '' @ err) d1
      | (None, d1) \<Rightarrow>
          respond_ok ''wireguard removed'' (tray_refresh ce (on_agent (on_home (set_vpn_active False)) d1)))"

definition do_arbitrary_bash :: handler where
  "do_arbitrary_bash ce cfg msg d =
     (case get_str (ws_payload msg) ''script'' of
        None \<Rightarrow> respond_error ''invalid script payload'' d
      | Some script \<Rightarrow>
          (case run_op (p_run_script (ce_platform ce) script) d of
             ((out, Some err), d1) \<Rightarrow> respond_error (''execution failed: '' @ err) d1
           | ((out, None), d1) \<Rightarrow> send_response_payload
               [(''status'', JStr ''ok''),
                (''message'', JStr (''script executed ('' @ show_nat (length script) @ '' bytes)'')),
                (''output'', JStr out)] d1))"

definition do_zpool_scrub :: handler where
  "do_zpool_scrub ce cfg msg d =
     (let pool = text_field msg ''pool'' in
      if pool = [] then respond_error ''missing pool name'' d
      else (case validate_service_name pool of
          Some err \<Rightarrow> respond_error (''invalid pool name: '' @ err) d
        | None \<Rightarrow>
            (case run_op (p_zpool_scrub (ce_platform ce) pool) d of
               ((out, Some err), d1) \<Rightarrow> respond_error (''zpool scrub failed: '' @ err) d1
             | ((out, None), d1) \<Rightarrow> send_response_payload
                 [(''status'', JStr ''ok''), (''message'', JStr (''scrub started on '' @ pool)),
                  (''pool'', JStr pool), (''output'', JStr out)] d1)))"

subsection \<open>Dispatch\<close>

definition desktop_types :: "string list" where
  "desktop_types = [''desktop_control'', ''lock_session'', ''logout_user'', ''display_off'', ''sleep_host'']"

text \<open>The signed command types with their guards and handlers.\<close>

definition gate :: "(capabilities \<Rightarrow> bool) \<Rightarrow> string \<Rightarrow> handler \<Rightarrow> handler" where
  "gate cap off h = require_signature (require_capability cap off h)"

definition signed_handler :: "config_manager \<Rightarrow> string \<Rightarrow> handler option" where
  "signed_handler cm t =
     (if t = ''update_binary'' then Some (require_signature do_update_binary)
      else if t = ''reboot'' then Some (gate cap_reboot ''reboot capability disabled'' do_reboot)
      else if t = ''shutdown'' then Some (gate cap_reboot ''shutdown capability disabled'' do_shutdown)
      else if t \<in> set desktop_types then Some (require_signature do_desktop_control)
      else if t = ''service_restart'' then Some (require_signature do_service_restart)
      else if t = ''configure_ldap'' then Some (gate cap_configure_ldap ''LDAP config disabled'' do_configure_ldap)
      else if t = ''render_secrets'' then Some (gate cap_secrets ''secrets capability disabled'' do_render_secrets)
      else if t = ''iam_apply'' then Some (gate cap_iam ''iam capability disabled'' do_iam_apply)
      else if t = ''register_service'' then
        Some (gate cap_service_registration ''service registration capability disabled'' (do_register_service cm))
      else if t = ''unregister_service'' then
        Some (gate cap_service_registration ''service registration capability disabled'' (do_unregister_service cm))
      else if t = ''wireguard_apply'' then Some (gate wireguard_enabled ''wireguard capability disabled'' do_wireguard_apply)
      else if t = ''wireguard_remove'' then Some (gate wireguard_enabled ''wireguard capability disabled'' do_wireguard_remove)
      else if t = ''arbitrary_bash'' then Some (gate cap_arbitrary_bash ''bash execution disabled'' do_arbitrary_bash)
      else if t = ''zpool_scrub'' then Some (gate cap_storage ''storage capability disabled'' do_zpool_scrub)
      else None)"

definition dispatch :: "config_manager \<Rightarrow> handler" where
  "dispatch cm ce cfg msg d =
     (if ws_type msg = ''ldap_tunnel'' then d\<lparr>dm_tunnel := ldap_handle_message (ws_payload msg) (dm_tunnel d)\<rparr>
      else if ws_type msg = ''reload_config'' then handle_reload_config cm ce cfg msg d
      else if ws_type msg = ''fetch_logs'' then handle_fetch_logs ce cfg msg d
      else if ws_type msg = ''config'' then handle_config cm ce cfg msg d
      else if ws_type msg = ''systemd_action'' then handle_systemd_action ce cfg msg d
      else if ws_type msg = ''heartbeat_ack'' then d
      else (case signed_handler cm (ws_type msg) of
          Some h \<Rightarrow> h ce cfg msg d
        | None \<Rightarrow> respond_error ''unknown command type'' d))"

text \<open>\<open>handleCommand\<close>: the dispatcher reads the running configuration once. The daemon has its
  configuration manager before it connects; a state without one handles nothing.\<close>

definition handle_command :: "command_env \<Rightarrow> ws_message \<Rightarrow> daemon \<Rightarrow> daemon" where
  "handle_command ce msg d =
     (case ag_cm (dm_agent d) of None \<Rightarrow> d | Some cm \<Rightarrow> dispatch cm ce (cm_current cm) msg d)"

subsection \<open>What a guarded handler may do\<close>

text \<open>
  The contract of a signed command, whatever it does behind its guards: without a valid signature,
  or with its capability off, it answers with an error and does nothing else.
\<close>

locale guarded_handler =
  fixes h :: handler and cap :: "capabilities \<Rightarrow> bool"
  assumes unsigned: "\<not> signed ce cfg msg \<Longrightarrow> \<exists>m. h ce cfg msg d = respond_error m d"
    and disabled: "\<not> cap (caps cfg) \<Longrightarrow> \<exists>m. h ce cfg msg d = respond_error m d"
begin

lemma refused: "\<not> (signed ce cfg msg \<and> cap (caps cfg)) \<Longrightarrow> \<exists>m. h ce cfg msg d = respond_error m d"
  using unsigned disabled by blast

lemma effect_authorised:
  assumes "dm_agent (h ce cfg msg d) \<noteq> dm_agent d"
  shows "signed ce cfg msg \<and> cap (caps cfg)"
proof (rule ccontr)
  assume "\<not> ?thesis"
  then obtain m where "h ce cfg msg d = respond_error m d" using refused by blast
  with assms show False by (simp add: respond_error_def send_response_def send_response_payload_def)
qed

end

interpretation gated: guarded_handler "gate cap off h" cap for cap off h
  by unfold_locales (auto simp: gate_def require_signature_def require_capability_def)

interpretation signed_only: guarded_handler "require_signature h" "\<lambda>c. True" for h
  by unfold_locales (auto simp: require_signature_def)

text \<open>Every handler answers exactly once, keeps the frames already sent, and leaves the daemon with a
  configuration manager.\<close>

locale answering_handler =
  fixes h :: handler
  assumes answers: "\<exists>p. dm_sent (h ce cfg msg d) = dm_sent d @ [\<lparr>ws_type = ''response'', ws_payload = p\<rparr>]"
    and keeps_manager: "ag_cm (dm_agent d) \<noteq> None \<Longrightarrow> ag_cm (dm_agent (h ce cfg msg d)) \<noteq> None"
begin

lemma answers_gate:
  "\<exists>p. dm_sent (gate cap off h ce cfg msg d) = dm_sent d @ [\<lparr>ws_type = ''response'', ws_payload = p\<rparr>]"
  "ag_cm (dm_agent d) \<noteq> None \<Longrightarrow> ag_cm (dm_agent (gate cap off h ce cfg msg d)) \<noteq> None"
  using answers keeps_manager by (auto simp: gate_def require_signature_def require_capability_def respond_error_def
      send_response_def send_response_payload_def)

lemma answers_signed:
  "\<exists>p. dm_sent (require_signature h ce cfg msg d) = dm_sent d @ [\<lparr>ws_type = ''response'', ws_payload = p\<rparr>]"
  "ag_cm (dm_agent d) \<noteq> None \<Longrightarrow> ag_cm (dm_agent (require_signature h ce cfg msg d)) \<noteq> None"
  using answers keeps_manager by (auto simp: require_signature_def respond_error_def
      send_response_def send_response_payload_def)

end

lemma run_op_sent: "run_op f d = (r, d1) \<Longrightarrow> dm_sent d1 = dm_sent d \<and> dm_tunnel d1 = dm_tunnel d \<and> dm_restart d1 = dm_restart d"
  by (auto simp: run_op_def split: prod.splits)

lemma run_op_manager: "run_op f d = (r, d1) \<Longrightarrow> ag_cm (dm_agent d1) = ag_cm (dm_agent d)"
  by (auto simp: run_op_def split: prod.splits)

lemma want_manager: "want_wireguard_up P a = (b, a') \<Longrightarrow> ag_cm a' = ag_cm a"
  by (auto simp: want_wireguard_up_def Let_def split: if_splits prod.splits)

lemma sent_frame [simp]:
  "dm_sent (on_agent f d) = dm_sent d" "dm_sent (set_world_cm wc d) = dm_sent d" "dm_sent (tray_refresh ce d) = dm_sent d"
  "dm_sent (d\<lparr>dm_agent := a\<rparr>) = dm_sent d"
  by (simp_all add: on_agent_def set_world_cm_def tray_refresh_def)

lemma response_frames [simp]:
  "dm_sent (respond_error m d) = dm_sent d @ [\<lparr>ws_type = ''response'', ws_payload = [(''status'', JStr ''error''), (''message'', JStr m)]\<rparr>]"
  "dm_sent (respond_ok m d) = dm_sent d @ [\<lparr>ws_type = ''response'', ws_payload = [(''status'', JStr ''ok''), (''message'', JStr m)]\<rparr>]"
  "dm_sent (send_response_payload p d) = dm_sent d @ [\<lparr>ws_type = ''response'', ws_payload = p\<rparr>]"
  by (simp_all add: respond_error_def respond_ok_def send_response_def send_response_payload_def)

lemma response_agent [simp]:
  "dm_agent (respond_error m d) = dm_agent d" "dm_agent (respond_ok m d) = dm_agent d"
  "dm_agent (send_response_payload p d) = dm_agent d"
  by (simp_all add: respond_error_def respond_ok_def send_response_def send_response_payload_def)

lemma agent_manager [simp]:
  "dm_agent (on_agent f d) = f (dm_agent d)" "ag_cm (dm_agent (set_world_cm wc d)) = Some (snd wc)"
  "ag_cm (dm_agent (tray_refresh ce d)) = ag_cm (dm_agent d)"
  by (simp_all add: on_agent_def set_world_cm_def tray_refresh_def trigger_tray_status_push_def Let_def tray_status_keeps)

lemma outcome_frames [simp]: "\<exists>p. dm_sent (outcome_response x m y r d) = dm_sent d @ [\<lparr>ws_type = ''response'', ws_payload = p\<rparr>]"
  "dm_agent (outcome_response x m y r d) = dm_agent d"
  by (simp_all add: outcome_response_def Let_def)

lemma answering_simple:
  "answering_handler do_update_binary" "answering_handler do_reboot" "answering_handler do_shutdown"
  "answering_handler do_service_restart" "answering_handler do_configure_ldap"
  "answering_handler do_render_secrets" "answering_handler do_iam_apply"
  "answering_handler (edit_service cm st rm ok)" "answering_handler store_tunnel_down" "answering_handler (bring_tunnel_up conf)"
  "answering_handler do_wireguard_remove" "answering_handler do_arbitrary_bash" "answering_handler do_zpool_scrub"
  "answering_handler handle_fetch_logs" "answering_handler (handle_reload_config cm)" "answering_handler (handle_config cm)"
  by (unfold_locales; auto simp: do_update_binary_def do_reboot_def do_shutdown_def do_service_restart_def
      do_configure_ldap_def do_render_secrets_def do_iam_apply_def edit_service_def store_tunnel_down_def
      bring_tunnel_up_def do_wireguard_remove_def do_arbitrary_bash_def do_zpool_scrub_def handle_fetch_logs_def
      handle_reload_config_def handle_config_def Let_def run_op_def split: option.splits prod.splits sum.splits)+

lemma answering_outcomes: "answering_handler do_desktop_control" "answering_handler handle_systemd_action"
  by (unfold_locales; auto simp: do_desktop_control_def handle_systemd_action_def Let_def run_op_def
      outcome_response_def split: prod.splits)+

interpretation tunnel_down: answering_handler store_tunnel_down by (rule answering_simple(9))
interpretation tunnel_up: answering_handler "bring_tunnel_up conf" for conf by (rule answering_simple(10))
interpretation editing: answering_handler "edit_service cm st rm ok" for cm st rm ok by (rule answering_simple(8))
interpretation log_fetch: answering_handler handle_fetch_logs by (rule answering_simple(14))
interpretation reloading: answering_handler "handle_reload_config cm" for cm by (rule answering_simple(15))
interpretation configuring: answering_handler "handle_config cm" for cm by (rule answering_simple(16))
interpretation service_action: answering_handler handle_systemd_action by (rule answering_outcomes(2))

lemma answering_registration:
  "answering_handler (do_register_service cm)" "answering_handler (do_unregister_service cm)"
  by (unfold_locales; simp add: do_register_service_def do_unregister_service_def
      editing.answers editing.keeps_manager [simplified])+

lemma answering_wireguard: "answering_handler do_wireguard_apply"
proof
  fix ce cfg msg d
  have up: "\<exists>p. dm_sent (bring_tunnel_up conf ce cfg msg d') = S @ [\<lparr>ws_type = ''response'', ws_payload = p\<rparr>]"
    if "dm_sent d' = S" for conf d' S
    using tunnel_up.answers that by blast
  have down: "\<exists>p. dm_sent (store_tunnel_down ce cfg msg d') = S @ [\<lparr>ws_type = ''response'', ws_payload = p\<rparr>]"
    if "dm_sent d' = S" for d' S
    using tunnel_down.answers that by blast
  show "\<exists>p. dm_sent (do_wireguard_apply ce cfg msg d) = dm_sent d @ [\<lparr>ws_type = ''response'', ws_payload = p\<rparr>]"
    unfolding do_wireguard_apply_def Let_def
    by (auto intro!: up down split: prod.splits sum.splits option.splits dest!: run_op_sent)
  show "ag_cm (dm_agent (do_wireguard_apply ce cfg msg d)) \<noteq> None" if "ag_cm (dm_agent d) \<noteq> None"
    unfolding do_wireguard_apply_def Let_def using that
    by (auto intro!: tunnel_up.keeps_manager [simplified] tunnel_down.keeps_manager [simplified]
        split: prod.splits sum.splits option.splits dest!: run_op_manager want_manager)
qed

text \<open>The whole table of signed commands, as instances of the two contracts.\<close>

definition command_caps :: "(string \<times> (capabilities \<Rightarrow> bool)) list" where
  "command_caps =
     [(''update_binary'', \<lambda>c. True), (''reboot'', cap_reboot), (''shutdown'', cap_reboot),
      (''desktop_control'', \<lambda>c. True), (''lock_session'', \<lambda>c. True), (''logout_user'', \<lambda>c. True),
      (''display_off'', \<lambda>c. True), (''sleep_host'', \<lambda>c. True), (''service_restart'', \<lambda>c. True),
      (''configure_ldap'', cap_configure_ldap), (''render_secrets'', cap_secrets), (''iam_apply'', cap_iam),
      (''register_service'', cap_service_registration), (''unregister_service'', cap_service_registration),
      (''wireguard_apply'', wireguard_enabled), (''wireguard_remove'', wireguard_enabled),
      (''arbitrary_bash'', cap_arbitrary_bash), (''zpool_scrub'', cap_storage)]"

definition fits :: "handler option \<Rightarrow> (capabilities \<Rightarrow> bool) option \<Rightarrow> bool" where
  "fits h c = (case h of None \<Rightarrow> c = None
     | Some g \<Rightarrow> answering_handler g \<and> (\<exists>cap. c = Some cap \<and> guarded_handler g cap))"

lemma fits_gate: "answering_handler h \<Longrightarrow> fits (Some (gate cap off h)) (Some cap)"
  by (auto simp: fits_def answering_handler_def intro!: gated.guarded_handler_axioms
      answering_handler.answers_gate [unfolded not_None_eq])

lemma fits_signed: "answering_handler h \<Longrightarrow> fits (Some (require_signature h)) (Some (\<lambda>c. True))"
  by (auto simp: fits_def answering_handler_def intro!: signed_only.guarded_handler_axioms
      answering_handler.answers_signed [unfolded not_None_eq])

lemma fits_none: "fits None None" by (simp add: fits_def)

lemma signed_handler_fits: "fits (signed_handler cm t) (map_of command_caps t)"
  unfolding signed_handler_def command_caps_def desktop_types_def
  by (auto intro!: fits_none fits_gate fits_signed answering_simple answering_outcomes answering_registration answering_wireguard)

subsection \<open>Properties\<close>

text \<open>
  What PROTOCOL.md lets a frame do: a signed command needs a valid signature and its capability,
  a service command a service under the agent's control. Configuration pushes and reloads are open.
\<close>

definition names_controlled_service :: "config \<Rightarrow> ws_message \<Rightarrow> bool" where
  "names_controlled_service cfg msg =
     (case get_str (ws_payload msg) ''service'' of None \<Rightarrow> False | Some s \<Rightarrow> can_manage_service (caps cfg) s)"

definition permitted :: "command_env \<Rightarrow> config \<Rightarrow> ws_message \<Rightarrow> bool" where
  "permitted ce cfg msg =
     (case map_of command_caps (ws_type msg) of
        Some cap \<Rightarrow> signed ce cfg msg \<and> cap (caps cfg) \<and>
          (if ws_type msg = ''service_restart'' then names_controlled_service cfg msg else True)
      | None \<Rightarrow>
          ws_type msg = ''reload_config'' \<or> ws_type msg = ''config'' \<or>
          ws_type msg = ''fetch_logs'' \<and>
            (text_field msg ''service'' \<in> {[], ''theta-agent''} \<or> names_controlled_service cfg msg) \<or>
          ws_type msg = ''systemd_action'' \<and>
            (text_field msg ''action'' \<in> {[], ''status''} \<or> signed ce cfg msg))"

definition untouched :: "daemon \<Rightarrow> daemon \<Rightarrow> bool" where
  "untouched d d' = (dm_agent d' = dm_agent d \<and> dm_restart d' = dm_restart d)"

lemma respond_untouched [simp]: "untouched d (respond_error m d)"
  by (simp add: untouched_def respond_error_def send_response_def send_response_payload_def)

lemma text_field_get: "text_field msg k \<noteq> [] \<Longrightarrow> get_str (ws_payload msg) k = Some (text_field msg k)"
  by (auto simp: str_field_def split: option.splits)

lemma fetch_logs_permitted:
  "ws_type msg = ''fetch_logs'' \<Longrightarrow> \<not> permitted ce cfg msg \<Longrightarrow> untouched d (handle_fetch_logs ce cfg msg d)"
  using text_field_get [of msg "''service''"]
  by (auto simp: handle_fetch_logs_def permitted_def command_caps_def names_controlled_service_def Let_def split: if_splits)

lemma systemd_permitted:
  "ws_type msg = ''systemd_action'' \<Longrightarrow> \<not> permitted ce cfg msg \<Longrightarrow> untouched d (handle_systemd_action ce cfg msg d)"
  by (auto simp: handle_systemd_action_def permitted_def command_caps_def Let_def)

lemma restart_permitted:
  assumes "ws_type msg = ''service_restart''" and "\<not> permitted ce cfg msg"
  shows "untouched d (require_signature do_service_restart ce cfg msg d)"
  using assms by (auto simp: require_signature_def do_service_restart_def permitted_def command_caps_def
      names_controlled_service_def split: option.splits)

lemma signed_permitted:
  assumes h: "signed_handler cm (ws_type msg) = Some h" and p: "\<not> permitted ce cfg msg"
  shows "untouched d (h ce cfg msg d)"
proof (cases "ws_type msg = ''service_restart''")
  case True
  then show ?thesis using h restart_permitted [OF True p] by (simp add: signed_handler_def desktop_types_def)
next
  case False
  from signed_handler_fits [of cm "ws_type msg"] h obtain cap
    where c: "map_of command_caps (ws_type msg) = Some cap" and g: "guarded_handler h cap"
    by (auto simp: fits_def)
  from p c False have "\<not> (signed ce cfg msg \<and> cap (caps cfg))" by (auto simp: permitted_def)
  from guarded_handler.refused [OF g this] show ?thesis by (metis respond_untouched)
qed

text \<open>C3: authorisation of the whole dispatcher: if handling a frame changes the state of the host
  or the daemon (anything beyond the answers and the LDAP byte tunnel, a restart included), then
  the frame is permitted: its type is one of the signed commands, it carries a valid signature
  under the running configuration and the command's capability is on (and a restarted service is
  under the agent's control); or it is \<open>reload_config\<close>, \<open>config\<close>, a log fetch for the agent or
  a controlled service, or a \<open>systemd_action\<close> that is \<open>status\<close> or signed.\<close>

theorem effects_are_authorised:
  assumes "ag_cm (dm_agent d) = Some cm"
    and "dm_agent (handle_command ce msg d) \<noteq> dm_agent d \<or> dm_restart (handle_command ce msg d) \<noteq> dm_restart d"
  shows "permitted ce (cm_current cm) msg"
proof (rule ccontr)
  assume p: "\<not> ?thesis"
  then have "ws_type msg \<noteq> ''reload_config''" "ws_type msg \<noteq> ''config''"
    by (auto simp: permitted_def command_caps_def)
  moreover have "untouched d d" by (simp add: untouched_def)
  moreover have "untouched d (d\<lparr>dm_tunnel := t\<rparr>)" for t by (simp add: untouched_def)
  ultimately have "untouched d (dispatch cm ce (cm_current cm) msg d)"
    using fetch_logs_permitted [OF _ p] systemd_permitted [OF _ p] signed_permitted [OF _ p]
    by (auto simp: dispatch_def split: option.splits)
  with assms show False by (simp add: handle_command_def untouched_def)
qed

lemma handler_answer:
  assumes "answering_handler h" and "ag_cm (dm_agent d) \<noteq> None"
  shows "map ws_type (dm_sent (h ce cfg msg d)) = map ws_type (dm_sent d) @ [''response'']
    \<and> ag_cm (dm_agent (h ce cfg msg d)) \<noteq> None"
  using answering_handler.answers [OF assms(1), of ce cfg msg d] answering_handler.keeps_manager [OF assms(1,2), of ce cfg msg]
  by auto

definition silent :: "ws_message \<Rightarrow> bool" where
  "silent msg = (ws_type msg \<in> {''heartbeat_ack'', ''ldap_tunnel''})"

lemma signed_answer:
  assumes "ag_cm (dm_agent d) \<noteq> None" and "signed_handler cm t = Some h"
  shows "map ws_type (dm_sent (h ce cfg msg d)) = map ws_type (dm_sent d) @ [''response'']
    \<and> ag_cm (dm_agent (h ce cfg msg d)) \<noteq> None"
  using handler_answer [OF _ assms(1)] signed_handler_fits [of cm t] assms(2) by (simp add: fits_def)

lemma command_answered:
  assumes "ag_cm (dm_agent d) \<noteq> None"
  shows "map ws_type (dm_sent (handle_command ce msg d)) =
      map ws_type (dm_sent d) @ (if silent msg then [] else [''response''])
    \<and> ag_cm (dm_agent (handle_command ce msg d)) \<noteq> None"
proof -
  obtain cm where cm: "ag_cm (dm_agent d) = Some cm" using assms by blast
  note a = handler_answer [OF _ assms, of _ ce "cm_current cm" msg]
  have "signed_handler cm (ws_type msg) = None" if "silent msg"
    using that by (auto simp: silent_def signed_handler_def desktop_types_def)
  then show ?thesis
    using a [OF log_fetch.answering_handler_axioms] a [OF reloading.answering_handler_axioms]
      a [OF configuring.answering_handler_axioms] a [OF service_action.answering_handler_axioms]
      signed_answer [OF assms, of cm "ws_type msg" _ ce "cm_current cm" msg] cm
    by (auto simp: handle_command_def dispatch_def silent_def split: option.splits)
qed

definition handle_commands :: "(command_env \<times> ws_message) list \<Rightarrow> daemon \<Rightarrow> daemon" where
  "handle_commands ms d = fold (\<lambda>(ce, msg). handle_command ce msg) ms d"

text \<open>C5: no command goes unanswered and none is answered twice: after any sequence of frames, in
  any environments, the daemon has sent, behind what it had sent before, exactly one frame of type
  \<open>response\<close> for each of them but the \<open>heartbeat_ack\<close> and \<open>ldap_tunnel\<close> frames, whatever
  branch each took, refusals, failed operations and unknown types included.\<close>

theorem commands_answered_once:
  assumes "ag_cm (dm_agent d) \<noteq> None"
  shows "map ws_type (dm_sent (handle_commands ms d)) =
    map ws_type (dm_sent d) @ replicate (length (filter (\<lambda>(ce, msg). \<not> silent msg) ms)) ''response''"
  using assms
proof (induction ms arbitrary: d)
  case Nil
  then show ?case by (simp add: handle_commands_def)
next
  case (Cons x ms)
  obtain ce msg where x: "x = (ce, msg)" by (cases x)
  have r: "handle_commands ((ce, msg) # ms) d = handle_commands ms (handle_command ce msg d)"
    by (simp add: handle_commands_def)
  from command_answered [OF Cons.prems, of ce msg] Cons.IH [of "handle_command ce msg d"]
  show ?case unfolding x r by simp
qed

text \<open>A daemon with its configuration, and a signer that accepts the signatures ending in the key.\<close>

definition sample_env :: command_env where
  "sample_env = \<lparr>ce_platform = linux_platform sample_ops sample_update, ce_env = quiet_env,
     ce_ed = (\<lambda>key msg sig. sig = take 3 key), ce_decode = (\<lambda>_. Inr zero_config),
     ce_num = \<lparr>nc_int = (\<lambda>_. - (2 ^ 63)), nc_dec = (\<lambda>_. - (2 ^ 63))\<rparr>, ce_secrets = sample_secrets,
     ce_x25519 = (\<lambda>k. k), ce_rand = Inl ''no entropy'', ce_key_path = ''/etc/key'',
     ce_tray_write = (\<lambda>_. True), ce_config_path = ''agent.yml''\<rparr>"

definition key_of :: "char \<Rightarrow> string" where
  "key_of c = b64_encode (replicate 32 c)"

definition sample_daemon :: daemon where
  "sample_daemon = \<lparr>dm_agent = sample_agent\<lparr>ag_cm := Some (sample_cm\<lparr>cm_current := zero_config\<lparr>public_key := key_of (CHR ''k''),
       caps := zero_caps\<lparr>cap_arbitrary_bash := True\<rparr>\<rparr>\<rparr>), ag_world := one_file ''agent.yml'' ''a: 1'' 0\<rparr>,
     dm_tunnel = new_ldap_tunnel 0, dm_sent = [], dm_restart = False\<rparr>"

definition script_msg :: "char \<Rightarrow> ws_message" where
  "script_msg c = \<lparr>ws_type = ''arbitrary_bash'',
     ws_payload = [(''script'', JStr ''id''), (''signature'', JStr (b64_encode (replicate 3 c)))]\<rparr>"

lemma effects_are_authorised_witness:
  "signed sample_env (cm_current (the (ag_cm (dm_agent sample_daemon)))) (script_msg (CHR ''k''))"
proof -
  have cm: "ag_cm (dm_agent sample_daemon) = Some (the (ag_cm (dm_agent sample_daemon)))" by code_simp
  have n: "length (w_cmds (ag_world (dm_agent (handle_command sample_env (script_msg (CHR ''k'')) sample_daemon)))) = 1" by code_simp
  moreover have "length (w_cmds (ag_world (dm_agent sample_daemon))) = 0" by code_simp
  ultimately have "dm_agent (handle_command sample_env (script_msg (CHR ''k'')) sample_daemon) \<noteq> dm_agent sample_daemon" by auto
  with effects_are_authorised [OF cm, of sample_env "script_msg (CHR ''k'')"]
  show ?thesis by (simp add: permitted_def script_msg_def command_caps_def)
qed

lemma commands_answered_once_witness:
  "map ws_type (dm_sent (handle_commands
     [(sample_env, \<lparr>ws_type = ''heartbeat_ack'', ws_payload = []\<rparr>), (sample_env, script_msg (CHR ''x''))] sample_daemon))
   = [''response'']"
proof -
  have a: "ag_cm (dm_agent sample_daemon) \<noteq> None" "dm_sent sample_daemon = []" by code_simp+
  show ?thesis using commands_answered_once [OF a(1), of "[(sample_env, \<lparr>ws_type = ''heartbeat_ack'', ws_payload = []\<rparr>),
      (sample_env, script_msg (CHR ''x''))]"] a(2)
    by (simp add: silent_def script_msg_def)
qed

text \<open>The number of log lines asked of the platform never exceeds 2000, and is not negative
  for any \<open>lines\<close> field below \<open>2 ^ 63\<close>; from there on it is what the implementation makes of the
  conversion, capped from above only.\<close>

theorem log_lines_bounded:
  "lines_count nc p \<le> 2000 \<and> lines_count nc [(''lines'', JNum n)] =
     (if n \<le> 0 then 100 else if n < 2 ^ 63 then min n 2000 else min (nc_int nc n) 2000)"
  by (auto simp: lines_count_def positive_number_def json_int_def float_to_int_def min_def split: option.splits json.splits)

text \<open>An enrollment in a \<open>config\<close> frame takes effect whoever sent it: no signature is asked
  for, so a peer that reaches the socket replaces the pinned key of an enrolled agent, and
  the running configuration afterwards is the one with its own key.\<close>

theorem enrollment_frame_needs_no_signature:
  assumes "ag_cm (dm_agent d) = Some cm" and "ws_type msg = ''config''"
    and "get_bool (ws_payload msg) ''enrolled'' = Some True"
    and "persist_enrollment (ce_decode ce) (ce_env ce) (ag_world (dm_agent d)) cm
           (text_field msg ''auth_token'') (text_field msg ''public_key'') = (None, w', cm')"
  shows "ag_cm (dm_agent (handle_command (ce\<lparr>ce_ed := ed\<rparr>) msg d)) = Some cm' \<and>
    ag_world (dm_agent (handle_command (ce\<lparr>ce_ed := ed\<rparr>) msg d)) = w'"
  using assms by (simp add: handle_command_def dispatch_def handle_config_def set_world_cm_def on_agent_def tray_refresh_def
      trigger_tray_status_push_def Let_def tray_status_keeps)

text \<open>The attack: the pinned key is \<open>k\<close>; a peer without it pins \<open>x\<close> and runs a script.\<close>

definition read_key :: "string \<Rightarrow> config result" where
  "read_key doc = Inr (zero_config\<lparr>caps := zero_caps\<lparr>cap_arbitrary_bash := True\<rparr>,
     public_key := (if str_contains doc (key_of (CHR ''x'')) then key_of (CHR ''x'') else key_of (CHR ''k''))\<rparr>)"

definition pin_msg :: ws_message where
  "pin_msg = \<lparr>ws_type = ''config'', ws_payload = [(''enrolled'', JBool True), (''auth_token'', JStr ''t''),
     (''public_key'', JStr (key_of (CHR ''x'')))]\<rparr>"

definition attacked :: daemon where
  "attacked = handle_command (sample_env\<lparr>ce_decode := read_key\<rparr>) pin_msg sample_daemon"

lemma enrollment_frame_needs_no_signature_witness:
  "\<not> signed sample_env (cm_current (the (ag_cm (dm_agent sample_daemon)))) (script_msg (CHR ''x'')) \<and>
   signed sample_env (cm_current (the (ag_cm (dm_agent attacked)))) (script_msg (CHR ''x''))"
proof -
  have cm: "ag_cm (dm_agent sample_daemon) = Some (the (ag_cm (dm_agent sample_daemon)))" by code_simp
  let ?ce = "sample_env\<lparr>ce_decode := read_key\<rparr>"
  let ?r = "persist_enrollment (ce_decode ?ce) (ce_env ?ce) (ag_world (dm_agent sample_daemon))
    (the (ag_cm (dm_agent sample_daemon))) (text_field pin_msg ''auth_token'') (text_field pin_msg ''public_key'')"
  have ok: "fst ?r = None" by code_simp
  then obtain w' cm' where r: "?r = (None, w', cm')" by (metis prod.collapse)
  have k: "signed sample_env (cm_current (snd (snd ?r))) (script_msg (CHR ''x''))" by code_simp
  have "ws_type pin_msg = ''config''" "get_bool (ws_payload pin_msg) ''enrolled'' = Some True" by code_simp+
  from enrollment_frame_needs_no_signature [OF cm this r, of "ce_ed ?ce"]
  have "ag_cm (dm_agent attacked) = Some cm'" by (simp add: attacked_def)
  moreover have "\<not> signed sample_env (cm_current (the (ag_cm (dm_agent sample_daemon)))) (script_msg (CHR ''x''))" by code_simp
  ultimately show ?thesis using k r by simp
qed

end
