(* ===== verification/WgEnroll.thy ===== *)
theory WgEnroll
  imports Home Secrets WgIdentity
begin

text \<open>
  Mesh enrolment and exit selection: \<open>wg_enroll.go\<close>. A request is answered by an argument, one
  per attempt, and \<open>en_config\<close> is what the configuration manager returns at each attempt: it
  changes while the loop runs.
\<close>

subsection \<open>The directory's endpoints\<close>

datatype mesh_error = MeshHttp nat string | MeshOther string

definition not_supported :: "mesh_error \<Rightarrow> bool" where
  "not_supported e = (case e of MeshHttp code m \<Rightarrow> code = 404 \<or> code = 501 | MeshOther m \<Rightarrow> False)"

record mesh_device =
  md_id :: string
  md_name :: string
  md_assigned_ip :: string
  md_site :: int
  md_exit_site :: "int option"

definition dec_device :: "fields_map \<Rightarrow> mesh_device option" where
  "dec_device m =
     (case (dec_str (struct_field m ''id''), dec_str (struct_field m ''name''), dec_str (struct_field m ''assignedip''),
            dec_int (struct_field m ''siteid''), dec_opt_int (struct_field m ''exitsiteid'')) of
        (Some i, Some n, Some a, Some s, Some x) \<Rightarrow>
          Some \<lparr>md_id = i, md_name = n, md_assigned_ip = a, md_site = s, md_exit_site = x\<rparr>
      | _ \<Rightarrow> None)"

definition bearer :: "config \<Rightarrow> string \<times> string" where
  "bearer cfg = (''Authorization'', ''Bearer '' @ credential cfg)"

definition json_header :: "string \<times> string" where
  "json_header = (''Content-Type'', ''application/json'')"

text \<open>The message of an error answer: its \<open>message\<close> field, or the HTTP status.\<close>

definition error_message :: "(string \<Rightarrow> json option) \<Rightarrow> http_response \<Rightarrow> string" where
  "error_message parse resp =
     (case Option.bind (parse (hr_body resp)) (dec_struct (\<lambda>m. dec_str (struct_field m ''message''))) of
        Some m \<Rightarrow> if m = [] then hr_status resp else m
      | None \<Rightarrow> hr_status resp)"

definition enroll_request :: "config \<Rightarrow> string \<Rightarrow> http_request" where
  "enroll_request cfg pub =
     \<lparr>hq_method = ''POST'', hq_url = http_base (server_url cfg) @ ''/api/v1/agent/mesh/enroll'',
      hq_headers = [json_header, bearer cfg], hq_body = json_marshal (JObj [(''publicKey'', JStr pub)])\<rparr>"

definition dec_enrolled :: "fields_map \<Rightarrow> mesh_device option" where
  "dec_enrolled m =
     (case (dec_struct dec_device (struct_field m ''client''), dec_bool (struct_field m ''rotated'')) of
        (Some dev, Some rotated) \<Rightarrow> Some dev | _ \<Rightarrow> None)"

definition enroll_mesh_identity :: "http \<Rightarrow> (string \<Rightarrow> json option) \<Rightarrow> config \<Rightarrow> string \<Rightarrow> mesh_error + mesh_device" where
  "enroll_mesh_identity http parse cfg pub =
     (if \<not> mesh_pub_key_ok pub then Inl (MeshOther ''refusing to enrol a malformed public key'')
      else (case http (enroll_request cfg pub) of
          Inl err \<Rightarrow> Inl (MeshOther err)
        | Inr resp \<Rightarrow>
            if hr_code resp \<notin> {200, 201} then Inl (MeshHttp (hr_code resp) (error_message parse resp))
            else (case Option.bind (parse (hr_body resp)) (dec_struct dec_enrolled) of
                None \<Rightarrow> Inl (MeshOther ''mesh enrol: could not read response'')
              | Some dev \<Rightarrow> Inr dev)))"

definition dec_exit :: "fields_map \<Rightarrow> tray_exit option" where
  "dec_exit m =
     (case (dec_int (struct_field m ''siteid''), dec_str (struct_field m ''name''), dec_str (struct_field m ''country''),
            dec_str (struct_field m ''city''), dec_bool (struct_field m ''islocal'')) of
        (Some i, Some n, Some co, Some ci, Some l) \<Rightarrow>
          Some \<lparr>te_site_id = i, te_name = n, te_country = co, te_city = ci, te_is_local = l\<rparr>
      | _ \<Rightarrow> None)"

definition dec_exits :: "fields_map \<Rightarrow> (tray_exit list \<times> int option) option" where
  "dec_exits m =
     (case (dec_opt_int (struct_field m ''current''), dec_list (dec_struct dec_exit) (struct_field m ''exits'')) of
        (Some cur, Some exits) \<Rightarrow> Some (exits, cur) | _ \<Rightarrow> None)"

definition exits_request :: "config \<Rightarrow> http_request" where
  "exits_request cfg =
     \<lparr>hq_method = ''GET'', hq_url = http_base (server_url cfg) @ ''/api/v1/agent/mesh/exits'',
      hq_headers = [bearer cfg], hq_body = []\<rparr>"

definition fetch_mesh_exits :: "http \<Rightarrow> (string \<Rightarrow> json option) \<Rightarrow> config \<Rightarrow> (tray_exit list \<times> int option) result" where
  "fetch_mesh_exits http parse cfg =
     (case http (exits_request cfg) of
        Inl err \<Rightarrow> Inl err
      | Inr resp \<Rightarrow>
          if hr_code resp \<noteq> 200 then Inl (''mesh exits: '' @ hr_status resp)
          else (case Option.bind (parse (hr_body resp)) (dec_struct dec_exits) of
              None \<Rightarrow> Inl ''invalid JSON'' | Some xc \<Rightarrow> Inr xc))"

definition exit_request :: "config \<Rightarrow> int option \<Rightarrow> http_request" where
  "exit_request cfg site =
     \<lparr>hq_method = ''PUT'', hq_url = http_base (server_url cfg) @ ''/api/v1/agent/mesh/exit'',
      hq_headers = [json_header, bearer cfg],
      hq_body = json_marshal (JObj [(''siteId'', case site of None \<Rightarrow> JNull | Some i \<Rightarrow> JNum i)])\<rparr>"

definition set_mesh_exit :: "http \<Rightarrow> (string \<Rightarrow> json option) \<Rightarrow> config \<Rightarrow> int option \<Rightarrow> string option" where
  "set_mesh_exit http parse cfg site =
     (case http (exit_request cfg site) of
        Inl err \<Rightarrow> Some err
      | Inr resp \<Rightarrow> if hr_code resp \<noteq> 200 then Some (error_message parse resp) else None)"

text \<open>A failed refresh keeps what the tray last knew.\<close>

definition refresh_mesh_exits :: "http \<Rightarrow> (string \<Rightarrow> json option) \<Rightarrow> config \<Rightarrow> home_state \<Rightarrow> home_state" where
  "refresh_mesh_exits http parse cfg s =
     (if \<not> wireguard_enabled (caps cfg) then s
      else (case fetch_mesh_exits http parse cfg of
          Inl err \<Rightarrow> s
        | Inr (exits, cur) \<Rightarrow> set_mesh_identity 0 cur (set_mesh_exits exits cur s)))"

subsection \<open>The retry loop\<close>

record enroll_env =
  en_x25519 :: "string \<Rightarrow> string"
  en_rand :: "8 word list result"
  en_env :: env
  en_key_path :: string
  en_config :: "nat \<Rightarrow> config"
  en_http :: "nat \<Rightarrow> http"
  en_parse :: "string \<Rightarrow> json option"

datatype mesh_end = MeshEnrolled mesh_device | MeshUnsupported | MeshGaveUp

text \<open>What an enrolment did: the shared home state, the enrolment requests sent, the pauses.\<close>

record enroll_run =
  er_home :: home_state
  er_sent :: "http_request list"
  er_pauses :: nat

definition mesh_enrol_max_attempts :: nat where "mesh_enrol_max_attempts = 20"
definition mesh_enrol_retry_delay :: int where "mesh_enrol_retry_delay = seconds 15"

definition paused :: "enroll_run \<Rightarrow> enroll_run" where
  "paused r = r\<lparr>er_pauses := er_pauses r + 1\<rparr>"

definition attempted :: "config \<Rightarrow> string \<Rightarrow> enroll_run \<Rightarrow> enroll_run" where
  "attempted cfg pub r = (if mesh_pub_key_ok pub then r\<lparr>er_sent := er_sent r @ [enroll_request cfg pub]\<rparr> else r)"

definition enrolled_as :: "enroll_env \<Rightarrow> nat \<Rightarrow> config \<Rightarrow> mesh_device \<Rightarrow> enroll_run \<Rightarrow> enroll_run" where
  "enrolled_as en n cfg dev r =
     r\<lparr>er_home := refresh_mesh_exits (en_http en n) (en_parse en) cfg
        (set_mesh_identity (md_site dev) (md_exit_site dev) (er_home r))\<rparr>"

function mesh_attempts :: "enroll_env \<Rightarrow> string \<Rightarrow> nat \<Rightarrow> enroll_run \<Rightarrow> mesh_end \<times> enroll_run" where
  "mesh_attempts en pub n r =
     (if n > mesh_enrol_max_attempts then (MeshGaveUp, r)
      else (let cfg = en_config en n in
        if auth_token cfg = [] then mesh_attempts en pub (n + 1) (paused r)
        else (case enroll_mesh_identity (en_http en n) (en_parse en) cfg pub of
            Inr dev \<Rightarrow> (MeshEnrolled dev, enrolled_as en n cfg dev (attempted cfg pub r))
          | Inl err \<Rightarrow>
              if not_supported err then (MeshUnsupported, attempted cfg pub r)
              else mesh_attempts en pub (n + 1) (paused (attempted cfg pub r)))))"
  by pat_completeness auto
termination
  by (relation "measure (\<lambda>(en, pub, n, r). mesh_enrol_max_attempts + 1 - n)") auto

declare mesh_attempts.simps [simp del]

text \<open>\<open>ensureMeshIdentity\<close>: the host's key, its publication for telemetry, the loop.\<close>

definition ensure_mesh_identity ::
  "enroll_env \<Rightarrow> home_state \<Rightarrow> world \<Rightarrow> (string \<times> mesh_end \<times> enroll_run) option \<times> world" where
  "ensure_mesh_identity en s w =
     (if \<not> wireguard_enabled (caps (en_config en 0)) then (None, w)
      else (case load_or_create_key (en_x25519 en) (en_rand en) (en_env en) w (en_key_path en) of
          (Inl err, w1) \<Rightarrow> (None, w1)
        | (Inr kp, w1) \<Rightarrow>
            (Some (kp_public kp, mesh_attempts en (kp_public kp) 1 \<lparr>er_home = s, er_sent = [], er_pauses = 0\<rparr>), w1)))"

subsection \<open>What the loop does\<close>

text \<open>An attempt that settles nothing: no token yet, or an answer worth trying again.\<close>

definition retryable :: "enroll_env \<Rightarrow> string \<Rightarrow> nat \<Rightarrow> bool" where
  "retryable en pub n =
     (if auth_token (en_config en n) = [] then True
      else (case enroll_mesh_identity (en_http en n) (en_parse en) (en_config en n) pub of
          Inr dev \<Rightarrow> False | Inl err \<Rightarrow> \<not> not_supported err))"

definition decided :: "enroll_env \<Rightarrow> string \<Rightarrow> nat \<Rightarrow> mesh_end" where
  "decided en pub n =
     (case enroll_mesh_identity (en_http en n) (en_parse en) (en_config en n) pub of
        Inr dev \<Rightarrow> MeshEnrolled dev | Inl err \<Rightarrow> MeshUnsupported)"

lemma run_simps [simp]:
  "er_pauses (paused r) = er_pauses r + 1" "er_sent (paused r) = er_sent r"
  "er_pauses (attempted cfg pub r) = er_pauses r" "er_pauses (enrolled_as en n cfg dev r) = er_pauses r"
  "er_sent (enrolled_as en n cfg dev r) = er_sent r"
  by (simp_all add: paused_def attempted_def enrolled_as_def)

text \<open>The request of an attempt, if it makes one.\<close>

definition request_of :: "enroll_env \<Rightarrow> string \<Rightarrow> nat \<Rightarrow> http_request list" where
  "request_of en pub n =
     (if auth_token (en_config en n) \<noteq> [] \<and> mesh_pub_key_ok pub then [enroll_request (en_config en n) pub] else [])"

lemma attempts_after: "n > mesh_enrol_max_attempts \<Longrightarrow> mesh_attempts en pub n r = (MeshGaveUp, r)"
  by (simp add: mesh_attempts.simps)

lemma attempts_retry:
  assumes "n \<le> mesh_enrol_max_attempts" and "retryable en pub n"
  shows "\<exists>r'. mesh_attempts en pub n r = mesh_attempts en pub (n + 1) r' \<and> er_pauses r' = er_pauses r + 1 \<and>
    er_sent r' = er_sent r @ request_of en pub n"
  using assms by (subst mesh_attempts.simps)
    (auto simp: retryable_def request_of_def paused_def attempted_def Let_def split: if_splits sum.splits)

lemma attempts_decide:
  assumes "n \<le> mesh_enrol_max_attempts" and "\<not> retryable en pub n"
  shows "fst (mesh_attempts en pub n r) = decided en pub n" "er_pauses (snd (mesh_attempts en pub n r)) = er_pauses r"
    "er_sent (snd (mesh_attempts en pub n r)) = er_sent r @ request_of en pub n"
  using assms by (subst mesh_attempts.simps; auto simp: retryable_def decided_def request_of_def attempted_def Let_def
      split: if_splits sum.splits)+

text \<open>The last attempt made, counting from \<open>n\<close>.\<close>

definition stop_at :: "enroll_env \<Rightarrow> string \<Rightarrow> nat \<Rightarrow> nat option" where
  "stop_at en pub n = find (\<lambda>k. \<not> retryable en pub k) [n..<mesh_enrol_max_attempts + 1]"

lemma stop_at_step:
  assumes "n \<le> mesh_enrol_max_attempts"
  shows "stop_at en pub n = (if retryable en pub n then stop_at en pub (n + 1) else Some n)"
  using assms by (simp add: stop_at_def upt_conv_Cons del: upt_Suc)

lemma stop_at_bounds: "stop_at en pub n = Some k \<Longrightarrow> n \<le> k \<and> k \<le> mesh_enrol_max_attempts"
  by (auto simp: stop_at_def find_Some_iff nth_append simp del: upt_Suc)

lemma attempts_find:
  "fst (mesh_attempts en pub n r) = (case stop_at en pub n of None \<Rightarrow> MeshGaveUp | Some k \<Rightarrow> decided en pub k)
   \<and> er_pauses (snd (mesh_attempts en pub n r)) =
       er_pauses r + (case stop_at en pub n of None \<Rightarrow> mesh_enrol_max_attempts + 1 | Some k \<Rightarrow> k) - n
   \<and> er_sent (snd (mesh_attempts en pub n r)) = er_sent r @ concat (map (request_of en pub)
       [n..<(case stop_at en pub n of None \<Rightarrow> mesh_enrol_max_attempts | Some k \<Rightarrow> k) + 1])"
  if "n \<le> mesh_enrol_max_attempts + 1"
  using that
proof (induction "mesh_enrol_max_attempts + 1 - n" arbitrary: n r)
  case 0
  then have "n = mesh_enrol_max_attempts + 1" by simp
  then show ?case by (simp add: attempts_after stop_at_def)
next
  case (Suc m)
  then have n: "n \<le> mesh_enrol_max_attempts" by simp
  show ?case
  proof (cases "retryable en pub n")
    case False
    then show ?thesis using attempts_decide [OF n False] by (simp add: stop_at_step [OF n])
  next
    case True
    from attempts_retry [OF n True] obtain r' where r': "mesh_attempts en pub n r = mesh_attempts en pub (n + 1) r'"
      "er_pauses r' = er_pauses r + 1" "er_sent r' = er_sent r @ request_of en pub n" by blast
    have s: "stop_at en pub n = stop_at en pub (n + 1)" using True by (simp add: stop_at_step [OF n])
    have u: "[n..<k + 1] = n # [n + 1..<k + 1]" if "n \<le> k" for k using that by (simp add: upt_conv_Cons del: upt_Suc)
    from Suc(1) [of "n + 1" r'] Suc(2) n have ih: "n + 1 \<le> mesh_enrol_max_attempts + 1 \<Longrightarrow> ?thesis" 
      unfolding s r' using stop_at_bounds [of en pub "n + 1"] u
      by (auto simp: n r' simp del: upt_Suc split: option.splits)
    with n show ?thesis by simp
  qed
qed

lemma length_concat_le:
  assumes "\<And>x. length (f x) \<le> 1"
  shows "length (concat (map f xs)) \<le> length xs"
proof (induction xs)
  case (Cons x xs)
  then show ?case using assms [of x] by simp
qed simp

subsection \<open>Properties\<close>

text \<open>C20: the enrolment loop always ends and ends right: with the first of the 20 attempts that
  settles the matter (a token is there and the directory enrols the key, or says it has no such
  endpoint), with that attempt's outcome and one 15 s pause per attempt before it, and gives up
  after 20 pauses exactly when no attempt settles it. In particular a token that arrives while the
  loop runs is used by the next attempt.\<close>

theorem mesh_enrolment_settles:
  "fst (mesh_attempts en pub 1 r) =
     (case find (\<lambda>k. \<not> retryable en pub k) [1..<21] of None \<Rightarrow> MeshGaveUp | Some k \<Rightarrow> decided en pub k) \<and>
   er_pauses (snd (mesh_attempts en pub 1 r)) = er_pauses r +
     (case find (\<lambda>k. \<not> retryable en pub k) [1..<21] of None \<Rightarrow> 20 | Some k \<Rightarrow> k - 1)"
  using attempts_find [of 1 en pub r] stop_at_bounds [of en pub 1]
  by (auto simp: mesh_enrol_max_attempts_def stop_at_def simp del: upt_Suc split: option.splits)

text \<open>An enrolment sends at most 20 requests and pauses at most 20 times, and every request is
  authorised with the issued token the configuration holds at that attempt: the join key, which
  the endpoint refuses, is never sent.\<close>

theorem mesh_requests_carry_token:
  assumes "ensure_mesh_identity en s w = (Some (pub, res, run), w')"
  shows "length (er_sent run) \<le> 20 \<and> er_pauses run \<le> 20 \<and>
    (\<forall>q\<in>set (er_sent run). \<exists>k\<in>{1..20}. auth_token (en_config en k) \<noteq> [] \<and>
       map_of (hq_headers q) ''Authorization'' = Some (''Bearer '' @ auth_token (en_config en k)))"
proof -
  let ?r = "\<lparr>er_home = s, er_sent = [], er_pauses = 0\<rparr>"
  let ?ks = "[1..<(case stop_at en pub 1 of None \<Rightarrow> mesh_enrol_max_attempts | Some k \<Rightarrow> k) + 1]"
  have run: "run = snd (mesh_attempts en pub 1 ?r)"
    using assms by (auto simp: ensure_mesh_identity_def split: if_splits prod.splits sum.splits)
  have f: "er_sent run = concat (map (request_of en pub) ?ks)" "er_pauses run \<le> 20"
    using attempts_find [of 1 en pub ?r] stop_at_bounds [of en pub 1]
    by (auto simp: run mesh_enrol_max_attempts_def simp del: upt_Suc split: option.splits)
  have k: "length ?ks \<le> 20" "set ?ks \<subseteq> {1..20}"
    using stop_at_bounds [of en pub 1] by (auto simp: mesh_enrol_max_attempts_def simp del: upt_Suc split: option.splits)
  have "length (er_sent run) \<le> length ?ks"
    unfolding f(1) by (rule length_concat_le) (simp add: request_of_def)
  moreover have "\<exists>k\<in>{1..20}. auth_token (en_config en k) \<noteq> [] \<and>
      map_of (hq_headers q) ''Authorization'' = Some (''Bearer '' @ auth_token (en_config en k))" if "q \<in> set (er_sent run)" for q
    using that k(2) unfolding f(1)
    by (force simp: request_of_def enroll_request_def bearer_def json_header_def credential_def simp del: upt_Suc split: if_splits)
  ultimately show ?thesis using f(2) k(1) by simp
qed

text \<open>A host that gets its token after two attempts.\<close>

definition sample_enroll :: enroll_env where
  "sample_enroll = \<lparr>en_x25519 = rev, en_rand = Inr (replicate 32 255), en_env = quiet_env, en_key_path = ''/etc/k'',
     en_config = (\<lambda>n. if n < 3 then sample_wg_config\<lparr>join_key := ''fleet''\<rparr> else sample_wg_config\<lparr>auth_token := ''tok''\<rparr>),
     en_http = (\<lambda>n q. Inr \<lparr>hr_code = 200, hr_status = ''200 OK'', hr_body = [], hr_broken = None\<rparr>),
     en_parse = (\<lambda>_. Some (JObj [(''client'', JObj [(''siteId'', JNum 4)])]))\<rparr>"

lemma mesh_requests_carry_token_witness:
  "\<exists>pub res run w'. ensure_mesh_identity sample_enroll zero_home (one_file ''/etc/agent.yml'' [] 0) = (Some (pub, res, run), w') \<and>
     length (er_sent run) = 1 \<and> (\<forall>q\<in>set (er_sent run). \<exists>k\<in>{1..20}. auth_token (en_config sample_enroll k) \<noteq> [] \<and>
       map_of (hq_headers q) ''Authorization'' = Some (''Bearer '' @ auth_token (en_config sample_enroll k)))"
proof -
  let ?e = "ensure_mesh_identity sample_enroll zero_home (one_file ''/etc/agent.yml'' [] 0)"
  have "length (er_sent (snd (snd (the (fst ?e))))) = 1 \<and> fst ?e \<noteq> None" by code_simp
  then obtain pub res run w' where e: "?e = (Some (pub, res, run), w')" and l: "length (er_sent run) = 1"
    by (cases ?e) auto
  from mesh_requests_carry_token [OF e] e l show ?thesis by blast
qed

end
