(* ===== verification/MeshKey.thy ===== *)
theory MeshKey
  imports WgEnroll Command
begin

text \<open>
  Where \<open>wg_enroll.go\<close>, \<open>wg_identity.go\<close>, the wireguard_apply command and the Linux tunnel operations meet: the
  key the directory is told and the key the tunnel runs with.
\<close>

subsection \<open>What is written for the tunnel\<close>

text \<open>Of the files only the tunnel's configuration changes, and it becomes the given text, or a beginning
  of it when the write stops half-way.\<close>

definition only_conf :: "linux_ops \<Rightarrow> string \<Rightarrow> world \<Rightarrow> world \<Rightarrow> bool" where
  "only_conf lo conf w w' =
     (\<forall>p. w_files w' p \<noteq> w_files w p \<longrightarrow> p = lo_conf lo \<and>
       (map_option f_content (w_files w' p) = Some conf \<or>
        (\<exists>n. e_torn (lo_env lo) p = Some n \<and> map_option f_content (w_files w' p) = Some (take n conf))))"

lemma only_conf_same: "w_files w' = w_files w \<Longrightarrow> only_conf lo conf w w'"
  by (simp add: only_conf_def)

lemma only_conf_trans:
  assumes "only_conf lo conf w w1" and "only_conf lo conf w1 w2"
  shows "only_conf lo conf w w2"
  using assms unfolding only_conf_def by metis

lemma persist_only_conf: "only_conf lo conf w (snd (lx_persist_wg lo conf w))"
  by (auto simp: only_conf_def lx_persist_wg_def write_file_def split: option.splits)

lemma exec_same: "exec lo w c a = (r, w') \<Longrightarrow> w_files w' = w_files w"
  by (metis run_cmd_frame snd_conv)

lemma probe_same: "w_files (snd (lx_wg_state lo w)) = w_files w"
  by (auto simp: lx_wg_state_def dest: exec_same split: prod.splits)

lemma up_same: "w_files (snd (wg_up lo w)) = w_files w"
  by (auto simp: wg_up_def dest: exec_same split: prod.splits option.splits)

lemma disconnect_same: "w_files (snd (lx_disconnect_wg lo w)) = w_files w"
proof -
  obtain up w1 where s: "lx_wg_state lo w = (up, w1)" by (cases "lx_wg_state lo w")
  moreover have "w_files (snd (lx_remove_wg lo w1)) = w_files w1"
    by (auto simp: lx_remove_wg_def dest: exec_same split: prod.splits option.splits)
  ultimately show ?thesis using probe_same [of lo w] by (cases up) (simp_all add: lx_disconnect_wg_def)
qed

lemma apply_only_conf: "only_conf lo conf w (snd (lx_apply_wg lo conf w))"
proof -
  obtain a w1 where p: "lx_persist_wg lo conf w = (a, w1)" by (cases "lx_persist_wg lo conf w")
  obtain up w2 where s: "lx_wg_state lo w1 = (up, w2)" by (cases "lx_wg_state lo w1")
  have same: "w_files w2 = w_files w1" using probe_same [of lo w1] s by simp
  have "w_files (snd (lx_apply_wg lo conf w)) = w_files w1"
    using p s same by (auto simp: lx_apply_wg_def up_same dest: exec_same split: option.splits bool.splits prod.splits)
  then show ?thesis using persist_only_conf [of lo conf w] p by (simp add: only_conf_def)
qed

subsection \<open>The command\<close>

abbreviation host_of :: "daemon \<Rightarrow> world" where "host_of d \<equiv> ag_world (dm_agent d)"

lemma respond_world [simp]: "host_of (respond_error m d) = host_of d" "host_of (respond_ok m d) = host_of d"
  by (simp_all add: respond_error_def respond_ok_def send_response_def send_response_payload_def)

lemma refresh_world [simp]: "host_of (tray_refresh ce d) = host_of d"
  by (simp add: tray_refresh_def on_agent_def trigger_tray_status_push_def Let_def tray_status_keeps)

lemma home_world [simp]: "host_of (on_agent (on_home f) d) = host_of d"
  by (simp add: on_agent_def on_home_def)

lemma run_op_world: "run_op f d = (r, d') \<Longrightarrow> (r, host_of d') = f (host_of d)"
  by (auto simp: run_op_def Let_def split: prod.splits)

lemma bring_up_conf:
  assumes "ce_platform ce = linux_platform lo ue"
  shows "only_conf lo conf (host_of d) (host_of (bring_tunnel_up conf ce cfg msg d))"
proof -
  obtain r d1 where r: "run_op (lx_apply_wg lo conf) d = (r, d1)" by (cases "run_op (lx_apply_wg lo conf) d")
  then have "only_conf lo conf (host_of d) (host_of d1)"
    using apply_only_conf [of lo conf "host_of d"] run_op_world [OF r] by (metis snd_conv)
  then show ?thesis using r assms by (simp add: bring_tunnel_up_def linux_platform_def split: option.splits)
qed

lemma store_down_conf:
  assumes "ce_platform ce = linux_platform lo ue"
  shows "w_files (host_of (store_tunnel_down ce cfg msg d)) = w_files (host_of d)"
proof -
  obtain up d1 where u: "run_op (lx_wg_state lo) d = (up, d1)" by (cases "run_op (lx_wg_state lo) d")
  obtain r d2 where x: "run_op (lx_disconnect_wg lo) d1 = (r, d2)" by (cases "run_op (lx_disconnect_wg lo) d1")
  have "w_files (host_of d1) = w_files (host_of d)" "w_files (host_of d2) = w_files (host_of d1)"
    using probe_same [of lo "host_of d"] disconnect_same [of lo "host_of d1"] run_op_world [OF u] run_op_world [OF x]
    by (metis snd_conv)+
  then show ?thesis using u x assms by (simp add: store_tunnel_down_def linux_platform_def)
qed

lemma wireguard_apply_conf:
  assumes "ce_platform ce = linux_platform lo ue"
    and fill: "fill_private_key_from_host (ce_x25519 ce) (ce_rand ce) (ce_env ce) (host_of d) (ce_key_path ce)
      (text_field msg ''config'') = (Inr conf, host_of d)"
  shows "only_conf lo conf (host_of d) (host_of (do_wireguard_apply ce cfg msg d))"
proof -
  let ?fill = "\<lambda>w. fill_private_key_from_host (ce_x25519 ce) (ce_rand ce) (ce_env ce) w (ce_key_path ce) (text_field msg ''config'')"
  obtain a d1 where f: "run_op ?fill d = (a, d1)" by (cases "run_op ?fill d")
  have d1: "a = Inr conf" "host_of d1 = host_of d" using run_op_world [OF f] fill by auto
  define d2 where "d2 = on_agent (on_home (set_mesh_identity (int_from_payload (ce_num ce) (ws_payload msg) ''siteId'')
    (opt_int_from_payload (ce_num ce) (ws_payload msg) ''exitSiteId''))) d1"
  obtain b d3 where p: "run_op (lx_persist_wg lo conf) d2 = (b, d3)" by (cases "run_op (lx_persist_wg lo conf) d2")
  have d3: "only_conf lo conf (host_of d) (host_of d3)"
    using persist_only_conf [of lo conf "host_of d2"] run_op_world [OF p] d1 by (metis d2_def home_world snd_conv)
  show ?thesis
  proof (cases "text_field msg ''config'' = [] \<or> b \<noteq> None")
    case True
    then show ?thesis using f d1 p d3 assms(1)
      by (auto simp: do_wireguard_apply_def linux_platform_def Let_def simp flip: d2_def intro: only_conf_same)
  next
    case False
    obtain want ag where w: "want_wireguard_up (ce_platform ce) (dm_agent d3) = (want, ag)"
      by (cases "want_wireguard_up (ce_platform ce) (dm_agent d3)")
    have ag: "w_files (ag_world ag) = w_files (host_of d3)"
      using w probe_same [of lo "host_of d3"]
      by (auto simp: want_wireguard_up_def assms(1) linux_platform_def split: if_splits prod.splits)
    define h where "h = (if want then bring_tunnel_up conf else store_tunnel_down)"
    have "only_conf lo conf (host_of (d3\<lparr>dm_agent := ag\<rparr>)) (host_of (h ce cfg msg (d3\<lparr>dm_agent := ag\<rparr>)))"
    proof (cases want)
      case True
      then show ?thesis unfolding h_def using bring_up_conf [OF assms(1), of conf "d3\<lparr>dm_agent := ag\<rparr>"] by simp
    next
      case False
      then show ?thesis unfolding h_def using store_down_conf [OF assms(1)] by (simp add: only_conf_same)
    qed
    moreover have "only_conf lo conf (host_of d3) (host_of (d3\<lparr>dm_agent := ag\<rparr>))"
      using ag by (simp add: only_conf_same)
    ultimately have "only_conf lo conf (host_of d) (host_of (h ce cfg msg (d3\<lparr>dm_agent := ag\<rparr>)))"
      using d3 only_conf_trans by blast
    then show ?thesis using False f d1 p w assms(1)
      by (simp add: do_wireguard_apply_def linux_platform_def Let_def h_def flip: d2_def)
  qed
qed

text \<open>A refused frame, and one of a daemon without its configuration, change nothing on the host.\<close>

lemma apply_frame_conf:
  assumes "ce_platform ce = linux_platform lo ue" and "ws_type msg = ''wireguard_apply''"
    and "fill_private_key_from_host (ce_x25519 ce) (ce_rand ce) (ce_env ce) (host_of d) (ce_key_path ce)
      (text_field msg ''config'') = (Inr conf, host_of d)"
  shows "only_conf lo conf (host_of d) (host_of (handle_command ce msg d))"
  using wireguard_apply_conf [OF assms(1,3)]
  by (auto simp: handle_command_def dispatch_def signed_handler_def assms(2) desktop_types_def gate_def require_signature_def require_capability_def
      intro: only_conf_same split: option.splits)

subsection \<open>The key\<close>

text \<open>The configuration completed with a key: the placeholder is replaced wherever it stands.\<close>

definition completed_conf :: "string \<Rightarrow> string \<Rightarrow> string" where
  "completed_conf conf priv = replace_all_str conf key_placeholder priv"

lemma fill_known_key:
  assumes "load_or_create_key x25519 rnd e w path = (Inr kp, w)" and "kp_private kp \<noteq> []"
  shows "fill_private_key_from_host x25519 rnd e w path conf = (Inr (completed_conf conf (kp_private kp)), w)"
  using assms by (simp add: fill_private_key_from_host_def fill_private_key_def completed_conf_def replace_all_absent)

lemma public_needs_private: "public_from_private x25519 [] = Inr pub \<Longrightarrow> False"
proof -
  have "b64_decode [] = Some []" by code_simp
  then show "public_from_private x25519 [] = Inr pub \<Longrightarrow> False" by (simp add: public_from_private_def)
qed

lemma enrolled_key:
  assumes "ensure_mesh_identity en s w = (Some (pub, res, run), w1)"
    and "\<And>bs. en_rand en = Inr bs \<Longrightarrow> length bs = 32"
    and "w_files w2 (en_key_path en) = w_files w1 (en_key_path en)" and "e_fault e2 OpRead (en_key_path en) = None"
  obtains kp where "kp_public kp = pub" "public_from_private (en_x25519 en) (kp_private kp) = Inr pub"
    "load_or_create_key (en_x25519 en) rnd2 e2 w2 (en_key_path en) = (Inr kp, w2)"
proof -
  obtain kp where kp: "load_or_create_key (en_x25519 en) (en_rand en) (en_env en) w (en_key_path en) = (Inr kp, w1)" "pub = kp_public kp"
    using assms(1) by (auto simp: ensure_mesh_identity_def split: if_splits prod.splits sum.splits)
  from key_reload [OF kp(1) assms(2,3,4)] kp(2) that show ?thesis by metis
qed

text \<open>Every request of an enrolment names the host's public key.\<close>

lemma requests_name_key:
  assumes "ensure_mesh_identity en s w = (Some (pub, res, run), w1)" and "q \<in> set (er_sent run)"
  shows "\<exists>cfg. q = enroll_request cfg pub"
proof -
  let ?r = "\<lparr>er_home = s, er_sent = [], er_pauses = 0\<rparr>"
  have run: "run = snd (mesh_attempts en pub 1 ?r)"
    using assms by (auto simp: ensure_mesh_identity_def split: if_splits prod.splits sum.splits)
  have "\<exists>ks. er_sent run = concat (map (request_of en pub) ks)"
    using attempts_find [of 1 en pub ?r] by (auto simp: run mesh_enrol_max_attempts_def simp del: upt_Suc split: option.splits)
  then show ?thesis using assms(2) by (auto simp: request_of_def split: if_splits)
qed

end
