(* ===== verification/TrayCommands.thy ===== *)
theory TrayCommands
  imports Command WgEnroll
begin

text \<open>
  The daemon's side of the tray socket: \<open>handleConn\<close> and \<open>handleCommand\<close> of \<open>tray_server.go\<close>, with
  \<open>pushServiceFrame\<close> of \<open>websocket.go\<close>. The commands work on the same daemon state as the frames of
  the directory.
\<close>

subsection \<open>The peer\<close>

text \<open>\<open>peerEuid\<close>: the credentials of the socket's peer, \<open>None\<close> when they cannot be had.\<close>

definition peer_euid :: "bool \<Rightarrow> int option \<Rightarrow> int" where
  "peer_euid unix_conn cred = (if \<not> unix_conn then - 1 else (case cred of None \<Rightarrow> - 1 | Some uid \<Rightarrow> uid))"

definition peer_euid_other :: "bool \<Rightarrow> int" where
  "peer_euid_other windows = (if windows then 0 else - 1)"

definition is_privileged_admin_command :: "string \<Rightarrow> bool" where
  "is_privileged_admin_command c = (c \<in> {''reinit'', ''register_service'', ''unregister_service''})"

text \<open>
  A connection's surroundings: its peer, the operations of the command dispatcher, the directory's
  REST interface, and the current writer of the WebSocket, if there is one, with its write errors.
\<close>

record tray_env =
  tv_euid :: int
  tv_cmd :: command_env
  tv_http :: http
  tv_parse :: "string \<Rightarrow> json option"
  tv_writer :: "(ws_message \<Rightarrow> string option) option"

subsection \<open>Commands\<close>

definition push_service_frame :: "(ws_message \<Rightarrow> string option) option \<Rightarrow> string \<Rightarrow> string \<Rightarrow> string \<Rightarrow> daemon \<Rightarrow> string option \<times> daemon" where
  "push_service_frame writer t service subtype d =
     (case writer of None \<Rightarrow> (Some ''no live WebSocket connection to the directory'', d)
      | Some write \<Rightarrow>
          (let msg = \<lparr>ws_type = t, ws_payload = (''service'', JStr service) #
                 (if subtype = [] then [] else [(''subtype'', JStr subtype)])\<rparr> in
           case write msg of Some err \<Rightarrow> (Some err, d) | None \<Rightarrow> (None, d\<lparr>dm_sent := dm_sent d @ [msg]\<rparr>)))"

definition tray_set_auto_vpn :: "tray_env \<Rightarrow> bool \<Rightarrow> daemon \<Rightarrow> daemon" where
  "tray_set_auto_vpn te v d =
     (let ce = tv_cmd te;
          d1 = on_agent (\<lambda>a. on_home (set_auto_vpn v)
                 (a\<lparr>ag_tray := (ag_tray a)\<lparr>sv_status := (sv_status (ag_tray a))\<lparr>ts_auto_vpn := v\<rparr>\<rparr>\<rparr>)) d;
          d2 = (case ag_cm (dm_agent d1) of None \<Rightarrow> d1
            | Some cm \<Rightarrow> set_world_cm (snd (persist_auto_vpn (ce_decode ce) (ce_env ce) (ag_world (dm_agent d1)) cm v)) d1)
      in tray_refresh ce d2)"

definition tray_vpn :: "tray_env \<Rightarrow> bool \<Rightarrow> daemon \<Rightarrow> daemon" where
  "tray_vpn te up d =
     (let P = ce_platform (tv_cmd te) in
      case run_op (if up then p_connect_wg P else p_disconnect_wg P) d of
        (Some err, d1) \<Rightarrow> d1
      | (None, d1) \<Rightarrow> tray_refresh (tv_cmd te) (on_agent (on_home (set_vpn_active up)) d1))"

definition tray_reinit :: "tray_env \<Rightarrow> daemon \<Rightarrow> daemon" where
  "tray_reinit te d =
     (case ag_cm (dm_agent d) of None \<Rightarrow> d
      | Some cm \<Rightarrow>
          if join_key (cm_current cm) = [] \<and> auth_token (cm_current cm) \<noteq> [] then d
          else set_world_cm (snd (clear_enrollment (ce_decode (tv_cmd te)) (ce_env (tv_cmd te))
                 (ag_world (dm_agent d)) cm)) d)"

definition tray_set_exit :: "tray_env \<Rightarrow> int option \<Rightarrow> daemon \<Rightarrow> daemon" where
  "tray_set_exit te site d =
     (case ag_cm (dm_agent d) of None \<Rightarrow> d
      | Some cm \<Rightarrow>
          (case set_mesh_exit (tv_http te) (tv_parse te) (cm_current cm) site of
             Some err \<Rightarrow> d
           | None \<Rightarrow> tray_refresh (tv_cmd te)
               (on_agent (on_home (refresh_mesh_exits (tv_http te) (tv_parse te) (cm_current cm))) d)))"

definition tray_push_service :: "tray_env \<Rightarrow> tray_command \<Rightarrow> daemon \<Rightarrow> daemon" where
  "tray_push_service te c d =
     (if tc_service c = [] then d
      else snd (push_service_frame (tv_writer te) (tc_command c) (tc_service c) (tc_subtype c) d))"

definition handle_tray_command :: "tray_env \<Rightarrow> tray_command \<Rightarrow> daemon \<Rightarrow> daemon" where
  "handle_tray_command te c d =
     (if is_privileged_admin_command (tc_command c) \<and> tv_euid te \<noteq> 0 then d
      else if tc_command c = ''set_auto_vpn'' then tray_set_auto_vpn te (tc_value c) d
      else if tc_command c = ''vpn_connect'' then tray_vpn te True d
      else if tc_command c = ''vpn_disconnect'' then tray_vpn te False d
      else if tc_command c = ''reinit'' then tray_reinit te d
      else if tc_command c = ''set_exit'' then tray_set_exit te (tc_site_id c) d
      else if tc_command c \<in> {''register_service'', ''unregister_service''} then tray_push_service te c d
      else d)"

text \<open>The connection's loop over the lines it reads; a line that is no command is skipped. Each
  line is handled in the surroundings of its moment.\<close>

fun tray_lines :: "(string \<Rightarrow> json option) \<Rightarrow> (tray_env \<times> string) list \<Rightarrow> daemon \<Rightarrow> daemon" where
  "tray_lines parse [] d = d"
| "tray_lines parse ((te, line) # ls) d =
     tray_lines parse ls (case decode_tray_command parse line of None \<Rightarrow> d | Some c \<Rightarrow> handle_tray_command te c d)"

definition tray_conn :: "command_env \<Rightarrow> (string \<Rightarrow> json option) \<Rightarrow> nat \<Rightarrow> (tray_env \<times> string) list \<Rightarrow> daemon \<Rightarrow> daemon" where
  "tray_conn ce parse c ls d =
     on_agent (\<lambda>a. a\<lparr>ag_tray := tray_disconnect (ag_tray a) c\<rparr>)
       (tray_lines parse ls (on_agent (\<lambda>a. a\<lparr>ag_tray := tray_accept (ce_tray_write ce) (ag_tray a) c\<rparr>) d))"

subsection \<open>What an unprivileged peer can change\<close>

definition file_view :: "(string \<Rightarrow> 'a) \<Rightarrow> string \<Rightarrow> world \<Rightarrow> 'a option" where
  "file_view g path w = map_option (\<lambda>f. g (f_content f)) (w_files w path)"

definition kept_lines :: "string \<Rightarrow> world \<Rightarrow> string list option" where
  "kept_lines = file_view (other_lines [''auto_vpn''])"

lemmas view_defs = kept_lines_def file_view_def

lemma auto_vpn_key: "yaml_key ''auto_vpn''" "word_key ''auto_vpn''"
  by code_simp+

lemma other_lines_auto_vpn:
  "other_lines [''auto_vpn''] (set_yaml_scalar_value raw ''auto_vpn'' (if v then ''true'' else ''false'') False) =
   other_lines [''auto_vpn''] raw"
  unfolding other_lines_def by (rule filter_set_scalar) (auto simp: auto_vpn_key)

lemma write_and_reload_view:
  assumes "write_and_reload decode e w cm out what = (r, w', cm')"
    and "file_view g (cm_path cm) w = Some (g out)" and "e_torn e (cm_path cm) = None"
  shows "file_view g (cm_path cm) w' = file_view g (cm_path cm) w \<and> cm_path cm' = cm_path cm"
  using assms by (auto simp: write_and_reload_def write_file_def chmod_def put_file_def file_view_def
      split: option.splits sum.splits)

lemma persist_auto_vpn_kept:
  assumes "persist_auto_vpn decode e w cm v = (r, w', cm')" and untorn: "e_torn e (cm_path cm) = None"
  shows "kept_lines (cm_path cm) w' = kept_lines (cm_path cm) w \<and> cm_path cm' = cm_path cm"
proof (cases "read_file e w (cm_path cm)")
  case (Inr raw)
  then have "kept_lines (cm_path cm) w = Some (other_lines [''auto_vpn''] raw)"
    by (auto simp: read_file_def view_defs split: option.splits)
  then have "kept_lines (cm_path cm) w =
      Some (other_lines [''auto_vpn''] (set_yaml_scalar_value raw ''auto_vpn'' (if v then ''true'' else ''false'') False))"
    by (simp only: other_lines_auto_vpn)
  moreover have "write_and_reload decode e w cm
      (set_yaml_scalar_value raw ''auto_vpn'' (if v then ''true'' else ''false'') False) ''auto_vpn'' = (r, w', cm')"
    using Inr assms by (simp add: persist_auto_vpn_def)
  ultimately show ?thesis unfolding kept_lines_def using write_and_reload_view untorn by blast
qed (use assms in \<open>simp add: persist_auto_vpn_def\<close>)

lemma exec_files: "exec lo w c a = (r, w') \<Longrightarrow> w_files w' = w_files w"
  by (metis run_cmd_frame snd_conv)

lemma tunnel_ops_keep:
  assumes "path \<noteq> lo_conf lo"
  shows "w_files (snd (lx_connect_wg lo w)) path = w_files w path" "w_files (snd (lx_disconnect_wg lo w)) path = w_files w path"
proof -
  have s: "lx_wg_state lo w = (b, w') \<Longrightarrow> w_files w' = w_files w" for b w w'
    by (auto simp: lx_wg_state_def dest: exec_files split: prod.splits)
  have u: "w_files (snd (wg_up lo w)) = w_files w" for w
    by (auto simp: wg_up_def dest: exec_files split: prod.splits option.splits)
  have p: "lx_persist_wg lo conf w = (r, w') \<Longrightarrow> w_files w' path = w_files w path" for conf w r w'
    using assms by (auto simp: lx_persist_wg_def write_file_def put_file_def split: option.splits)
  have a: "w_files (snd (lx_apply_wg lo conf w)) path = w_files w path" for conf w
    by (auto simp: lx_apply_wg_def u split: prod.splits option.splits bool.splits dest!: p s exec_files)
  show "w_files (snd (lx_connect_wg lo w)) path = w_files w path"
    by (auto simp: lx_connect_wg_def a split: prod.splits option.splits bool.splits sum.splits dest!: s)
  show "w_files (snd (lx_disconnect_wg lo w)) path = w_files w path"
    by (auto simp: lx_disconnect_wg_def lx_remove_wg_def split: prod.splits option.splits bool.splits dest!: s exec_files)
qed

text \<open>The daemon's outward state that a desktop session may not change: the frames sent, the pending
  restart, agent.yml up to its \<open>auto_vpn\<close> line.\<close>

definition outward :: "string \<Rightarrow> daemon \<Rightarrow> ws_message list \<times> bool \<times> string list option \<times> string option" where
  "outward path d = (dm_sent d, dm_restart d, kept_lines path (ag_world (dm_agent d)), map_option cm_path (ag_cm (dm_agent d)))"

definition desktop_peer :: "string \<Rightarrow> tray_env \<Rightarrow> bool" where
  "desktop_peer path te = (tv_euid te \<noteq> 0 \<and> e_torn (ce_env (tv_cmd te)) path = None \<and>
     (\<forall>w. w_files (snd (p_connect_wg (ce_platform (tv_cmd te)) w)) path = w_files w path) \<and>
     (\<forall>w. w_files (snd (p_disconnect_wg (ce_platform (tv_cmd te)) w)) path = w_files w path))"

lemma outward_simps [simp]:
  "outward path (tray_refresh ce d) = outward path d" "outward path (on_agent (on_home f) d) = outward path d"
  by (simp_all add: outward_def tray_refresh_def on_agent_def trigger_tray_status_push_def Let_def tray_status_keeps)

lemma run_op_outward:
  assumes "\<And>w. w_files (snd (f w)) path = w_files w path"
  shows "run_op f d = (r, d1) \<Longrightarrow> outward path d1 = outward path d"
  using assms [of "ag_world (dm_agent d)"]
  by (auto simp: run_op_def outward_def view_defs split: prod.splits)

lemma tray_vpn_outward:
  assumes "desktop_peer path te"
  shows "outward path (tray_vpn te up d) = outward path d"
  using assms run_op_outward [of "p_connect_wg (ce_platform (tv_cmd te))" path d]
    run_op_outward [of "p_disconnect_wg (ce_platform (tv_cmd te))" path d]
  by (auto simp: tray_vpn_def desktop_peer_def Let_def split: prod.splits option.splits)

lemma set_auto_vpn_outward:
  assumes "map_option cm_path (ag_cm (dm_agent d)) \<in> {None, Some path}" and "e_torn (ce_env (tv_cmd te)) path = None"
  shows "outward path (tray_set_auto_vpn te v d) = outward path d"
proof (cases "ag_cm (dm_agent d)")
  case None
  then show ?thesis by (simp add: tray_set_auto_vpn_def Let_def) (simp add: outward_def on_agent_def on_home_def)
next
  case (Some cm)
  obtain r w' cm' where p: "persist_auto_vpn (ce_decode (tv_cmd te)) (ce_env (tv_cmd te)) (ag_world (dm_agent d)) cm v = (r, w', cm')"
    by (metis prod.collapse)
  have path: "cm_path cm = path" using assms(1) Some by simp
  from persist_auto_vpn_kept [OF p] assms Some path show ?thesis
    by (simp add: tray_set_auto_vpn_def Let_def p) (simp add: outward_def set_world_cm_def on_agent_def p)
qed

lemma desktop_command_outward:
  assumes "desktop_peer path te" and "map_option cm_path (ag_cm (dm_agent d)) \<in> {None, Some path}"
  shows "outward path (handle_tray_command te c d) = outward path d"
  using tray_vpn_outward [OF assms(1)] set_auto_vpn_outward [OF assms(2), of te] assms(1)
  by (auto simp: handle_tray_command_def is_privileged_admin_command_def desktop_peer_def tray_set_exit_def
      split: option.splits)

subsection \<open>Properties\<close>

text \<open>C17: whatever lines a peer that is not root sends, in any number, the daemon sends no frame to
  the directory, schedules no restart, and of agent.yml at most the \<open>auto_vpn\<close> line is rewritten:
  every other line survives in order, the credentials among them, provided that no write of
  agent.yml stops half-way (\<open>torn_toggle_loses_credentials\<close>).\<close>

theorem desktop_user_confined:
  assumes "list_all (\<lambda>(te, line). desktop_peer path te) ls"
    and "ag_cm (dm_agent d) = Some cm" and "cm_path cm = path"
  shows "dm_sent (tray_lines parse ls d) = dm_sent d \<and> dm_restart (tray_lines parse ls d) = dm_restart d \<and>
    kept_lines path (ag_world (dm_agent (tray_lines parse ls d))) = kept_lines path (ag_world (dm_agent d))"
proof -
  have "outward path (tray_lines parse ls d) = outward path d"
    if "map_option cm_path (ag_cm (dm_agent d)) \<in> {None, Some path}" for d
    using assms(1) that
  proof (induction ls arbitrary: d)
    case (Cons x ls)
    obtain te line where x: "x = (te, line)" by (cases x)
    let ?d = "case decode_tray_command parse line of None \<Rightarrow> d | Some c \<Rightarrow> handle_tray_command te c d"
    have o: "outward path ?d = outward path d"
      using desktop_command_outward [of path te d] Cons.prems x by (simp split: option.splits)
    then have "map_option cm_path (ag_cm (dm_agent ?d)) = map_option cm_path (ag_cm (dm_agent d))"
      by (simp add: outward_def)
    then show ?case using Cons.IH [of ?d] Cons.prems o x by simp
  qed simp
  with assms show ?thesis by (simp add: outward_def)
qed

text \<open>Unless a write stops half-way, a re-enroll never strands the host: when \<open>reinit\<close> changes anything, the configuration had a
  join key to enroll with again (or held no token to lose), and then the join key lines of
  agent.yml are as they were.\<close>

theorem reinit_never_strands:
  assumes "ag_cm (dm_agent d) = Some cm" and "tray_reinit te d \<noteq> d" and "e_torn (ce_env (tv_cmd te)) (cm_path cm) = None"
  shows "(auth_token (cm_current cm) = [] \<or> join_key (cm_current cm) \<noteq> []) \<and>
    file_view (\<lambda>raw. filter (scalar_line ''join_key'') (lines_of raw)) (cm_path cm) (ag_world (dm_agent (tray_reinit te d))) =
    file_view (\<lambda>raw. filter (scalar_line ''join_key'') (lines_of raw)) (cm_path cm) (ag_world (dm_agent d))"
proof -
  let ?g = "\<lambda>raw. filter (scalar_line ''join_key'') (lines_of raw)"
  have k: "auth_token (cm_current cm) = [] \<or> join_key (cm_current cm) \<noteq> []"
    using assms by (auto simp: tray_reinit_def)
  obtain r w' cm' where c: "clear_enrollment (ce_decode (tv_cmd te)) (ce_env (tv_cmd te)) (ag_world (dm_agent d)) cm = (r, w', cm')"
    by (metis prod.collapse)
  have w: "ag_world (dm_agent (tray_reinit te d)) = w'"
    using assms(1) k by (auto simp: tray_reinit_def set_world_cm_def on_agent_def c)
  have "file_view ?g (cm_path cm) w' = file_view ?g (cm_path cm) (ag_world (dm_agent d))"
  proof (cases "read_file (ce_env (tv_cmd te)) (ag_world (dm_agent d)) (cm_path cm)")
    case (Inr raw)
    then have "file_view ?g (cm_path cm) (ag_world (dm_agent d)) = Some (?g (clear_doc (cm_current cm) raw))"
      by (auto simp: read_file_def file_view_def clear_doc_lines(5) split: option.splits)
    with Inr c assms(3) show ?thesis unfolding clear_enrollment_def by (auto dest: write_and_reload_view)
  qed (use c in \<open>simp add: clear_enrollment_def\<close>)
  with k w show ?thesis by simp
qed

text \<open>A desktop user's session on a running daemon, and root's re-enroll.\<close>

definition sample_tray :: "int \<Rightarrow> tray_env" where
  "sample_tray uid = \<lparr>tv_euid = uid, tv_cmd = sample_env, tv_http = (\<lambda>_. Inl ''unreachable''),
     tv_parse = (\<lambda>_. None), tv_writer = Some (\<lambda>_. None)\<rparr>"

definition sample_line :: "string \<Rightarrow> json option" where
  "sample_line l = Some (JObj [(''command'', JStr l), (''value'', JBool True), (''service'', JStr ''nginx'')])"

definition enrolled_daemon :: daemon where
  "enrolled_daemon = sample_daemon\<lparr>dm_agent := (dm_agent sample_daemon)\<lparr>ag_cm := Some (sample_cm\<lparr>cm_current :=
     zero_config\<lparr>auth_token := ''old'', join_key := ''fleet''\<rparr>\<rparr>),
     ag_world := one_file ''agent.yml'' (''auth_token: old'' @ [NL] @ ''join_key: fleet'') 0\<rparr>\<rparr>"

lemma sample_peer: "desktop_peer ''agent.yml'' (sample_tray 1000)"
  by (simp add: desktop_peer_def sample_tray_def sample_env_def linux_platform_def tunnel_ops_keep sample_ops_def quiet_env_def)

definition sample_session :: "(tray_env \<times> string) list" where
  "sample_session = map (\<lambda>l. (sample_tray 1000, l)) [''set_auto_vpn'', ''reinit'', ''register_service'', ''vpn_connect'']"

lemma desktop_user_confined_witness:
  "file_view lines_of ''agent.yml'' (ag_world (dm_agent (tray_lines sample_line sample_session enrolled_daemon))) =
     Some [''auth_token: old'', ''join_key: fleet'', ''auto_vpn: true'', []] \<and>
   dm_sent (tray_lines sample_line sample_session enrolled_daemon) = []"
proof -
  have p: "list_all (\<lambda>(te, line). desktop_peer ''agent.yml'' te) sample_session"
    by (simp add: sample_session_def sample_peer)
  have c: "ag_cm (dm_agent enrolled_daemon) = Some (the (ag_cm (dm_agent enrolled_daemon)))"
    "cm_path (the (ag_cm (dm_agent enrolled_daemon))) = ''agent.yml''" "dm_sent enrolled_daemon = []" by code_simp+
  have "file_view lines_of ''agent.yml'' (ag_world (dm_agent (tray_lines sample_line sample_session enrolled_daemon))) =
     Some [''auth_token: old'', ''join_key: fleet'', ''auto_vpn: true'', []]" by code_simp
  with desktop_user_confined [OF p c(1,2), of sample_line] c(3) show ?thesis by simp
qed

lemma reinit_never_strands_witness:
  "file_view lines_of ''agent.yml'' (ag_world (dm_agent (tray_reinit (sample_tray 0) enrolled_daemon))) \<noteq>
     file_view lines_of ''agent.yml'' (ag_world (dm_agent enrolled_daemon)) \<and>
   file_view (\<lambda>raw. filter (scalar_line ''join_key'') (lines_of raw)) ''agent.yml'' (ag_world (dm_agent (tray_reinit (sample_tray 0) enrolled_daemon)))
   = file_view (\<lambda>raw. filter (scalar_line ''join_key'') (lines_of raw)) ''agent.yml'' (ag_world (dm_agent enrolled_daemon))"
proof -
  have c: "ag_cm (dm_agent enrolled_daemon) = Some (the (ag_cm (dm_agent enrolled_daemon)))"
    "cm_path (the (ag_cm (dm_agent enrolled_daemon))) = ''agent.yml''" by code_simp+
  have n: "file_view lines_of ''agent.yml'' (ag_world (dm_agent (tray_reinit (sample_tray 0) enrolled_daemon))) \<noteq>
     file_view lines_of ''agent.yml'' (ag_world (dm_agent enrolled_daemon))" by code_simp
  then have "tray_reinit (sample_tray 0) enrolled_daemon \<noteq> enrolled_daemon" by metis
  moreover have untorn: "e_torn (ce_env (tv_cmd (sample_tray 0))) p = None" for p
    by (simp add: sample_tray_def sample_env_def quiet_env_def)
  ultimately show ?thesis using reinit_never_strands [OF c(1)] n c(2) by simp
qed

text \<open>agent.yml is rewritten in place. On a full disk the toggle of a desktop user leaves nothing of it: the
  credentials are gone from the disk, and the daemon finds none when it starts again.\<close>

lemma torn_toggle_loses_credentials:
  "file_view lines_of ''agent.yml'' (ag_world (dm_agent (tray_set_auto_vpn
     (sample_tray 1000\<lparr>tv_cmd := sample_env\<lparr>ce_env := full_disk\<rparr>\<rparr>) True enrolled_daemon))) = Some [[]]"
  by code_simp

end
