(* ===== verification/Session.thy ===== *)
theory Session
  imports TrayCommands
begin

text \<open>
  The daemon's life: \<open>runAgent\<close> of \<open>main.go\<close> and \<open>connectWebSocket\<close> of \<open>websocket.go\<close>. The reconnect
  loop, its heartbeat, the background jobs of a connection, the tray and the home monitor are the
  rules of one step relation over the daemon's state; the clock, the directory's behaviour and the
  scheduling are what the rules leave open. Times are nanoseconds.
\<close>

subsection \<open>Dialling\<close>

definition auth_retry_interval :: int where "auth_retry_interval = 300 * seconds 1"
definition reconnect_delay :: int where "reconnect_delay = 5 * seconds 1"

record dial_request =
  dq_server :: string
  dq_path :: string
  dq_query :: "(string \<times> string) list"
  dq_headers :: "(string \<times> string) list"

datatype dial_plan = RetryIn int | Dial dial_request

definition ws_url :: "string \<Rightarrow> string" where
  "ws_url url = replace_first (replace_first url ''http://'' ''ws://'') ''https://'' ''wss://''"

text \<open>What a dial attempt sees: the host name, the local announcements, whether the URL parses.\<close>

record dial_view =
  dv_hostname :: "string result"
  dv_entries :: "mdns_entry list"
  dv_parse_url :: "string \<Rightarrow> url option"

definition dial_query :: "dial_view \<Rightarrow> config \<Rightarrow> (string \<times> string) list" where
  "dial_query dv cfg =
     (case dv_hostname dv of Inl err \<Rightarrow> [] | Inr hn \<Rightarrow> if hn = [] then [] else [(''hostname'', hn)])
     @ (if auth_token cfg = [] \<and> resolve_site_hint (dv_parse_url dv) (dv_entries dv) cfg \<noteq> []
        then [(''site'', resolve_site_hint (dv_parse_url dv) (dv_entries dv) cfg)] else [])"

definition dial_headers :: "config \<Rightarrow> (string \<times> string) list" where
  "dial_headers cfg =
     (let prev = (if auth_token cfg = [] then trim_space (prev_auth_token cfg) else []) in
      (if credential cfg = [] then [] else [(''Authorization'', credential cfg)])
      @ (if prev = [] then [] else [(''X-Theta-Prev-Token'', prev)]))"

definition dial_plan :: "dial_view \<Rightarrow> config \<Rightarrow> dial_plan" where
  "dial_plan dv cfg =
     (case dv_parse_url dv (ws_url (server_url cfg)) of
        None \<Rightarrow> RetryIn reconnect_delay
      | Some u \<Rightarrow>
          if credential cfg = [] then RetryIn auth_retry_interval
          else Dial \<lparr>dq_server = ws_url (server_url cfg), dq_path = ''/api/agent/ws'',
                 dq_query = dial_query dv cfg, dq_headers = dial_headers cfg\<rparr>)"

text \<open>A dial is answered with a connection, an HTTP refusal, or nothing. \<open>deadline_ok\<close> says whether
  the first read deadline could be set.\<close>

datatype dial_answer = DialConnected (deadline_ok: bool) | DialRefused nat | DialFailed

definition refused_delay :: "nat \<Rightarrow> int" where
  "refused_delay code = (if code = 401 \<or> code = 403 then auth_retry_interval else reconnect_delay)"

text \<open>The close codes that mean the enrollment is the problem.\<close>

definition close_unauthorized :: int where "close_unauthorized = 4001"
definition close_superseded :: int where "close_superseded = 4002"
definition close_revoked :: int where "close_revoked = 4003"
definition close_token_rotated :: int where "close_token_rotated = 4004"

definition rejects_auth :: "int option \<Rightarrow> bool" where
  "rejects_auth code = (case code of None \<Rightarrow> False
     | Some c \<Rightarrow> c \<in> {close_unauthorized, close_revoked, close_token_rotated, close_superseded})"

subsection \<open>The daemon's state\<close>

text \<open>The reconnect loop dials, reads, or sleeps until a time; a change of the local-discovery routing
  cuts only the sleep after an ordinary disconnect short.\<close>

datatype phase = Dialling | Reading | Sleeping int bool

datatype job = MeshJob | SecretsJob config

text \<open>The log is of the model only: the dials and the directory's refusals and closures, as they came.\<close>

datatype log_entry = LogDial | LogRefused nat | LogClosed "int option"

record node =
  nd_daemon :: daemon
  nd_phase :: phase
  nd_online :: bool
  nd_writer :: bool
  nd_heartbeat :: bool
  nd_jobs :: "job list"
  nd_ldap_socket :: "string option"
  nd_boot :: config
  nd_now :: int
  nd_log :: "(int \<times> log_entry) list"

definition logged :: "log_entry \<Rightarrow> node \<Rightarrow> node" where
  "logged e n = n\<lparr>nd_log := nd_log n @ [(nd_now n, e)]\<rparr>"

definition sleep_for :: "int \<Rightarrow> bool \<Rightarrow> node \<Rightarrow> node" where
  "sleep_for d short n = n\<lparr>nd_phase := Sleeping (nd_now n + d) short\<rparr>"

definition on_daemon :: "(daemon \<Rightarrow> daemon) \<Rightarrow> node \<Rightarrow> node" where
  "on_daemon f n = n\<lparr>nd_daemon := f (nd_daemon n)\<rparr>"

text \<open>A successful dial: the flags and the writer are set and the connection's jobs started before the
  read deadline is; when that fails the loop goes on without the cleanup.\<close>

definition connected :: "string \<Rightarrow> config \<Rightarrow> bool \<Rightarrow> node \<Rightarrow> node" where
  "connected default_socket cfg deadline n =
     (let ldap = cap_ldap_tunnel (caps cfg) \<or> cap_configure_ldap (caps cfg);
          n1 = n\<lparr>nd_online := True, nd_writer := True,
               nd_jobs := nd_jobs n @ MeshJob # (if cap_secrets (caps cfg) then [SecretsJob cfg] else []),
               nd_ldap_socket := (if \<not> ldap then None
                 else Some (if ldap_socket cfg = [] then default_socket else ldap_socket cfg))\<rparr>;
          n2 = on_daemon (\<lambda>d. d\<lparr>dm_tunnel := new_ldap_tunnel (lt_counter (dm_tunnel d))\<rparr>) n1
      in if deadline then n2\<lparr>nd_phase := Reading, nd_heartbeat := True\<rparr> else n2\<lparr>nd_phase := Dialling\<rparr>)"

definition dial_attempt :: "string \<Rightarrow> dial_view \<Rightarrow> dial_answer \<Rightarrow> node \<Rightarrow> node" where
  "dial_attempt default_socket dv ans n =
     (case ag_cm (dm_agent (nd_daemon n)) of None \<Rightarrow> n
      | Some cm \<Rightarrow>
          (case dial_plan dv (cm_current cm) of
             RetryIn d \<Rightarrow> sleep_for d False n
           | Dial rq \<Rightarrow>
               (let n1 = logged LogDial n in
                case ans of
                  DialFailed \<Rightarrow> sleep_for reconnect_delay False n1
                | DialRefused code \<Rightarrow>
                    sleep_for (refused_delay code) False (logged (LogRefused code) n1)
                | DialConnected deadline \<Rightarrow> connected default_socket (cm_current cm) deadline n1)))"

definition disconnected :: "int option \<Rightarrow> node \<Rightarrow> node" where
  "disconnected code n =
     (let n1 = logged (LogClosed code) (n\<lparr>nd_online := False, nd_writer := False, nd_heartbeat := False\<rparr>) in
      if rejects_auth code then sleep_for auth_retry_interval False n1
      else sleep_for reconnect_delay True n1)"

text \<open>One turn of the read loop: the deadline is reset, the text decoded, the command handled.\<close>

definition dec_message :: "fields_map \<Rightarrow> ws_message option" where
  "dec_message m =
     (case (dec_str (struct_field m ''type''), struct_field m ''payload'') of
        (Some t, JNull) \<Rightarrow> Some \<lparr>ws_type = t, ws_payload = []\<rparr>
      | (Some t, JObj p) \<Rightarrow> Some \<lparr>ws_type = t, ws_payload = p\<rparr>
      | _ \<Rightarrow> None)"

definition read_limit :: nat where "read_limit = 2 ^ 20"

definition frame_received :: "(string \<Rightarrow> json option) \<Rightarrow> command_env \<Rightarrow> bool \<Rightarrow> string \<Rightarrow> node \<Rightarrow> node" where
  "frame_received parse ce deadline raw n =
     (if \<not> deadline then disconnected None n
      else (case Option.bind (parse raw) (dec_struct dec_message) of
          None \<Rightarrow> n | Some msg \<Rightarrow> on_daemon (handle_command ce msg) n))"

definition heartbeat_frame :: "string \<Rightarrow> ws_message" where
  "heartbeat_frame ts = \<lparr>ws_type = ''heartbeat'', ws_payload = [(''timestamp'', JStr ts)]\<rparr>"

definition heartbeat :: "string \<Rightarrow> bool \<Rightarrow> node \<Rightarrow> node" where
  "heartbeat ts ok n =
     (if ok then on_daemon (\<lambda>d. d\<lparr>dm_sent := dm_sent d @ [heartbeat_frame ts]\<rparr>) n else n\<lparr>nd_heartbeat := False\<rparr>)"

definition run_job :: "command_env \<Rightarrow> enroll_env \<Rightarrow> job \<Rightarrow> node \<Rightarrow> node" where
  "run_job ce en j n =
     (case j of
        SecretsJob cfg \<Rightarrow> on_daemon (\<lambda>d. snd (run_op (render_secrets (ce_secrets ce) cfg) d)) n
      | MeshJob \<Rightarrow> on_daemon (on_agent (\<lambda>a.
          (case ensure_mesh_identity en (ag_home a) (ag_world a) of
             (None, w) \<Rightarrow> a\<lparr>ag_world := w\<rparr>
           | (Some (pub, res, run), w) \<Rightarrow> a\<lparr>ag_home := er_home run, ag_world := w\<rparr>))) n)"

text \<open>A tray command sees the connection's writer, and a monitor tick its flag.\<close>

definition tray_input :: "tray_env \<Rightarrow> tray_command \<Rightarrow> node \<Rightarrow> node" where
  "tray_input te c n =
     on_daemon (handle_tray_command (if nd_writer n then te else te\<lparr>tv_writer := None\<rparr>) c) n"

definition monitor_tick :: "platform \<Rightarrow> (string \<Rightarrow> url option) \<Rightarrow> string \<Rightarrow> tick \<Rightarrow> node \<Rightarrow> node" where
  "monitor_tick P parse_url path tk n =
     on_daemon (on_agent (check_and_push P parse_url path (nd_boot n)
       (tk\<lparr>tk_now := nd_now n, tk_connected := nd_online n\<rparr>))) n"

subsection \<open>Start and stop\<close>

definition agent_config_path :: "string list \<Rightarrow> (string \<Rightarrow> bool) \<Rightarrow> string \<Rightarrow> string" where
  "agent_config_path args exists dflt =
     (case args of [] \<Rightarrow> dflt | p # ps \<Rightarrow> if \<not> has_prefix p ''-'' \<and> exists p then p else dflt)"

text \<open>\<open>runAgent\<close> up to its loops: \<open>Inl\<close> is the fatal error of an unreadable configuration.\<close>

definition boot :: "command_env \<Rightarrow> string \<Rightarrow> world \<Rightarrow> tray_status \<Rightarrow> int \<Rightarrow> node result" where
  "boot ce path w status now =
     (case new_config_manager (ce_decode ce) (ce_env ce) w path of
        Inl err \<Rightarrow> Inl err
      | Inr cm \<Rightarrow> Inr
          \<lparr>nd_daemon = \<lparr>dm_agent = \<lparr>ag_home = set_auto_vpn (auto_vpn (cm_current cm)) zero_home,
               ag_site = \<lparr>ls_last_positive = None, ls_polled = None\<rparr>, ag_last_auto = None,
               ag_tray = \<lparr>sv_status = status, sv_clients = []\<rparr>, ag_cm = Some cm, ag_world = w\<rparr>,
             dm_tunnel = new_ldap_tunnel 0, dm_sent = [], dm_restart = False\<rparr>,
           nd_phase = Dialling, nd_online = False, nd_writer = False, nd_heartbeat = False, nd_jobs = [],
           nd_ldap_socket = None, nd_boot = cm_current cm, nd_now = now, nd_log = []\<rparr>)"

definition shutdown_agent :: "platform \<Rightarrow> daemon \<Rightarrow> daemon" where
  "shutdown_agent P d =
     (case run_op (p_wg_state P) d of (up, d1) \<Rightarrow> if up then snd (run_op (p_remove_wg P) d1) else d1)"

subsection \<open>Steps\<close>

datatype event =
    EvDial string dial_view dial_answer
  | EvFrame "string \<Rightarrow> json option" command_env bool string
  | EvClosed "int option"
  | EvWake
  | EvRouted
  | EvHeartbeat string bool
  | EvJob command_env enroll_env
  | EvTray tray_env tray_command
  | EvTick platform "string \<Rightarrow> url option" string tick

inductive session_step :: "node \<Rightarrow> event \<Rightarrow> node \<Rightarrow> bool" where
  dial: "nd_phase n = Dialling \<Longrightarrow> session_step n (EvDial sock dv ans) (dial_attempt sock dv ans n)"
| frame: "nd_phase n = Reading \<Longrightarrow> length raw \<le> read_limit \<Longrightarrow>
    session_step n (EvFrame parse ce ok raw) (frame_received parse ce ok raw n)"
| closed: "nd_phase n = Reading \<Longrightarrow> session_step n (EvClosed code) (disconnected code n)"
| wake: "nd_phase n = Sleeping u short \<Longrightarrow> u \<le> nd_now n \<Longrightarrow> session_step n EvWake (n\<lparr>nd_phase := Dialling\<rparr>)"
| routed: "nd_phase n = Sleeping u True \<Longrightarrow> session_step n EvRouted (n\<lparr>nd_phase := Dialling\<rparr>)"
| heartbeat: "nd_heartbeat n \<Longrightarrow> session_step n (EvHeartbeat ts ok) (heartbeat ts ok n)"
| job: "j \<in> set (nd_jobs n) \<Longrightarrow> session_step n (EvJob ce en) (run_job ce en j (n\<lparr>nd_jobs := remove1 j (nd_jobs n)\<rparr>))"
| tray: "session_step n (EvTray te c) (tray_input te c n)"
| tick: "session_step n (EvTick P parse_url path tk) (monitor_tick P parse_url path tk n)"

inductive_cases session_stepE: "session_step n e n'"

text \<open>A run: every event happens at a time, and times do not decrease.\<close>

inductive session_run :: "node \<Rightarrow> (int \<times> event) list \<Rightarrow> node \<Rightarrow> bool" where
  start: "session_run n [] n"
| step: "session_run n es n1 \<Longrightarrow> nd_now n1 \<le> t \<Longrightarrow> session_step (n1\<lparr>nd_now := t\<rparr>) e n2 \<Longrightarrow>
    session_run n (es @ [(t, e)]) n2"

subsection \<open>What the steps keep\<close>

text \<open>Events other than dialling, losing the connection and waking leave the loop where it is.\<close>

definition same_loop :: "node \<Rightarrow> node \<Rightarrow> bool" where
  "same_loop n n' = (nd_phase n' = nd_phase n \<and> nd_log n' = nd_log n \<and> nd_now n' = nd_now n \<and>
     nd_online n' = nd_online n \<and> nd_writer n' = nd_writer n \<and> nd_boot n' = nd_boot n \<and>
     (nd_heartbeat n' \<longrightarrow> nd_heartbeat n))"

lemma same_loop_refl [simp]: "same_loop n n"
  by (simp add: same_loop_def)

lemma on_daemon_same [simp]: "same_loop n (on_daemon f n)"
  by (simp add: same_loop_def on_daemon_def)

lemma step_same_loop:
  "session_step n e n' \<Longrightarrow>
     (case e of EvDial sock dv ans \<Rightarrow> nd_phase n = Dialling \<and> n' = dial_attempt sock dv ans n
      | EvClosed code \<Rightarrow> nd_phase n = Reading \<and> n' = disconnected code n
      | EvFrame parse ce ok raw \<Rightarrow> nd_phase n = Reading \<and> (same_loop n n' \<or> n' = disconnected None n)
      | EvWake \<Rightarrow> (\<exists>u short. nd_phase n = Sleeping u short \<and> u \<le> nd_now n) \<and> n' = n\<lparr>nd_phase := Dialling\<rparr>
      | EvRouted \<Rightarrow> (\<exists>u. nd_phase n = Sleeping u True) \<and> n' = n\<lparr>nd_phase := Dialling\<rparr>
      | _ \<Rightarrow> same_loop n n')"
  by (induction rule: session_step.induct)
    (auto simp: frame_received_def heartbeat_def run_job_def tray_input_def monitor_tick_def same_loop_def on_daemon_def
      split: option.splits job.splits)

lemma logged_simps [simp]:
  "nd_now (logged e n) = nd_now n" "nd_log (logged e n) = nd_log n @ [(nd_now n, e)]" "nd_phase (logged e n) = nd_phase n"
  "nd_online (logged e n) = nd_online n" "nd_writer (logged e n) = nd_writer n" "nd_heartbeat (logged e n) = nd_heartbeat n"
  "nd_now (sleep_for d b n) = nd_now n" "nd_log (sleep_for d b n) = nd_log n" "nd_phase (sleep_for d b n) = Sleeping (nd_now n + d) b"
  "nd_online (sleep_for d b n) = nd_online n" "nd_writer (sleep_for d b n) = nd_writer n"
  "nd_heartbeat (sleep_for d b n) = nd_heartbeat n"
  by (simp_all add: logged_def sleep_for_def)

lemma connected_simps [simp]:
  "nd_now (connected sock cfg ok n) = nd_now n" "nd_log (connected sock cfg ok n) = nd_log n"
  "nd_phase (connected sock cfg ok n) = (if ok then Reading else Dialling)"
  "nd_online (connected sock cfg ok n)" "nd_writer (connected sock cfg ok n)"
  by (simp_all add: connected_def Let_def on_daemon_def)

lemma disconnected_simps [simp]:
  "nd_now (disconnected code n) = nd_now n"
  "nd_log (disconnected code n) = nd_log n @ [(nd_now n, LogClosed code)]"
  "nd_phase (disconnected code n) = (if rejects_auth code then Sleeping (nd_now n + auth_retry_interval) False
     else Sleeping (nd_now n + reconnect_delay) True)"
  "\<not> nd_online (disconnected code n)" "\<not> nd_writer (disconnected code n)" "\<not> nd_heartbeat (disconnected code n)"
  by (simp_all add: disconnected_def Let_def)

lemma delays: "0 \<le> reconnect_delay" "reconnect_delay \<le> auth_retry_interval"
  "0 \<le> refused_delay c" "refused_delay c \<le> auth_retry_interval"
  "dial_plan dv cfg = RetryIn d \<Longrightarrow> 0 \<le> d \<and> d \<le> auth_retry_interval"
  by (auto simp: reconnect_delay_def auth_retry_interval_def seconds_def refused_delay_def dial_plan_def
      split: option.splits if_splits)

text \<open>A dial attempt ends in one of three ways.\<close>

lemma dial_attempt_cases:
  obtains (idle) "dial_attempt sock dv ans n = n"
  | (sleep) d l where "0 \<le> d" "d \<le> auth_retry_interval" "nd_phase (dial_attempt sock dv ans n) = Sleeping (nd_now n + d) False"
      "nd_log (dial_attempt sock dv ans n) = nd_log n @ l" "l = [] \<or> l = [(nd_now n, LogDial)] \<or>
        (\<exists>c. d = refused_delay c \<and> l = [(nd_now n, LogDial), (nd_now n, LogRefused c)])"
      "nd_now (dial_attempt sock dv ans n) = nd_now n" "nd_online (dial_attempt sock dv ans n) = nd_online n"
      "nd_writer (dial_attempt sock dv ans n) = nd_writer n" "nd_heartbeat (dial_attempt sock dv ans n) = nd_heartbeat n"
  | (up) cfg ok where "ans = DialConnected ok" "dial_attempt sock dv ans n = connected sock cfg ok (logged LogDial n)"
proof (cases "ag_cm (dm_agent (nd_daemon n))")
  case None
  then show ?thesis using idle by (simp add: dial_attempt_def)
next
  case (Some cm)
  show ?thesis
  proof (cases "dial_plan dv (cm_current cm)")
    case (RetryIn d)
    then show ?thesis using sleep [of d "[]"] delays(5) [OF RetryIn] Some by (simp add: dial_attempt_def)
  next
    case (Dial rq)
    show ?thesis
    proof (cases ans)
      case (DialConnected ok)
      then show ?thesis using up [of ok "cm_current cm"] Some Dial by (simp add: dial_attempt_def)
    next
      case (DialRefused c)
      have d: "dial_attempt sock dv ans n = sleep_for (refused_delay c) False (logged (LogRefused c) (logged LogDial n))"
        using Some Dial DialRefused by (simp add: dial_attempt_def)
      show ?thesis
        by (rule sleep [of "refused_delay c" "[(nd_now n, LogDial), (nd_now n, LogRefused c)]"])
          (use delays(3,4) [of c] in \<open>auto simp: d\<close>)
    next
      case DialFailed
      then show ?thesis using sleep [of reconnect_delay "[(nd_now n, LogDial)]"] Some Dial delays(1,2)
        by (simp add: dial_attempt_def)
    qed
  qed
qed

subsection \<open>Invariants of the loop\<close>

text \<open>The answers that reject the credential.\<close>

definition rejection :: "log_entry \<Rightarrow> bool" where
  "rejection e = (case e of LogDial \<Rightarrow> False | LogRefused c \<Rightarrow> c = 401 \<or> c = 403
     | LogClosed code \<Rightarrow> code \<in> {Some 4001, Some 4002, Some 4003, Some 4004})"

lemma rejection_delays: "rejection (LogRefused c) \<Longrightarrow> refused_delay c = auth_retry_interval"
  "rejection (LogClosed code) \<Longrightarrow> rejects_auth code" "\<not> rejection LogDial"
  by (auto simp: rejection_def refused_delay_def rejects_auth_def close_unauthorized_def close_superseded_def
      close_revoked_def close_token_rotated_def)

definition cooled :: "int \<Rightarrow> node \<Rightarrow> bool" where
  "cooled r n = (r + auth_retry_interval \<le> nd_now n \<or>
     (\<exists>u. nd_phase n = Sleeping u False \<and> r + auth_retry_interval \<le> u))"

definition backed_off :: "node \<Rightarrow> bool" where
  "backed_off n = (\<forall>(r, e) \<in> set (nd_log n). rejection e \<longrightarrow> cooled r n)"

definition spaced :: "(int \<times> log_entry) list \<Rightarrow> bool" where
  "spaced = sorted_wrt (\<lambda>(r, e) (t, f). rejection e \<and> f = LogDial \<longrightarrow> r + auth_retry_interval \<le> t)"

lemma spaced_dial:
  assumes "spaced log" and "\<And>r e. (r, e) \<in> set log \<Longrightarrow> rejection e \<Longrightarrow> r + auth_retry_interval \<le> t"
  shows "spaced (log @ [(t, LogDial)])" "spaced (log @ [(t, LogDial), (t, LogRefused c)])"
  using assms by (auto simp: spaced_def sorted_wrt_append rejection_delays(3))

lemma spaced_rejected: "spaced log \<Longrightarrow> spaced (log @ [(t, LogClosed code)])"
  by (auto simp: spaced_def sorted_wrt_append)

definition loop_inv :: "node \<Rightarrow> bool" where
  "loop_inv n = (backed_off n \<and> spaced (nd_log n) \<and>
     (\<forall>u short. nd_phase n = Sleeping u short \<longrightarrow> u \<le> nd_now n + auth_retry_interval))"

lemma loop_inv_time: "loop_inv n \<Longrightarrow> nd_now n \<le> t \<Longrightarrow> loop_inv (n\<lparr>nd_now := t\<rparr>)"
  by (fastforce simp: loop_inv_def backed_off_def cooled_def)

lemma loop_inv_same: "same_loop n n' \<Longrightarrow> loop_inv n \<Longrightarrow> loop_inv n'"
  by (simp add: loop_inv_def backed_off_def cooled_def same_loop_def)

lemma awake_cooled: "loop_inv n \<Longrightarrow> (r, e) \<in> set (nd_log n) \<Longrightarrow> rejection e \<Longrightarrow>
    (\<And>u. nd_phase n \<noteq> Sleeping u False \<or> u \<le> nd_now n) \<Longrightarrow> r + auth_retry_interval \<le> nd_now n"
  by (force simp: loop_inv_def backed_off_def cooled_def)

lemma loop_inv_awake:
  assumes "loop_inv n" and "\<And>u. nd_phase n \<noteq> Sleeping u False \<or> u \<le> nd_now n"
    and "nd_log n' = nd_log n" and "nd_now n' = nd_now n" and "\<And>u b. nd_phase n' \<noteq> Sleeping u b"
  shows "loop_inv n'"
  using assms awake_cooled [OF assms(1) _ _ assms(2)] by (auto simp: loop_inv_def backed_off_def cooled_def)

lemma loop_inv_disconnected:
  assumes "loop_inv n" and "nd_phase n = Reading"
  shows "loop_inv (disconnected code n)"
  using assms awake_cooled [OF assms(1)] delays(1,2) spaced_rejected [of "nd_log n" "nd_now n" code] rejection_delays(2) [of code]
  by (auto simp: loop_inv_def backed_off_def cooled_def)

lemma loop_inv_dial:
  assumes "loop_inv n" and "nd_phase n = Dialling"
  shows "loop_inv (dial_attempt sock dv ans n)"
proof -
  note c = awake_cooled [OF assms(1)]
  note sp = spaced_dial [of "nd_log n" "nd_now n"]
  show ?thesis
  proof (cases rule: dial_attempt_cases [of sock dv ans n])
    case idle
    then show ?thesis using assms by simp
  next
    case (up cfg ok)
    then show ?thesis using assms c sp(1) by (auto simp: loop_inv_def backed_off_def cooled_def rejection_delays(3))
  next
    case (sleep d l)
    from sleep(5) consider "l = []" | "l = [(nd_now n, LogDial)]"
      | c where "d = refused_delay c" "l = [(nd_now n, LogDial), (nd_now n, LogRefused c)]" by blast
    then show ?thesis using assms c sp sleep
      by cases (auto simp: loop_inv_def backed_off_def cooled_def rejection_delays)
  qed
qed

lemma loop_inv_step:
  assumes "session_step n e n'" and "loop_inv n"
  shows "loop_inv n'"
  using step_same_loop [OF assms(1)] assms(2) loop_inv_same [OF _ assms(2)] loop_inv_dial [OF assms(2)]
    loop_inv_disconnected [OF assms(2)] loop_inv_awake [OF assms(2), of n']
  by (cases e) auto

lemma loop_inv_run: "session_run n es n' \<Longrightarrow> loop_inv n \<Longrightarrow> loop_inv n'"
  by (induction rule: session_run.induct) (auto intro: loop_inv_step loop_inv_time)

lemma loop_inv_start: "nd_phase n = Dialling \<Longrightarrow> nd_log n = [] \<Longrightarrow> loop_inv n"
  by (simp add: loop_inv_def backed_off_def spaced_def)

text \<open>Without a failing first deadline the flags follow the loop.\<close>

definition flags_agree :: "node \<Rightarrow> bool" where
  "flags_agree n = (nd_online n = (nd_phase n = Reading) \<and> nd_writer n = (nd_phase n = Reading) \<and>
     (nd_heartbeat n \<longrightarrow> nd_phase n = Reading))"

definition sound_dial :: "event \<Rightarrow> bool" where
  "sound_dial e = (case e of EvDial sock dv ans \<Rightarrow> ans \<noteq> DialConnected False | _ \<Rightarrow> True)"

lemma flags_step:
  assumes "session_step n e n'" and "flags_agree n" and "sound_dial e"
  shows "flags_agree n'"
proof -
  have d: "flags_agree (dial_attempt sock dv ans n)" if "nd_phase n = Dialling" "ans \<noteq> DialConnected False" for sock dv ans
    using assms(2) that by (cases rule: dial_attempt_cases [of sock dv ans n]) (auto simp: flags_agree_def)
  have x: "flags_agree (disconnected code n)" for code
    by (simp add: flags_agree_def)
  have same: "flags_agree n'" if "same_loop n n'"
    using that assms(2) by (auto simp: flags_agree_def same_loop_def)
  show ?thesis
    using step_same_loop [OF assms(1)] assms(2,3) d x same
    by (cases e) (auto simp: sound_dial_def, auto simp: flags_agree_def)
qed

subsection \<open>Properties\<close>


text \<open>C23: the daemon always comes back: in every reachable state that is not reading, a dial attempt is
  due within five minutes, without any help from outside.\<close>

theorem reconnect_always_due:
  assumes "session_run n es n'" and "nd_phase n = Dialling" and "nd_log n = []" and "nd_phase n' \<noteq> Reading"
  shows "\<exists>es' n''. session_run n' es' n'' \<and> nd_phase n'' = Dialling \<and> nd_now n'' \<le> nd_now n' + 300 * seconds 1 \<and>
    set (map snd es') \<subseteq> {EvWake}"
proof (cases "nd_phase n'")
  case Dialling
  then show ?thesis using session_run.start [of n'] by (intro exI [of _ "[]"] exI [of _ n'])
      (auto simp: seconds_def)
next
  case Reading
  with assms(4) show ?thesis by simp
next
  case (Sleeping u short)
  have u: "u \<le> nd_now n' + 300 * seconds 1"
    using loop_inv_run [OF assms(1) loop_inv_start [OF assms(2,3)]] Sleeping
    by (simp add: loop_inv_def auth_retry_interval_def)
  let ?t = "max u (nd_now n')"
  have "session_step (n'\<lparr>nd_now := ?t\<rparr>) EvWake (n'\<lparr>nd_now := ?t, nd_phase := Dialling\<rparr>)"
    using session_step.wake [of "n'\<lparr>nd_now := ?t\<rparr>" u short] Sleeping by simp
  from session_run.step [OF session_run.start _ this] u show ?thesis
    by (intro exI [of _ "[(?t, EvWake)]"] exI [of _ "n'\<lparr>nd_now := ?t, nd_phase := Dialling\<rparr>"]) (auto simp: seconds_def)
qed


text \<open>The credentials travel in the headers only: the URL of a dial (server, path and query) is the
  same whatever the tokens are, as long as the host is enrolled or not; the \<open>Authorization\<close> header
  is the current credential, and the previous token goes out only while there is no issued one.\<close>

theorem credentials_stay_out_of_url:
  assumes "dial_plan dv cfg = Dial rq"
    and "cfg' = cfg\<lparr>auth_token := tok, join_key := jk, prev_auth_token := prev\<rparr>"
    and "(tok = []) = (auth_token cfg = [])" and "tok \<noteq> [] \<or> jk \<noteq> []"
  shows "(\<exists>rq'. dial_plan dv cfg' = Dial rq' \<and> dq_server rq' = dq_server rq \<and> dq_path rq' = dq_path rq \<and>
      dq_query rq' = dq_query rq) \<and>
    map_of (dq_headers rq) ''Authorization'' = Some (credential cfg) \<and>
    map_of (dq_headers rq) ''X-Theta-Prev-Token'' =
      (if auth_token cfg = [] \<and> trim_space (prev_auth_token cfg) \<noteq> [] then Some (trim_space (prev_auth_token cfg)) else None)"
proof -
  have f: "location cfg' = location cfg" "server_url cfg' = server_url cfg" by (simp_all add: assms(2))
  have h: "resolve_site_hint (dv_parse_url dv) (dv_entries dv) cfg' = resolve_site_hint (dv_parse_url dv) (dv_entries dv) cfg"
    by (simp only: resolve_site_hint_def f)
  have q: "dial_query dv cfg' = dial_query dv cfg"
    using assms(3) by (simp add: dial_query_def h) (simp add: assms(2))
  have c: "credential cfg' \<noteq> []" "server_url cfg' = server_url cfg"
    using assms(4) by (auto simp: assms(2) credential_def)
  from assms(1) have rq: "rq = \<lparr>dq_server = ws_url (server_url cfg), dq_path = ''/api/agent/ws'',
      dq_query = dial_query dv cfg, dq_headers = dial_headers cfg\<rparr>" and n: "credential cfg \<noteq> []"
    and p: "dv_parse_url dv (ws_url (server_url cfg)) \<noteq> None"
    by (auto simp: dial_plan_def split: option.splits if_splits)
  then show ?thesis using c q n p by (auto simp: dial_plan_def dial_headers_def Let_def)
qed

text \<open>A revoked host: refused at the dial, let in five minutes later, then closed again.\<close>

definition sample_view :: dial_view where
  "sample_view = \<lparr>dv_hostname = Inr ''pc1'', dv_entries = [],
     dv_parse_url = (\<lambda>_. Some \<lparr>u_scheme = ''wss'', u_hostname = ''dir''\<rparr>)\<rparr>"

definition sample_node :: node where
  "sample_node = \<lparr>nd_daemon = enrolled_daemon, nd_phase = Dialling, nd_online = False, nd_writer = False, nd_heartbeat = False,
     nd_jobs = [], nd_ldap_socket = None, nd_boot = zero_config, nd_now = 0, nd_log = []\<rparr>"

definition refused_node :: node where
  "refused_node = dial_attempt ''/s'' sample_view (DialRefused 401) (sample_node\<lparr>nd_now := 0\<rparr>)"

definition awake_node :: node where
  "awake_node = refused_node\<lparr>nd_now := seconds 300, nd_phase := Dialling\<rparr>"

definition online_node :: node where
  "online_node = dial_attempt ''/s'' sample_view (DialConnected True) (awake_node\<lparr>nd_now := seconds 301\<rparr>)"

definition revoked_node :: node where
  "revoked_node = disconnected (Some 4003) (online_node\<lparr>nd_now := seconds 400\<rparr>)"

definition sample_events :: "(int \<times> event) list" where
  "sample_events = [(0, EvDial ''/s'' sample_view (DialRefused 401)), (seconds 300, EvWake),
     (seconds 301, EvDial ''/s'' sample_view (DialConnected True)), (seconds 400, EvClosed (Some 4003))]"

lemma sample_session_run: "session_run sample_node sample_events revoked_node"
proof -
  have p: "nd_phase (sample_node\<lparr>nd_now := 0\<rparr>) = Dialling" "nd_phase (refused_node\<lparr>nd_now := seconds 300\<rparr>) = Sleeping (seconds 300) False"
    "nd_phase (awake_node\<lparr>nd_now := seconds 301\<rparr>) = Dialling" "nd_phase (online_node\<lparr>nd_now := seconds 400\<rparr>) = Reading"
    and t: "nd_now sample_node \<le> 0" "nd_now refused_node \<le> seconds 300" "nd_now awake_node \<le> seconds 301" "nd_now online_node \<le> seconds 400"
    by code_simp+
  have 1: "session_run sample_node ([] @ [(0, EvDial ''/s'' sample_view (DialRefused 401))]) refused_node"
    by (rule session_run.step [OF session_run.start t(1)]) (unfold refused_node_def, rule session_step.dial [OF p(1)])
  have w: "session_step (refused_node\<lparr>nd_now := seconds 300\<rparr>) EvWake awake_node"
    using session_step.wake [OF p(2)] by (simp add: awake_node_def)
  note 2 = session_run.step [OF 1 t(2) w]
  have d: "session_step (awake_node\<lparr>nd_now := seconds 301\<rparr>) (EvDial ''/s'' sample_view (DialConnected True)) online_node"
    unfolding online_node_def by (rule session_step.dial [OF p(3)])
  note 3 = session_run.step [OF 2 t(3) d]
  have c: "session_step (online_node\<lparr>nd_now := seconds 400\<rparr>) (EvClosed (Some 4003)) revoked_node"
    unfolding revoked_node_def by (rule session_step.closed [OF p(4)])
  from session_run.step [OF 3 t(4) c] show ?thesis by (simp add: sample_events_def)
qed

lemma sample_node_start: "nd_phase sample_node = Dialling" "nd_log sample_node = []" "\<not> nd_online sample_node"
  "\<not> nd_writer sample_node" "\<not> nd_heartbeat sample_node"
  by (simp_all add: sample_node_def)


lemma reconnect_always_due_witness:
  "\<exists>es' n''. session_run revoked_node es' n'' \<and> nd_phase n'' = Dialling \<and> nd_now n'' \<le> nd_now revoked_node + 300 * seconds 1 \<and>
    set (map snd es') \<subseteq> {EvWake}"
proof (rule reconnect_always_due [OF sample_session_run sample_node_start(1,2)])
  show "nd_phase revoked_node \<noteq> Reading" by code_simp
qed


lemma credentials_stay_out_of_url_witness:
  "map_of (dial_headers (zero_config\<lparr>join_key := ''fleet'', prev_auth_token := '' old ''\<rparr>)) ''X-Theta-Prev-Token'' = Some ''old''"
proof -
  let ?cfg = "zero_config\<lparr>join_key := ''fleet'', prev_auth_token := '' old ''\<rparr>"
  have d: "dial_plan sample_view ?cfg = Dial \<lparr>dq_server = ws_url (server_url ?cfg), dq_path = ''/api/agent/ws'',
      dq_query = dial_query sample_view ?cfg, dq_headers = dial_headers ?cfg\<rparr>" by code_simp
  have e: "?cfg = ?cfg\<lparr>auth_token := [], join_key := ''fleet'', prev_auth_token := '' old ''\<rparr>" by (simp add: zero_config_def)
  have "auth_token ?cfg = []" "trim_space (prev_auth_token ?cfg) = ''old''" by code_simp+
  with credentials_stay_out_of_url [OF d e] show ?thesis by simp
qed

text \<open>When the first read deadline cannot be set the loop goes on without its cleanup: if the directory
  is then unreachable, the daemon sleeps and still reports itself connected.\<close>

lemma stale_connected_flag:
  "\<exists>es n. session_run sample_node es n \<and> nd_phase n = Sleeping (seconds 5) False \<and> nd_online n \<and> nd_writer n"
proof -
  let ?e1 = "EvDial ''/s'' sample_view (DialConnected False)" and ?e2 = "EvDial ''/s'' sample_view DialFailed"
  let ?n1 = "dial_attempt ''/s'' sample_view (DialConnected False) (sample_node\<lparr>nd_now := 0\<rparr>)"
  let ?n2 = "dial_attempt ''/s'' sample_view DialFailed (?n1\<lparr>nd_now := 0\<rparr>)"
  have p: "nd_phase (sample_node\<lparr>nd_now := 0\<rparr>) = Dialling" "nd_phase (?n1\<lparr>nd_now := 0\<rparr>) = Dialling"
    and t: "nd_now sample_node \<le> 0" "nd_now ?n1 \<le> 0"
    and r: "nd_phase ?n2 = Sleeping (seconds 5) False" "nd_online ?n2" "nd_writer ?n2" by code_simp+
  from session_run.step [OF session_run.step [OF session_run.start t(1) session_step.dial [OF p(1)]] t(2) session_step.dial [OF p(2)]] r
  show ?thesis by blast
qed

end
