(* ===== verification/Cron.thy ===== *)
theory Cron
  imports Config "HOL-Library.Monad_Syntax"
begin

text \<open>
  Cron expressions: \<open>cron_schedule.go\<close>. Field values are Go ints, 64 bits with wrap-around. A parse
  that does not return is \<open>None\<close>; one that does is an error or a value. The local calendar (time
  zone and all) is an argument: it gives the fields of a minute of absolute time.
\<close>

subsection \<open>Fields\<close>

record cron_field =
  cf_values :: "int list"
  cf_all :: bool

definition cron_contains :: "cron_field \<Rightarrow> int \<Rightarrow> bool" where
  "cron_contains f v = (if cf_all f then True else v \<in> set (cf_values f))"

definition month_names :: "(string \<times> int) list" where
  "month_names = [(''JAN'', 1), (''FEB'', 2), (''MAR'', 3), (''APR'', 4), (''MAY'', 5), (''JUN'', 6),
     (''JUL'', 7), (''AUG'', 8), (''SEP'', 9), (''OCT'', 10), (''NOV'', 11), (''DEC'', 12)]"

definition dow_names :: "(string \<times> int) list" where
  "dow_names = [(''SUN'', 0), (''MON'', 1), (''TUE'', 2), (''WED'', 3), (''THU'', 4), (''FRI'', 5), (''SAT'', 6)]"

definition int64 :: "int \<Rightarrow> int" where
  "int64 n = (n + 2 ^ 63) mod 2 ^ 64 - 2 ^ 63"

text \<open>The loop \<open>for v := lo; v <= hi; v += step\<close>, with the overflow of \<open>v\<close>.\<close>

partial_function (option) cron_values :: "int \<Rightarrow> int \<Rightarrow> int \<Rightarrow> int list option" where
  "cron_values v hi step =
     (if v \<le> hi then do { vs \<leftarrow> cron_values (int64 (v + step)) hi step; Some (v # vs) } else Some [])"

declare cron_values.simps [code]

text \<open>A token's base and step; the step is 1 when there is none.\<close>

definition cron_step :: "string \<Rightarrow> (string \<times> int) option" where
  "cron_step tok =
     (case cut_on (CHR ''/'') tok of
        None \<Rightarrow> Some (tok, 1)
      | Some (base, s) \<Rightarrow> (case atoi s of None \<Rightarrow> None | Some n \<Rightarrow> if n \<le> 0 then None else Some (base, n)))"

definition cron_bounds :: "string \<Rightarrow> string \<Rightarrow> int \<Rightarrow> int \<Rightarrow> (int \<times> int) result" where
  "cron_bounds orig base mn mx =
     (if base = ''*'' then Inr (mn, mx)
      else if CHR ''-'' \<in> set base then
        (case cut_on (CHR ''-'') base of
           Some (a, b) \<Rightarrow>
             (case (atoi a, atoi b) of (Some x, Some y) \<Rightarrow> Inr (x, y) | _ \<Rightarrow> Inl (''bad range in '' @ go_quote orig))
         | None \<Rightarrow> Inl (''bad range in '' @ go_quote orig))
      else (case atoi base of None \<Rightarrow> Inl (''bad value '' @ go_quote orig) | Some v \<Rightarrow> Inr (v, v)))"

definition parse_cron_range :: "string \<Rightarrow> (string \<times> int) list \<Rightarrow> int \<Rightarrow> int \<Rightarrow> int list result option" where
  "parse_cron_range tok names mn mx =
     (case map_of names tok of Some v \<Rightarrow> Some (Inr [v])
      | None \<Rightarrow>
        (case map_of names (to_upper tok) of Some v \<Rightarrow> Some (Inr [v])
         | None \<Rightarrow>
           (case cron_step (to_upper tok) of
              None \<Rightarrow> Some (Inl (''bad step in '' @ go_quote tok))
            | Some (base, step) \<Rightarrow>
                (case cron_bounds tok base mn mx of
                   Inl err \<Rightarrow> Some (Inl err)
                 | Inr (lo, hi) \<Rightarrow> do { vs \<leftarrow> cron_values lo hi step; Some (Inr vs) }))))"

fun cron_elements :: "string list \<Rightarrow> (string \<times> int) list \<Rightarrow> int \<Rightarrow> int \<Rightarrow> int list \<Rightarrow> int list result option" where
  "cron_elements [] names mn mx acc = Some (Inr acc)"
| "cron_elements (p # ps) names mn mx acc =
     (let part = trim_space p in
      if part = [] then cron_elements ps names mn mx acc
      else do {
        r \<leftarrow> parse_cron_range part names mn mx;
        case r of Inl err \<Rightarrow> Some (Inl err)
        | Inr vs \<Rightarrow> cron_elements ps names mn mx (acc @ vs) })"

definition parse_cron_field :: "string \<Rightarrow> (string \<times> int) list \<Rightarrow> int \<Rightarrow> int \<Rightarrow> cron_field result option" where
  "parse_cron_field field names mn mx =
     (if field = ''*'' then Some (Inr \<lparr>cf_values = [], cf_all = True\<rparr>)
      else do {
        r \<leftarrow> cron_elements (split_on (CHR '','') field) names mn mx [];
        case r of Inl err \<Rightarrow> Some (Inl err)
        | Inr vs \<Rightarrow> Some (if vs = [] then Inl (''empty cron field '' @ go_quote field)
                          else Inr \<lparr>cf_values = vs, cf_all = False\<rparr>) })"

record cron_schedule =
  cs_minute :: cron_field
  cs_hour :: cron_field
  cs_dom :: cron_field
  cs_month :: cron_field
  cs_dow :: cron_field

text \<open>Parsing stops at the first field with an error.\<close>

definition and_then :: "'a result option \<Rightarrow> ('a \<Rightarrow> 'b result option) \<Rightarrow> 'b result option" where
  "and_then r f = do { x \<leftarrow> r; case x of Inl err \<Rightarrow> Some (Inl err) | Inr y \<Rightarrow> f y }"

definition parse_cron_schedule :: "string \<Rightarrow> cron_schedule result option" where
  "parse_cron_schedule expr =
     (case str_fields expr of
        [mt, h, dm, mo, dw] \<Rightarrow>
          and_then (parse_cron_field mt [] 0 59) (\<lambda>m.
          and_then (parse_cron_field h [] 0 23) (\<lambda>hr.
          and_then (parse_cron_field dm [] 1 31) (\<lambda>d.
          and_then (parse_cron_field mo month_names 1 12) (\<lambda>mn.
          and_then (parse_cron_field dw dow_names 0 6) (\<lambda>w.
            Some (Inr \<lparr>cs_minute = m, cs_hour = hr, cs_dom = d, cs_month = mn, cs_dow = w\<rparr>))))))
      | fs \<Rightarrow> Some (Inl (''cron expression needs 5 fields, got '' @ show_nat (length fs) @ '': '' @ go_quote expr)))"

subsection \<open>Firing\<close>

record civil =
  cv_minute :: int
  cv_hour :: int
  cv_day :: int
  cv_month :: int
  cv_weekday :: int

definition day_matches :: "cron_schedule \<Rightarrow> civil \<Rightarrow> bool" where
  "day_matches s t =
     (let in_dom = cron_contains (cs_dom s) (cv_day t); in_dow = cron_contains (cs_dow s) (cv_weekday t) in
      if \<not> cf_all (cs_dom s) \<and> \<not> cf_all (cs_dow s) then in_dom \<or> in_dow
      else if \<not> cf_all (cs_dom s) then in_dom
      else if \<not> cf_all (cs_dow s) then in_dow
      else True)"

definition cron_matches :: "cron_schedule \<Rightarrow> civil \<Rightarrow> bool" where
  "cron_matches s t =
     (cron_contains (cs_minute s) (cv_minute t) \<and> cron_contains (cs_hour s) (cv_hour t) \<and>
      cron_contains (cs_month s) (cv_month t) \<and> day_matches s t)"

definition cron_search_cap :: nat where "cron_search_cap = 366 * 24 * 60"

text \<open>The search steps from minute to minute in the direction \<open>d\<close>.\<close>

fun cron_search :: "(int \<Rightarrow> civil) \<Rightarrow> cron_schedule \<Rightarrow> int \<Rightarrow> nat \<Rightarrow> int \<Rightarrow> int option" where
  "cron_search cal s d 0 t = None"
| "cron_search cal s d (Suc n) t =
     (if cron_matches s (cal t) then Some t else cron_search cal s d n (t + d))"

text \<open>Times are nanoseconds, and truncation gives the minute they are in.\<close>

definition minute_of :: "int \<Rightarrow> int" where
  "minute_of ns = ns div (60 * 1000000000)"

definition cron_next :: "(int \<Rightarrow> civil) \<Rightarrow> cron_schedule \<Rightarrow> int \<Rightarrow> int option" where
  "cron_next cal s after = cron_search cal s 1 cron_search_cap (minute_of after + 1)"

definition cron_prev :: "(int \<Rightarrow> civil) \<Rightarrow> cron_schedule \<Rightarrow> int \<Rightarrow> int option" where
  "cron_prev cal s before = cron_search cal s (- 1) cron_search_cap (minute_of before - 1)"

subsection \<open>The value loop\<close>

lemma int64_id: "- (2 ^ 63) \<le> n \<Longrightarrow> n < 2 ^ 63 \<Longrightarrow> int64 n = n"
  by (simp add: int64_def)

definition stepped :: "int \<Rightarrow> int \<Rightarrow> int \<Rightarrow> int set" where
  "stepped lo hi step = {v. lo \<le> v \<and> v \<le> hi \<and> step dvd (v - lo)}"

lemma stepped_next:
  assumes "lo \<le> hi" and "0 < step"
  shows "stepped lo hi step = insert lo (stepped (lo + step) hi step)"
proof -
  have "lo + step \<le> v" if "lo \<le> v" "step dvd (v - lo)" "v \<noteq> lo" for v
    using that assms(2) zdvd_imp_le [of step "v - lo"] by simp
  moreover have "step dvd (v - (lo + step)) \<longleftrightarrow> step dvd (v - lo)" for v
    using dvd_add_left_iff [of step step "v - (lo + step)"] by (simp add: algebra_simps)
  ultimately show ?thesis using assms by (auto simp: stepped_def)
qed

lemma cron_values_some:
  assumes "0 < step" and "- (2 ^ 63) \<le> lo" and "hi + step < 2 ^ 63"
  shows "\<exists>vs. cron_values lo hi step = Some vs \<and> set vs = stepped lo hi step"
  using assms
proof (induction "nat (hi + 1 - lo)" arbitrary: lo rule: less_induct)
  case less
  show ?case
  proof (cases "lo \<le> hi")
    case False
    then show ?thesis by (subst cron_values.simps) (auto simp: stepped_def)
  next
    case True
    then have i: "int64 (lo + step) = lo + step" using less.prems by (intro int64_id) auto
    obtain vs where vs: "cron_values (lo + step) hi step = Some vs" "set vs = stepped (lo + step) hi step"
      using less.hyps [of "lo + step"] less.prems True by auto
    show ?thesis
      by (subst cron_values.simps) (use True i vs stepped_next [OF True less.prems(1)] in auto)
  qed
qed

text \<open>With the greatest int as the upper bound the condition is always true.\<close>

lemma int64_le: "int64 n \<le> 2 ^ 63 - 1"
  using pos_mod_bound [of "2 ^ 64" "n + 2 ^ 63"] by (simp add: int64_def)

lemma cron_values_diverges: "v \<le> 2 ^ 63 - 1 \<Longrightarrow> cron_values v (2 ^ 63 - 1) step = None"
proof -
  have "v \<le> 2 ^ 63 - 1 \<Longrightarrow> cron_values v (2 ^ 63 - 1) step \<noteq> Some vs" for v vs
  proof (induction vs arbitrary: v)
    case (Cons x xs)
    then show ?case using int64_le by (subst cron_values.simps) (auto split: bind_splits)
  qed (subst cron_values.simps, auto split: bind_splits)
  then show "v \<le> 2 ^ 63 - 1 \<Longrightarrow> cron_values v (2 ^ 63 - 1) step = None"
    by (cases "cron_values v (2 ^ 63 - 1) step") auto
qed

subsection \<open>Parsing returns\<close>

lemma digits_val_less: "list_all is_digit s \<Longrightarrow> digits_val s < 10 ^ length s"
proof (induction s rule: rev_induct)
  case (snoc c s)
  have "of_char c - 48 \<le> (9 :: nat)" using snoc.prems by (simp add: is_digit_def) linarith
  moreover have "digits_val s < 10 ^ length s" using snoc by simp
  ultimately show ?case by (simp add: digits_val_def)
qed (simp add: digits_val_def)

lemma atoi_less: "atoi s = Some n \<Longrightarrow> \<bar>n\<bar> < 10 ^ length s"
proof (cases s)
  case (Cons c cs)
  assume a: "atoi s = Some n"
  have d: "parse_digits t = Some k \<Longrightarrow> int k < 10 ^ length t" for t k
    using digits_val_less [of t] by (auto simp: parse_digits_def split: if_splits)
  have m: "int k < 10 ^ length cs \<Longrightarrow> int k < 10 ^ length s" for k
  proof -
    have "(10 :: int) ^ length cs \<le> 10 ^ length s" using Cons by (simp add: power_increasing)
    then show "int k < 10 ^ length cs \<Longrightarrow> int k < 10 ^ length s" by linarith
  qed
  from a Cons show ?thesis using d [of cs] d [of s] m
    by (auto split: if_splits option.splits)
qed simp

lemma cut_on_length: "cut_on d s = Some (a, b) \<Longrightarrow> length a + length b < length s"
  by (induction s arbitrary: a b) (auto split: if_splits)

text \<open>Tokens of at most 18 characters hold numbers below \<open>10 ^ 18\<close>, so the loop cannot overflow.\<close>

lemma atoi_small: "atoi s = Some n \<Longrightarrow> length s \<le> 18 \<Longrightarrow> \<bar>n\<bar> < 10 ^ 18"
  using atoi_less [of s n] power_increasing [of "length s" 18 "10 :: int"] by linarith

lemma cron_step_small:
  "cron_step tok = Some (base, step) \<Longrightarrow> length tok \<le> 18 \<Longrightarrow> length base \<le> 18 \<and> 0 < step \<and> step < 10 ^ 18"
  using cut_on_length [of "CHR ''/''" tok] atoi_small
  by (fastforce simp: cron_step_def split: option.splits prod.splits if_splits)

lemma cron_bounds_small:
  assumes "cron_bounds orig base mn mx = Inr (lo, hi)" and "length base \<le> 18" and "0 \<le> mn" and "mx < 100"
  shows "- (10 ^ 18) < lo \<and> hi < 10 ^ 18"
  using assms cut_on_length [of "CHR ''-''" base] atoi_small
  by (fastforce simp: cron_bounds_def split: option.splits prod.splits if_splits)

lemma parse_cron_range_returns:
  assumes "length tok \<le> 18" and "0 \<le> mn" and "mx < 100"
  shows "parse_cron_range tok names mn mx \<noteq> None"
proof -
  have u: "length (to_upper tok) \<le> 18" using assms(1) by (simp add: to_upper_def)
  have "cron_values lo hi step \<noteq> None"
    if "cron_step (to_upper tok) = Some (base, step)" "cron_bounds tok base mn mx = Inr (lo, hi)" for base step lo hi
    using cron_step_small [OF that(1) u] cron_bounds_small [OF that(2) _ assms(2,3)] cron_values_some [of step lo hi]
    by auto
  note vals = this
  show ?thesis
  proof (cases "cron_step (to_upper tok)")
    case None
    then show ?thesis by (simp add: parse_cron_range_def split: option.splits)
  next
    case (Some bs)
    obtain base step where bs: "bs = (base, step)" by (cases bs)
    show ?thesis
      using vals [of base step] Some bs
      by (cases "cron_bounds tok base mn mx") (auto simp: parse_cron_range_def split: option.splits prod.splits bind_splits)
  qed
qed

lemma trim_space_length: "length (trim_space s) \<le> length s"
  unfolding trim_space_def trim_when_def trim_left_when_def trim_right_when_def
  by (metis length_dropWhile_le length_rev order_trans)

lemma cron_elements_returns:
  assumes "list_all (\<lambda>p. length p \<le> 18) ps" and "0 \<le> mn" and "mx < 100"
  shows "cron_elements ps names mn mx acc \<noteq> None"
  using assms(1)
proof (induction ps arbitrary: acc)
  case (Cons p ps)
  then have "length (trim_space p) \<le> 18" using trim_space_length [of p] by simp
  from parse_cron_range_returns [OF this assms(2,3), of names] Cons show ?case
    by (auto simp: Let_def split: sum.splits)
qed simp

lemma split_on_short: "p \<in> set (split_on d s) \<Longrightarrow> length p \<le> length s"
proof -
  have "\<forall>p\<in>set (split_on d s). length p \<le> length s"
    unfolding split_on_def by (induction s) (auto split: list.splits if_splits simp: le_SucI)
  then show "p \<in> set (split_on d s) \<Longrightarrow> length p \<le> length s" by blast
qed

lemma parse_cron_field_returns:
  assumes "length f \<le> 18" and "0 \<le> mn" and "mx < 100"
  shows "parse_cron_field f names mn mx \<noteq> None"
proof -
  have "list_all (\<lambda>p. length p \<le> 18) (split_on (CHR '','') f)"
    using split_on_short [of _ "CHR '',''" f] assms(1) by (fastforce simp: list_all_iff)
  from cron_elements_returns [OF this assms(2,3), of names "[]"] show ?thesis
    by (auto simp: parse_cron_field_def split: sum.splits)
qed

subsection \<open>The search\<close>

lemma cron_search_iff:
  "cron_search cal s d n t = Some u \<longleftrightarrow>
     (\<exists>k<n. u = t + int k * d \<and> cron_matches s (cal u) \<and> (\<forall>j<k. \<not> cron_matches s (cal (t + int j * d))))"
proof (induction n arbitrary: t)
  case (Suc n)
  have shift: "t + d + int k * d = t + int (Suc k) * d" for k by (simp add: algebra_simps)
  show ?case
    by (auto simp: Suc.IH shift Ex_less_Suc2 All_less_Suc2 simp del: of_nat_Suc)
qed simp

lemma minute_less: "ns < u * (60 * 1000000000) \<longleftrightarrow> minute_of ns < u"
  by (auto simp: minute_of_def div_less_iff_less_mult)

lemma cron_next_first_iff:
  "cron_next cal s after = Some t \<longleftrightarrow>
     minute_of after < t \<and> t \<le> minute_of after + int cron_search_cap \<and> cron_matches s (cal t) \<and>
     (\<forall>u. minute_of after < u \<longrightarrow> u < t \<longrightarrow> \<not> cron_matches s (cal u))" (is "?l \<longleftrightarrow> ?r")
proof
  assume ?l
  then obtain k where k: "k < cron_search_cap" "t = minute_of after + 1 + int k" "cron_matches s (cal t)"
    "\<forall>j<k. \<not> cron_matches s (cal (minute_of after + 1 + int j))"
    by (auto simp: cron_next_def cron_search_iff)
  have "\<not> cron_matches s (cal u)" if "minute_of after < u" "u < t" for u
    using k(4)[rule_format, of "nat (u - minute_of after - 1)"] that k(2) by auto
  with k show ?r by auto
next
  assume r: ?r
  then show ?l
    by (auto simp: cron_next_def cron_search_iff intro!: exI [of _ "nat (t - minute_of after - 1)"])
qed

subsection \<open>Properties\<close>

text \<open>C37: parsing a cron expression returns, with a schedule or an error, whenever none of its fields
  is longer than 18 characters: the value loop cannot overflow its counter then. (With a longer
  field it need not return: \<open>1-9223372036854775807\<close> in any field keeps the loop running.)\<close>

theorem cron_parse_returns:
  assumes "list_all (\<lambda>f. length f \<le> 18) (str_fields expr)"
  shows "parse_cron_schedule expr \<noteq> None"
proof -
  have f: "parse_cron_field f names mn mx \<noteq> None"
    if "f \<in> set (str_fields expr)" "0 \<le> mn" "mx < 100" for f names mn mx
    using parse_cron_field_returns that assms by (auto simp: list_all_iff)
  have bind: "and_then r g \<noteq> None" if "r \<noteq> None" "\<And>y. g y \<noteq> None" for r :: "'a result option" and g :: "'a \<Rightarrow> 'b result option"
    using that by (auto simp: and_then_def split: sum.splits)
  show ?thesis
    unfolding parse_cron_schedule_def using f
    by (auto split: list.splits intro!: bind [unfolded not_None_eq] simp del: not_None_eq simp add: not_None_eq [symmetric])
qed

lemma cron_parse_returns_witness: "parse_cron_schedule ''*/15 1-5 * JAN 7'' \<noteq> None"
  by (rule cron_parse_returns) code_simp

text \<open>C39: \<open>next\<close> answers with the first minute strictly after the given time at which the schedule
  fires, whatever the calendar, when there is one within a year of minutes, and with nothing
  otherwise.\<close>

theorem cron_next_first:
  "cron_next cal s after = Some t \<longleftrightarrow>
     after < t * (60 * 1000000000) \<and> t \<le> minute_of after + 366 * 24 * 60 \<and> cron_matches s (cal t) \<and>
     (\<forall>u. after < u * (60 * 1000000000) \<longrightarrow> u < t \<longrightarrow> \<not> cron_matches s (cal u))"
  unfolding cron_next_first_iff minute_less by (simp add: cron_search_cap_def)

definition half_past :: cron_schedule where
  "half_past = (let a = \<lparr>cf_values = [], cf_all = True\<rparr> in
     \<lparr>cs_minute = \<lparr>cf_values = [30], cf_all = False\<rparr>, cs_hour = a, cs_dom = a, cs_month = a, cs_dow = a\<rparr>)"

definition dial_clock :: "int \<Rightarrow> civil" where
  "dial_clock t = \<lparr>cv_minute = t mod 60, cv_hour = t div 60 mod 24, cv_day = 1, cv_month = 1, cv_weekday = 4\<rparr>"

lemma cron_next_first_witness: "cron_next dial_clock half_past (31 * (60 * 1000000000)) = Some 90"
proof -
  have m: "cron_matches half_past (dial_clock u) \<longleftrightarrow> u mod 60 = 30" for u
    by (simp add: half_past_def dial_clock_def cron_matches_def day_matches_def cron_contains_def Let_def)
  have "u mod 60 \<noteq> 30" if "31 < u" "u < 90" for u :: int
    using that by presburger
  then show ?thesis unfolding cron_next_first by (simp add: m minute_of_def)
qed

text \<open>What the code lets through: values no calendar has, a value loop without end, and a last run
  that misses the minute under way.\<close>

lemma cron_bounds_unchecked:
  "parse_cron_field ''60'' [] 0 59 = Some (Inr \<lparr>cf_values = [60], cf_all = False\<rparr>)"
  "parse_cron_field ''7'' dow_names 0 6 = Some (Inr \<lparr>cf_values = [7], cf_all = False\<rparr>)"
  by (code_simp, code_simp)

lemma cron_range_endless: "parse_cron_range ''1-9223372036854775807'' [] 0 59 = None"
proof -
  have b: "cron_step (to_upper ''1-9223372036854775807'') = Some (''1-9223372036854775807'', 1)"
    "cron_bounds ''1-9223372036854775807'' ''1-9223372036854775807'' 0 59 = Inr (1, 2 ^ 63 - 1)" by code_simp+
  show ?thesis using cron_values_diverges [of 1 1] by (simp add: parse_cron_range_def b)
qed

definition every_minute :: cron_schedule where
  "every_minute = (let a = \<lparr>cf_values = [], cf_all = True\<rparr> in
     \<lparr>cs_minute = a, cs_hour = a, cs_dom = a, cs_month = a, cs_dow = a\<rparr>)"

lemma cron_prev_skips_minute:
  "cron_prev cal every_minute (k * (60 * 1000000000) + 30 * 1000000000) = Some (k - 1) \<and>
   k * (60 * 1000000000) < k * (60 * 1000000000) + 30 * 1000000000 \<and> cron_matches every_minute (cal k)"
proof -
  have m: "cron_matches every_minute c" for c
    by (simp add: every_minute_def cron_matches_def day_matches_def cron_contains_def Let_def)
  have "minute_of (k * (60 * 1000000000) + 30 * 1000000000) = k"
    by (simp add: minute_of_def)
  moreover have "cron_search cal every_minute d cron_search_cap t = Some t" for d t
    unfolding cron_search_iff by (rule exI [of _ 0]) (simp add: m cron_search_cap_def)
  ultimately show ?thesis by (simp add: cron_prev_def m)
qed

end
