(* ===== verification/Probes.thy ===== *)
theory Probes
  imports Cron "HOL-Library.AList"
begin

text \<open>
  The probes behind the service metrics: \<open>service_extra_probes.go\<close> and the service part of
  \<open>telemetry.go\<close>. A probe reads command output and \<open>/proc\<close> and keeps two caches. Clock, calendar,
  time formats and float text are arguments; a CPU percentage is kept as what it is computed from.
\<close>

subsection \<open>Metrics and caches\<close>

text \<open>\<open>CpuUnset\<close> is 0, \<open>CpuNoRate\<close> is -1, \<open>CpuDelta d\<close> is \<open>d\<close> nanoseconds in the 30 s window,
  \<open>CpuText s\<close> is the float \<open>s\<close>.\<close>

datatype cpu_reading = CpuUnset | CpuNoRate | CpuDelta int | CpuText string

record service_metric =
  sm_name :: string
  sm_active :: bool
  sm_substate :: string
  sm_loadstate :: string
  sm_subtype :: string
  sm_cpu :: cpu_reading
  sm_cpu_ns :: int
  sm_memory :: "64 word"
  sm_restarts :: "64 word"
  sm_uptime :: int
  sm_next :: string
  sm_last :: string
  sm_triggered :: "64 word"
  sm_status :: string

definition new_metric :: "string \<Rightarrow> string \<Rightarrow> string \<Rightarrow> service_metric" where
  "new_metric name subtype loadstate =
     \<lparr>sm_name = name, sm_active = False, sm_substate = [], sm_loadstate = loadstate, sm_subtype = subtype,
      sm_cpu = CpuUnset, sm_cpu_ns = 0, sm_memory = 0, sm_restarts = 0, sm_uptime = 0, sm_next = [], sm_last = [],
      sm_triggered = 0, sm_status = []\<rparr>"

record probe_env =
  pv_env :: env
  pv_proc :: "(string \<times> bool) list"
  pv_now :: int
  pv_since :: "string \<Rightarrow> int option"
  pv_systemd_since :: "string \<Rightarrow> int option"
  pv_rfc3339 :: "string \<Rightarrow> int option"
  pv_format :: "int \<Rightarrow> string"
  pv_calendar :: "int \<Rightarrow> civil"
  pv_percent :: "string \<Rightarrow> bool"
  pv_bytes :: "string \<Rightarrow> nat \<Rightarrow> 64 word option"
  pv_evict :: "string list \<Rightarrow> nat"

record probe_state =
  ps_world :: world
  ps_cpu :: "(string \<times> int) list"
  ps_cron :: "string \<Rightarrow> int option"
  ps_counts :: "string \<Rightarrow> 64 word"

type_synonym 'a probe = "probe_state \<Rightarrow> 'a \<times> probe_state"

definition exec_probe :: "probe_env \<Rightarrow> string \<Rightarrow> string list \<Rightarrow> (string \<times> string option) probe" where
  "exec_probe pe prog args ps =
     (let (r, w) = run_cmd (pv_env pe) (ps_world ps) prog args in (r, ps\<lparr>ps_world := w\<rparr>))"

definition proc_file :: "probe_env \<Rightarrow> probe_state \<Rightarrow> string \<Rightarrow> string \<Rightarrow> string result" where
  "proc_file pe ps pid f = read_file (pv_env pe) (ps_world ps) (''/proc/'' @ pid @ ''/'' @ f)"

subsection \<open>Numbers in text\<close>

text \<open>\<open>v, _ := ParseUint\<close> and \<open>ParseInt\<close>: the nearest bound when out of range, 0 when no number.\<close>

definition parse_uint_sat :: "string \<Rightarrow> 64 word" where
  "parse_uint_sat s =
     (case parse_digits s of None \<Rightarrow> 0 | Some n \<Rightarrow> if n < 2 ^ 64 then of_nat n else - 1)"

definition parse_int_sat :: "string \<Rightarrow> int" where
  "parse_int_sat s =
     (case atoi s of Some n \<Rightarrow> n
      | None \<Rightarrow>
          if s \<noteq> [] \<and> hd s = CHR ''-'' then (if parse_digits (tl s) = None then 0 else - (2 ^ 63))
          else if parse_digits (if s \<noteq> [] \<and> hd s = CHR ''+'' then tl s else s) = None then 0 else 2 ^ 63 - 1)"

definition last_paren :: "string \<Rightarrow> string option" where
  "last_paren s = (if CHR '')'' \<in> set s then Some (rev (takeWhile (\<lambda>c. c \<noteq> CHR '')'') (rev s))) else None)"

definition stat_field :: "string \<Rightarrow> nat \<Rightarrow> 64 word" where
  "stat_field s field =
     (case last_paren s of None \<Rightarrow> 0
      | Some rest \<Rightarrow> (let fs = str_fields rest in
          if field \<ge> 3 \<and> field - 3 < length fs then parse_uint_sat (fs ! (field - 3)) else 0))"

definition size_suffixes :: "(string \<times> nat) list" where
  "size_suffixes = [(''TIB'', 2 ^ 40), (''GIB'', 2 ^ 30), (''MIB'', 2 ^ 20), (''KIB'', 2 ^ 10), (''TB'', 10 ^ 12),
     (''GB'', 10 ^ 9), (''MB'', 10 ^ 6), (''KB'', 10 ^ 3), (''B'', 1)]"

definition parse_size_bytes :: "probe_env \<Rightarrow> string \<Rightarrow> 64 word" where
  "parse_size_bytes pe s0 =
     (let s = trim_space s0 in
      if s = [] then 0
      else (case (case find (\<lambda>(suf, m). has_suffix (to_upper s) suf) size_suffixes of
              None \<Rightarrow> pv_bytes pe s 1
            | Some (suf, m) \<Rightarrow> pv_bytes pe (trim_space (take (length s - length suf) s)) m) of
          None \<Rightarrow> 0 | Some b \<Rightarrow> b))"

definition before :: "char \<Rightarrow> string \<Rightarrow> string" where
  "before c s = takeWhile (\<lambda>d. d \<noteq> c) s"

definition parse_mem_usage :: "probe_env \<Rightarrow> string \<Rightarrow> 64 word" where
  "parse_mem_usage pe s = parse_size_bytes pe (trim_space (before (CHR ''/'') s))"

definition percent_text :: "string \<Rightarrow> string" where
  "percent_text s = trim_suffix (trim_space s) ''%''"

text \<open>\<open>key=value\<close> lines; a later one replaces an earlier.\<close>

definition equals_lines :: "string \<Rightarrow> (string \<times> string) list" where
  "equals_lines out =
     concat (map (\<lambda>l. case cut_on (CHR ''='') l of None \<Rightarrow> []
       | Some (k, v) \<Rightarrow> if k = [] then [] else [(trim_space k, trim_space v)]) (rev (split_on NL out)))"

definition show_field :: "(string \<times> string) list \<Rightarrow> string \<Rightarrow> string" where
  "show_field ps k = (case map_of ps k of None \<Rightarrow> [] | Some v \<Rightarrow> v)"

subsection \<open>CPU rates\<close>

definition max_cache_entries :: nat where "max_cache_entries = 1024"

definition evict :: "probe_env \<Rightarrow> string \<Rightarrow> (string \<times> int) list \<Rightarrow> (string \<times> int) list" where
  "evict pe name cache =
     (let ks = filter (\<lambda>k. k \<noteq> name) (map fst cache) in
      if ks = [] then cache else AList.delete (ks ! (pv_evict pe ks mod length ks)) cache)"

definition cpu_rate_for :: "probe_env \<Rightarrow> string \<Rightarrow> int \<Rightarrow> cpu_reading probe" where
  "cpu_rate_for pe name ns ps =
     (if ns < 0 then (CpuNoRate, ps)
      else (let cache = AList.update name ns (ps_cpu ps);
                cache' = (if length cache > max_cache_entries then evict pe name cache else cache)
            in (case map_of (ps_cpu ps) name of
                  None \<Rightarrow> CpuNoRate
                | Some prev \<Rightarrow> if ns < prev then CpuNoRate else CpuDelta (ns - prev),
                ps\<lparr>ps_cpu := cache'\<rparr>)))"

subsection \<open>Services under an init system or a container engine\<close>

definition systemd_status_fields :: string where
  "systemd_status_fields = ''ActiveState,SubState,LoadState,CPUUsageNS,MemoryCurrent,NRestarts,ActiveEnterTimestamp''"

definition uint_or :: "64 word \<Rightarrow> string \<Rightarrow> 64 word" where
  "uint_or d s = (case parse_uint s of None \<Rightarrow> d | Some n \<Rightarrow> of_nat n)"

definition since_or :: "(string \<Rightarrow> int option) \<Rightarrow> string \<Rightarrow> int" where
  "since_or since s = (case since s of None \<Rightarrow> 0 | Some u \<Rightarrow> u)"

definition probe_service :: "probe_env \<Rightarrow> string \<Rightarrow> service_metric probe" where
  "probe_service pe name ps =
     (case exec_probe pe ''systemctl'' [''show'', name, ''--property='' @ systemd_status_fields] ps of
        ((out, Some err), ps1) \<Rightarrow> ((new_metric name [] ''not-found'')\<lparr>sm_substate := ''dead''\<rparr>, ps1)
      | ((out, None), ps1) \<Rightarrow>
          (let kv = equals_lines out; get = show_field kv;
               m = (new_metric name [] (get ''LoadState''))
                 \<lparr>sm_active := (get ''ActiveState'' = ''active''), sm_substate := get ''SubState'',
                  sm_memory := uint_or 0 (get ''MemoryCurrent''), sm_restarts := uint_or 0 (get ''NRestarts''),
                  sm_uptime := (if get ''ActiveEnterTimestamp'' = [] then 0
                    else since_or (pv_systemd_since pe) (get ''ActiveEnterTimestamp''))\<rparr>
           in (case atoi (get ''CPUUsageNS'') of
                 None \<Rightarrow> (m, ps1)
               | Some ns \<Rightarrow> (case cpu_rate_for pe name ns ps1 of (c, ps2) \<Rightarrow>
                   (m\<lparr>sm_cpu_ns := ns, sm_cpu := c\<rparr>, ps2)))))"

definition inspect_format :: string where
  "inspect_format = ''{{.State.Running}}|{{.State.Status}}|{{.RestartCount}}|{{.State.StartedAt}}''"

definition stats_format :: string where "stats_format = ''{{.CPUPerc}}|{{.MemUsage}}''"

definition inspected :: "probe_env \<Rightarrow> string \<Rightarrow> service_metric \<Rightarrow> service_metric" where
  "inspected pe out m =
     (case split_on (CHR ''|'') (trim_space out) of
        running # status # restarts # started # others \<Rightarrow>
          m\<lparr>sm_active := (trim_space running = ''true''), sm_substate := trim_space status, sm_loadstate := ''loaded'',
            sm_restarts := uint_or 0 (trim_space restarts), sm_uptime := since_or (pv_since pe) (trim_space started)\<rparr>
      | _ \<Rightarrow> m)"

definition with_stats :: "probe_env \<Rightarrow> string \<Rightarrow> service_metric \<Rightarrow> service_metric" where
  "with_stats pe out m =
     (case split_on (CHR ''|'') (trim_space out) of
        cpu # mem # others \<Rightarrow>
          (let m1 = (if pv_percent pe (percent_text cpu) then m\<lparr>sm_cpu := CpuText (percent_text cpu)\<rparr> else m);
               b = parse_mem_usage pe (trim_space mem)
           in if b > 0 then m1\<lparr>sm_memory := b\<rparr> else m1)
      | _ \<Rightarrow> m)"

text \<open>Podman is asked for its statistics only when the container runs.\<close>

definition probe_container :: "string \<Rightarrow> bool \<Rightarrow> probe_env \<Rightarrow> string \<Rightarrow> service_metric probe" where
  "probe_container engine always pe name ps =
     (case exec_probe pe engine [''inspect'', name, ''--format'', inspect_format] ps of
        ((out, Some err), ps1) \<Rightarrow> (new_metric name engine ''not-found'', ps1)
      | ((out, None), ps1) \<Rightarrow>
          (let m = inspected pe out (new_metric name engine ''not-found'') in
           if \<not> always \<and> \<not> sm_active m then (m, ps1)
           else (case exec_probe pe engine [''stats'', ''--no-stream'', ''--format'', stats_format, name] ps1 of
               ((st, Some err), ps2) \<Rightarrow> (m, ps2) | ((st, None), ps2) \<Rightarrow> (with_stats pe st m, ps2))))"

definition probe_docker :: "probe_env \<Rightarrow> string \<Rightarrow> service_metric probe" where
  "probe_docker = probe_container ''docker'' True"

definition probe_podman :: "probe_env \<Rightarrow> string \<Rightarrow> service_metric probe" where
  "probe_podman = probe_container ''podman'' False"

definition timer_fields :: string where
  "timer_fields = ''ActiveState,NextElapseUSecMonotonic,LastTriggerUSec,TriggeredBy,NextElapseRealtime''"

text \<open>Go's integer division truncates towards zero.\<close>

definition usec_seconds :: "int \<Rightarrow> int" where
  "usec_seconds us = (if us \<ge> 0 then us div 1000000 else - (- us div 1000000))"

definition probe_timer :: "probe_env \<Rightarrow> string \<Rightarrow> service_metric probe" where
  "probe_timer pe name ps =
     (let unit = (if has_suffix name ''.timer'' then name else name @ ''.timer'') in
      case exec_probe pe ''systemctl'' [''show'', unit, ''--property='' @ timer_fields] ps of
        ((out, Some err), ps1) \<Rightarrow> (new_metric name ''systemd-timer'' ''not-found'', ps1)
      | ((out, None), ps1) \<Rightarrow>
          (let get = show_field (equals_lines out); nxt = get ''NextElapseRealtime''; lst = get ''LastTriggerUSec'' in
           ((new_metric name ''systemd-timer'' ''loaded'')
             \<lparr>sm_active := (get ''ActiveState'' = ''active''), sm_substate := get ''ActiveState'',
              sm_next := (if nxt = [] \<or> nxt = ''n/a'' then []
                else (case pv_rfc3339 pe nxt of None \<Rightarrow> [] | Some t \<Rightarrow> pv_format pe t)),
              sm_last := (if lst = [] \<or> lst = ''n/a'' \<or> lst = ''0'' then []
                else (case atoi lst of None \<Rightarrow> [] | Some us \<Rightarrow> pv_format pe (usec_seconds us)))\<rparr>, ps1)))"

definition probe_lxc :: "probe_env \<Rightarrow> string \<Rightarrow> service_metric probe" where
  "probe_lxc pe name ps =
     (case exec_probe pe ''lxc-info'' [''-n'', name, ''-s'', ''-H'', ''-p'', ''-H''] ps of
        ((out, Some err), ps1) \<Rightarrow> (new_metric name ''lxc'' ''not-found'', ps1)
      | ((out, None), ps1) \<Rightarrow>
          (foldl (\<lambda>m l. case cut_on (CHR '':'') l of None \<Rightarrow> m
             | Some (k, v) \<Rightarrow> if trim_space k = ''State''
                 then m\<lparr>sm_active := (trim_space v = ''RUNNING''), sm_substate := to_lower (trim_space v), sm_status := trim_space v\<rparr>
                 else m)
             (new_metric name ''lxc'' ''loaded'') (split_on NL (trim_space out)), ps1))"

definition probe_kvm :: "probe_env \<Rightarrow> string \<Rightarrow> service_metric probe" where
  "probe_kvm pe name ps =
     (case exec_probe pe ''virsh'' [''domstate'', name] ps of
        ((out, Some err), ps1) \<Rightarrow> (new_metric name ''kvm'' ''not-found'', ps1)
      | ((out, None), ps1) \<Rightarrow>
          (let state = trim_space out in
           ((new_metric name ''kvm'' ''loaded'')
             \<lparr>sm_active := (to_lower state = ''running''), sm_substate := to_lower state, sm_status := state\<rparr>, ps1)))"

subsection \<open>Bare processes\<close>

definition process_start :: "probe_env \<Rightarrow> probe_state \<Rightarrow> string \<Rightarrow> 64 word" where
  "process_start pe ps pid = (case proc_file pe ps pid ''stat'' of Inl err \<Rightarrow> 0 | Inr s \<Rightarrow> stat_field s 22)"

definition comm_matches :: "string \<Rightarrow> string \<Rightarrow> bool" where
  "comm_matches comm name = (comm = name \<or> has_prefix comm name)"

fun find_process :: "probe_env \<Rightarrow> probe_state \<Rightarrow> string \<Rightarrow> (string \<times> bool) list \<Rightarrow> string \<Rightarrow> 64 word \<Rightarrow> string" where
  "find_process pe ps name [] best start = best"
| "find_process pe ps name ((pid, dir) # es) best start =
     (if \<not> dir \<or> atoi pid = None then find_process pe ps name es best start
      else (case proc_file pe ps pid ''comm'' of
          Inl err \<Rightarrow> find_process pe ps name es best start
        | Inr comm \<Rightarrow>
            if \<not> comm_matches (trim_space comm) name then find_process pe ps name es best start
            else if process_start pe ps pid \<ge> start
            then find_process pe ps name es pid (process_start pe ps pid)
            else find_process pe ps name es best start))"

definition find_process_by_comm :: "probe_env \<Rightarrow> string \<Rightarrow> probe_state \<Rightarrow> string" where
  "find_process_by_comm pe name ps = find_process pe ps name (pv_proc pe) [] 0"

definition clock_ticks :: "probe_env \<Rightarrow> (64 word) probe" where
  "clock_ticks pe ps =
     (case exec_probe pe ''getconf'' [''CLK_TCK''] ps of
        ((out, Some err), ps1) \<Rightarrow> (100, ps1)
      | ((out, None), ps1) \<Rightarrow> (let v = uint_or 0 (trim_space out) in (if v > 0 then v else 100, ps1)))"

definition boot_time :: "probe_env \<Rightarrow> probe_state \<Rightarrow> int" where
  "boot_time pe ps =
     (case read_file (pv_env pe) (ps_world ps) ''/proc/stat'' of
        Inl err \<Rightarrow> 0
      | Inr s \<Rightarrow> (case find (\<lambda>l. has_prefix l ''btime '') (split_on NL s) of
            None \<Rightarrow> 0 | Some l \<Rightarrow> parse_int_sat (trim_space (drop 6 l))))"

definition process_uptime :: "probe_env \<Rightarrow> string \<Rightarrow> int probe" where
  "process_uptime pe pid ps =
     (case proc_file pe ps pid ''stat'' of
        Inl err \<Rightarrow> (0, ps)
      | Inr s \<Rightarrow>
          if stat_field s 22 = 0 then (0, ps)
          else (case clock_ticks pe ps of (hz, ps1) \<Rightarrow>
            (let boot = boot_time pe ps1; start = int64 (boot + sint (stat_field s 22 div hz)) in
             (if hz = 0 \<or> boot = 0 then 0
              else if start > 0 \<and> pv_now pe \<ge> start then pv_now pe - start else 0, ps1))))"

definition process_cpu :: "probe_env \<Rightarrow> string \<Rightarrow> cpu_reading probe" where
  "process_cpu pe pid ps =
     (case proc_file pe ps pid ''stat'' of
        Inl err \<Rightarrow> (CpuNoRate, ps)
      | Inr s \<Rightarrow>
          (case clock_ticks pe ps of (hz, ps1) \<Rightarrow>
             if hz = 0 then (CpuNoRate, ps1)
             else cpu_rate_for pe (''proc:'' @ pid) (sint ((stat_field s 14 + stat_field s 15) * 1000000000 div hz)) ps1))"

text \<open>The first \<open>VmRSS\<close> line whose number parses.\<close>

fun vm_rss :: "string list \<Rightarrow> 64 word" where
  "vm_rss [] = 0"
| "vm_rss (l # ls) =
     (if \<not> has_prefix l ''VmRSS:'' then vm_rss ls
      else (case str_fields l of
          a # kb # others \<Rightarrow> (case parse_uint kb of Some n \<Rightarrow> of_nat n * 1024 | None \<Rightarrow> vm_rss ls)
        | _ \<Rightarrow> vm_rss ls))"

definition process_memory :: "probe_env \<Rightarrow> string \<Rightarrow> probe_state \<Rightarrow> 64 word" where
  "process_memory pe pid ps =
     (case proc_file pe ps pid ''status'' of Inl err \<Rightarrow> 0 | Inr s \<Rightarrow> vm_rss (split_on NL s))"

definition probe_process :: "probe_env \<Rightarrow> string \<Rightarrow> service_metric probe" where
  "probe_process pe name ps =
     (let pid = (case atoi name of Some n \<Rightarrow> itoa n | None \<Rightarrow> find_process_by_comm pe name ps);
          m = new_metric name ''process'' ''not-found'' in
      if pid = [] then (m, ps)
      else (case process_uptime pe pid ps of (u, ps1) \<Rightarrow>
        (case process_cpu pe pid ps1 of (c, ps2) \<Rightarrow>
           (m\<lparr>sm_loadstate := ''loaded'', sm_substate := ''running'', sm_active := True, sm_restarts := 0,
              sm_uptime := (if u > 0 then u else 0), sm_cpu := c, sm_memory := process_memory pe pid ps2\<rparr>, ps2))))"

subsection \<open>Cron entries\<close>

definition cron_add_file :: "probe_env \<Rightarrow> probe_state \<Rightarrow> string \<Rightarrow> string list \<Rightarrow> string list" where
  "cron_add_file pe ps path ls =
     (case read_file (pv_env pe) (ps_world ps) path of
        Inl err \<Rightarrow> ls
      | Inr s \<Rightarrow> foldl (\<lambda>acc l. let t = trim_space l in
            if t = [] \<or> has_prefix t ''#'' \<or> t \<in> set acc then acc else acc @ [t]) ls (split_on NL s))"

definition cron_config_lines :: "probe_env \<Rightarrow> string \<Rightarrow> probe_state \<Rightarrow> string list" where
  "cron_config_lines pe name ps =
     (if validate_service_name name \<noteq> None then []
      else cron_add_file pe ps (''/var/spool/cron/'' @ name)
             (cron_add_file pe ps ''/etc/crontab'' (cron_add_file pe ps (''/etc/cron.d/'' @ name) [])))"

definition cron_expr_of :: "string \<Rightarrow> string option" where
  "cron_expr_of line =
     (let fs = str_fields line in
      if length fs < 5 then Some []
      else (let expr = join '' '' (take 5 fs) in
        do { r \<leftarrow> parse_cron_schedule expr; Some (case r of Inl err \<Rightarrow> [] | Inr s \<Rightarrow> expr) }))"

definition cron_triggered_count :: "string \<Rightarrow> int \<Rightarrow> (64 word) probe" where
  "cron_triggered_count name lst ps =
     (case ps_cron ps name of
        None \<Rightarrow> (1, ps\<lparr>ps_cron := (ps_cron ps)(name \<mapsto> lst), ps_counts := (ps_counts ps)(name := 1)\<rparr>)
      | Some prev \<Rightarrow>
          if prev = lst then (ps_counts ps name, ps)
          else (let n = (if lst > prev then ps_counts ps name + 1 else ps_counts ps name) in
            (n, ps\<lparr>ps_cron := (ps_cron ps)(name \<mapsto> lst), ps_counts := (ps_counts ps)(name := n)\<rparr>)))"

text \<open>The nearest next and the latest last run over all job lines, in minutes.\<close>

record cron_scan =
  sc_active :: bool
  sc_next :: "int option"
  sc_last :: "int option"

definition nearer :: "(int \<Rightarrow> int \<Rightarrow> bool) \<Rightarrow> int option \<Rightarrow> int option \<Rightarrow> int option" where
  "nearer better new old =
     (case new of None \<Rightarrow> old | Some n \<Rightarrow> (case old of None \<Rightarrow> new | Some o' \<Rightarrow> if better n o' then new else old))"

fun cron_scan_lines :: "probe_env \<Rightarrow> string list \<Rightarrow> cron_scan \<Rightarrow> cron_scan option" where
  "cron_scan_lines pe [] sc = Some sc"
| "cron_scan_lines pe (l # ls) sc = do {
     expr \<leftarrow> cron_expr_of l;
     if expr = [] then cron_scan_lines pe ls sc
     else do {
       r \<leftarrow> parse_cron_schedule expr;
       case r of Inl err \<Rightarrow> cron_scan_lines pe ls (sc\<lparr>sc_active := True\<rparr>)
       | Inr s \<Rightarrow> cron_scan_lines pe ls
           \<lparr>sc_active = True,
            sc_next = nearer (<) (cron_next (pv_calendar pe) s (pv_now pe * 1000000000)) (sc_next sc),
            sc_last = nearer (>) (cron_prev (pv_calendar pe) s (pv_now pe * 1000000000)) (sc_last sc)\<rparr> } }"

definition probe_cron :: "probe_env \<Rightarrow> string \<Rightarrow> probe_state \<Rightarrow> (service_metric \<times> probe_state) option" where
  "probe_cron pe name ps =
     (let ls = cron_config_lines pe name ps; m = new_metric name ''cron'' ''loaded'' in
      if ls = [] then Some (m\<lparr>sm_substate := ''not-found'', sm_loadstate := ''not-found''\<rparr>, ps)
      else do {
        sc \<leftarrow> cron_scan_lines pe ls \<lparr>sc_active = False, sc_next = None, sc_last = None\<rparr>;
        let m1 = m\<lparr>sm_active := sc_active sc, sm_substate := ''configured'',
                   sm_status := (if sc_active sc then ''scheduled'' else []),
                   sm_next := (case sc_next sc of None \<Rightarrow> [] | Some t \<Rightarrow> pv_format pe (t * 60))\<rparr>;
        Some (case sc_last sc of None \<Rightarrow> (m1, ps)
          | Some t \<Rightarrow> (case cron_triggered_count name (t * 60) ps of (n, ps1) \<Rightarrow>
              (m1\<lparr>sm_last := pv_format pe (t * 60), sm_triggered := n\<rparr>, ps1))) })"

subsection \<open>All registered services\<close>

definition probe_registered :: "probe_env \<Rightarrow> registered_service \<Rightarrow> probe_state \<Rightarrow> (service_metric \<times> probe_state) option" where
  "probe_registered pe rs ps =
     (let t = sub_type_or rs ''systemd''; n = rs_name rs in
      if t = ''docker'' then Some (probe_docker pe n ps)
      else if t = ''podman'' then Some (probe_podman pe n ps)
      else if t = ''process'' then Some (probe_process pe n ps)
      else if t = ''systemd-timer'' then Some (probe_timer pe n ps)
      else if t = ''cron'' then probe_cron pe n ps
      else if t = ''lxc'' then Some (probe_lxc pe n ps)
      else if t = ''kvm'' \<or> t = ''libvirt'' then Some (probe_kvm pe n ps)
      else Some (probe_service pe n ps))"

fun collect_service_metrics :: "probe_env \<Rightarrow> registered_service list \<Rightarrow> probe_state \<Rightarrow> (service_metric list \<times> probe_state) option" where
  "collect_service_metrics pe [] ps = Some ([], ps)"
| "collect_service_metrics pe (rs # rss) ps =
     (if rs_name rs = [] then collect_service_metrics pe rss ps
      else do {
        (m, ps1) \<leftarrow> probe_registered pe rs ps;
        (ms, ps2) \<leftarrow> collect_service_metrics pe rss ps1;
        Some (m # ms, ps2) })"

subsection \<open>Laws of the caches\<close>

definition cache_ok :: "probe_state \<Rightarrow> bool" where
  "cache_ok ps = (distinct (map fst (ps_cpu ps)) \<and> length (ps_cpu ps) \<le> max_cache_entries)"

lemma length_delete:
  assumes "distinct (map fst c)" and "k \<in> set (map fst c)"
  shows "length (AList.delete k c) = length c - 1"
proof -
  have "map fst (AList.delete k c) = remove1 k (map fst c)"
    using assms(1) by (simp add: AList.delete_keys distinct_remove1_removeAll)
  then show ?thesis using assms(2) by (metis length_map length_remove1)
qed

lemma length_update: "length (AList.update k v c) \<le> Suc (length c)"
proof -
  have "length (map fst (AList.update k v c)) \<le> Suc (length (map fst c))"
    unfolding AList.update_keys by simp
  then show ?thesis by simp
qed

lemma evict_ok:
  assumes "distinct (map fst c)" and "name \<in> set (map fst c)" and "1 < length c"
  shows "distinct (map fst (evict pe name c))" "length (evict pe name c) = length c - 1"
    "map_of (evict pe name c) name = map_of c name"
proof -
  let ?ks = "filter (\<lambda>k. k \<noteq> name) (map fst c)"
  have "?ks \<noteq> []"
  proof
    assume "?ks = []"
    then have "set (map fst c) \<subseteq> {name}" by (auto simp: filter_empty_conv)
    then have "card (set (map fst c)) \<le> 1" using card_mono [of "{name}"] by simp
    with assms(1,3) show False by (simp only: distinct_card length_map)
  qed
  moreover define ks where "ks = ?ks"
  ultimately have "ks \<noteq> []" by simp
  moreover define k where "k = ks ! (pv_evict pe ks mod length ks)"
  ultimately have "k \<in> set ks" and e: "evict pe name c = AList.delete k c"
    by (simp, simp add: evict_def Let_def ks_def k_def)
  then have k: "k \<in> set ?ks" by (simp only: ks_def)
  from k have "k \<in> set (map fst c)" "k \<noteq> name" by auto
  then show "distinct (map fst (evict pe name c))" "length (evict pe name c) = length c - 1"
    "map_of (evict pe name c) name = map_of c name"
    using assms(1) by (simp_all add: e AList.distinct_delete length_delete AList.delete_conv')
qed

lemma cpu_rate_cache:
  assumes "cache_ok ps" and "cpu_rate_for pe name ns ps = (c, ps')"
  shows "cache_ok ps' \<and> (0 \<le> ns \<longrightarrow> map_of (ps_cpu ps') name = Some ns)"
proof (cases "ns < 0")
  case True
  then show ?thesis using assms by (simp add: cpu_rate_for_def)
next
  case False
  let ?c = "AList.update name ns (ps_cpu ps)"
  have d: "distinct (map fst ?c)" "name \<in> set (map fst ?c)" "length ?c \<le> Suc (length (ps_cpu ps))"
    using assms(1) length_update by (auto simp: cache_ok_def AList.distinct_update AList.update_keys simp del: set_map)
  have n: "map_of ?c name = Some ns" by (simp add: AList.update_conv')
  show ?thesis
  proof (cases "length ?c > max_cache_entries")
    case True
    then have "1 < length ?c" by (simp add: max_cache_entries_def)
    from evict_ok [OF d(1,2) this, of pe] True d(3) n assms False show ?thesis
      by (auto simp: cpu_rate_for_def Let_def cache_ok_def)
  next
    case F: False
    with d(1) n assms(2) False show ?thesis by (auto simp: cpu_rate_for_def Let_def cache_ok_def)
  qed
qed

lemma exec_probe_cache [simp]: "ps_cpu (snd (exec_probe pe prog args ps)) = ps_cpu ps"
  by (simp add: exec_probe_def split: prod.splits)

lemma exec_probe_ok: "exec_probe pe prog args ps = (r, ps') \<Longrightarrow> cache_ok ps' = cache_ok ps"
  using exec_probe_cache [of pe prog args ps] by (simp add: cache_ok_def)

lemma clock_ticks_ok: "clock_ticks pe ps = (hz, ps') \<Longrightarrow> cache_ok ps' = cache_ok ps"
  by (auto simp: clock_ticks_def Let_def dest: exec_probe_ok split: prod.splits option.splits)

text \<open>What every probe promises: a metric of the service's own name, and a cache within its bound.\<close>

locale service_probe =
  fixes probe :: "probe_env \<Rightarrow> string \<Rightarrow> probe_state \<Rightarrow> (service_metric \<times> probe_state) option"
  assumes named: "probe pe name ps = Some (m, ps') \<Longrightarrow> sm_name m = name"
    and bounded: "probe pe name ps = Some (m, ps') \<Longrightarrow> cache_ok ps \<Longrightarrow> cache_ok ps'"

abbreviation returning :: "(probe_env \<Rightarrow> string \<Rightarrow> service_metric probe) \<Rightarrow>
    probe_env \<Rightarrow> string \<Rightarrow> probe_state \<Rightarrow> (service_metric \<times> probe_state) option" where
  "returning p pe name ps \<equiv> Some (p pe name ps)"

lemma new_metric_name [simp]: "sm_name (new_metric name st l) = name"
  by (simp add: new_metric_def)

lemma metric_helpers_name [simp]: "sm_name (inspected pe out m) = sm_name m" "sm_name (with_stats pe out m) = sm_name m"
  by (auto simp: inspected_def with_stats_def Let_def split: list.splits)

lemma probes_of_commands:
  "service_probe (returning probe_service)" "service_probe (returning (probe_container engine always))"
  "service_probe (returning probe_timer)" "service_probe (returning probe_lxc)" "service_probe (returning probe_kvm)"
proof -
  have l: "sm_name (foldl (\<lambda>m l. case cut_on (CHR '':'') l of None \<Rightarrow> m
             | Some (k, v) \<Rightarrow> if trim_space k = ''State''
                 then m\<lparr>sm_active := (trim_space v = ''RUNNING''), sm_substate := to_lower (trim_space v), sm_status := trim_space v\<rparr>
                 else m) m0 ls) = sm_name m0" for m0 ls
    by (induction ls arbitrary: m0) (auto split: option.splits)
  show "service_probe (returning probe_service)"
    by unfold_locales (auto simp: probe_service_def Let_def dest!: exec_probe_ok dest: cpu_rate_cache
        split: prod.splits option.splits)
  show "service_probe (returning (probe_container engine always))"
    by unfold_locales (auto simp: probe_container_def Let_def dest!: exec_probe_ok split: prod.splits option.splits if_splits)
  show "service_probe (returning probe_timer)"
    by unfold_locales (auto simp: probe_timer_def Let_def dest!: exec_probe_ok split: prod.splits option.splits if_splits)
  show "service_probe (returning probe_lxc)"
    by unfold_locales (auto simp: probe_lxc_def Let_def l dest!: exec_probe_ok split: prod.splits option.splits if_splits)
  show "service_probe (returning probe_kvm)"
    by unfold_locales (auto simp: probe_kvm_def Let_def dest!: exec_probe_ok split: prod.splits option.splits if_splits)
qed

lemma process_uptime_ok: "process_uptime pe pid ps = (u, ps') \<Longrightarrow> cache_ok ps' = cache_ok ps"
  by (auto simp: process_uptime_def Let_def dest: clock_ticks_ok split: sum.splits if_splits prod.splits)

lemma process_cpu_ok: "process_cpu pe pid ps = (c, ps') \<Longrightarrow> cache_ok ps \<Longrightarrow> cache_ok ps'"
  by (auto simp: process_cpu_def dest!: clock_ticks_ok dest: cpu_rate_cache split: sum.splits if_splits prod.splits)

lemma probe_of_process: "service_probe (returning probe_process)"
  by unfold_locales (auto simp: probe_process_def Let_def dest!: process_uptime_ok dest: process_cpu_ok
      split: prod.splits if_splits)

lemma cron_count_ok: "cron_triggered_count name t ps = (n, ps') \<Longrightarrow> cache_ok ps' = cache_ok ps"
  by (auto simp: cron_triggered_count_def cache_ok_def Let_def split: option.splits if_splits)

lemma probe_of_cron: "service_probe probe_cron"
  by unfold_locales (auto simp: probe_cron_def Let_def dest!: cron_count_ok
      split: bind_splits option.splits prod.splits if_splits)

interpretation systemd_probe: service_probe "returning probe_service" by (rule probes_of_commands(1))
interpretation container_probe: service_probe "returning (probe_container engine always)" for engine always
  by (rule probes_of_commands(2))
interpretation timer_probe: service_probe "returning probe_timer" by (rule probes_of_commands(3))
interpretation lxc_probe: service_probe "returning probe_lxc" by (rule probes_of_commands(4))
interpretation kvm_probe: service_probe "returning probe_kvm" by (rule probes_of_commands(5))
interpretation process_probe: service_probe "returning probe_process" by (rule probe_of_process)
interpretation cron_probe: service_probe probe_cron by (rule probe_of_cron)

lemmas probe_laws =
  systemd_probe.named systemd_probe.bounded container_probe.named container_probe.bounded
  timer_probe.named timer_probe.bounded lxc_probe.named lxc_probe.bounded kvm_probe.named kvm_probe.bounded
  process_probe.named process_probe.bounded cron_probe.named cron_probe.bounded

lemma probe_registered_laws:
  "probe_registered pe rs ps = Some (m, ps') \<Longrightarrow> sm_name m = rs_name rs \<and> (cache_ok ps \<longrightarrow> cache_ok ps')"
  using probe_laws unfolding probe_registered_def probe_docker_def probe_podman_def Let_def
  by (simp split: if_splits)

subsection \<open>Processes by name\<close>

definition candidate :: "probe_env \<Rightarrow> probe_state \<Rightarrow> string \<Rightarrow> string \<times> bool \<Rightarrow> bool" where
  "candidate pe ps name e =
     (snd e \<and> atoi (fst e) \<noteq> None \<and>
      (case proc_file pe ps (fst e) ''comm'' of Inl err \<Rightarrow> False | Inr comm \<Rightarrow> comm_matches (trim_space comm) name))"

lemma find_process_step:
  "find_process pe ps name (e # es) best start =
     (if candidate pe ps name e \<and> start \<le> process_start pe ps (fst e)
      then find_process pe ps name es (fst e) (process_start pe ps (fst e))
      else find_process pe ps name es best start)"
  by (cases e) (auto simp: candidate_def split: sum.splits)

lemma find_process_cases:
  fixes best start pe ps name es
  defines "r \<equiv> find_process pe ps name es best start"
  shows "(r = best \<and> (\<forall>e\<in>set es. candidate pe ps name e \<longrightarrow> process_start pe ps (fst e) < start)) \<or>
    (\<exists>e\<in>set es. candidate pe ps name e \<and> fst e = r \<and> start \<le> process_start pe ps r \<and>
       (\<forall>e'\<in>set es. candidate pe ps name e' \<longrightarrow> process_start pe ps (fst e') \<le> process_start pe ps r))"
  unfolding r_def
proof (induction es arbitrary: best start)
  case (Cons e es)
  show ?case
  proof (cases "candidate pe ps name e \<and> start \<le> process_start pe ps (fst e)")
    case True
    have r: "find_process pe ps name (e # es) best start = find_process pe ps name es (fst e) (process_start pe ps (fst e))"
      using True unfolding find_process_step by (rule if_P)
    let ?r = "find_process pe ps name es (fst e) (process_start pe ps (fst e))"
    from Cons.IH [of "fst e" "process_start pe ps (fst e)"]
    have "\<exists>x\<in>set (e # es). candidate pe ps name x \<and> fst x = ?r \<and> start \<le> process_start pe ps ?r \<and>
       (\<forall>y\<in>set (e # es). candidate pe ps name y \<longrightarrow> process_start pe ps (fst y) \<le> process_start pe ps ?r)"
    proof (elim disjE conjE bexE)
      assume "?r = fst e" "\<forall>x\<in>set es. candidate pe ps name x \<longrightarrow> process_start pe ps (fst x) < process_start pe ps (fst e)"
      then show ?thesis using True by (intro bexI [of _ e]) (auto intro: less_imp_le)
    next
      fix x assume x: "x \<in> set es" "candidate pe ps name x" "fst x = ?r" "process_start pe ps (fst e) \<le> process_start pe ps ?r"
        "\<forall>y\<in>set es. candidate pe ps name y \<longrightarrow> process_start pe ps (fst y) \<le> process_start pe ps ?r"
      show ?thesis
        by (rule bexI [of _ x]) (use x True order_trans [OF conjunct2 [OF True] x(4)] in \<open>simp_all\<close>)
    qed
    then show ?thesis unfolding r by blast
  next
    case False
    have r: "find_process pe ps name (e # es) best start = find_process pe ps name es best start"
      using False unfolding find_process_step by (rule if_not_P)
    have lt: "candidate pe ps name e \<Longrightarrow> process_start pe ps (fst e) < start" using False by (simp add: not_le)
    let ?r = "find_process pe ps name es best start"
    from Cons.IH [of best start] show ?thesis unfolding r
    proof (elim disjE conjE bexE)
      assume "?r = best" "\<forall>x\<in>set es. candidate pe ps name x \<longrightarrow> process_start pe ps (fst x) < start"
      then show "?r = best \<and> (\<forall>x\<in>set (e # es). candidate pe ps name x \<longrightarrow> process_start pe ps (fst x) < start) \<or>
        (\<exists>x\<in>set (e # es). candidate pe ps name x \<and> fst x = ?r \<and> start \<le> process_start pe ps ?r \<and>
          (\<forall>y\<in>set (e # es). candidate pe ps name y \<longrightarrow> process_start pe ps (fst y) \<le> process_start pe ps ?r))"
        using lt by simp
    next
      fix x assume x: "x \<in> set es" "candidate pe ps name x" "fst x = ?r" "start \<le> process_start pe ps ?r"
        "\<forall>y\<in>set es. candidate pe ps name y \<longrightarrow> process_start pe ps (fst y) \<le> process_start pe ps ?r"
      have "candidate pe ps name e \<Longrightarrow> process_start pe ps (fst e) \<le> process_start pe ps ?r"
        using lt x(4) by (meson less_imp_le less_le_trans)
      with x show "?r = best \<and> (\<forall>x\<in>set (e # es). candidate pe ps name x \<longrightarrow> process_start pe ps (fst x) < start) \<or>
        (\<exists>x\<in>set (e # es). candidate pe ps name x \<and> fst x = ?r \<and> start \<le> process_start pe ps ?r \<and>
          (\<forall>y\<in>set (e # es). candidate pe ps name y \<longrightarrow> process_start pe ps (fst y) \<le> process_start pe ps ?r))"
        by (intro disjI2 bexI [of _ x]) simp_all
    qed
  qed
qed simp

subsection \<open>Cron counters\<close>

definition observe_runs :: "string \<Rightarrow> int list \<Rightarrow> probe_state \<Rightarrow> probe_state" where
  "observe_runs name ts ps = fold (\<lambda>t p. snd (cron_triggered_count name t p)) ts ps"

lemma observe_seen:
  assumes "ps_cron ps name = Some t" and "sorted (t # ts)" and "unat (ps_counts ps name) + length ts < 2 ^ 64"
  shows "unat (ps_counts (observe_runs name ts ps) name) = unat (ps_counts ps name) + card (set ts - {t})"
  using assms
proof (induction ts arbitrary: t ps)
  case (Cons u us)
  show ?case
  proof (cases "u = t")
    case True
    have "observe_runs name (u # us) ps = observe_runs name us ps"
      using True Cons.prems(1) by (simp add: observe_runs_def cron_triggered_count_def)
    then show ?thesis using Cons True by simp
  next
    case False
    let ?ps = "ps\<lparr>ps_cron := (ps_cron ps)(name \<mapsto> u), ps_counts := (ps_counts ps)(name := ps_counts ps name + 1)\<rparr>"
    have lt: "t < u" using Cons.prems(2) False by simp
    then have o: "observe_runs name (u # us) ps = observe_runs name us ?ps"
      using False Cons.prems(1) by (simp add: observe_runs_def cron_triggered_count_def Let_def)
    have n: "unat (ps_counts ps name + 1) = unat (ps_counts ps name) + 1"
      using Cons.prems(3) by (intro unat_add_lem [THEN iffD1, THEN trans]) simp_all
    have "t \<notin> set us" using Cons.prems(2) lt by auto
    then have c: "card (set (u # us) - {t}) = Suc (card (set us - {u}))"
      using False by (simp add: card.insert_remove insert_Diff_if)
    show ?thesis using Cons.IH [of ?ps u] Cons.prems n c o by simp
  qed
qed (simp add: observe_runs_def)

subsection \<open>Properties\<close>

lemma collect_laws:
  assumes "collect_service_metrics pe rss ps = Some (ms, ps')"
  shows "map sm_name ms = filter (\<lambda>n. n \<noteq> []) (map rs_name rss) \<and> (cache_ok ps \<longrightarrow> cache_ok ps')"
  using assms
proof (induction rss arbitrary: ps ms)
  case (Cons rs rss)
  then show ?case
    by (auto split: if_splits bind_splits prod.splits dest!: probe_registered_laws)
qed simp

text \<open>A round of probes reports every registered service that has a name, once and in order, under
  its own name, whatever its subtype and however its probe goes; and it leaves the cache of CPU
  samples within 1024 entries with one sample per key, so that an agent with many transient
  services does not grow.\<close>

theorem metrics_cover_services:
  assumes "collect_service_metrics pe rss ps = Some (ms, ps')"
    and "distinct (map fst (ps_cpu ps))" and "length (ps_cpu ps) \<le> 1024"
  shows "map sm_name ms = filter (\<lambda>n. n \<noteq> []) (map rs_name rss) \<and>
    distinct (map fst (ps_cpu ps')) \<and> length (ps_cpu ps') \<le> 1024"
  using collect_laws [OF assms(1)] assms(2,3) by (simp add: cache_ok_def max_cache_entries_def)

text \<open>The trigger count of a cron entry is the number of distinct last runs seen: over any
  sequence of samples whose last run does not go back, starting unseen, each new firing counts
  once and repeated samples of the same one do not.\<close>

theorem cron_runs_counted_once:
  assumes "ps_cron ps name = None" and "sorted ts" and "ts \<noteq> []" and "length ts < 2 ^ 64"
  shows "unat (ps_counts (observe_runs name ts ps) name) = card (set ts)"
proof (cases ts)
  case (Cons t us)
  let ?ps = "ps\<lparr>ps_cron := (ps_cron ps)(name \<mapsto> t), ps_counts := (ps_counts ps)(name := 1)\<rparr>"
  have o: "observe_runs name ts ps = observe_runs name us ?ps"
    using assms(1) by (simp add: observe_runs_def cron_triggered_count_def Cons)
  have c: "card (set ts) = Suc (card (set us - {t}))" by (simp add: Cons card.insert_remove)
  have "unat (ps_counts (observe_runs name us ?ps) name) = unat (ps_counts ?ps name) + card (set us - {t})"
    by (rule observe_seen) (use assms Cons in auto)
  then show ?thesis by (simp add: o c)
qed (use assms in simp)

text \<open>A host with one process and a system crontab.\<close>

definition sample_probe_env :: probe_env where
  "sample_probe_env = \<lparr>pv_env = quiet_env, pv_proc = [(''7'', True)], pv_now = 0, pv_since = (\<lambda>_. None),
     pv_systemd_since = (\<lambda>_. None), pv_rfc3339 = (\<lambda>_. None), pv_format = itoa,
     pv_calendar = (\<lambda>t. \<lparr>cv_minute = t mod 60, cv_hour = t div 60 mod 24, cv_day = 1, cv_month = 1, cv_weekday = 0\<rparr>),
     pv_percent = (\<lambda>_. False), pv_bytes = (\<lambda>_ _. None), pv_evict = (\<lambda>_. 0)\<rparr>"

definition sample_probe_state :: probe_state where
  "sample_probe_state = \<lparr>ps_world = one_file ''/etc/crontab'' ''17 * * * * root run-parts'' 0, ps_cpu = [],
     ps_cron = (\<lambda>_. None), ps_counts = (\<lambda>_. 0)\<rparr>"

lemma metrics_cover_services_witness:
  "\<exists>ms ps'. collect_service_metrics sample_probe_env [\<lparr>rs_name = ''nginx'', rs_subtype = []\<rparr>, \<lparr>rs_name = [], rs_subtype = []\<rparr>]
      sample_probe_state = Some (ms, ps') \<and> map sm_name ms = [''nginx'']"
proof -
  let ?r = "collect_service_metrics sample_probe_env [\<lparr>rs_name = ''nginx'', rs_subtype = []\<rparr>, \<lparr>rs_name = [], rs_subtype = []\<rparr>] sample_probe_state"
  have "?r \<noteq> None" by code_simp
  then obtain ms ps' where r: "?r = Some (ms, ps')" by auto
  have c: "distinct (map fst (ps_cpu sample_probe_state))" "length (ps_cpu sample_probe_state) \<le> 1024"
    by (simp_all add: sample_probe_state_def)
  from metrics_cover_services [OF r c] r show ?thesis by simp
qed

lemma cron_runs_counted_once_witness:
  "unat (ps_counts (observe_runs ''backup'' [60, 60, 3660] sample_probe_state) ''backup'') = 2"
  using cron_runs_counted_once [of sample_probe_state "''backup''" "[60, 60, 3660]"]
  by (simp add: sample_probe_state_def)

text \<open>What the probes report that is not so: a process number that is not running, a process whose
  kernel name is cut off, and a cron entry of any name on a host with a system crontab.\<close>

lemma probe_number_always_active: "sm_active (fst (probe_process pe ''99999'' ps))"
proof -
  have "atoi ''99999'' = Some 99999" "itoa 99999 \<noteq> []" by code_simp+
  then show ?thesis by (simp add: probe_process_def Let_def split: prod.splits)
qed

lemma long_name_not_found: "length comm < length name \<Longrightarrow> \<not> comm_matches comm name"
  by (auto simp: comm_matches_def has_prefix_iff)

lemma any_cron_name_is_active:
  "map_option (\<lambda>(m, ps). (sm_name m, sm_active m)) (probe_cron sample_probe_env ''no-such-job'' sample_probe_state)
   = Some (''no-such-job'', True)"
  by code_simp

lemma cpu_without_sample_is_zero:
  "sm_cpu (fst (probe_service sample_probe_env ''nginx'' sample_probe_state)) = CpuUnset"
  by code_simp

end
