(* ===== verification/ServiceReg.thy ===== *)
theory ServiceReg
  imports Session Probes
begin

text \<open>
  The command line's service registration, \<open>service_registration.go\<close>, with \<open>sendTrayCommand\<close> of
  \<open>tray_server.go\<close>: looking a service up, editing agent.yml, and telling the directory, over the
  daemon's tray socket or over a WebSocket of its own.
\<close>

subsection \<open>Looking services up\<close>

definition cmd_ok :: "env \<Rightarrow> string \<Rightarrow> string list \<Rightarrow> world \<Rightarrow> bool \<times> world" where
  "cmd_ok e prog args w = (case run_cmd e w prog args of ((out, err), w1) \<Rightarrow> (err = None, w1))"

definition unit_file :: "string \<Rightarrow> string" where
  "unit_file name = (if has_suffix name ''.service'' then name else name @ ''.service'')"

definition systemd_unit_exists :: "env \<Rightarrow> string \<Rightarrow> world \<Rightarrow> bool \<times> world" where
  "systemd_unit_exists e name = cmd_ok e ''systemctl'' [''list-unit-files'', unit_file name]"

definition docker_container_exists :: "env \<Rightarrow> string \<Rightarrow> world \<Rightarrow> bool \<times> world" where
  "docker_container_exists e name = cmd_ok e ''docker'' [''inspect'', name]"

text \<open>A CLI process starts with empty caches.\<close>

definition fresh_probe :: "world \<Rightarrow> probe_state" where
  "fresh_probe w = \<lparr>ps_world = w, ps_cpu = [], ps_cron = Map.empty, ps_counts = (\<lambda>_. 0)\<rparr>"

definition refusing :: "string \<Rightarrow> bool \<times> world \<Rightarrow> string option \<times> world" where
  "refusing msg r = (if fst r then None else Some msg, snd r)"

definition validate_service_exists :: "probe_env \<Rightarrow> string \<Rightarrow> string \<Rightarrow> world \<Rightarrow> string option \<times> world" where
  "validate_service_exists pe subtype name w =
     (let e = pv_env pe; q = go_quote name in
      if subtype = ''docker'' then refusing (''docker container '' @ q @ '' does not exist'') (docker_container_exists e name w)
      else if subtype = ''podman'' then
        refusing (''podman container '' @ q @ '' does not exist'') (cmd_ok e ''podman'' [''inspect'', name] w)
      else if subtype = ''process'' then
        refusing (''no running process named '' @ q) (cmd_ok e ''pgrep'' [''-x'', name] w)
      else if subtype = ''systemd-timer'' then
        (let r = systemd_unit_exists e name w in
         if fst r then (None, snd r)
         else refusing (''systemd timer '' @ q @ '' does not exist'') (systemd_unit_exists e (name @ ''.timer'') (snd r)))
      else if subtype = ''cron'' then
        (if cron_config_lines pe name (fresh_probe w) \<noteq> [] then None
         else Some (''cron entry '' @ q @ '' not found (looked in /etc/cron.d/'' @ name
           @ '', /etc/crontab, /var/spool/cron/'' @ name @ '')''), w)
      else if subtype = ''lxc'' then
        refusing (''LXC container '' @ q @ '' does not exist'') (cmd_ok e ''lxc-info'' [''-n'', name] w)
      else if subtype = ''kvm'' \<or> subtype = ''libvirt'' then
        refusing (''libvirt domain '' @ q @ '' does not exist'') (cmd_ok e ''virsh'' [''domname'', name] w)
      else refusing (''systemd unit '' @ q @ '' does not exist'') (systemd_unit_exists e name w))"

subsection \<open>Candidates for completion\<close>

definition trimmed_lines :: "string \<Rightarrow> string list" where
  "trimmed_lines out = filter (\<lambda>n. n \<noteq> []) (map trim_space (split_on NL out))"

definition listing :: "(string \<Rightarrow> string list) \<Rightarrow> (string \<times> string option) \<times> world \<Rightarrow> string list \<times> world" where
  "listing f r = (case r of ((out, Some err), w1) \<Rightarrow> ([], w1) | ((out, None), w1) \<Rightarrow> (f out, w1))"

definition timer_names :: "string \<Rightarrow> string list" where
  "timer_names out = map (\<lambda>fs. trim_suffix (last fs) ''.timer'')
     (filter (\<lambda>fs. fs \<noteq> [] \<and> has_suffix (last fs) ''.timer'') (map str_fields (split_on NL out)))"

definition first_seen :: "string list \<Rightarrow> string list" where
  "first_seen = foldl (\<lambda>acc c. if c = [] \<or> c \<in> set acc then acc else acc @ [c]) []"

definition unit_names :: "string \<Rightarrow> string list" where
  "unit_names out = filter (\<lambda>n. n \<noteq> [])
     (map (\<lambda>fs. trim_suffix (hd fs) ''.service'') (filter (\<lambda>fs. fs \<noteq> []) (map str_fields (split_on NL out))))"

definition list_docker_container_names :: "env \<Rightarrow> world \<Rightarrow> string list \<times> world" where
  "list_docker_container_names e w =
     listing trimmed_lines (run_cmd e w ''docker'' [''ps'', ''-a'', ''--format'', ''{{.Names}}''])"

definition list_systemd_service_names :: "env \<Rightarrow> world \<Rightarrow> string list \<times> world" where
  "list_systemd_service_names e w = listing unit_names
     (run_cmd e w ''systemctl'' [''list-unit-files'', ''--type=service'', ''--no-legend'', ''--no-pager''])"

text \<open>\<open>cron_d\<close> is the listing of /etc/cron.d, names with whether they are directories.\<close>

definition list_service_names :: "(string \<times> bool) list result \<Rightarrow> env \<Rightarrow> string \<Rightarrow> world \<Rightarrow> string list \<times> world" where
  "list_service_names cron_d e subtype w =
     (if subtype = ''docker'' then list_docker_container_names e w
      else if subtype = ''podman'' then
        listing trimmed_lines (run_cmd e w ''podman'' [''ps'', ''-a'', ''--format'', ''{{.Names}}''])
      else if subtype = ''systemd'' then list_systemd_service_names e w
      else if subtype = ''systemd-timer'' then
        listing timer_names (run_cmd e w ''systemctl'' [''list-timers'', ''--no-legend'', ''--no-pager''])
      else if subtype = ''process'' then
        listing (\<lambda>out. first_seen (map trim_space (split_on NL out))) (run_cmd e w ''ps'' [''-eo'', ''comm=''])
      else if subtype = ''lxc'' then listing trimmed_lines (run_cmd e w ''lxc-ls'' [''-1''])
      else if subtype = ''kvm'' \<or> subtype = ''libvirt'' then
        listing trimmed_lines (run_cmd e w ''virsh'' [''list'', ''--all'', ''--name''])
      else if subtype = ''cron'' then
        ((case cron_d of Inl err \<Rightarrow> [] | Inr es \<Rightarrow> map fst (filter (\<lambda>x. \<not> snd x) es)), w)
      else ([], w))"

subsection \<open>Arguments\<close>

definition service_types :: "string list" where
  "service_types = [''systemd'', ''docker'', ''podman'', ''process'', ''systemd-timer'', ''cron'', ''lxc'', ''kvm'', ''libvirt'']"

definition valid_service_type :: "string \<Rightarrow> bool" where
  "valid_service_type t = (t \<in> set service_types)"

definition parse_service_args :: "string list \<Rightarrow> (string \<times> string) result" where
  "parse_service_args args =
     (case args of
        a # b # _ \<Rightarrow>
          if \<not> valid_service_type (to_lower a)
          then Inl (''unsupported service type '' @ go_quote a
            @ '': use systemd, docker, podman, process, systemd-timer, cron, lxc, or kvm/libvirt'')
          else if trim_space b = [] then Inl ''service name is required''
          else Inr (to_lower a, trim_space b)
      | _ \<Rightarrow> Inl ''usage: theta-agent <register|unregister> <type> <name>'')"

subsection \<open>Telling the directory\<close>

text \<open>A line for the daemon: the struct's fields in their order, optional ones left out.\<close>

definition tray_command_line :: "tray_command \<Rightarrow> string" where
  "tray_command_line c = json_struct
     ([(''command'', json_str True (tc_command c)), (''value'', bool_text (tc_value c))]
      @ (case tc_site_id c of None \<Rightarrow> [] | Some i \<Rightarrow> [(''site_id'', itoa i)])
      @ (if tc_service c = [] then [] else [(''service'', json_str True (tc_service c))])
      @ (if tc_subtype c = [] then [] else [(''subtype'', json_str True (tc_subtype c))]))"

definition send_tray_command ::
  "(string \<Rightarrow> (string \<Rightarrow> string option) result) \<Rightarrow> string list \<Rightarrow> tray_command \<Rightarrow> string option" where
  "send_tray_command dial paths c =
     (case dial_tray dial paths None of Inl err \<Rightarrow> Some err | Inr write \<Rightarrow> write (tray_command_line c @ [NL]))"

text \<open>The process's own connection: whether the dial succeeds, the first frame arrives and the
  registration can be written, and the frame that answers it.\<close>

record one_shot =
  os_dial :: "dial_request \<Rightarrow> string option"
  os_welcome :: "string option"
  os_write :: "string \<Rightarrow> string option"
  os_reply :: "string result"

record reg_env =
  re_probe :: probe_env
  re_linux :: bool
  re_decode :: "string \<Rightarrow> config result"
  re_config :: string
  re_tray :: "string \<Rightarrow> (string \<Rightarrow> string option) result"
  re_sockets :: "string list"
  re_parse_url :: "string \<Rightarrow> url option"
  re_hostname :: "string result"
  re_shot :: one_shot
  re_parse :: "string \<Rightarrow> json option"
  re_fmt :: "json option \<Rightarrow> string"

definition service_ws_url :: "reg_env \<Rightarrow> config \<Rightarrow> dial_request result" where
  "service_ws_url re cfg =
     (case re_parse_url re (ws_url (server_url cfg)) of
        None \<Rightarrow> Inl (''parse server_url '' @ go_quote (server_url cfg))
      | Some u \<Rightarrow> Inr \<lparr>dq_server = ws_url (server_url cfg), dq_path = ''/api/agent/ws'',
          dq_query = (case re_hostname re of Inl err \<Rightarrow> []
              | Inr hn \<Rightarrow> if hn = [] then [] else [(''hostname'', hn)]) @ [(''token'', credential cfg)],
          dq_headers = []\<rparr>)"

definition reg_command :: "string \<Rightarrow> string \<Rightarrow> bool \<Rightarrow> tray_command" where
  "reg_command name subtype remove =
     \<lparr>tc_command = (if remove then ''unregister_service'' else ''register_service''), tc_value = False,
      tc_site_id = None, tc_service = name, tc_subtype = subtype\<rparr>"

definition reg_frame :: "string \<Rightarrow> string \<Rightarrow> bool \<Rightarrow> ws_message" where
  "reg_frame name subtype remove =
     \<lparr>ws_type = (if remove then ''unregister_service'' else ''register_service''),
      ws_payload = [(''service'', JStr name), (''subtype'', JStr subtype)]\<rparr>"

definition frame_text :: "ws_message \<Rightarrow> string" where
  "frame_text m = json_marshal (JObj [(''type'', JStr (ws_type m)), (''payload'', JObj (ws_payload m))])"

definition reply_error :: "reg_env \<Rightarrow> string \<Rightarrow> string option" where
  "reply_error re resp =
     (case Option.bind (re_parse re resp) (dec_struct dec_message) of
        None \<Rightarrow> None
      | Some r \<Rightarrow>
          if ws_type r = ''response'' \<and> get_str (ws_payload r) ''status'' = Some ''error''
          then Some (wrap_err ''directory'' (re_fmt re (map_of (ws_payload r) ''message''))) else None)"

text \<open>What left the process: a line to the daemon, or a frame over its own connection.\<close>

datatype sending = OverTray string | OverSocket dial_request ws_message

definition push_over_socket :: "reg_env \<Rightarrow> dial_request \<Rightarrow> ws_message \<Rightarrow> string option \<times> sending list" where
  "push_over_socket re rq msg =
     (case os_dial (re_shot re) rq of
        Some err \<Rightarrow> (Some (wrap_err ''dial failed'' err), [])
      | None \<Rightarrow>
          (case os_welcome (re_shot re) of
             Some err \<Rightarrow> (Some (wrap_err ''read welcome'' err), [])
           | None \<Rightarrow>
               (case os_write (re_shot re) (frame_text msg) of
                  Some err \<Rightarrow> (Some (wrap_err (''send '' @ ws_type msg) err), [])
                | None \<Rightarrow>
                    ((case os_reply (re_shot re) of
                        Inl err \<Rightarrow> Some (wrap_err ''read response'' err)
                      | Inr resp \<Rightarrow> reply_error re resp),
                     [OverSocket rq msg]))))"

definition push_service_registration ::
  "reg_env \<Rightarrow> config_manager \<Rightarrow> string \<Rightarrow> string \<Rightarrow> bool \<Rightarrow> string option \<times> sending list" where
  "push_service_registration re cm name subtype remove =
     (let cfg = cm_current cm; c = reg_command name subtype remove in
      if server_url cfg = [] then (Some (''server_url is empty in '' @ cm_path cm), [])
      else (case send_tray_command (re_tray re) (re_sockets re) c of
          None \<Rightarrow> (None, [OverTray (tray_command_line c)])
        | Some err \<Rightarrow>
            (case service_ws_url re cfg of
               Inl err \<Rightarrow> (Some err, [])
             | Inr rq \<Rightarrow> push_over_socket re rq (reg_frame name subtype remove))))"

subsection \<open>The commands\<close>

text \<open>How a command ended: its exit status and the lines it printed to stderr and stdout.\<close>

record cli_run =
  cr_code :: nat
  cr_err :: "string list"
  cr_out :: "string list"

definition failing :: "string \<Rightarrow> cli_run" where
  "failing msg = \<lparr>cr_code = 1, cr_err = [''[!] '' @ msg], cr_out = []\<rparr>"

text \<open>When the notification fails the edit stays.\<close>

definition registration_result :: "string \<Rightarrow> string \<Rightarrow> bool \<Rightarrow> string option \<Rightarrow> cli_run" where
  "registration_result subtype name remove res =
     (case res of
        Some err \<Rightarrow> \<lparr>cr_code = 1,
          cr_err = [''[!] Config updated, but could not notify Theta Directory: '' @ err,
                    ''    The running agent will retry on its next connect/reload.''], cr_out = []\<rparr>
      | None \<Rightarrow> \<lparr>cr_code = 0, cr_err = [],
          cr_out = [''[+] '' @ (if remove then ''Unregistered '' else ''Registered '') @ subtype
            @ '' service '' @ go_quote name @ '' with Theta Directory.'']\<rparr>)"

definition register_service ::
  "reg_env \<Rightarrow> string \<Rightarrow> string \<Rightarrow> bool \<Rightarrow> world \<Rightarrow> cli_run \<times> world \<times> sending list" where
  "register_service re subtype name remove w =
     (if \<not> re_linux re then (failing ''Service registration is only supported on Linux.'', w, [])
      else (case (if remove then (None, w) else validate_service_exists (re_probe re) subtype name w) of
          (Some err, w1) \<Rightarrow> (failing err, w1, [])
        | (None, w1) \<Rightarrow>
            (let e = pv_env (re_probe re) in
             case new_config_manager (re_decode re) e w1 (re_config re) of
               Inl err \<Rightarrow> (failing (''Cannot read config '' @ re_config re @ '': '' @ err), w1, [])
             | Inr cm \<Rightarrow>
                 (case persist_service (re_decode re) e w1 cm name subtype remove of
                    (Some err, w2, cm1) \<Rightarrow> (failing err, w2, [])
                  | (None, w2, cm1) \<Rightarrow>
                      (case push_service_registration re cm1 name subtype remove of
                         (res, s) \<Rightarrow> (registration_result subtype name remove res, w2, s))))))"

definition run_registration :: "reg_env \<Rightarrow> bool \<Rightarrow> string list \<Rightarrow> world \<Rightarrow> cli_run \<times> world \<times> sending list" where
  "run_registration re remove args w =
     (case parse_service_args args of
        Inl err \<Rightarrow> (failing err, w, [])
      | Inr (subtype, name) \<Rightarrow> register_service re subtype name remove w)"

definition pad_right :: "nat \<Rightarrow> string \<Rightarrow> string" where
  "pad_right n s = s @ replicate (n - length s) (CHR '' '')"

definition run_list_services :: "(string \<Rightarrow> config result) \<Rightarrow> env \<Rightarrow> string \<Rightarrow> world \<Rightarrow> cli_run" where
  "run_list_services decode e path w =
     (case new_config_manager decode e w path of
        Inl err \<Rightarrow> failing (''Cannot read config '' @ path @ '': '' @ err)
      | Inr cm \<Rightarrow> \<lparr>cr_code = 0, cr_err = [], cr_out =
          (if services (cm_current cm) = [] then [''No services registered with Theta Directory.'']
           else map (\<lambda>s. pad_right 12 (sub_type_or s ''systemd'') @ '' '' @ rs_name s) (services (cm_current cm)))\<rparr>)"

subsection \<open>Lemmas\<close>

lemma cmd_ok_files [simp]: "w_files (snd (cmd_ok e c a w)) = w_files w"
  by (simp add: cmd_ok_def split: prod.splits) (metis run_cmd_files)

lemma cmd_ok_cmds [simp]:
  "w_cmds (snd (cmd_ok e c a w)) = w_cmds w @ [\<lparr>c_prog = c, c_args = a, c_stdin = []\<rparr>]"
  by (simp add: cmd_ok_def case_prod_beta)

lemma unit_exists_frame [simp]:
  "w_files (snd (systemd_unit_exists e n w)) = w_files w"
  "w_cmds (snd (systemd_unit_exists e n w)) =
     w_cmds w @ [\<lparr>c_prog = ''systemctl'', c_args = [''list-unit-files'', unit_file n], c_stdin = []\<rparr>]"
  by (simp_all add: systemd_unit_exists_def)

lemma refusing_world [simp]: "snd (refusing m r) = snd r"
  by (simp add: refusing_def)

text \<open>The lookup runs commands and changes no file.\<close>

lemma validate_files: "w_files (snd (validate_service_exists pe t n w)) = w_files w"
  by (simp add: validate_service_exists_def Let_def docker_container_exists_def)

definition service_edit :: "bool \<Rightarrow> string \<Rightarrow> string \<Rightarrow> string \<Rightarrow> string result" where
  "service_edit remove name subtype raw =
     (if remove then remove_yaml_list_item raw ''services'' name else add_yaml_list_item raw ''services'' name subtype)"

text \<open>Unless the write stops half-way, either nothing was written and the operation failed, or the file has
  the edited text.\<close>

lemma write_and_reload_cases:
  assumes "write_and_reload decode e w cm out what = (r, w', cm')" and untorn: "e_torn e (cm_path cm) = None"
  obtains "w_files w' = w_files w" "r \<noteq> None"
  | f where "w_files w' = (w_files w)(cm_path cm \<mapsto> f)" "f_content f = out" "r = None \<Longrightarrow> f_mode f = mode600"
proof (cases "e_fault e OpWrite (cm_path cm)")
  case (Some err)
  then show ?thesis using assms(1) that(1) by (auto simp: write_and_reload_def write_file_def untorn)
next
  case None
  let ?f = "\<lparr>f_content = out, f_mode = new_mode e w (cm_path cm) mode600, f_mtime = w_clock w\<rparr>"
  have w1: "write_file e w (cm_path cm) out mode600 = (None, put_file (cm_path cm) ?f w)"
    by (simp add: write_file_def None)
  show ?thesis
  proof (cases "e_fault e OpChmod (cm_path cm)")
    case (Some err)
    then show ?thesis using assms(1) w1 by (intro that(2)) (auto simp: write_and_reload_def chmod_def)
  next
    case None
    then show ?thesis using assms(1) w1
      by (intro that(2) [of "?f\<lparr>f_mode := mode600\<rparr>"])
        (auto simp: write_and_reload_def chmod_def split: sum.splits)
  qed
qed

lemma persist_service_cases:
  assumes "persist_service decode e w cm name subtype remove = (r, w', cm')" and untorn: "e_torn e (cm_path cm) = None"
  obtains "w_files w' = w_files w" "r \<noteq> None"
  | raw f where "validate_service_name name = None" "map_option f_content (w_files w (cm_path cm)) = Some raw"
      "service_edit remove name subtype raw = Inr (f_content f)"
      "w_files w' = (w_files w)(cm_path cm \<mapsto> f)" "r = None \<Longrightarrow> f_mode f = mode600"
proof (cases "validate_service_name name")
  case (Some err)
  then show ?thesis using assms(1) by (intro that(1)) (auto simp: persist_service_def dest: sym)
next
  case None
  show ?thesis
  proof (cases "read_file e w (cm_path cm)")
    case (Inl err)
    then show ?thesis using assms(1) None that(1) by (auto simp: persist_service_def)
  next
    case (Inr raw)
    then have raw: "map_option f_content (w_files w (cm_path cm)) = Some raw"
      by (auto simp: read_file_def split: option.splits)
    show ?thesis
    proof (cases "service_edit remove name subtype raw")
      case (Inl err)
      then show ?thesis using assms(1) None Inr that(1) by (auto simp: persist_service_def service_edit_def)
    next
      case ed: (Inr out)
      have "write_and_reload decode e w cm out ''service edit'' = (r, w', cm')"
        using assms(1) None Inr ed by (simp add: persist_service_def flip: service_edit_def)
      then show ?thesis
        by (rule write_and_reload_cases [OF _ untorn]) (use that None raw ed in auto)
    qed
  qed
qed

lemma persist_service_done:
  assumes "persist_service decode e w cm name subtype remove = (None, w', cm')"
  shows "validate_service_name name = None \<and> (\<exists>f. w_files w' (cm_path cm) = Some f)"
  using assms by (auto simp: persist_service_def split: option.splits sum.splits if_splits dest!: write_and_reload_ok)

lemma push_sends:
  assumes "push_service_registration re cm n t rm = (r, s)"
  shows "s = [] \<and> r \<noteq> None \<or> s = [OverTray (tray_command_line (reg_command n t rm))] \<and> r = None \<or>
    (\<exists>rq. s = [OverSocket rq (reg_frame n t rm)] \<and> send_tray_command (re_tray re) (re_sockets re) (reg_command n t rm) \<noteq> None)"
  using assms
  by (auto simp: push_service_registration_def push_over_socket_def Let_def split: if_splits option.splits sum.splits)

lemma push_length:
  "length (snd (push_service_registration re cm n t rm)) \<le> 1 \<and>
   (fst (push_service_registration re cm n t rm) = None \<longrightarrow> length (snd (push_service_registration re cm n t rm)) = 1)"
  using push_sends [of re cm n t rm] by (cases "push_service_registration re cm n t rm") auto

text \<open>What of a sending arrives at the directory, when the daemon in state \<open>d\<close> takes the line.\<close>

definition arriving :: "tray_env \<Rightarrow> (string \<Rightarrow> json option) \<Rightarrow> daemon \<Rightarrow> sending \<Rightarrow> ws_message list" where
  "arriving te parse d x =
     (case x of OverSocket rq m \<Rightarrow> [m]
      | OverTray line \<Rightarrow> drop (length (dm_sent d)) (dm_sent (tray_lines parse [(te, line)] d)))"

lemma service_args_ok:
  assumes "parse_service_args args = Inr (t, n)"
  shows "t \<in> set service_types" "n \<noteq> []" "t \<noteq> []"
  using assms by (auto simp: parse_service_args_def valid_service_type_def service_types_def
      split: list.splits if_splits)

lemma arriving_frame:
  assumes "tv_euid te = 0" "tv_writer te = Some wr" "wr (reg_frame n t rm) = None" "n \<noteq> []" "t \<noteq> []"
    and "parse (tray_command_line (reg_command n t rm)) = Some (tray_command_json (reg_command n t rm))"
  shows "arriving te parse d (OverTray (tray_command_line (reg_command n t rm))) = [reg_frame n t rm]"
proof -
  have "dec_struct dec_tray_command (tray_command_json (reg_command n t rm)) = Some (reg_command n t rm)"
    by (rule tray_command_roundtrip) (simp add: reg_command_def)
  then have "decode_tray_command parse (tray_command_line (reg_command n t rm)) = Some (reg_command n t rm)"
    by (simp add: decode_tray_command_def assms)
  then show ?thesis
    using assms by (cases rm) (simp_all add: arriving_def handle_tray_command_def is_privileged_admin_command_def
        reg_command_def tray_push_service_def push_service_frame_def Let_def reg_frame_def)
qed

text \<open>A registration stops before the edit, or goes through it.\<close>

lemma register_service_cases:
  assumes "register_service re t n rm w = (r, w', s)"
  obtains "s = []" "w_files w' = w_files w" "cr_code r \<noteq> 0"
    | cm cm1 p where "fst (if rm then (None, w) else validate_service_exists (re_probe re) t n w) = None"
      "new_config_manager (re_decode re) (pv_env (re_probe re))
         (snd (if rm then (None, w) else validate_service_exists (re_probe re) t n w)) (re_config re) = Inr cm"
      "persist_service (re_decode re) (pv_env (re_probe re))
         (snd (if rm then (None, w) else validate_service_exists (re_probe re) t n w)) cm n t rm = (p, w', cm1)"
      "p = None \<Longrightarrow> snd (push_service_registration re cm1 n t rm) = s"
      "p = None \<Longrightarrow> cr_code r = 0 \<Longrightarrow> fst (push_service_registration re cm1 n t rm) = None"
      "p \<noteq> None \<Longrightarrow> s = [] \<and> cr_code r \<noteq> 0"
proof (cases "re_linux re")
  case True
  obtain v w1 where v: "(if rm then (None, w) else validate_service_exists (re_probe re) t n w) = (v, w1)" by fastforce
  have w1: "w_files w1 = w_files w"
    using v validate_files [of "re_probe re" t n w] by (auto split: if_splits)
  show ?thesis
  proof (cases "v = None \<and> (\<exists>cm. new_config_manager (re_decode re) (pv_env (re_probe re)) w1 (re_config re) = Inr cm)")
    case False
    then show ?thesis using assms True v w1
      by (intro that(1)) (auto simp: register_service_def failing_def Let_def split: option.splits sum.splits)
  next
    case found: True
    then obtain cm where cm: "new_config_manager (re_decode re) (pv_env (re_probe re)) w1 (re_config re) = Inr cm" by auto
    obtain p w2 cm1 where p: "persist_service (re_decode re) (pv_env (re_probe re)) w1 cm n t rm = (p, w2, cm1)"
      using prod_cases3 by blast
    have v': "v = None" using found by simp
    have run: "(r, w', s) = (case p of Some err \<Rightarrow> (failing err, w2, []) | None \<Rightarrow>
        (registration_result t n rm (fst (push_service_registration re cm1 n t rm)), w2,
         snd (push_service_registration re cm1 n t rm)))"
      using assms unfolding register_service_def v Let_def
      by (simp add: True cm p v' case_prod_beta split: option.splits)
    have code: "cr_code (registration_result t n rm res) = 0 \<longleftrightarrow> res = None" for res
      by (simp add: registration_result_def split: option.splits)
    show ?thesis
      by (rule that(2) [of cm p cm1])
        (use run in \<open>simp_all add: v cm p v' failing_def code split: option.splits\<close>)
  qed
qed (use assms in \<open>intro that(1); auto simp: register_service_def failing_def\<close>)

subsection \<open>Properties\<close>

text \<open>A registration edits agent.yml before it tells anyone. Unless a write of that file stops half-way: no other file changes; the file changes
  only after the service was found (a removal needs no service) under a name that is valid, and
  then holds exactly the edited text of the old one; whatever leaves the process leaves it after
  that edit, 0600, and at most once; exit status 0 means it did leave.\<close>

theorem registration_edits_then_tells:
  assumes "register_service re t n rm w = (r, w', s)" and untorn: "e_torn (pv_env (re_probe re)) (re_config re) = None"
  shows "length s \<le> 1 \<and> (cr_code r = 0 \<longrightarrow> length s = 1) \<and>
    (\<forall>p. p \<noteq> re_config re \<longrightarrow> w_files w' p = w_files w p) \<and>
    (w_files w' \<noteq> w_files w \<or> s \<noteq> [] \<longrightarrow>
       (rm \<or> fst (validate_service_exists (re_probe re) t n w) = None) \<and> validate_service_name n = None \<and>
       (\<exists>old f. map_option f_content (w_files w (re_config re)) = Some old \<and>
          service_edit rm n t old = Inr (f_content f) \<and> w_files w' (re_config re) = Some f \<and>
          (s \<noteq> [] \<longrightarrow> f_mode f = 0x180)))"
proof -
  let ?v = "if rm then (None, w) else validate_service_exists (re_probe re) t n w" and ?e = "pv_env (re_probe re)"
  have files: "w_files (snd ?v) = w_files w" by (simp add: validate_files)
  from assms(1) show ?thesis
  proof (cases rule: register_service_cases)
    case 1
    then show ?thesis by simp
  next
    case (2 cm cm1 p)
    have path: "cm_path cm = re_config re"
      using 2(2) by (auto simp: new_config_manager_def split: sum.splits)
    have sent: "length s \<le> 1 \<and> (cr_code r = 0 \<longrightarrow> length s = 1) \<and> (s \<noteq> [] \<longrightarrow> p = None)"
      using 2(4-6) push_length [of re cm1 n t rm] by (cases p) auto
    from 2(3) untorn [folded path] show ?thesis
    proof (cases rule: persist_service_cases)
      case 1
      then show ?thesis using sent files by auto
    next
      case (2 raw f)
      have "rm \<or> fst (validate_service_exists (re_probe re) t n w) = None"
        using \<open>fst ?v = None\<close> by (auto split: if_splits)
      moreover have "\<exists>old f. map_option f_content (w_files w (re_config re)) = Some old \<and>
          service_edit rm n t old = Inr (f_content f) \<and> w_files w' (re_config re) = Some f \<and> (s \<noteq> [] \<longrightarrow> f_mode f = 0x180)"
        using 2 sent files path by (intro exI [of _ raw] exI [of _ f]) auto
      ultimately show ?thesis using 2(1,4) sent files path by simp
    qed
  qed
qed

text \<open>C32: Both ways lead to the same frame. After \<open>register\<close> or \<open>unregister\<close> with any accepted
  arguments ended with status 0, exactly one frame reaches the directory, of the right type, with
  the service and its type as parsed: over the process's own connection, or, when the line went to
  the daemon, out of the daemon's handler, provided the daemon takes root for its peer, has a live
  connection and reads the JSON text the client wrote.\<close>

theorem registration_arrives_once:
  assumes "parse_service_args args = Inr (t, n)"
    and "run_registration re rm args w = (r, w', s)" "cr_code r = 0"
    and "tv_euid te = 0" "tv_writer te = Some wr" "wr (reg_frame n t rm) = None"
    and "parse (tray_command_line (reg_command n t rm)) = Some (tray_command_json (reg_command n t rm))"
  shows "concat (map (arriving te parse d) s) = [reg_frame n t rm]"
proof -
  have "register_service re t n rm w = (r, w', s)"
    using assms(1,2) by (simp add: run_registration_def)
  then obtain cm where "push_service_registration re cm n t rm = (None, s)"
    by (cases rule: register_service_cases) (use assms(3) in \<open>auto dest: sym simp: prod_eq_iff\<close>)
  from push_sends [OF this] consider "s = [OverTray (tray_command_line (reg_command n t rm))]"
    | rq where "s = [OverSocket rq (reg_frame n t rm)]" by auto
  then show ?thesis
    using arriving_frame [where parse = parse and d = d, OF assms(4,5,6) service_args_ok(2,3) [OF assms(1)] assms(7)]
    by cases (simp_all add: arriving_def)
qed

text \<open>A host with nginx, the daemon listening on its second socket.\<close>

definition sample_reg :: reg_env where
  "sample_reg = \<lparr>re_probe = sample_probe_env, re_linux = True, re_decode = (\<lambda>_. Inr (zero_config\<lparr>server_url := ''http://d''\<rparr>)),
     re_config = ''agent.yml'', re_tray = (\<lambda>p. if p = ''b'' then Inr (\<lambda>_. None) else Inl ''refused''),
     re_sockets = [''a'', ''b''], re_parse_url = (\<lambda>_. None), re_hostname = Inl [],
     re_shot = \<lparr>os_dial = (\<lambda>_. Some ''down''), os_welcome = None, os_write = (\<lambda>_. None), os_reply = Inl ''eof''\<rparr>,
     re_parse = (\<lambda>_. None), re_fmt = (\<lambda>_. [])\<rparr>"

definition sample_reg_world :: world where
  "sample_reg_world = one_file ''agent.yml'' ''a: 1'' 0"

definition nginx_run :: "cli_run \<times> world \<times> sending list" where
  "nginx_run = run_registration sample_reg False [''SYSTEMD'', '' nginx ''] sample_reg_world"

lemma nginx_args: "parse_service_args [''SYSTEMD'', '' nginx ''] = Inr (''systemd'', ''nginx'')"
  by code_simp

lemma nginx_result: "cr_code (fst nginx_run) = 0" by code_simp

lemma registration_edits_then_tells_witness:
  "\<exists>f. w_files (fst (snd nginx_run)) ''agent.yml'' = Some f \<and>
     service_edit False ''nginx'' ''systemd'' ''a: 1'' = Inr (f_content f) \<and> f_mode f = 0x180 \<and> length (snd (snd nginx_run)) = 1"
proof -
  have run: "register_service sample_reg ''systemd'' ''nginx'' False sample_reg_world =
      (fst nginx_run, fst (snd nginx_run), snd (snd nginx_run))"
    using nginx_args by (simp add: nginx_run_def run_registration_def)
  have "map_option f_content (w_files sample_reg_world (re_config sample_reg)) = Some ''a: 1''"
    "re_config sample_reg = ''agent.yml''" by code_simp+
  moreover have "e_torn (pv_env (re_probe sample_reg)) (re_config sample_reg) = None"
    by (simp add: sample_reg_def sample_probe_env_def quiet_env_def)
  ultimately show ?thesis using registration_edits_then_tells [OF run] nginx_result by fastforce
qed

lemma registration_arrives_once_witness:
  "concat (map (arriving (sample_tray 0)
      (\<lambda>l. if l = tray_command_line (reg_command ''nginx'' ''systemd'' False)
            then Some (tray_command_json (reg_command ''nginx'' ''systemd'' False)) else None) enrolled_daemon)
     (snd (snd nginx_run))) = [reg_frame ''nginx'' ''systemd'' False]"
  by (rule registration_arrives_once [OF nginx_args, where r = "fst nginx_run" and w' = "fst (snd nginx_run)" and
        re = sample_reg and w = sample_reg_world and wr = "\<lambda>_. None"])
    (simp_all add: nginx_result sample_tray_def flip: nginx_run_def)

text \<open>A handover counts as delivered when the line could be written: when the daemon has no live
  connection, or does not take the peer for root, nothing is sent, and nobody falls back to the
  process's own connection.\<close>

lemma registration_lost_offline:
  assumes "tv_writer te = None \<or> tv_euid te \<noteq> 0"
    and "parse (tray_command_line (reg_command n t rm)) = Some (tray_command_json (reg_command n t rm))"
    and "server_url (cm_current cm) \<noteq> []"
    and "send_tray_command (re_tray re) (re_sockets re) (reg_command n t rm) = None"
  shows "fst (push_service_registration re cm n t rm) = None \<and>
    concat (map (arriving te parse d) (snd (push_service_registration re cm n t rm))) = []"
proof -
  have "dec_struct dec_tray_command (tray_command_json (reg_command n t rm)) = Some (reg_command n t rm)"
    by (rule tray_command_roundtrip) (simp add: reg_command_def)
  then have "decode_tray_command parse (tray_command_line (reg_command n t rm)) = Some (reg_command n t rm)"
    by (simp add: decode_tray_command_def assms)
  then show ?thesis
    using assms by (auto simp: push_service_registration_def Let_def arriving_def handle_tray_command_def
        is_privileged_admin_command_def reg_command_def tray_push_service_def push_service_frame_def)
qed

text \<open>Looking a timer up asks for service units only: \<open>backup.timer\<close> becomes \<open>backup.timer.service\<close>.\<close>

lemma timer_lookup_asks_for_services:
  "\<exists>us. w_cmds (snd (validate_service_exists pe ''systemd-timer'' n w)) =
       w_cmds w @ map (\<lambda>u. \<lparr>c_prog = ''systemctl'', c_args = [''list-unit-files'', u], c_stdin = []\<rparr>) us \<and>
     list_all (\<lambda>u. has_suffix u ''.service'') us"
proof -
  have u: "has_suffix (unit_file m) ''.service''" for m
    by (simp add: unit_file_def has_suffix_def)
  show ?thesis
    by (cases "fst (systemd_unit_exists (pv_env pe) n w)")
       (simp add: validate_service_exists_def Let_def u exI [of _ "[unit_file n]"],
        simp add: validate_service_exists_def Let_def u exI [of _ "[unit_file n, unit_file (n @ ''.timer'')]"])
qed

text \<open>The process's own connection carries the credential in the URL, which the daemon's does not.\<close>

lemma one_shot_credential_in_url:
  "service_ws_url re cfg = Inr rq \<Longrightarrow> (''token'', credential cfg) \<in> set (dq_query rq) \<and> dq_headers rq = []"
  by (auto simp: service_ws_url_def split: option.splits)

text \<open>\<open>list-timers\<close> ends its lines with the unit a timer activates, so the listing finds none.\<close>

lemma timer_listing_empty:
  "timer_names (''Sat 2026-10-03 00:00:00 UTC 5h left Fri 2026-10-02 00:00:00 UTC 18h ago logrotate.timer logrotate.service'' @ [NL]) = []"
  by code_simp

end
