(* ===== verification/Cli.thy ===== *)
theory Cli
  imports ServiceReg
begin

text \<open>
  The command line's own work: \<open>verify.go\<close>, \<open>reset_enrollment.go\<close>, \<open>paths.go\<close> and the commands of
  \<open>cli.go\<close>. A command ends with a \<open>cli_run\<close> (exit status and printed lines) and the world it leaves.
\<close>

subsection \<open>Paths\<close>

text \<open>\<open>windows\<close> is the value of %ProgramData% on Windows, \<open>None\<close> elsewhere; \<open>filepath.Join\<close> there joins
  with a backslash.\<close>

definition windows_data_dir :: "string \<Rightarrow> string" where
  "windows_data_dir pd = (if pd = [] then ''C:'' @ BSL # ''ProgramData'' else pd) @ BSL # ''Theta42''"

definition default_config_path :: "string option \<Rightarrow> string" where
  "default_config_path windows =
     (case windows of Some pd \<Rightarrow> windows_data_dir pd @ BSL # ''agent.yml'' | None \<Rightarrow> ''/etc/theta42/agent.yml'')"

definition default_ldap_socket_path :: "string option \<Rightarrow> string" where
  "default_ldap_socket_path windows = (case windows of Some pd \<Rightarrow> [] | None \<Rightarrow> ''/run/theta/ldap.sock'')"

definition windows_tray_socket_path :: "string \<Rightarrow> string" where
  "windows_tray_socket_path pd = windows_data_dir pd @ BSL # ''tray.sock''"

definition default_wireguard_conf_path :: "string option \<Rightarrow> string \<Rightarrow> string" where
  "default_wireguard_conf_path windows name =
     (case windows of Some pd \<Rightarrow> windows_data_dir pd @ BSL # ''wg'' @ BSL # name @ ''.conf''
      | None \<Rightarrow> path_join [''/etc/wireguard'', name @ ''.conf''])"

subsection \<open>verify\<close>

record verify_problem =
  vp_fatal :: bool
  vp_message :: string

text \<open>\<open>ve_host\<close> is the host of a URL, \<open>None\<close> when it does not parse; \<open>ve_permission\<close> says whether an
  error is a refused permission. The texts of parse errors are left out of the messages.\<close>

record verify_env =
  ve_env :: env
  ve_decode :: "string \<Rightarrow> config result"
  ve_host :: "string \<Rightarrow> string option"
  ve_key :: string
  ve_permission :: "string \<Rightarrow> bool"
  ve_euid :: int
  ve_windows :: bool

definition octal4 :: "nat \<Rightarrow> string" where
  "octal4 n = map (\<lambda>d. digit_char (n div 8 ^ d mod 8)) [3, 2, 1, 0]"

definition fatal :: "string \<Rightarrow> verify_problem" where
  "fatal msg = \<lparr>vp_fatal = True, vp_message = msg\<rparr>"

definition warning :: "string \<Rightarrow> verify_problem" where
  "warning msg = \<lparr>vp_fatal = False, vp_message = msg\<rparr>"

definition verify_wireguard_key :: "verify_env \<Rightarrow> world \<Rightarrow> verify_problem list" where
  "verify_wireguard_key ve w =
     (let key = ''WireGuard key '' @ ve_key ve in
      case stat (ve_env ve) w (ve_key ve) of
        Inl err \<Rightarrow> []
      | Inr info \<Rightarrow>
          (case read_file (ve_env ve) w (ve_key ve) of
             Inl err \<Rightarrow>
               if ve_permission ve err \<and> ve_euid ve \<noteq> 0
               then [warning (key @ '' cannot be read as this user -- re-run as root to check it'')]
               else [fatal (key @ '' cannot be read: '' @ err)]
           | Inr data \<Rightarrow>
               (case b64_decode (trim_space data) of
                  None \<Rightarrow> [fatal (key @ '' is not valid base64'')]
                | Some raw \<Rightarrow>
                    if length raw \<noteq> 32
                    then [fatal (key @ '' decodes to '' @ show_nat (length raw) @ '' bytes, not 32'')]
                    else (let perm = and (f_mode info) 0x1FF in
                      if \<not> ve_windows ve \<and> and perm 0x3F \<noteq> 0
                      then [warning (key @ '' is mode '' @ octal4 (unat perm)
                        @ '' -- it should be 0600, readable only by root'')]
                      else []))))"

definition verify_server_url :: "verify_env \<Rightarrow> config \<Rightarrow> verify_problem list \<times> string list" where
  "verify_server_url ve cfg =
     (if server_url cfg = [] then ([fatal ''server_url is empty -- the agent has no directory to connect to''], [])
      else if ve_host ve (server_url cfg) = None \<or> ve_host ve (server_url cfg) = Some []
      then ([fatal (''server_url '' @ go_quote (server_url cfg) @ '' is not a usable URL'')], [])
      else ([], [''server_url is a URL with a host'']))"

definition awaiting_enrollment :: "config \<Rightarrow> bool" where
  "awaiting_enrollment cfg = (auth_token cfg = [] \<and> join_key cfg \<noteq> [])"

definition verify_credential :: "config \<Rightarrow> verify_problem list \<times> string list" where
  "verify_credential cfg =
     (if auth_token cfg \<noteq> [] then ([], [''auth_token present (this host has enrolled)''])
      else if awaiting_enrollment cfg then ([], [''join_key present (this host has not enrolled yet)''])
      else ([fatal ''neither auth_token nor join_key is set -- there is nothing to authenticate with''], []))"

definition verify_public_key :: "config \<Rightarrow> verify_problem list \<times> string list" where
  "verify_public_key cfg =
     (if public_key cfg = [] \<and> awaiting_enrollment cfg
      then ([], [''public_key not set yet (the directory issues it during enrolment)''])
      else if public_key cfg = []
      then ([fatal ''public_key is empty -- signed commands from the directory cannot be verified, so none will run''], [])
      else (case b64_decode (trim_space (public_key cfg)) of
          None \<Rightarrow> ([fatal ''public_key is not valid base64''], [])
        | Some raw \<Rightarrow>
            if length raw \<noteq> 32
            then ([fatal (''public_key decodes to '' @ show_nat (length raw) @ '' bytes, not the 32 an Ed25519 public key needs'')], [])
            else ([], [''public_key is a 32-byte Ed25519 key''])))"

definition any_mentions :: "verify_problem list \<Rightarrow> string \<Rightarrow> bool" where
  "any_mentions ps s = list_ex (\<lambda>p. str_contains (vp_message p) s) ps"

definition verify_config_at :: "verify_env \<Rightarrow> world \<Rightarrow> string \<Rightarrow> verify_problem list \<times> string list" where
  "verify_config_at ve w path =
     (case load_config (ve_decode ve) (ve_env ve) w path of
        Inl err \<Rightarrow> ([fatal (''cannot read '' @ path @ '': '' @ err)], [])
      | Inr cfg \<Rightarrow>
          (let parts = [verify_server_url ve cfg, verify_credential cfg, verify_public_key cfg];
               ps = concat (map fst parts) @ verify_wireguard_key ve w;
               checked = ''config parses'' # concat (map snd parts)
           in (ps, checked @ (if ps = [] \<or> \<not> any_mentions ps ''WireGuard'' then [''WireGuard identity''] else []))))"

definition run_verify :: "verify_env \<Rightarrow> bool \<Rightarrow> world \<Rightarrow> string \<Rightarrow> cli_run" where
  "run_verify ve quiet w path =
     (case verify_config_at ve w path of (ps, checked) \<Rightarrow>
       (let bad = length (filter vp_fatal ps) in
        \<lparr>cr_code = (if bad > 0 then 1 else 0), cr_err = [],
         cr_out = (if quiet then [] else
           [''Checking '' @ path] @ map (\<lambda>c. ''  ok    '' @ c) checked
           @ map (\<lambda>p. (if vp_fatal p then ''  FAIL  '' else ''  warn  '') @ vp_message p) ps
           @ (if bad = 0 \<and> ps = [] then [[], ''Configuration looks usable.'']
              else if bad = 0 then [[], ''Usable, with warnings above.'']
              else [[], show_nat bad @ '' problem(s) will stop this agent working.'']))\<rparr>))"

subsection \<open>reset-enrollment\<close>

definition reset_enrollment ::
  "(string \<Rightarrow> config result) \<Rightarrow> env \<Rightarrow> string \<Rightarrow> string \<Rightarrow> bool \<Rightarrow> world \<Rightarrow> (string list \<times> string option) \<times> world" where
  "reset_enrollment decode e path key remove_key w =
     (case new_config_manager decode e w path of
        Inl err \<Rightarrow> (([], Some (wrap_err (''read '' @ path) err)), w)
      | Inr cm \<Rightarrow>
          if join_key (cm_current cm) = [] \<and> auth_token (cm_current cm) \<noteq> []
          then (([], Some (''refusing to clear the enrollment: '' @ path @ '' has an auth_token but no join_key, so the agent would have nothing left to authenticate with -- set join_key first (theta-agent config-set --path '' @ path @ '' join_key=<key>)'')), w)
          else (case clear_enrollment decode e w cm of
              (Some err, w1, cm1) \<Rightarrow> (([], Some err), w1)
            | (None, w1, cm1) \<Rightarrow>
                (let cleared = [''auth_token'', ''public_key''] in
                 if \<not> remove_key then ((cleared, None), w1)
                 else (case remove_file e w1 key of
                     (None, w2) \<Rightarrow> ((cleared @ [key], None), w2)
                   | (Some err, w2) \<Rightarrow>
                       if e_fault e OpRemove key = None then ((cleared, None), w2)
                       else ((cleared, Some (wrap_err (''remove '' @ key) err)), w2)))))"

definition run_reset_enrollment ::
  "(string \<Rightarrow> config result) \<Rightarrow> env \<Rightarrow> string \<Rightarrow> string \<Rightarrow> bool \<Rightarrow> bool \<Rightarrow> world \<Rightarrow> cli_run \<times> world" where
  "run_reset_enrollment decode e path key remove_key quiet w =
     (case reset_enrollment decode e path key remove_key w of
        ((cleared, Some err), w1) \<Rightarrow> (\<lparr>cr_code = 1, cr_err = [''reset-enrollment: '' @ err], cr_out = []\<rparr>, w1)
      | ((cleared, None), w1) \<Rightarrow>
          (\<lparr>cr_code = 0, cr_err = [], cr_out = (if quiet then [] else
             map (\<lambda>c. ''  cleared '' @ c) cleared @ [''This host will enroll again from its join key on the next connect.''])\<rparr>, w1))"

subsection \<open>reinitialize\<close>

fun join_key_arg :: "string list \<Rightarrow> string \<Rightarrow> string" where
  "join_key_arg (a # v # args) k =
     (if a = ''--join-key'' \<or> a = ''-j'' then join_key_arg args v else join_key_arg (v # args) k)"
| "join_key_arg _ k = k"

text \<open>\<open>(?m)^KEY:.*$\<close>; the replacement is a template, in which a dollar sign is expanded.\<close>

definition plain_key_re :: "string \<Rightarrow> rx" where
  "plain_key_re key = rseq [RBol, rlit (key @ '':''), rdots, REol]"

definition reinit_doc :: "string \<Rightarrow> string \<Rightarrow> string" where
  "reinit_doc jk raw =
     (let c = replace_tmpl (plain_key_re ''auth_token'') (''auth_token: '' @ [DQ, DQ]) raw;
          line = ''join_key: '' @ DQ # jk @ [DQ]
      in if jk = [] then c
         else if rx_matches (plain_key_re ''join_key'') c then replace_tmpl (plain_key_re ''join_key'') line c
         else c @ NL # line @ [NL])"

definition restart_affected_services :: "bool \<Rightarrow> env \<Rightarrow> world \<Rightarrow> world" where
  "restart_affected_services windows e w =
     (let run = (\<lambda>c a w. snd (run_cmd e w c a)); sc = ''systemctl'' in
      if windows then run ''sc'' [''start'', ''theta-agent''] (run ''sc'' [''stop'', ''theta-agent''] w)
      else (let w1 = run sc [''restart'', ''theta-agent''] w;
                sssd = cmd_ok e sc [''is-active'', ''sssd''] w1;
                w2 = (if fst sssd then run sc [''restart'', ''sssd''] (snd sssd) else snd sssd);
                sshd = cmd_ok e sc [''is-active'', ''sshd''] w2
            in if fst sshd then run sc [''reload'', ''sshd''] (snd sshd)
               else (let ssh = cmd_ok e sc [''is-active'', ''ssh''] (snd sshd)
                 in if fst ssh then run sc [''reload'', ''ssh''] (snd ssh) else snd ssh)))"

text \<open>Log lines are left out of \<open>cr_err\<close>, but for the one that ends the process.\<close>

definition done_run :: "string list \<Rightarrow> cli_run" where
  "done_run out = \<lparr>cr_code = 0, cr_err = [], cr_out = out\<rparr>"

definition run_reinitialize :: "bool \<Rightarrow> env \<Rightarrow> string \<Rightarrow> string list \<Rightarrow> world \<Rightarrow> cli_run \<times> world" where
  "run_reinitialize windows e path args w =
     (case read_file e w path of
        Inl err \<Rightarrow> (failing (''Cannot read '' @ path @ '': '' @ err), w)
      | Inr raw \<Rightarrow>
          (case write_file e w path (reinit_doc (join_key_arg args []) raw) 0x180 of
             (Some err, w1) \<Rightarrow> (failing (''Failed to update '' @ path @ '': '' @ err), w1)
           | (None, w1) \<Rightarrow> (done_run [], restart_affected_services windows e w1)))"

subsection \<open>update\<close>

fun manifest_sha :: "string \<Rightarrow> string list \<Rightarrow> string option" where
  "manifest_sha artifact [] = None"
| "manifest_sha artifact (l # ls) =
     (case str_fields (trim_space l) of
        sha # name # _ \<Rightarrow> if name = artifact then Some sha else manifest_sha artifact ls
      | _ \<Rightarrow> manifest_sha artifact ls)"

definition fetch_manifest_sha :: "update_env \<Rightarrow> string \<Rightarrow> string \<Rightarrow> string result" where
  "fetch_manifest_sha ue url artifact =
     (case ue_get ue url of
        Inl err \<Rightarrow> Inl (wrap_err (''fetch checksum manifest from '' @ url) err)
      | Inr resp \<Rightarrow>
          if hr_code resp \<noteq> 200
          then Inl (''fetch checksum manifest from '' @ url @ '': HTTP '' @ hr_status resp)
          else (case hr_broken resp of
              Some err \<Rightarrow> Inl (wrap_err ''read checksum manifest'' err)
            | None \<Rightarrow>
                (case manifest_sha artifact (split_on NL (hr_body resp)) of
                   Some sha \<Rightarrow> Inr sha
                 | None \<Rightarrow> Inl (''no checksum for '' @ artifact @ '' in '' @ url @ '' (is the artifact mirrored there?)''))))"

definition swap_updated_binary_other :: "env \<Rightarrow> config \<Rightarrow> string \<Rightarrow> string \<Rightarrow> world \<Rightarrow> bool result \<times> world" where
  "swap_updated_binary_other e cfg tmp bin w =
     (case rename_file e w tmp bin of
        (Some err, w1) \<Rightarrow> (Inl (wrap_err (''replace '' @ bin) err), w1)
      | (None, w1) \<Rightarrow> (Inr False, w1))"

definition artifact_name :: "string \<Rightarrow> string \<Rightarrow> string" where
  "artifact_name os arch = ''theta-agent-'' @ os @ ''-'' @ (if arch = ''arm64'' then ''arm64'' else ''amd64'')
     @ (if os = ''windows'' then ''.exe'' else [])"

definition update_target :: "update_env \<Rightarrow> string" where
  "update_target ue = (case ue_self ue of Inr p \<Rightarrow> if p \<noteq> [] then p else ''/usr/local/bin/theta-agent''
     | Inl err \<Rightarrow> ''/usr/local/bin/theta-agent'')"

text \<open>\<open>swap\<close> is the platform's \<open>swapUpdatedBinary\<close>: whether it also restarts the service.\<close>

definition run_self_update ::
  "(config \<Rightarrow> string \<Rightarrow> string \<Rightarrow> world \<Rightarrow> bool result \<times> world) \<Rightarrow> string \<Rightarrow> string \<Rightarrow> (string \<Rightarrow> config result) \<Rightarrow>
   linux_ops \<Rightarrow> update_env \<Rightarrow> string \<Rightarrow> world \<Rightarrow> cli_run \<times> world" where
  "run_self_update swap os arch decode lo ue path w =
     (let fail = (\<lambda>err. failing (''Update failed: '' @ err)); e = lo_env lo in
      case new_config_manager decode e w path of
        Inl err \<Rightarrow> (fail (''cannot read config from '' @ path @ '': '' @ err), w)
      | Inr cm \<Rightarrow>
          (let base = http_base (server_url (cm_current cm)); dir = base @ ''/resources/theta-agent/'';
               bin = update_target ue in
           if base = [] then (fail (''server_url is empty in '' @ path @ '' -- nothing to update from''), w)
           else (case fetch_manifest_sha ue (dir @ ''SHA256SUMS'') (artifact_name os arch) of
               Inl err \<Rightarrow> (fail err, w)
             | Inr expected \<Rightarrow>
                 (case download_binary lo ue w (dir @ artifact_name os arch) expected (own_dir os bin) of
                    (Inl err, w1) \<Rightarrow> (fail err, w1)
                  | (Inr tmp, w1) \<Rightarrow>
                      (case swap (cm_current cm) tmp bin w1 of
                         (Inl err, w2) \<Rightarrow>
                           (failing (''Cannot install updated binary at '' @ bin @ '': '' @ err),
                            snd (remove_file e w2 tmp))
                       | (Inr restarted, w2) \<Rightarrow>
                           (done_run [], if restarted then w2
                              else restart_affected_services (os = ''windows'') e w2))))))"

subsection \<open>Secrets on the command line\<close>

text \<open>The paths are merged in the order in which a Go map is walked, the argument \<open>walk\<close>.\<close>

definition merge_path :: "(json \<Rightarrow> string) \<Rightarrow> fields_map \<Rightarrow> (string \<times> string) list \<Rightarrow> (string \<times> string) list" where
  "merge_path fmt_v m acc = foldl (\<lambda>acc (k, v). case v of JNull \<Rightarrow> acc | JStr t \<Rightarrow> AList.update k t acc
     | _ \<Rightarrow> AList.update k (sprint_v fmt_v v) acc) acc m"

definition merge_secrets :: "(json \<Rightarrow> string) \<Rightarrow> (string \<times> fields_map) list \<Rightarrow> (string \<times> string) list" where
  "merge_secrets fmt_v paths = foldl (\<lambda>acc (p, m). merge_path fmt_v m acc) [] paths"

definition secrets_request :: "config \<Rightarrow> http_request" where
  "secrets_request cfg =
     \<lparr>hq_method = ''POST'',
      hq_url = trim_right_when (\<lambda>c. c = CHR ''/'') (server_url cfg) @ ''/api/v1/agent/secrets'',
      hq_headers = [(''Content-Type'', ''application/json''), (''Authorization'', ''Bearer '' @ auth_token cfg)],
      hq_body = json_marshal (JObj [])\<rparr>"

definition fetch_agent_secrets ::
  "((string \<times> fields_map) list \<Rightarrow> (string \<times> fields_map) list) \<Rightarrow> (string \<Rightarrow> config result) \<Rightarrow> secrets_env \<Rightarrow> string \<Rightarrow>
   world \<Rightarrow> (string \<times> string) list result" where
  "fetch_agent_secrets walk decode se path w =
     (case new_config_manager decode (se_env se) w path of
        Inl err \<Rightarrow> Inl (wrap_err (''cannot read config '' @ path) err)
      | Inr cm \<Rightarrow>
          (let cfg = cm_current cm in
           if trim_right_when (\<lambda>c. c = CHR ''/'') (server_url cfg) = [] then Inl (''server_url is empty in '' @ path)
           else if auth_token cfg = [] then Inl (''agent is not enrolled (auth_token empty in '' @ path @ '')'')
           else (case se_http se (secrets_request cfg) of
               Inl err \<Rightarrow> Inl (wrap_err ''HTTP request failed'' err)
             | Inr resp \<Rightarrow>
                 if hr_code resp \<noteq> 200 then Inl (''HTTP '' @ show_nat (hr_code resp) @ '': '' @ hr_body resp)
                 else (case Option.bind (se_parse se (hr_body resp))
                          (dec_struct (\<lambda>m. if dec_str (struct_field m ''status'') = None then None
                             else dec_store (struct_field m ''secrets''))) of
                     None \<Rightarrow> Inl ''failed to decode JSON response''
                   | Some store \<Rightarrow> Inr (merge_secrets (se_fmt se) (walk store))))))"

definition run_get_secret :: "(string \<times> string) list result \<Rightarrow> string list \<Rightarrow> cli_run" where
  "run_get_secret fetched args =
     (case args of
        [] \<Rightarrow> failing ''Error: secret key name required (e.g. theta-agent get-secret DB_PASSWORD)''
      | key # _ \<Rightarrow>
          (case fetched of
             Inl err \<Rightarrow> failing (''Error fetching secrets: '' @ err)
           | Inr ss \<Rightarrow>
               (case map_of ss key of
                  None \<Rightarrow> failing (''Error: secret '' @ SQ # key @ SQ # '' not found for this host/resource'')
                | Some v \<Rightarrow> done_run [v])))"

text \<open>\<open>--env\<close> escapes the double quote and nothing else.\<close>

definition env_line :: "string \<times> string \<Rightarrow> string" where
  "env_line kv = fst kv @ CHR ''='' # DQ # replace_all_str (snd kv) [DQ] [BSL, DQ] @ [DQ]"

definition status_line :: "string \<times> string \<Rightarrow> string" where
  "status_line kv = pad_right 30 (fst kv) @ '' Configured ('' @ show_nat (length (snd kv)) @ '' chars)''"

definition run_get_secrets :: "((string \<times> string) list \<Rightarrow> string list) \<Rightarrow> (string \<times> string) list result \<Rightarrow> string list \<Rightarrow> cli_run" where
  "run_get_secrets indent_json fetched args =
     (case fetched of
        Inl err \<Rightarrow> failing (''Error fetching secrets: '' @ err)
      | Inr ss \<Rightarrow> done_run
          (if ''--json'' \<in> set args then indent_json ss
           else if ''--env'' \<in> set args then map env_line ss
           else if ss = [] then [''No secrets configured for this host/resource.'']
           else [pad_right 30 ''SECRET KEY'' @ '' VALUE STATUS'', replicate 60 (CHR ''-'')] @ map status_line ss))"

subsection \<open>config-set and discover\<close>

fun config_set_args :: "string list \<Rightarrow> string \<Rightarrow> (string \<times> string) list \<Rightarrow> (string \<times> (string \<times> string) list) result" where
  "config_set_args [] path ps = Inr (path, ps)"
| "config_set_args (a # args) path ps =
     (if a = ''--path'' \<or> a = ''-c'' then
        (case args of [] \<Rightarrow> Inl ''config-set: --path needs a value'' | p # args' \<Rightarrow> config_set_args args' p ps)
      else (case cut_on (CHR ''='') a of
          None \<Rightarrow> Inl (''config-set: expected key=value, got '' @ go_quote a)
        | Some (k, v) \<Rightarrow>
            if k = [] then Inl (''config-set: expected key=value, got '' @ go_quote a)
            else config_set_args args path (AList.update k v ps)))"

definition run_config_set ::
  "(string \<Rightarrow> string option) \<Rightarrow> env \<Rightarrow> string \<Rightarrow> string list \<Rightarrow> world \<Rightarrow> cli_run \<times> world" where
  "run_config_set yaml_error e dflt args w =
     (case config_set_args args dflt [] of
        Inl err \<Rightarrow> (\<lparr>cr_code = 2, cr_err = [err], cr_out = []\<rparr>, w)
      | Inr (path, ps) \<Rightarrow>
          if ps = [] then (\<lparr>cr_code = 2, cr_err = [''config-set: nothing to set''], cr_out = []\<rparr>, w)
          else (case apply_config_values yaml_error e w path ps of
              (Some err, w1) \<Rightarrow> (\<lparr>cr_code = 1, cr_err = [''config-set: '' @ err], cr_out = []\<rparr>, w1)
            | (None, w1) \<Rightarrow> (done_run [''Updated '' @ path @ '' ('' @ join '', '' (sort (map fst ps)) @ '')''], w1)))"

record discover_opts =
  do_timeout :: int
  do_urls :: bool
  do_json :: bool

fun discover_args :: "(string \<Rightarrow> int option) \<Rightarrow> string list \<Rightarrow> discover_opts \<Rightarrow> discover_opts" where
  "discover_args duration [] o' = o'"
| "discover_args duration (a # args) o' =
     (if a = ''--urls-only'' then discover_args duration args (o'\<lparr>do_urls := True\<rparr>)
      else if a = ''--json'' then discover_args duration args (o'\<lparr>do_json := True\<rparr>)
      else if a = ''--timeout'' then
        (case args of [] \<Rightarrow> o'
         | d # args' \<Rightarrow> discover_args duration args' (case duration d of None \<Rightarrow> o' | Some t \<Rightarrow> o'\<lparr>do_timeout := t\<rparr>))
      else discover_args duration args o')"

fun site_lines :: "nat \<Rightarrow> announcement list \<Rightarrow> string list" where
  "site_lines i [] = []"
| "site_lines i (s # ss) =
     [''  ['' @ show_nat i @ ''] site='' @ an_site s, ''      url:     https://'' @ an_directory_host s,
      ''      version: '' @ an_version s] @ site_lines (i + 1) ss"

text \<open>\<open>heard\<close> gives the announcements heard within a time.\<close>

definition run_discover ::
  "(string \<Rightarrow> int option) \<Rightarrow> (announcement list \<Rightarrow> string list) \<Rightarrow> (int \<Rightarrow> mdns_entry list) \<Rightarrow> string list \<Rightarrow> cli_run" where
  "run_discover duration indent_json heard args =
     (let o' = discover_args duration args \<lparr>do_timeout = seconds 3, do_urls = False, do_json = False\<rparr>;
          sites = collect_announcements [] (heard (do_timeout o'))
      in done_run
        (if do_json o' then indent_json sites
         else if do_urls o' then map (\<lambda>s. ''https://'' @ an_directory_host s) sites
         else if sites = [] then [''No theta-suite sites found on the local network.'']
         else [''Found '' @ show_nat (length sites) @ '' site(s) on the local network:'', []] @ site_lines 1 sites @ [[]]))"

subsection \<open>Lemmas\<close>

lemma restart_files: "w_files (restart_affected_services windows e w) = w_files w"
  by (simp add: restart_affected_services_def Let_def run_cmd_frame)

lemma fatal_simps [simp]:
  "vp_fatal (fatal m)" "\<not> vp_fatal (warning m)"
  by (simp_all add: fatal_def warning_def)

text \<open>What each check demands.\<close>

definition key_sound :: "verify_env \<Rightarrow> world \<Rightarrow> bool" where
  "key_sound ve w =
     (case stat (ve_env ve) w (ve_key ve) of Inl err \<Rightarrow> True
      | Inr info \<Rightarrow>
          (case read_file (ve_env ve) w (ve_key ve) of
             Inl err \<Rightarrow> ve_permission ve err \<and> ve_euid ve \<noteq> 0
           | Inr data \<Rightarrow> (case b64_decode (trim_space data) of None \<Rightarrow> False | Some raw \<Rightarrow> length raw = 32)))"

definition key_bytes :: "string \<Rightarrow> bool" where
  "key_bytes text = (case b64_decode (trim_space text) of None \<Rightarrow> False | Some raw \<Rightarrow> length raw = 32)"

lemma verify_parts:
  "filter vp_fatal (fst (verify_server_url ve cfg)) = [] \<longleftrightarrow>
     server_url cfg \<noteq> [] \<and> (\<exists>h. ve_host ve (server_url cfg) = Some h \<and> h \<noteq> [])"
  "filter vp_fatal (fst (verify_credential cfg)) = [] \<longleftrightarrow> credential cfg \<noteq> []"
  "filter vp_fatal (fst (verify_public_key cfg)) = [] \<longleftrightarrow>
     public_key cfg = [] \<and> awaiting_enrollment cfg \<or> public_key cfg \<noteq> [] \<and> key_bytes (public_key cfg)"
  "filter vp_fatal (verify_wireguard_key ve w) = [] \<longleftrightarrow> key_sound ve w"
  by (auto simp: verify_server_url_def verify_credential_def verify_public_key_def verify_wireguard_key_def Let_def
      key_sound_def key_bytes_def awaiting_enrollment_def credential_def split: option.splits sum.splits)

lemma run_verify_zero:
  "cr_code (run_verify ve quiet w path) = 0 \<longleftrightarrow>
     (\<exists>cfg. load_config (ve_decode ve) (ve_env ve) w path = Inr cfg \<and>
       server_url cfg \<noteq> [] \<and> (\<exists>h. ve_host ve (server_url cfg) = Some h \<and> h \<noteq> []) \<and> credential cfg \<noteq> [] \<and>
       (public_key cfg = [] \<and> awaiting_enrollment cfg \<or> public_key cfg \<noteq> [] \<and> key_bytes (public_key cfg)) \<and>
       key_sound ve w)"
proof (cases "load_config (ve_decode ve) (ve_env ve) w path")
  case (Inl err)
  then show ?thesis by (simp add: run_verify_def verify_config_at_def)
next
  case (Inr cfg)
  have "cr_code (run_verify ve quiet w path) = 0 \<longleftrightarrow>
      filter vp_fatal (fst (verify_server_url ve cfg)) = [] \<and> filter vp_fatal (fst (verify_credential cfg)) = [] \<and>
      filter vp_fatal (fst (verify_public_key cfg)) = [] \<and> filter vp_fatal (verify_wireguard_key ve w) = []"
    by (simp add: run_verify_def verify_config_at_def Inr Let_def del: filter_empty_conv)
  then show ?thesis by (simp only: verify_parts Inr) auto
qed

text \<open>The key file as \<open>verify\<close> reads it and as the daemon reads it.\<close>

lemma filter_dropWhile: "\<forall>c\<in>set s. q c \<longrightarrow> \<not> p c \<Longrightarrow> filter p (dropWhile q s) = filter p s"
  by (induction s) auto

lemma filter_trim_space:
  assumes "\<forall>c\<in>set s. is_space c \<longrightarrow> \<not> p c"
  shows "filter p (trim_space s) = filter p s"
proof -
  let ?d = "dropWhile is_space s"
  have d: "\<forall>c\<in>set (rev ?d). is_space c \<longrightarrow> \<not> p c" using assms by (auto dest: set_dropWhileD)
  have "filter p (trim_space s) = rev (filter p (dropWhile is_space (rev ?d)))"
    by (simp add: trim_space_def trim_when_def trim_left_when_def trim_right_when_def rev_filter)
  also have "\<dots> = filter p s" using filter_dropWhile [OF d] filter_dropWhile [OF assms] by (simp add: rev_filter)
  finally show ?thesis .
qed

lemma decode_groups_chars: "b64_decode_groups s = Some r \<Longrightarrow> c \<in> set s \<Longrightarrow> b64_val c \<noteq> None \<or> c = CHR ''=''"
  by (induction s arbitrary: r rule: b64_decode_groups.induct) (auto split: option.splits if_splits)

definition plain_spaces :: "string \<Rightarrow> bool" where
  "plain_spaces s = (CHR 0x0B \<notin> set s \<and> CHR 0x0C \<notin> set s)"

lemma decode_trim_key:
  assumes "b64_decode (trim_space s) = Some raw" and "plain_spaces s"
  shows "b64_decode (trim_key s) = Some raw"
proof -
  let ?p = "\<lambda>c. c \<notin> {NL, CRET, CHR '' '', TAB}" and ?n = "\<lambda>c. c \<noteq> CRET \<and> c \<noteq> NL"
  let ?t = "filter ?n (trim_space s)"
  have dec: "b64_decode_groups ?t = Some raw" using assms by (simp add: b64_decode_def)
  have v: "b64_val (CHR '' '') = None" "b64_val TAB = None" by code_simp+
  have "filter ?p ?t = ?t"
    using decode_groups_chars [OF dec] v by (intro filter_True) fastforce
  moreover have "filter ?p ?t = filter ?p (trim_space s)" by (auto intro: filter_cong)
  moreover have "filter ?p (trim_space s) = filter ?p s"
    using assms(2) by (intro filter_trim_space) (auto simp: is_space_def plain_spaces_def)
  moreover have "filter ?n (filter ?p s) = filter ?p s" by (auto intro: filter_cong)
  ultimately show ?thesis using dec by (simp add: b64_decode_def trim_key_def)
qed

lemma key_bytes_loads:
  assumes "read_file e w path = Inr data" "key_bytes data" "plain_spaces data"
  shows "\<exists>kp. load_or_create_key x rnd e w path = (Inr kp, w)"
proof -
  obtain raw where raw: "b64_decode (trim_key data) = Some raw" "length raw = 32"
    using assms decode_trim_key by (auto simp: key_bytes_def split: option.splits)
  then have "trim_key data \<noteq> []" by (auto simp: b64_decode_def)
  with raw show ?thesis by (simp add: load_or_create_key_def assms public_from_private_def)
qed

subsection \<open>Properties\<close>


text \<open>Unless a write of agent.yml stops half-way, \<open>reset-enrollment\<close> leaves a way back in: it changes agent.yml only when the configuration has a
  join key (or holds no token to lose), and then keeps its join key lines; it deletes the WireGuard
  key only when asked to, and no other file; and when it reports success, token and pinned key are
  blank.\<close>

theorem reset_keeps_a_way_in:
  assumes "reset_enrollment decode e path key rk w = ((cleared, err), w')" and "key \<noteq> path"
    and untorn: "e_torn e path = None"
  shows "(\<forall>p. p \<noteq> path \<longrightarrow> w_files w' p \<noteq> w_files w p \<longrightarrow> p = key \<and> rk \<and> w_files w' p = None) \<and>
    (w_files w' path \<noteq> w_files w path \<longrightarrow>
       (\<exists>cfg. load_config decode e w path = Inr cfg \<and> (join_key cfg \<noteq> [] \<or> auth_token cfg = []))) \<and>
    file_view (\<lambda>raw. filter (scalar_line ''join_key'') (lines_of raw)) path w' =
      file_view (\<lambda>raw. filter (scalar_line ''join_key'') (lines_of raw)) path w \<and>
    (err = None \<longrightarrow> (\<exists>f. w_files w' path = Some f \<and>
       set (filter (scalar_line ''auth_token'') (lines_of (f_content f))) = {yaml_line ''auth_token'' [] True} \<and>
       set (filter (scalar_line ''public_key'') (lines_of (f_content f))) = {yaml_line ''public_key'' [] True}))"
proof -
  let ?g = "\<lambda>raw. filter (scalar_line ''join_key'') (lines_of raw)"
  consider "w' = w" "err \<noteq> None"
    | cm r w1 cm1 where "new_config_manager decode e w path = Inr cm"
      "join_key (cm_current cm) \<noteq> [] \<or> auth_token (cm_current cm) = []"
      "clear_enrollment decode e w cm = (r, w1, cm1)" "err = None \<longrightarrow> r = None"
      "w' = w1 \<or> rk \<and> w' = snd (remove_file e w1 key)"
    using assms(1) unfolding reset_enrollment_def Let_def
    by (fastforce split: sum.splits if_splits prod.splits option.splits)
  then show ?thesis
  proof cases
    case 2
    have path: "cm_path cm = path" and load: "load_config decode e w path = Inr (cm_current cm)"
      using 2(1) by (auto simp: new_config_manager_def split: sum.splits)
    have other: "w_files w1 p = w_files w p" if "p \<noteq> path" for p
      using 2(3) that path write_and_reload_frame [of p cm decode e w]
      by (auto simp: clear_enrollment_def split: sum.splits) (metis fst_conv snd_conv)
    have rm: "w_files w' p = w_files w1 p \<or> p = key \<and> rk \<and> w_files w' p = None" for p
      using 2(5) by (auto simp: remove_file_def split: option.splits if_splits)
    have view: "file_view ?g path w1 = file_view ?g path w"
    proof (cases "read_file e w path")
      case (Inr raw)
      then have "file_view ?g path w = Some (?g (clear_doc (cm_current cm) raw))"
        by (auto simp: read_file_def file_view_def clear_doc_lines(5) split: option.splits)
      with Inr 2(3) path untorn show ?thesis unfolding clear_enrollment_def by (auto dest: write_and_reload_view)
    qed (use 2(3) path in \<open>simp add: clear_enrollment_def\<close>)
    have same: "w_files w' path = w_files w1 path" using rm [of path] assms(2) by auto
    have blank: "\<exists>f. w_files w1 path = Some f \<and>
       set (filter (scalar_line ''auth_token'') (lines_of (f_content f))) = {yaml_line ''auth_token'' [] True} \<and>
       set (filter (scalar_line ''public_key'') (lines_of (f_content f))) = {yaml_line ''public_key'' [] True}"
      if none: "r = None"
    proof -
      obtain raw where "read_file e w path = Inr raw"
        using 2(3) none path by (auto simp: clear_enrollment_def split: sum.splits)
      then have "write_and_reload decode e w cm (clear_doc (cm_current cm) raw) ''enrollment clear'' = (None, w1, cm1)"
        using 2(3) none path by (simp add: clear_enrollment_def)
      from write_and_reload_ok [OF this] show ?thesis
        by (metis path clear_doc_lines(1,2))
    qed
    show ?thesis
      using other rm view same blank load 2(2,4) by (auto simp: file_view_def) metis+
  qed auto
qed

text \<open>The checksum of an artifact: the first field of the first line of the manifest whose second field is the
  artifact's name.\<close>

definition first_listing :: "string \<Rightarrow> string list \<Rightarrow> string \<Rightarrow> bool" where
  "first_listing artifact ls sha \<longleftrightarrow>
     (\<exists>pre l post rest. ls = pre @ l # post \<and> str_fields (trim_space l) = sha # artifact # rest \<and>
        (\<forall>m\<in>set pre. \<nexists>s more. str_fields (trim_space m) = s # artifact # more))"

lemma manifest_sha_listing: "manifest_sha artifact ls = Some sha \<Longrightarrow> first_listing artifact ls sha"
proof (induction ls)
  case (Cons l ls)
  show ?case
  proof (cases "\<exists>s rest. str_fields (trim_space l) = s # artifact # rest")
    case True
    with Cons.prems have "\<exists>rest. str_fields (trim_space l) = sha # artifact # rest" by auto
    then show ?thesis unfolding first_listing_def by (metis append_Nil empty_iff list.set(1))
  next
    case False
    then have "manifest_sha artifact ls = Some sha" using Cons.prems by (auto split: list.splits if_splits)
    from Cons.IH [OF this] obtain pre l' post rest where
      "ls = pre @ l' # post" "str_fields (trim_space l') = sha # artifact # rest"
      "\<forall>m\<in>set pre. \<nexists>s more. str_fields (trim_space m) = s # artifact # more" unfolding first_listing_def by blast
    then show ?thesis
      unfolding first_listing_def using False
      by (intro exI [of _ "l # pre"] exI [of _ l'] exI [of _ post] exI [of _ rest]) auto
  qed
qed simp

lemma self_update_cases:
  assumes "run_self_update (swap_updated_binary_other (lo_env lo)) os arch decode lo ue path w = (r, w')"
  obtains "w' = w" "cr_code r \<noteq> 0"
    | cm sha err w1 where "new_config_manager decode (lo_env lo) w path = Inr cm"
        "download_binary lo ue w (http_base (server_url (cm_current cm)) @ ''/resources/theta-agent/'' @ (artifact_name os arch)) sha (own_dir os (update_target ue)) = (Inl err, w1)"
        "w' = w1" "cr_code r \<noteq> 0"
    | cm sha tmp w1 where "new_config_manager decode (lo_env lo) w path = Inr cm"
        "fetch_manifest_sha ue (http_base (server_url (cm_current cm)) @ ''/resources/theta-agent/SHA256SUMS'') (artifact_name os arch) = Inr sha"
        "download_binary lo ue w (http_base (server_url (cm_current cm)) @ ''/resources/theta-agent/'' @ (artifact_name os arch)) sha (own_dir os (update_target ue)) = (Inr tmp, w1)"
        "(r, w') = (case rename_file (lo_env lo) w1 tmp (update_target ue) of
           (Some err, w2) \<Rightarrow> (failing (''Cannot install updated binary at '' @ (update_target ue) @ '': '' @ wrap_err (''replace '' @ (update_target ue)) err),
              snd (remove_file (lo_env lo) w2 tmp))
         | (None, w2) \<Rightarrow> (done_run [], restart_affected_services (os = ''windows'') (lo_env lo) w2))"
  using assms unfolding run_self_update_def Let_def swap_updated_binary_other_def failing_def
  by (fastforce split: sum.splits if_splits prod.splits option.splits)

text \<open>C14: \<open>update\<close> installs what the directory's manifest names, or nothing. When the command succeeds, the
  binary is the complete body of a 200 response whose digest is the one SHA256SUMS lists first for this
  platform's artifact; when it fails, the binary is what it was. (On Windows the helper does the
  swap; here it is the rename of the other systems.)\<close>

theorem cli_update_follows_manifest:
  assumes "run_self_update (swap_updated_binary_other (lo_env lo)) os arch decode lo ue path w = (r, w')"
    and "update_target ue \<noteq> own_dir os (update_target ue) @ ''/'' @ ''theta-agent-update-'' @ lo_rand lo w"
  shows "if cr_code r = 0 then
      (\<exists>cfg man resp sha. load_config decode (lo_env lo) w path = Inr cfg \<and>
        ue_get ue (http_base (server_url cfg) @ ''/resources/theta-agent/SHA256SUMS'') = Inr man \<and> hr_code man = 200 \<and>
        first_listing (artifact_name os arch) (split_on NL (hr_body man)) sha \<and>
        ue_get ue (http_base (server_url cfg) @ ''/resources/theta-agent/'' @ artifact_name os arch) = Inr resp \<and>
        hr_code resp = 200 \<and> hr_broken resp = None \<and> to_lower (ue_sha ue (hr_body resp)) = to_lower (trim_space sha) \<and>
        map_option f_content (w_files w' (update_target ue)) = Some (hr_body resp))
    else w_files w' (update_target ue) = w_files w (update_target ue)"
proof -
  let ?e = "lo_env lo" and ?bin = "update_target ue" and ?art = "artifact_name os arch"
  from self_update_cases [OF assms(1)] show ?thesis
  proof cases
    case (2 cm sha err w1)
    then show ?thesis using download_binary_err [OF 2(2) assms(2)] by simp
  next
    case (3 cm sha tmp w1)
    from download_binary_ok [OF 3(3)] obtain resp where resp: "hr_code resp = 200" "hr_broken resp = None"
      "ue_get ue (http_base (server_url (cm_current cm)) @ ''/resources/theta-agent/'' @ ?art) = Inr resp"
      "to_lower (ue_sha ue (hr_body resp)) = to_lower (trim_space sha)"
      "tmp \<noteq> ?bin" "map_option f_content (w_files w1 tmp) = Some (hr_body resp)" "\<forall>q. q \<noteq> tmp \<longrightarrow> w_files w1 q = w_files w q"
      using assms(2) by auto
    obtain man where man: "ue_get ue (http_base (server_url (cm_current cm)) @ ''/resources/theta-agent/SHA256SUMS'') = Inr man"
      "hr_code man = 200" "first_listing ?art (split_on NL (hr_body man)) sha"
      using 3(2) manifest_sha_listing by (auto simp: fetch_manifest_sha_def split: sum.splits if_splits option.splits)
    obtain x w2 where rn: "rename_file ?e w1 tmp ?bin = (x, w2)" by fastforce
    show ?thesis
    proof (cases x)
      case None
      then have "w_files w2 ?bin = w_files w1 tmp" "r = done_run []" "w_files w' = w_files w2"
        using rn resp(5,6) 3(4) by (auto simp: rename_file_def restart_files split: option.splits)
      then show ?thesis using resp man 3(1) by (auto simp: done_run_def new_config_manager_def split: sum.splits)
    next
      case (Some err)
      then have "w2 = w1" "cr_code r \<noteq> 0" "w' = snd (remove_file ?e w1 tmp)"
        using 3(4) rename_file_err [OF rn [unfolded Some]] by (simp_all add: rn failing_def)
      then show ?thesis using resp(5,7) remove_file_frame(2) [of ?bin tmp ?e w1] by simp
    qed
  qed simp
qed

text \<open>An enrolled host with its key file, one with both credentials, and a directory with a manifest.\<close>

definition enrolled_config :: config where
  "enrolled_config = zero_config\<lparr>server_url := ''http://d'', auth_token := ''tok'', join_key := ''fleet'',
     public_key := b64_encode (replicate 32 (CHR ''k''))\<rparr>"

definition verified_world :: world where
  "verified_world = put_file ''key'' \<lparr>f_content = b64_encode (replicate 32 (CHR ''p'')) @ [NL], f_mode = 0x180, f_mtime = 0\<rparr>
     (one_file ''agent.yml'' (join [NL] [''auth_token: tok'', ''join_key: fleet'']) 0)"

definition sample_verify :: verify_env where
  "sample_verify = \<lparr>ve_env = quiet_env, ve_decode = (\<lambda>_. Inr enrolled_config),
     ve_host = (\<lambda>u. if u = ''http://d'' then Some ''d'' else None), ve_key = ''key'', ve_permission = (\<lambda>_. False),
     ve_euid = 0, ve_windows = False\<rparr>"

definition plain_view :: dial_view where
  "plain_view = \<lparr>dv_hostname = Inl ''none'', dv_entries = [], dv_parse_url = (\<lambda>_. Some \<lparr>u_scheme = ''ws'', u_hostname = ''d''\<rparr>)\<rparr>"


lemma reset_keeps_a_way_in_witness:
  "\<exists>w' f. reset_enrollment (\<lambda>_. Inr enrolled_config) quiet_env ''agent.yml'' ''key'' False verified_world =
       (([''auth_token'', ''public_key''], None), w') \<and> w_files w' ''agent.yml'' = Some f \<and>
     set (filter (scalar_line ''auth_token'') (lines_of (f_content f))) = {yaml_line ''auth_token'' [] True} \<and>
     w_files w' ''key'' = w_files verified_world ''key''"
proof -
  let ?r = "reset_enrollment (\<lambda>_. Inr enrolled_config) quiet_env ''agent.yml'' ''key'' False verified_world"
  have "fst ?r = ([''auth_token'', ''public_key''], None)" by code_simp
  then have r: "?r = (([''auth_token'', ''public_key''], None), snd ?r)" by (metis prod.collapse)
  have "(''key'' :: string) \<noteq> ''agent.yml''" "e_torn quiet_env ''agent.yml'' = None" by (simp_all add: quiet_env_def)
  from reset_keeps_a_way_in [OF r this] obtain f where f: "w_files (snd ?r) ''agent.yml'' = Some f"
    "set (filter (scalar_line ''auth_token'') (lines_of (f_content f))) = {yaml_line ''auth_token'' [] True}"
    "w_files (snd ?r) ''key'' = w_files verified_world ''key''" by (auto simp del: set_filter)
  show ?thesis by (intro exI [of _ "snd ?r"] exI [of _ f] conjI r f)
qed

definition mirrored :: update_env where
  "mirrored = sample_update\<lparr>ue_get := (\<lambda>u. Inr \<lparr>hr_code = 200, hr_status = ''200 OK'',
     hr_body = (if has_suffix u ''SHA256SUMS'' then ''AB  theta-agent-linux-amd64'' @ [NL] else ''new''), hr_broken = None\<rparr>)\<rparr>"

lemma cli_update_follows_manifest_witness:
  "\<exists>w'. map_option f_content (w_files w' ''/opt/agent'') = Some ''new'' \<and> (\<exists>r. cr_code r = 0 \<and>
     run_self_update (swap_updated_binary_other quiet_env) ''linux'' ''amd64'' (\<lambda>_. Inr enrolled_config) sample_ops mirrored
       ''agent.yml'' verified_world = (r, w'))"
proof -
  let ?u = "run_self_update (swap_updated_binary_other quiet_env) ''linux'' ''amd64'' (\<lambda>_. Inr enrolled_config) sample_ops mirrored
       ''agent.yml'' verified_world"
  have e: "lo_env sample_ops = quiet_env" by (simp add: sample_ops_def)
  have t: "update_target mirrored = ''/opt/agent''" "own_dir ''linux'' ''/opt/agent'' = ''/opt''"
    "ue_get mirrored = (\<lambda>u. Inr \<lparr>hr_code = 200, hr_status = ''200 OK'',
     hr_body = (if has_suffix u ''SHA256SUMS'' then ''AB  theta-agent-linux-amd64'' @ [NL] else ''new''), hr_broken = None\<rparr>)"
    "http_base (server_url enrolled_config) = ''http://d''" "artifact_name ''linux'' ''amd64'' = ''theta-agent-linux-amd64''"
    "has_suffix ''http://d/resources/theta-agent/theta-agent-linux-amd64'' ''SHA256SUMS'' = False"
    by (code_simp, code_simp, simp add: mirrored_def, code_simp, code_simp, code_simp)
  have c: "cr_code (fst ?u) = 0" by code_simp
  have l: "load_config (\<lambda>_. Inr enrolled_config) quiet_env verified_world ''agent.yml'' = Inr enrolled_config" by code_simp
  have n: "update_target mirrored \<noteq> own_dir ''linux'' (update_target mirrored) @ ''/'' @ ''theta-agent-update-'' @ lo_rand sample_ops verified_world"
    by (simp add: t)
  have u: "run_self_update (swap_updated_binary_other (lo_env sample_ops)) ''linux'' ''amd64'' (\<lambda>_. Inr enrolled_config) sample_ops mirrored
       ''agent.yml'' verified_world = (fst ?u, snd ?u)" by (simp add: e)
  have "map_option f_content (w_files (snd ?u) ''/opt/agent'') = Some ''new''"
    using cli_update_follows_manifest [OF u n] by (auto simp: c e l t)
  then show ?thesis using c by (metis prod.collapse)
qed

text \<open>What the code lets through. A signing key with blanks around it passes \<open>verify\<close> and fails every
  signature; the old \<open>reinitialize\<close> leaves a host without a join key no credential at all, keeps the
  pinned key, and expands dollar signs in the join key; \<open>--env\<close> prints a command substitution as it
  is, and a final backslash eats the closing quote; and when two paths hold the same key, the map's
  walk decides which value is printed.\<close>

lemma verify_accepts_padded_key:
  "key_bytes ('' '' @ b64_encode (replicate 32 (CHR ''k''))) \<and>
   \<not> verify_signature ed (zero_config\<lparr>public_key := '' '' @ b64_encode (replicate 32 (CHR ''k''))\<rparr>) msg"
proof -
  have "key_bytes ('' '' @ b64_encode (replicate 32 (CHR ''k'')))"
    "b64_decode ('' '' @ b64_encode (replicate 32 (CHR ''k''))) = None" by code_simp+
  then show ?thesis by (simp add: verify_signature_def split: option.splits)
qed

lemma reinit_strands:
  "reinit_doc [] (join [NL] [''server_url: http://d'', ''auth_token: tok'', ''public_key: old'']) =
     join [NL] [''server_url: http://d'', ''auth_token: '' @ [DQ, DQ], ''public_key: old'']"
  "reinit_doc ''a$1b'' (join [NL] [''auth_token: tok'', ''join_key: x'']) =
     join [NL] [''auth_token: '' @ [DQ, DQ], ''join_key: '' @ [DQ] @ ''a'' @ [DQ]]"
  by (code_simp, code_simp)

lemma env_line_substitutes:
  "env_line (''PW'', ''$(reboot)'') = ''PW='' @ [DQ] @ ''$(reboot)'' @ [DQ]"
  "env_line (''PW'', ''x'' @ [BSL]) = ''PW='' @ [DQ] @ ''x'' @ [BSL, DQ]"
  by code_simp+

lemma merge_order_matters:
  "map_of (merge_secrets fmt [(''a'', [(''PW'', JStr ''1'')]), (''b'', [(''PW'', JStr ''2'')])]) ''PW'' = Some ''2''"
  "map_of (merge_secrets fmt [(''b'', [(''PW'', JStr ''2'')]), (''a'', [(''PW'', JStr ''1'')])]) ''PW'' = Some ''1''"
  by (simp_all add: merge_secrets_def merge_path_def)

end
