(* ===== verification/CliRegistry.thy ===== *)
theory CliRegistry
  imports ServiceReg
begin

text \<open>
  The data of \<open>cli_help.go\<close>: the registry of commands with their help texts, line by line, and the
  fixed parts of the man page.
\<close>

record cli_command =
  cc_name :: string
  cc_args :: string
  cc_summary :: string
  cc_detail :: string
  cc_aliases :: "string list"

abbreviation cli_entry :: "string \<Rightarrow> string \<Rightarrow> string \<Rightarrow> string list \<Rightarrow> string list \<Rightarrow> cli_command" where
  "cli_entry n a s al d \<equiv> \<lparr>cc_name = n, cc_args = a, cc_summary = s, cc_detail = join [NL] d, cc_aliases = al\<rparr>"

subsection \<open>Help texts\<close>

definition detail_run :: "string list" where
  "detail_run = [
     ''Run the agent in the foreground, logging to stdout.'',
     [],
     ''This is what the theta-agent systemd unit executes. Running it by hand is'',
     ''useful when the service will not start and you want the failure on your'',
     ''terminal instead of in the journal.'',
     [],
     ''Invoking theta-agent with no arguments at all does the same thing.'',
     [],
     ''Reads /etc/theta42/agent.yml (%ProgramData%'' @ [BSL] @ ''Theta42'' @ [BSL] @ ''agent.yml on Windows).'',
     [],
     ''  theta-agent run'',
     ''  journalctl -u theta-agent -f      # the same output, once it is a service'']"

definition detail_register :: "string list" where
  "detail_register = [
     ''Register a service running on this host as a child resource of the host in'',
     ''the Theta Directory.'',
     [],
     ''TYPES'',
     ''  systemd          a systemd unit          (name: the unit, with or without .service)'',
     ''  systemd-timer    a systemd timer         (name: the timer unit)'',
     ''  docker           a Docker container      (name: the container name)'',
     ''  podman           a Podman container      (name: the container name)'',
     ''  process          a bare process          (name: matched against the process name)'',
     ''  cron             a cron job              (name: a label you choose)'',
     ''  lxc              an LXC container        (name: the container name)'',
     ''  kvm, libvirt     a libvirt domain        (name: the domain name)'',
     [],
     ''The agent probes the named service and reports its state to the Directory'',
     ''with its regular telemetry, so it appears under this host and its status'',
     ''stays current. Registration is recorded in agent.yml under services:, so it'',
     ''survives restarts and upgrades.'',
     [],
     ''The change is pushed to the Directory by the running daemon over its own'',
     ''connection; if the daemon is down, this command falls back to a direct'',
     ''connection. Either way the directory reflects the change immediately.'',
     [],
     ''  theta-agent register systemd nginx'',
     ''  theta-agent register docker plex'',
     ''  theta-agent list-services'',
     ''  theta-agent unregister systemd nginx'']"

definition detail_unregister :: "string list" where
  "detail_unregister = [
     ''Stop reporting a service and remove it from this host in the Directory.'',
     [],
     ''Takes the same type and name that were used to register it -- see'',
     [SQ] @ ''theta-agent help register'' @ [SQ] @ '' for the list of types.'',
     [],
     ''Removes the entry from services: in agent.yml. It does not stop, disable or'',
     ''otherwise touch the service itself.'',
     [],
     ''  theta-agent unregister systemd nginx'']"

definition detail_list_services :: "string list" where
  "detail_list_services = [
     ''Print the services this agent reports on, as recorded in agent.yml.'',
     [],
     ''  theta-agent list-services'']"

definition detail_get_secret :: "string list" where
  "detail_get_secret = [
     ''Print a single secret value this host is entitled to.'',
     [],
     ''The agent asks the Directory, which reads OpenBao with its own credentials --'',
     ''this host never holds a Vault token. Only secrets scoped to this node or'',
     ''shared with it are readable.'',
     [],
     ''  theta-agent get-secret db_password'']"

definition detail_get_secrets :: "string list" where
  "detail_get_secrets = [
     ''Print all secrets scoped to this host and the resources it is granted.'',
     [],
     ''FLAGS'',
     ''  --json    print as a JSON object'',
     ''  --env     print as KEY=value lines, suitable for sourcing'',
     [],
     ''  theta-agent get-secrets --json'',
     ''  eval '' @ [DQ] @ ''$(theta-agent get-secrets --env)'' @ [DQ]]"

definition detail_verify :: "string list" where
  "detail_verify = [
     ''Validate the agent'' @ [SQ] @ ''s configuration without changing anything.'',
     [],
     ''Checks, in order:'',
     ''  - agent.yml exists and parses'',
     ''  - server_url is a URL with a host'',
     ''  - a credential is present (auth_token, or join_key before first enrolment)'',
     ''  - public_key -- the Directory'' @ [SQ] @ ''s signing key -- decodes to a 32-byte Ed25519'',
     ''    key, so signed commands can actually be verified'',
     ''  - the WireGuard private key, if one has been generated, is a well-formed'',
     ''    32-byte Curve25519 key and is not world-readable'',
     [],
     ''Exits non-zero if anything is wrong, so it can gate a script. install.sh runs'',
     ''it after writing configuration.'',
     [],
     ''FLAGS'',
     ''  --path <file>    config to check (default /etc/theta42/agent.yml)'',
     ''  --quiet          print nothing; report only through the exit status'',
     [],
     ''  theta-agent verify'',
     ''  theta-agent verify --path ./agent.yml'']"

definition detail_reset_enrollment :: "string list" where
  "detail_reset_enrollment = [
     ''Blank auth_token and public_key in agent.yml. The agent then'',
     ''authenticates with its join_key on the next connect, receives a fresh token,'',
     ''and is re-issued the Directory'' @ [SQ] @ ''s current signing key.'',
     [],
     ''Use it when the Directory this host enrolled with has been rebuilt or replaced.'',
     ''A token issued by the old Directory is not merely wrong, it WINS: the agent'',
     ''prefers auth_token over join_key, so a stale one is presented (and rejected) on'',
     ''every connect while the join key beside it is never tried. public_key has the'',
     ''same problem in the other direction -- it is the Directory'' @ [SQ] @ ''s signing key, so a'',
     ''rebuilt Directory signs with a key this host will not verify, and every signed'',
     ''command fails.'',
     [],
     ''Refuses to run when there is no join_key to fall back on, rather than leaving'',
     ''the host with no credential at all.'',
     [],
     ''FLAGS'',
     ''  --path <file>    config to reset (default /etc/theta42/agent.yml)'',
     ''  --keys           ALSO delete this host'' @ [SQ] @ ''s WireGuard private key. Not the'',
     ''                   default: the key is this host'' @ [SQ] @ ''s own identity, the Directory'',
     ''                   stores only its public half, and re-enrolment registers the'',
     ''                   same public key again. Deleting it orphans the peer entry'',
     ''                   and forces a new mesh address.'',
     ''  --quiet          print nothing; report only through the exit status'',
     [],
     ''  theta-agent reset-enrollment'',
     ''  theta-agent reset-enrollment --keys'']"

definition detail_config_set :: "string list" where
  "detail_config_set = [
     ''Set one or more TOP-LEVEL keys in agent.yml, in place.'',
     [],
     ''Keys that are already present are updated; keys that are missing are appended.'',
     ''Comments and every other setting are preserved, and the result is parsed before'',
     ''the file is replaced -- so a bad value fails without leaving a broken config.'',
     [],
     ''Only top-level keys. A nested key (anything under capabilities:, for example)'',
     ''is refused rather than silently written at the wrong indentation, which would'',
     ''move it out of its parent and quietly drop the setting.'',
     [],
     ''FLAGS'',
     ''  --path <file>    config to edit (default /etc/theta42/agent.yml)'',
     [],
     ''  theta-agent config-set server_url=https://sso.example.com'',
     ''  theta-agent config-set auth_token=... location=rack-3'']"

definition detail_reinitialize :: "string list" where
  "detail_reinitialize = [
     ''Discard this host'' @ [SQ] @ ''s issued credentials and enrol again from scratch.'',
     [],
     ''Use it when the Directory no longer recognises this agent -- the device was'',
     ''deleted at the far end, or the token was revoked.'',
     [],
     ''FLAGS'',
     ''  --join-key <key>    join key to enrol with'',
     [],
     ''  theta-agent reinitialize --join-key tjk_...'']"

definition detail_discover :: "string list" where
  "detail_discover = [
     ''Browse for theta-suite sites announcing themselves over mDNS on the local'',
     ''network segment, and print what is found.'',
     [],
     ''This only ever prints candidates. The agent never switches the Directory it'',
     ''talks to based on an announcement: mDNS is unauthenticated, so choosing a'',
     ''directory stays a human decision. mDNS is link-local -- it does not cross'',
     ''routers or VLANs -- so nothing will be found from another subnet.'',
     [],
     ''FLAGS'',
     ''  --timeout <duration>    browse window (default 3s)'',
     ''  --urls-only             print just https://<directoryHost>, one per line'',
     ''  --json                  print the full announcement list as JSON'',
     [],
     ''  theta-agent discover'',
     ''  theta-agent discover --urls-only --timeout 5s'']"

definition detail_update :: "string list" where
  "detail_update = [
     ''Download the release binary for this platform from this host'' @ [SQ] @ ''s Theta'',
     ''Directory (/resources/theta-agent), verify it against the directory'' @ [SQ] @ ''s'',
     ''SHA256SUMS manifest, and replace this binary. Works over the LAN and inside'',
     ''an air-gap; the directory must have the artifact mirrored into its'',
     ''/resources/theta-agent tree (DESIGN-WINDOWS.md).'',
     [],
     ''  theta-agent update'']"

definition detail_install_completions :: "string list" where
  "detail_install_completions = [
     ''Write shell completion for this CLI.'',
     [],
     ''  theta-agent install-completions'']"

definition detail_install_service :: "string list" where
  "detail_install_service = [
     ''Register theta-agent as a Windows service.'',
     [],
     ''Windows only; on Linux the installer writes a systemd unit instead.'',
     [],
     ''  theta-agent install-service'']"

definition detail_remove_service :: "string list" where
  "detail_remove_service = [
     ''Remove the theta-agent Windows service.'',
     [],
     ''  theta-agent remove-service'']"

definition detail_configure_login :: "string list" where
  "detail_configure_login = [
     ''Point the Windows credential provider at the agent'' @ [SQ] @ ''s LDAP tunnel, so domain'',
     ''users can sign in to this host against the Directory.'',
     [],
     ''Windows only.'',
     [],
     ''  theta-agent configure-login'']"

definition detail_version :: "string list" where
  "detail_version = [
     ''Print the agent version.'',
     [],
     ''  theta-agent version'']"

definition detail_help :: "string list" where
  "detail_help = [
     ''Show help.'',
     [],
     ''With no argument, list every command. With a command name, print that'',
     ''command'' @ [SQ] @ ''s full help -- the same text as '' @ [SQ] @ ''theta-agent <command> --help'' @ [SQ] @ ''.'',
     [],
     ''FLAGS'',
     ''  --man    write this CLI'' @ [SQ] @ ''s man page (roff) to stdout'',
     [],
     ''  theta-agent help'',
     ''  theta-agent help register'',
     ''  theta-agent register --help'']"

subsection \<open>The registry\<close>

definition commands :: "cli_command list" where
  "commands = [
     cli_entry ''run'' [] (''Run the agent daemon in the foreground'') [] detail_run,
     cli_entry ''register'' ''<type> <name>'' (''Register a service on this host into the Directory'') [] detail_register,
     cli_entry ''unregister'' ''<type> <name>'' (''Remove a registered service from the Directory'') [] detail_unregister,
     cli_entry ''list-services'' [] (''List the services registered on this host'') [] detail_list_services,
     cli_entry ''get-secret'' ''<key>'' (''Fetch one secret value from OpenBao'') [] detail_get_secret,
     cli_entry ''get-secrets'' ''[flags]'' (''Fetch every secret this host may read'') [] detail_get_secrets,
     cli_entry ''verify'' ''[flags]'' (''Check that this host'' @ [SQ] @ ''s configuration and keys are usable'') [] detail_verify,
     cli_entry ''reset-enrollment'' ''[flags]'' (''Discard this host'' @ [SQ] @ ''s credentials so it enrolls again'') [''reset-enrolment'', ''reenroll'', ''re-enroll''] detail_reset_enrollment,
     cli_entry ''config-set'' ''<key>=<value>...'' (''Merge settings into agent.yml'') [] detail_config_set,
     cli_entry ''reinitialize'' ''[flags]'' (''Reset enrolment credentials and register again'') [] detail_reinitialize,
     cli_entry ''discover'' ''[flags]'' (''List theta-suite sites announced on this network'') [] detail_discover,
     cli_entry ''update'' [] (''Self-update this binary from the Directory'') [] detail_update,
     cli_entry ''install-completions'' [] (''Install bash/zsh tab-completion'') [] detail_install_completions,
     cli_entry ''install-service'' [] (''(Windows) register the agent as a service'') [] detail_install_service,
     cli_entry ''remove-service'' [] (''(Windows) unregister the agent service'') [] detail_remove_service,
     cli_entry ''configure-login'' [] (''(Windows) wire OpenCredential to the LDAP tunnel'') [] detail_configure_login,
     cli_entry ''version'' [] (''Show version information'') [''--version'', ''-v''] detail_version,
     cli_entry ''help'' ''[command]'' (''Show help; '' @ [SQ] @ ''help <command>'' @ [SQ] @ '' for one command in detail'') [''--help'', ''-h''] detail_help]"

subsection \<open>The man page around the commands\<close>

definition man_head :: "string \<Rightarrow> string list" where
  "man_head version = [
     ''.'' @ [BSL] @ [DQ] @ '' Generated by '' @ [SQ] @ ''theta-agent help --man'' @ [SQ] @ '' -- do not edit by hand.'',
     ''.TH THETA-AGENT 8 '' @ [DQ, DQ] @ '' '' @ [DQ] @ ''Theta Agent '' @ version @ [DQ] @ '' '' @ [DQ] @ ''System Administration'' @ [DQ],
     ''.SH NAME'',
     ''theta-agent '' @ [BSL] @ ''- Theta Suite endpoint management agent'',
     ''.SH SYNOPSIS'',
     ''.B theta-agent'',
     ''['' @ [BSL] @ ''fIcommand'' @ [BSL] @ ''fR] ['' @ [BSL] @ ''fIarguments'' @ [BSL] @ ''fR]'',
     ''.SH DESCRIPTION'',
     ''.B theta-agent'',
     ''runs on a managed host and connects outbound to a Theta Directory over a'',
     ''persistent WebSocket. It reports telemetry and the state of registered'',
     ''services, executes signed commands, brokers secrets from OpenBao without ever'',
     ''holding a Vault token, and can carry the host onto the site'' @ [SQ] @ ''s WireGuard mesh.'',
     ''.PP'',
     ''With no command it runs the daemon in the foreground; that is what the'',
     ''systemd unit executes.'',
     ''.SH FILES'',
     ''.TP'',
     ''.I /etc/theta42/agent.yml'',
     ''Configuration: directory URL, credentials, capabilities, registered services.'',
     ''.TP'',
     ''.I /etc/theta42/wg_private.key'',
     ''This host'' @ [SQ] @ ''s WireGuard private key, mode 0600. Generated on first use and never'',
     ''sent anywhere '' @ [BSL] @ [BSL] @ ''-- only the public half is registered with the Directory. Back'',
     ''it up alongside agent.yml.'',
     ''.TP'',
     ''.I /etc/systemd/system/theta-agent.service'',
     ''The unit installed by install.sh.'',
     ''.SH COMMANDS'']"

definition man_tail :: "string list" where
  "man_tail = [
     ''.SH EXIT STATUS'',
     ''Zero on success. Non-zero on failure;'',
     ''.B theta-agent verify'',
     ''in particular is meant to gate scripts.'',
     ''.SH SEE ALSO'',
     ''.BR systemctl (1),'',
     ''.BR journalctl (1),'',
     ''.BR wg-quick (8)'',
     ''.PP'',
     ''https://github.com/theta42/theta-agent'']"

end
