(* ===== verification/CliHelp.thy ===== *)
theory CliHelp
  imports Cli CliRegistry
begin

text \<open>
  The command line's front: \<open>handleCLI\<close> of \<open>cli.go\<close> and the registry of \<open>cli_help.go\<close>, with the help,
  the man page and the completion lists made from it.
\<close>

subsection \<open>Lookup\<close>

definition answers_to :: "string \<Rightarrow> cli_command \<Rightarrow> bool" where
  "answers_to name c = (cc_name c = name \<or> name \<in> set (cc_aliases c))"

definition lookup_command :: "string \<Rightarrow> cli_command option" where
  "lookup_command name = find (answers_to name) commands"

definition is_help_arg :: "string \<Rightarrow> bool" where
  "is_help_arg a = (a \<in> {''help'', ''--help'', ''-h'', ''-help''})"

definition wants_help :: "string list \<Rightarrow> bool" where
  "wants_help args = list_ex is_help_arg args"

subsection \<open>Dispatch\<close>

datatype cli_verb = GetSecret | GetSecrets | SelfUpdate | Reinitialize | ServiceCommand | ConfigureLogin | Register
  | Unregister | ListServices | ConfigSet | InstallCompletions | Discover | ShowVersion | HelpCommand | Verify | ResetEnrollment

text \<open>\<open>RunDaemon\<close> is a false result: the process goes on as the daemon.\<close>

datatype cli_call = RunDaemon | CommandHelp cli_command | Call cli_verb "string list"

definition cli_table :: "(string list \<times> cli_verb) list" where
  "cli_table = [
     ([''get-secret'', ''secret-get''], GetSecret),
     ([''get-secrets'', ''secret-list'', ''secrets''], GetSecrets),
     ([''--update'', ''update''], SelfUpdate),
     ([''--reinitialize'', ''reinitialize'', ''--reinit'', ''reinit''], Reinitialize),
     ([''install-service''], ServiceCommand),
     ([''remove-service'', ''uninstall-service''], ServiceCommand),
     ([''configure-login''], ConfigureLogin),
     ([''register''], Register),
     ([''unregister''], Unregister),
     ([''list-services''], ListServices),
     ([''config-set''], ConfigSet),
     ([''install-completions''], InstallCompletions),
     ([''discover''], Discover),
     ([''--version'', ''version'', ''-v''], ShowVersion),
     ([''--help'', ''help'', ''-h''], HelpCommand),
     ([''verify''], Verify),
     ([''reset-enrollment'', ''reset-enrolment'', ''reenroll'', ''re-enroll''], ResetEnrollment)]"

definition call_of :: "string \<Rightarrow> string list \<Rightarrow> cli_call" where
  "call_of arg rest =
     (case find (\<lambda>x. arg \<in> set (fst x)) cli_table of
        None \<Rightarrow> RunDaemon
      | Some (names, v) \<Rightarrow>
          Call v (if ''remove-service'' \<in> set names then ''remove'' # rest else rest))"

definition handle_cli :: "string list \<Rightarrow> cli_call" where
  "handle_cli args =
     (case args of
        [] \<Rightarrow> RunDaemon
      | a # rest \<Rightarrow>
          (let arg = to_lower a in
           if arg \<notin> {''help'', ''--help'', ''-h'', ''version''} \<and> lookup_command arg \<noteq> None \<and> wants_help rest
           then CommandHelp (the (lookup_command arg))
           else call_of arg rest))"

subsection \<open>Help\<close>

definition invocation :: "cli_command \<Rightarrow> string" where
  "invocation c = ''theta-agent '' @ cc_name c @ (if cc_args c = [] then [] else CHR '' '' # cc_args c)"

definition command_help :: "cli_command \<Rightarrow> string list" where
  "command_help c =
     [invocation c, [], trim_right_when (\<lambda>x. x = NL) (cc_detail c)]
     @ (if cc_aliases c = [] then [] else [[], ''Also accepted as: '' @ join '', '' (cc_aliases c)]) @ [[]]"

definition usage :: "string \<Rightarrow> string list" where
  "usage version =
     [''Theta Agent '' @ version @ '' - Unified Endpoint Management CLI'', [], ''Usage:'',
      ''  theta-agent [command] [arguments]'', [],
      ''Running theta-agent with no command runs the agent daemon in the foreground.'', [], ''Commands:'']
     @ (let width = foldl max 0 (map (\<lambda>c. length (cc_name c)) commands)
        in map (\<lambda>c. ''  '' @ pad_right width (cc_name c) @ ''  '' @ cc_summary c) commands)
     @ [[], ''Run '' @ [SQ] @ ''theta-agent help <command>'' @ [SQ] @ '' for a command'' @ [SQ] @ ''s full documentation,'',
        ''or read the man page with '' @ [SQ] @ ''man theta-agent'' @ [SQ] @ ''.'', []]"

subsection \<open>The man page\<close>

definition man_escape :: "string \<Rightarrow> string" where
  "man_escape s =
     (let t = replace_all_str s [BSL] (BSL # ''e'') in
      if has_prefix t ''.'' \<or> has_prefix t [SQ] then BSL # CHR ''&'' # t else t)"

text \<open>The lines of a body; the flag says whether a literal block is open.\<close>

fun man_lines :: "bool \<Rightarrow> string list \<Rightarrow> string list" where
  "man_lines literal [] = (if literal then [''.fi''] else [])"
| "man_lines literal (l # ls) =
     (if trim_space l = [] then (if literal then [''.fi''] else []) @ [''.PP''] @ man_lines False ls
      else if has_prefix l ''  '' \<and> \<not> literal then ''.nf'' # man_escape l # man_lines True ls
      else man_escape l # man_lines literal ls)"

definition man_body :: "string \<Rightarrow> string" where
  "man_body detail =
     concat (map (\<lambda>l. l @ [NL]) (man_lines False (split_on NL (trim_right_when (\<lambda>x. x = NL) detail))))"

definition man_entry :: "cli_command \<Rightarrow> string" where
  "man_entry c =
     ''.TP'' @ NL # ''.B '' @ man_escape (trim_prefix (invocation c) ''theta-agent '') @ NL # man_body (cc_detail c)"

text \<open>The commands come in name order.\<close>

definition render_man_page :: "string \<Rightarrow> string" where
  "render_man_page version = concat (map (\<lambda>l. l @ [NL]) (man_head version))
     @ concat (map man_entry (sort_key cc_name commands)) @ concat (map (\<lambda>l. l @ [NL]) man_tail)"

text \<open>\<open>runHelp\<close>: the page, the help of the first argument that is no flag, or the list.\<close>

definition run_help :: "string \<Rightarrow> string list \<Rightarrow> cli_run" where
  "run_help version args =
     (if ''--man'' \<in> set args then done_run [render_man_page version]
      else (case filter (\<lambda>a. \<not> has_prefix a ''-'') args of
          [] \<Rightarrow> done_run (usage version)
        | a # _ \<Rightarrow>
            (case lookup_command a of
               Some c \<Rightarrow> done_run (command_help c)
             | None \<Rightarrow> \<lparr>cr_code = 1, cr_err = [''theta-agent: unknown command '' @ go_quote a, []], cr_out = usage version\<rparr>)))"

subsection \<open>Completion lists\<close>

definition listed_commands :: "cli_command list" where
  "listed_commands = filter (\<lambda>c. cc_name c \<noteq> ''run'') commands"

definition completion_command_list :: string where
  "completion_command_list = join '' '' (map cc_name listed_commands)"

definition completion_zsh_command_list :: string where
  "completion_zsh_command_list = join [NL]
     (map (\<lambda>c. ''        '' @ SQ # cc_name c @ CHR '':'' # filter (\<lambda>x. x \<noteq> SQ) (cc_summary c) @ [SQ]) listed_commands)"

subsection \<open>Lemmas\<close>

definition roff_requests :: "string list" where
  "roff_requests = [''.nf'', ''.fi'', ''.PP'']"

definition no_request :: "string \<Rightarrow> bool" where
  "no_request l = (\<not> has_prefix l ''.'' \<and> \<not> has_prefix l [SQ])"

lemma man_escape_safe: "no_request (man_escape s)"
  by (simp add: man_escape_def no_request_def Let_def has_prefix_def)

lemma man_lines_safe: "l \<in> set (man_lines literal ls) \<Longrightarrow> l \<in> set roff_requests \<or> no_request l"
  by (induction literal ls rule: man_lines.induct) (auto simp: roff_requests_def man_escape_safe split: if_splits)

lemma escaped_no_request: "man_escape s \<noteq> ''.nf''" "man_escape s \<noteq> ''.fi''"
  using man_escape_safe [of s] by (auto simp: no_request_def has_prefix_def)

text \<open>Every literal block that is opened is closed.\<close>

lemma man_lines_balanced:
  "count_list (man_lines literal ls) ''.fi'' = count_list (man_lines literal ls) ''.nf'' + (if literal then 1 else 0)"
  by (induction literal ls rule: man_lines.induct) (auto simp: escaped_no_request)

text \<open>Every name and alias the registry documents is a command of the dispatcher, and only \<open>run\<close> goes on
  to the daemon.\<close>

definition documented :: "string list" where
  "documented = concat (map (\<lambda>c. cc_name c # cc_aliases c) commands)"

lemma documented_dispatched: "list_all (\<lambda>n. (call_of n [] = RunDaemon) = (n = ''run'')) documented"
  by code_simp

lemma documented_lookup:
  assumes "n \<in> set documented"
  shows "\<exists>c\<in>set commands. lookup_command n = Some c \<and> answers_to n c"
proof -
  have "\<exists>c\<in>set commands. answers_to n c"
    using assms by (auto simp: documented_def answers_to_def)
  then obtain c where "lookup_command n = Some c"
    by (cases "lookup_command n") (auto simp: lookup_command_def find_None_iff)
  then show ?thesis by (auto simp: lookup_command_def find_Some_iff)
qed

subsection \<open>Properties\<close>

text \<open>Asking for help never runs a command: under every documented name and alias, whatever the other
  arguments, an invocation with a help argument prints the help of that command (the version command
  prints the version), and without one the documented commands are all dispatched.\<close>

theorem help_shows_never_runs:
  assumes "to_lower n \<in> set documented" and "to_lower n \<notin> {''help'', ''--help'', ''-h'', ''version''}"
  shows "if wants_help args then (\<exists>c\<in>set commands. handle_cli (n # args) = CommandHelp c \<and> answers_to (to_lower n) c)
    else handle_cli (n # args) = RunDaemon \<longleftrightarrow> to_lower n = ''run''"
proof -
  have "(call_of m args = RunDaemon) = (call_of m [] = RunDaemon)" for m
    by (simp add: call_of_def split: option.splits prod.splits)
  then have d: "(call_of (to_lower n) args = RunDaemon) = (to_lower n = ''run'')"
    using documented_dispatched assms(1) by (simp add: list_all_iff)
  obtain c where "c \<in> set commands" "lookup_command (to_lower n) = Some c" "answers_to (to_lower n) c"
    using documented_lookup [OF assms(1)] by blast
  with d show ?thesis using assms(2) by (auto simp: handle_cli_def Let_def)
qed

lemma help_shows_never_runs_witness:
  "\<exists>c. handle_cli [''Reinitialize'', ''--join-key'', ''k'', ''-h''] = CommandHelp c \<and> cc_name c = ''reinitialize''"
proof -
  have n: "to_lower ''Reinitialize'' = ''reinitialize''" by code_simp
  have d: "to_lower ''Reinitialize'' \<in> set documented" "to_lower ''Reinitialize'' \<notin> {''help'', ''--help'', ''-h'', ''version''}"
    "wants_help [''--join-key'', ''k'', ''-h'']" by code_simp+
  have a: "answers_to ''reinitialize'' c \<Longrightarrow> c \<in> set commands \<Longrightarrow> cc_name c = ''reinitialize''" for c
    by (auto simp: answers_to_def commands_def)
  from help_shows_never_runs [OF d(1,2), of "[''--join-key'', ''k'', ''-h'']"] d(3)
  show ?thesis by (auto simp: n dest!: a)
qed

text \<open>The undocumented spellings are not covered: \<open>reinit --help\<close> discards the credentials and restarts
  the agent, \<open>--update --help\<close> updates, \<open>uninstall-service --help\<close> removes the service; and a misspelt
  command starts a second daemon.\<close>

lemma help_on_alias_runs:
  "handle_cli [''reinit'', ''--help''] = Call Reinitialize [''--help'']"
  "handle_cli [''--update'', ''--help''] = Call SelfUpdate [''--help'']"
  "handle_cli [''uninstall-service'', ''--help''] = Call ServiceCommand [''remove'', ''--help'']"
  "handle_cli [''regster'', ''systemd'', ''nginx''] = RunDaemon"
  by code_simp+

end
