(* ===== verification/CliFlags.thy ===== *)
theory CliFlags
  imports Cli
begin

text \<open>
  The two commands that read their flags with Go's \<open>flag\<close> package: \<open>runVerify\<close> of \<open>verify.go\<close> and
  \<open>runResetEnrollment\<close> of \<open>reset_enrollment.go\<close>, over a model of the package as far as they use it
  (\<open>NewFlagSet\<close> with \<open>ExitOnError\<close>, string and bool flags, \<open>Parse\<close>).
\<close>

subsection \<open>Flag sets\<close>

record flag_def =
  fl_name :: string
  fl_bool :: bool
  fl_default :: string
  fl_usage :: string

datatype flag_stop = FlagHelp | FlagError string

definition flag_named :: "flag_def list \<Rightarrow> string \<Rightarrow> flag_def option" where
  "flag_named fs n = find (\<lambda>f. fl_name f = n) fs"

text \<open>The name behind one dash or two; \<open>None\<close> ends the flags.\<close>

definition flag_body :: "string \<Rightarrow> string option" where
  "flag_body s =
     (if length s < 2 \<or> hd s \<noteq> CHR ''-'' \<or> s = ''--'' then None
      else Some (drop (if s ! 1 = CHR ''-'' then 2 else 1) s))"

text \<open>A value is given behind the first equals sign that is not the first character.\<close>

definition flag_parts :: "string \<Rightarrow> string \<times> string option" where
  "flag_parts n =
     (case cut_on (CHR ''='') (tl n) of None \<Rightarrow> (n, None) | Some (a, v) \<Rightarrow> (hd n # a, Some v))"

definition parse_bool :: "string \<Rightarrow> bool option" where
  "parse_bool v =
     (if v \<in> {''1'', ''t'', ''T'', ''TRUE'', ''true'', ''True''} then Some True
      else if v \<in> {''0'', ''f'', ''F'', ''FALSE'', ''false'', ''False''} then Some False else None)"

fun parse_flags :: "flag_def list \<Rightarrow> string list \<Rightarrow> (string \<times> string) list \<Rightarrow> flag_stop + (string \<times> string) list" where
  "parse_flags fs [] vs = Inr vs"
| "parse_flags fs (s # args) vs =
     (case flag_body s of
        None \<Rightarrow> Inr vs
      | Some body \<Rightarrow>
          if hd body = CHR ''-'' \<or> hd body = CHR ''='' then Inl (FlagError (''bad flag syntax: '' @ s))
          else (case flag_parts body of (n, given) \<Rightarrow>
            (case flag_named fs n of
               None \<Rightarrow> Inl (if n = ''help'' \<or> n = ''h'' then FlagHelp
                            else FlagError (''flag provided but not defined: -'' @ n))
             | Some f \<Rightarrow>
                 if fl_bool f then
                   (case given of
                      None \<Rightarrow> parse_flags fs args (AList.update n ''true'' vs)
                    | Some v \<Rightarrow>
                        if parse_bool v = None
                        then Inl (FlagError (''invalid boolean value '' @ go_quote v @ '' for -'' @ n @ '': parse error''))
                        else parse_flags fs args (AList.update n v vs))
                 else
                   (case given of
                      Some v \<Rightarrow> parse_flags fs args (AList.update n v vs)
                    | None \<Rightarrow>
                        (case args of
                           [] \<Rightarrow> Inl (FlagError (''flag needs an argument: -'' @ n))
                         | v # args' \<Rightarrow> parse_flags fs args' (AList.update n v vs))))))"

definition flag_on :: "(string \<times> string) list \<Rightarrow> string \<Rightarrow> bool" where
  "flag_on vs n = (case map_of vs n of None \<Rightarrow> False | Some v \<Rightarrow> parse_bool v = Some True)"

definition flag_text :: "flag_def list \<Rightarrow> (string \<times> string) list \<Rightarrow> string \<Rightarrow> string" where
  "flag_text fs vs n =
     (case map_of vs n of Some v \<Rightarrow> v
      | None \<Rightarrow> (case flag_named fs n of None \<Rightarrow> [] | Some f \<Rightarrow> fl_default f))"

text \<open>The package prints the error, then the flags in name order.\<close>

definition flag_lines :: "flag_def \<Rightarrow> string list" where
  "flag_lines f =
     [''  -'' @ fl_name f @ (if fl_bool f then [] else '' string''),
      ''    '' @ [CHR 0x09] @ fl_usage f
        @ (if fl_bool f \<or> fl_default f = [] then [] else '' (default '' @ go_quote (fl_default f) @ '')'')]"

definition flag_exit :: "string \<Rightarrow> flag_def list \<Rightarrow> flag_stop \<Rightarrow> cli_run" where
  "flag_exit name fs st =
     (let usage = (''Usage of '' @ name @ '':'') # concat (map flag_lines (sort_key fl_name fs)) in
      case st of
        FlagHelp \<Rightarrow> \<lparr>cr_code = 0, cr_err = usage, cr_out = []\<rparr>
      | FlagError msg \<Rightarrow> \<lparr>cr_code = 2, cr_err = msg # usage, cr_out = []\<rparr>)"

subsection \<open>The commands\<close>

definition quiet_flag :: flag_def where
  "quiet_flag = \<lparr>fl_name = ''quiet'', fl_bool = True, fl_default = [],
     fl_usage = ''print nothing; report only through the exit status''\<rparr>"

definition verify_flags :: "string \<Rightarrow> flag_def list" where
  "verify_flags dflt =
     [\<lparr>fl_name = ''path'', fl_bool = False, fl_default = dflt, fl_usage = ''config file to check''\<rparr>, quiet_flag]"

definition reset_flags :: "string \<Rightarrow> flag_def list" where
  "reset_flags dflt =
     [\<lparr>fl_name = ''path'', fl_bool = False, fl_default = dflt, fl_usage = ''config file to reset''\<rparr>,
      \<lparr>fl_name = ''keys'', fl_bool = True, fl_default = [],
        fl_usage = ''also delete this host'' @ SQ # ''s WireGuard private key (forces a new mesh identity)''\<rparr>,
      quiet_flag]"

definition verify_command :: "verify_env \<Rightarrow> string \<Rightarrow> string list \<Rightarrow> world \<Rightarrow> cli_run" where
  "verify_command ve dflt args w =
     (case parse_flags (verify_flags dflt) args [] of
        Inl st \<Rightarrow> flag_exit ''verify'' (verify_flags dflt) st
      | Inr vs \<Rightarrow> run_verify ve (flag_on vs ''quiet'') w (flag_text (verify_flags dflt) vs ''path''))"

definition reset_enrollment_command ::
  "(string \<Rightarrow> config result) \<Rightarrow> env \<Rightarrow> string \<Rightarrow> string \<Rightarrow> string list \<Rightarrow> world \<Rightarrow> cli_run \<times> world" where
  "reset_enrollment_command decode e dflt key args w =
     (case parse_flags (reset_flags dflt) args [] of
        Inl st \<Rightarrow> (flag_exit ''reset-enrollment'' (reset_flags dflt) st, w)
      | Inr vs \<Rightarrow> run_reset_enrollment decode e (flag_text (reset_flags dflt) vs ''path'') key
          (flag_on vs ''keys'') (flag_on vs ''quiet'') w)"

subsection \<open>Lemmas\<close>

text \<open>A flag keeps its meaning however it is written.\<close>

lemma path_spellings:
  assumes "p \<noteq> []"
  shows "parse_flags (verify_flags d) [''--path'', p] [] = Inr [(''path'', p)]"
    and "parse_flags (verify_flags d) [''-path'', p] [] = Inr [(''path'', p)]"
    and "parse_flags (verify_flags d) [''--path='' @ p] [] = Inr [(''path'', p)]"
  by (simp_all add: verify_flags_def quiet_flag_def flag_body_def flag_parts_def flag_named_def)

text \<open>Nothing behind the first argument that is no flag is read: \<open>verify other.yml\<close> checks the default file.\<close>

lemma flags_end_at_argument: "flag_body a = None \<Longrightarrow> parse_flags fs (a # args) vs = Inr vs"
  by simp

lemma positional_path_ignored:
  "flag_body a = None \<Longrightarrow> verify_command ve d (a # args) w = run_verify ve False w d"
  by (simp add: verify_command_def flag_on_def flag_text_def flag_named_def verify_flags_def)

text \<open>The key file goes only when asked for, and nothing else but agent.yml is touched.\<close>

lemma new_manager_path: "new_config_manager decode e w path = Inr cm \<Longrightarrow> cm_path cm = path"
  by (auto simp: new_config_manager_def split: sum.splits)

lemma clear_enrollment_frame:
  "q \<noteq> cm_path cm \<Longrightarrow> w_files (fst (snd (clear_enrollment decode e w cm))) q = w_files w q"
  by (auto simp: clear_enrollment_def write_and_reload_frame split: sum.splits)

lemma reset_enrollment_frame:
  assumes "q \<noteq> path" and "\<not> (rk \<and> q = key)"
  shows "w_files (snd (reset_enrollment decode e path key rk w)) q = w_files w q"
proof (cases "new_config_manager decode e w path")
  case (Inr cm)
  obtain r w1 cm1 where c: "clear_enrollment decode e w cm = (r, w1, cm1)" by (cases "clear_enrollment decode e w cm")
  then have f: "w_files w1 q = w_files w q"
    using clear_enrollment_frame [of q cm decode e w] new_manager_path [OF Inr] assms(1) by simp
  obtain r2 w2 where rm: "remove_file e w1 key = (r2, w2)" by (cases "remove_file e w1 key")
  then have "rk \<Longrightarrow> w_files w2 q = w_files w1 q"
    using remove_file_frame(2) [of q key e w1] assms(2) by auto
  then show ?thesis using Inr c rm f by (auto simp: reset_enrollment_def Let_def split: option.splits)
qed (simp add: reset_enrollment_def)

lemma reset_command_frame:
  assumes "q \<noteq> flag_text (reset_flags d) vs ''path''" and "\<not> (flag_on vs ''keys'' \<and> q = key)"
    and "parse_flags (reset_flags d) args [] = Inr vs"
  shows "w_files (snd (reset_enrollment_command decode e d key args w)) q = w_files w q"
proof -
  obtain cleared err w1 where r: "reset_enrollment decode e (flag_text (reset_flags d) vs ''path'') key (flag_on vs ''keys'') w
      = ((cleared, err), w1)" by (metis prod.collapse)
  then have "w_files w1 q = w_files w q"
    using reset_enrollment_frame [OF assms(1,2), of decode e w] by simp
  then show ?thesis
    using r assms(3) by (cases err) (simp_all add: reset_enrollment_command_def run_reset_enrollment_def)
qed

end
