(* ===== verification/Completions.thy ===== *)
theory Completions
  imports CliHelp
begin

text \<open>
  \<open>theta-agent install-completions\<close> (\<open>runInstallCompletions\<close> of \<open>service_registration.go\<close>): the two scripts as
  lists of lines, the lists of commands put into them, and what is installed where.
\<close>

subsection \<open>The scripts\<close>

definition bash_template :: "string list" where
  "bash_template = [
     ''# bash completion for theta-agent'',
     ''_theta_agent_completions() {'',
     ''    local cur services types'',
     ''    COMPREPLY=()'',
     ''    cur='' @ [DQ] @ ''${COMP_WORDS[COMP_CWORD]}'' @ [DQ],
     ''    types='' @ [DQ] @ ''systemd docker podman process systemd-timer cron lxc kvm libvirt'' @ [DQ],
     ''    cmds='' @ [DQ] @ ''__THETA_AGENT_COMMANDS__'' @ [DQ],
     ''    if [[ $COMP_CWORD -eq 1 ]]; then'',
     ''        COMPREPLY=( $(compgen -W '' @ [DQ] @ ''${cmds}'' @ [DQ] @ '' -- '' @ [DQ] @ ''${cur}'' @ [DQ] @ '') )'',
     ''        return 0'',
     ''    fi'',
     ''    case '' @ [DQ] @ ''${COMP_WORDS[1]}'' @ [DQ] @ '' in'',
     ''        register|unregister)'',
     ''            if [[ $COMP_CWORD -eq 2 ]]; then'',
     ''                COMPREPLY=( $(compgen -W '' @ [DQ] @ ''${types}'' @ [DQ] @ '' -- '' @ [DQ] @ ''${cur}'' @ [DQ] @ '') )'',
     ''                return 0'',
     ''            fi'',
     ''            if [[ $COMP_CWORD -eq 3 ]]; then'',
     ''                case '' @ [DQ] @ ''${COMP_WORDS[2]}'' @ [DQ] @ '' in'',
     ''                    systemd)       services=$(systemctl list-unit-files --type=service --no-legend --no-pager 2>/dev/null | awk '' @ [SQ] @ ''{sub(/'' @ [BSL] @ ''.service$/,'' @ [DQ, DQ] @ '',$1); print $1}'' @ [SQ] @ '') ;;'',
     ''                    docker)        services=$(docker ps -a --format '' @ [SQ] @ ''{{.Names}}'' @ [SQ] @ '' 2>/dev/null) ;;'',
     ''                    podman)        services=$(podman ps -a --format '' @ [SQ] @ ''{{.Names}}'' @ [SQ] @ '' 2>/dev/null) ;;'',
     ''                    process)       services=$(ps -eo comm= 2>/dev/null | sort -u) ;;'',
     ''                    systemd-timer) services=$(systemctl list-timers --no-legend --no-pager 2>/dev/null | awk '' @ [SQ] @ ''{print $NF}'' @ [SQ] @ '' | sed '' @ [SQ] @ ''s/'' @ [BSL] @ ''.timer$//'' @ [SQ] @ '') ;;'',
     ''                    cron)          services=$(ls /etc/cron.d 2>/dev/null) ;;'',
     ''                    lxc)           services=$(lxc-ls -1 2>/dev/null) ;;'',
     ''                    kvm|libvirt)   services=$(virsh list --all --name 2>/dev/null) ;;'',
     ''                esac'',
     ''                COMPREPLY=( $(compgen -W '' @ [DQ] @ ''${services}'' @ [DQ] @ '' -- '' @ [DQ] @ ''${cur}'' @ [DQ] @ '') )'',
     ''                return 0'',
     ''            fi'',
     ''            ;;'',
     ''    esac'',
     ''    return 0'',
     ''}'',
     ''complete -F _theta_agent_completions theta-agent'']"

definition zsh_template :: "string list" where
  "zsh_template = [
     ''#compdef theta-agent'',
     ''_theta_agent() {'',
     ''    local -a cmds services'',
     ''    cmds=('',
     ''__THETA_AGENT_ZSH_COMMANDS__'',
     ''    )'',
     ''    if (( CURRENT == 2 )); then'',
     ''        _describe '' @ [SQ] @ ''command'' @ [SQ] @ '' cmds'',
     ''        return'',
     ''    fi'',
     ''    case '' @ [DQ] @ ''$words[2]'' @ [DQ] @ '' in'',
     ''        register|unregister)'',
     ''            if (( CURRENT == 3 )); then'',
     ''                _values '' @ [SQ] @ ''service type'' @ [SQ] @ '' '' @ [SQ] @ ''systemd'' @ [SQ] @ '' '' @ [SQ] @ ''docker'' @ [SQ] @ '' '' @ [SQ] @ ''podman'' @ [SQ] @ '' '' @ [SQ] @ ''process'' @ [SQ] @ '' '' @ [SQ] @ ''systemd-timer'' @ [SQ] @ '' '' @ [SQ] @ ''cron'' @ [SQ] @ '' '' @ [SQ] @ ''lxc'' @ [SQ] @ '' '' @ [SQ] @ ''kvm'' @ [SQ] @ '' '' @ [SQ] @ ''libvirt'' @ [SQ],
     ''                return'',
     ''            fi'',
     ''            if (( CURRENT == 4 )); then'',
     ''                case '' @ [DQ] @ ''$words[3]'' @ [DQ] @ '' in'',
     ''                    systemd)       services=(${(f)'' @ [DQ] @ ''$(systemctl list-unit-files --type=service --no-legend --no-pager 2>/dev/null | awk '' @ [SQ] @ ''{sub(/'' @ [BSL] @ ''.service$/,'' @ [DQ, DQ] @ '',$1); print $1}'' @ [SQ] @ '')'' @ [DQ] @ ''}) ;;'',
     ''                    docker)        services=(${(f)'' @ [DQ] @ ''$(docker ps -a --format '' @ [SQ] @ ''{{.Names}}'' @ [SQ] @ '' 2>/dev/null)'' @ [DQ] @ ''}) ;;'',
     ''                    podman)        services=(${(f)'' @ [DQ] @ ''$(podman ps -a --format '' @ [SQ] @ ''{{.Names}}'' @ [SQ] @ '' 2>/dev/null)'' @ [DQ] @ ''}) ;;'',
     ''                    process)       services=(${(f)'' @ [DQ] @ ''$(ps -eo comm= 2>/dev/null | sort -u)'' @ [DQ] @ ''}) ;;'',
     ''                    systemd-timer) services=(${(f)'' @ [DQ] @ ''$(systemctl list-timers --no-legend --no-pager 2>/dev/null | awk '' @ [SQ] @ ''{print $NF}'' @ [SQ] @ '' | sed '' @ [SQ] @ ''s/'' @ [BSL] @ ''.timer$//'' @ [SQ] @ '')'' @ [DQ] @ ''}) ;;'',
     ''                    cron)          services=(${(f)'' @ [DQ] @ ''$(ls /etc/cron.d 2>/dev/null)'' @ [DQ] @ ''}) ;;'',
     ''                    lxc)           services=(${(f)'' @ [DQ] @ ''$(lxc-ls -1 2>/dev/null)'' @ [DQ] @ ''}) ;;'',
     ''                    kvm|libvirt)   services=(${(f)'' @ [DQ] @ ''$(virsh list --all --name 2>/dev/null)'' @ [DQ] @ ''}) ;;'',
     ''                esac'',
     ''                _describe '' @ [SQ] @ ''service'' @ [SQ] @ '' services'',
     ''                return'',
     ''            fi'',
     ''            ;;'',
     ''    esac'',
     ''}'',
     ''_theta_agent '' @ [DQ] @ ''$@'' @ [DQ]]"

definition script_text :: "string list \<Rightarrow> string" where
  "script_text ls = join [NL] ls @ [NL]"

definition bash_script :: string where
  "bash_script = replace_all_str (script_text bash_template) ''__THETA_AGENT_COMMANDS__'' completion_command_list"

definition zsh_script :: string where
  "zsh_script = replace_all_str (script_text zsh_template) ''__THETA_AGENT_ZSH_COMMANDS__'' completion_zsh_command_list"

subsection \<open>Installing\<close>

definition bash_path :: string where "bash_path = ''/usr/share/bash-completion/completions/theta-agent''"
definition zsh_path :: string where "zsh_path = ''/usr/share/zsh/site-functions/_theta-agent''"

definition install_completions :: "bool \<Rightarrow> env \<Rightarrow> world \<Rightarrow> cli_run \<times> world" where
  "install_completions linux e w =
     (if \<not> linux then (failing ''Tab-completion installation is only supported on Linux.'', w)
      else (case mkdir_all e w (path_dir bash_path) of
        Some err \<Rightarrow> (failing err, w)
      | None \<Rightarrow> (case write_file e w bash_path bash_script 0x1A4 of
          (Some err, w1) \<Rightarrow> (failing (''Could not write '' @ bash_path @ '': '' @ err), w1)
        | (None, w1) \<Rightarrow> (case mkdir_all e w1 (path_dir zsh_path) of
            Some err \<Rightarrow> (failing err, w1)
          | None \<Rightarrow> (case write_file e w1 zsh_path zsh_script 0x1A4 of
              (Some err, w2) \<Rightarrow> (failing (''Could not write '' @ zsh_path @ '': '' @ err), w2)
            | (None, w2) \<Rightarrow>
                (done_run [''[+] Installed bash and zsh tab-completion for theta-agent.''],
                 snd (run_cmd e w2 ''ln'' [''-sf'', bash_path, ''/etc/bash_completion.d/theta-agent''])))))))"

subsection \<open>Lemmas\<close>

lemma has_prefix_line: "NL \<notin> set old \<Longrightarrow> has_prefix (l @ NL # rest) old = has_prefix l old"
  by (induction l arbitrary: old) (case_tac old; auto simp: has_prefix_Cons)+

lemma replace_all_line:
  "NL \<notin> set old \<Longrightarrow> replace_all_str (l @ NL # rest) old new = replace_all_str l old new @ NL # replace_all_str rest old new"
proof (induction l old new rule: replace_all_str.induct)
  case (1 old new)
  then show ?case using has_prefix_line [of old "[]" rest] by (auto simp: has_prefix_iff)
next
  case (2 c cs old new)
  have p: "has_prefix (c # cs @ NL # rest) old = has_prefix (c # cs) old"
    using has_prefix_line [OF 2(3), of "c # cs" rest] by simp
  show ?case
  proof (cases "old \<noteq> [] \<and> has_prefix (c # cs) old")
    case True
    then have "length old \<le> length (c # cs)" by (auto simp: has_prefix_iff dest: arg_cong [where f = length])
    then have "drop (length old) (c # cs @ NL # rest) = drop (length old) (c # cs) @ NL # rest"
      using drop_append [of "length old" "c # cs" "NL # rest"] by (simp del: drop_Cons')
    with 2 p True show ?thesis by (simp del: drop_append drop_Cons')
  next
    case False
    with 2 p show ?thesis by auto
  qed
qed

lemma script_text_Cons: "script_text (l # ls) = l @ NL # (if ls = [] then [] else script_text ls)"
  by (cases ls) (simp_all add: script_text_def)

lemma replace_all_script:
  assumes "NL \<notin> set old" and "ls \<noteq> []"
  shows "replace_all_str (script_text ls) old new = script_text (map (\<lambda>l. replace_all_str l old new) ls)"
  using assms(2) by (induction ls) (auto simp: script_text_Cons replace_all_line [OF assms(1)])

text \<open>The substitutions change the one line that names the list, and nothing else of the scripts.\<close>

lemma bash_marks: "list_all (\<lambda>l. l = ''    cmds='' @ DQ # ''__THETA_AGENT_COMMANDS__'' @ [DQ] \<or> \<not> str_contains l ''__'') bash_template"
  by code_simp

lemma zsh_marks: "list_all (\<lambda>l. l = ''__THETA_AGENT_ZSH_COMMANDS__'' \<or> \<not> str_contains l ''__'') zsh_template"
  by code_simp

lemma filled_script:
  assumes marks: "list_all (\<lambda>l. l = line \<or> \<not> str_contains l ''__'') ls" and "ls \<noteq> []"
    and old: "NL \<notin> set old" "has_prefix old ''__''" and line: "replace_all_str line old new = filled"
  shows "replace_all_str (script_text ls) old new = script_text (map (\<lambda>l. if l = line then filled else l) ls)"
proof -
  obtain t where t: "old = ''__'' @ t" using old(2) by (auto simp: has_prefix_iff)
  have "str_contains l ''__''" if "str_contains l old" for l
  proof -
    obtain a b where "l = a @ old @ b" using \<open>str_contains l old\<close> by (auto simp: str_contains_iff)
    then have "l = a @ ''__'' @ (t @ b)" by (simp add: t)
    then show ?thesis unfolding str_contains_iff by blast
  qed
  then have "map (\<lambda>l. replace_all_str l old new) ls = map (\<lambda>l. if l = line then filled else l) ls"
    using marks line by (auto simp: list_all_iff intro!: replace_all_absent)
  then show ?thesis by (simp only: replace_all_script [OF old(1) assms(2)])
qed

lemma bash_filled:
  "bash_script = script_text (map (\<lambda>l. if l = ''    cmds='' @ DQ # ''__THETA_AGENT_COMMANDS__'' @ [DQ]
     then ''    cmds='' @ DQ # completion_command_list @ [DQ] else l) bash_template)"
  unfolding bash_script_def
proof (rule filled_script [OF bash_marks])
  show "bash_template \<noteq> []" by (simp add: bash_template_def)
qed (simp_all add: has_prefix_def)

lemma zsh_filled:
  "zsh_script = script_text (map (\<lambda>l. if l = ''__THETA_AGENT_ZSH_COMMANDS__'' then completion_zsh_command_list else l)
     zsh_template)"
  unfolding zsh_script_def
proof (rule filled_script [OF zsh_marks])
  show "zsh_template \<noteq> []" by (simp add: zsh_template_def)
qed (simp_all add: has_prefix_def)

text \<open>Both scripts offer exactly the service types that \<open>register\<close> accepts.\<close>

lemma types_offered:
  "''    types='' @ DQ # join '' '' service_types @ [DQ] \<in> set bash_template"
  "''                _values '' @ SQ # ''service type'' @ [SQ] @ concat (map (\<lambda>t. CHR '' '' # SQ # t @ [SQ]) service_types)
     \<in> set zsh_template"
  by code_simp+

text \<open>No listed command is completed as the daemon's own word, and every other documented command is.\<close>

lemma completed_commands: "set (map cc_name listed_commands) = set (map cc_name commands) - {''run''}"
  by (auto simp: listed_commands_def)

text \<open>Success means both scripts are on disk, readable by all, and nothing else in the file system changed.\<close>

lemma installed_completions:
  assumes "install_completions linux e w = (r, w')" and "cr_code r = 0"
  shows "linux" and "map_option f_content (w_files w' bash_path) = Some bash_script" and "map_option f_content (w_files w' zsh_path) = Some zsh_script"
    and "p \<notin> {bash_path, zsh_path} \<Longrightarrow> w_files w' p = w_files w p"
proof -
  have ne: "bash_path \<noteq> zsh_path" by (simp add: bash_path_def zsh_path_def)
  note d = assms [unfolded install_completions_def failing_def done_run_def write_file_def run_cmd_def run_stdin_def Let_def]
  show "linux" using d by (auto split: if_splits)
  show "map_option f_content (w_files w' bash_path) = Some bash_script" "map_option f_content (w_files w' zsh_path) = Some zsh_script"
    "p \<notin> {bash_path, zsh_path} \<Longrightarrow> w_files w' p = w_files w p"
    using d ne by (auto split: if_splits option.splits)
qed

end
