(* ===== verification/GoUtf.thy ===== *)
theory GoUtf
  imports GoBase64 "HOL-Library.Word"
begin

text \<open>
  Unicode as Go's \<open>[]rune(s)\<close> and \<open>utf16.Encode\<close> treat it: the runes of a byte string, where a byte that
  starts no well-formed sequence counts as U+FFFD, and their UTF-16 units.
\<close>

subsection \<open>UTF-8\<close>

definition rune_error :: nat where "rune_error = 0xFFFD"

definition cont_byte :: "nat \<Rightarrow> bool" where
  "cont_byte b = (0x80 \<le> b \<and> b \<le> 0xBF)"

text \<open>The second byte is narrower after some first bytes: no overlong forms, surrogates or values too large.\<close>

definition second_byte :: "nat \<Rightarrow> nat \<Rightarrow> bool" where
  "second_byte b0 b1 =
     (if b0 = 0xE0 then 0xA0 \<le> b1 \<and> b1 \<le> 0xBF
      else if b0 = 0xED then 0x80 \<le> b1 \<and> b1 \<le> 0x9F
      else if b0 = 0xF0 then 0x90 \<le> b1 \<and> b1 \<le> 0xBF
      else if b0 = 0xF4 then 0x80 \<le> b1 \<and> b1 \<le> 0x8F
      else cont_byte b1)"

text \<open>The first rune with the number of bytes that follow its first one.\<close>

definition first_rune :: "nat \<Rightarrow> nat list \<Rightarrow> nat \<times> nat" where
  "first_rune b0 r =
     (if b0 < 0x80 then (b0, 0)
      else if 0xC2 \<le> b0 \<and> b0 \<le> 0xDF then
        (case r of b1 # _ \<Rightarrow> if cont_byte b1 then ((b0 - 0xC0) * 0x40 + (b1 - 0x80), 1) else (rune_error, 0)
         | _ \<Rightarrow> (rune_error, 0))
      else if 0xE0 \<le> b0 \<and> b0 \<le> 0xEF then
        (case r of b1 # b2 # _ \<Rightarrow>
           if second_byte b0 b1 \<and> cont_byte b2
           then ((b0 - 0xE0) * 0x1000 + (b1 - 0x80) * 0x40 + (b2 - 0x80), 2) else (rune_error, 0)
         | _ \<Rightarrow> (rune_error, 0))
      else if 0xF0 \<le> b0 \<and> b0 \<le> 0xF4 then
        (case r of b1 # b2 # b3 # _ \<Rightarrow>
           if second_byte b0 b1 \<and> cont_byte b2 \<and> cont_byte b3
           then ((b0 - 0xF0) * 0x40000 + (b1 - 0x80) * 0x1000 + (b2 - 0x80) * 0x40 + (b3 - 0x80), 3)
           else (rune_error, 0)
         | _ \<Rightarrow> (rune_error, 0))
      else (rune_error, 0))"

function byte_runes :: "nat list \<Rightarrow> nat list" where
  "byte_runes [] = []"
| "byte_runes (b # r) = fst (first_rune b r) # byte_runes (drop (snd (first_rune b r)) r)"
  by pat_completeness auto
termination by (relation "measure length") auto

definition utf8_runes :: "string \<Rightarrow> nat list" where
  "utf8_runes s = byte_runes (map of_char s)"

subsection \<open>UTF-16\<close>

definition scalar :: "nat \<Rightarrow> bool" where
  "scalar r = (r < 0xD800 \<or> 0xE000 \<le> r \<and> r < 0x110000)"

definition utf16_units :: "nat \<Rightarrow> 16 word list" where
  "utf16_units r =
     (if r < 0xD800 \<or> 0xE000 \<le> r \<and> r < 0x10000 then [of_nat r]
      else if 0x10000 \<le> r \<and> r < 0x110000
      then [of_nat (0xD800 + (r - 0x10000) div 0x400 mod 0x400), of_nat (0xDC00 + (r - 0x10000) mod 0x400)]
      else [of_nat rune_error])"

definition utf16_encode :: "nat list \<Rightarrow> 16 word list" where
  "utf16_encode rs = concat (map utf16_units rs)"

text \<open>What a reader of UTF-16 makes of the units: pairs of surrogates are one rune.\<close>

fun utf16_decode :: "16 word list \<Rightarrow> nat list" where
  "utf16_decode (u # v # us) =
     (if 0xD800 \<le> u \<and> u < 0xDC00 \<and> 0xDC00 \<le> v \<and> v < 0xE000
      then (0x10000 + (unat u - 0xD800) * 0x400 + (unat v - 0xDC00)) # utf16_decode us
      else unat u # utf16_decode (v # us))"
| "utf16_decode [u] = [unat u]"
| "utf16_decode [] = []"

subsection \<open>Little-endian bytes\<close>

definition byte_char :: "8 word \<Rightarrow> char" where
  "byte_char b = char_of (unat b)"

definition char_byte :: "char \<Rightarrow> 8 word" where
  "char_byte c = of_nat (of_char c)"

definition le16 :: "16 word \<Rightarrow> string" where
  "le16 r = [byte_char (ucast r), byte_char (ucast (drop_bit 8 r))]"

fun from_le16 :: "string \<Rightarrow> 16 word list" where
  "from_le16 (a # b # s) = or (ucast (char_byte a)) (push_bit 8 (ucast (char_byte b))) # from_le16 s"
| "from_le16 _ = []"

subsection \<open>Laws\<close>

lemma scalar_error: "scalar rune_error"
  by (simp add: scalar_def rune_error_def)

lemma scalar_two:
  assumes "b0 \<le> 0xDF" and "cont_byte b1"
  shows "scalar ((b0 - 0xC0) * 0x40 + (b1 - 0x80))"
proof -
  have "b0 - 0xC0 \<le> 31" "b1 - 0x80 < 0x40" using assms by (auto simp: cont_byte_def)
  then show ?thesis unfolding scalar_def by linarith
qed

lemma scalar_three:
  assumes "0xE0 \<le> b0" "b0 \<le> 0xEF" "second_byte b0 b1" "cont_byte b2"
  shows "scalar ((b0 - 0xE0) * 0x1000 + (b1 - 0x80) * 0x40 + (b2 - 0x80))"
proof -
  have b: "b1 - 0x80 < 0x40" "b2 - 0x80 < 0x40" "b0 = 0xED \<Longrightarrow> b1 - 0x80 < 0x20"
    using assms(3,4) by (auto simp: cont_byte_def second_byte_def split: if_splits)
  consider "b0 - 0xE0 \<le> 12" | "b0 = 0xED" | "14 \<le> b0 - 0xE0" "b0 - 0xE0 \<le> 15" using assms(1,2) by linarith
  then show ?thesis unfolding scalar_def using b by cases linarith+
qed

lemma scalar_four:
  assumes "b0 \<le> 0xF4" "0xF0 \<le> b0" "second_byte b0 b1" "cont_byte b2" "cont_byte b3"
  shows "scalar ((b0 - 0xF0) * 0x40000 + (b1 - 0x80) * 0x1000 + (b2 - 0x80) * 0x40 + (b3 - 0x80))"
proof -
  have b: "b1 - 0x80 < 0x40" "b2 - 0x80 < 0x40" "b3 - 0x80 < 0x40" "b0 = 0xF0 \<Longrightarrow> 0x10 \<le> b1 - 0x80"
    "b0 = 0xF4 \<Longrightarrow> b1 - 0x80 < 0x10"
    using assms(3-5) by (auto simp: cont_byte_def second_byte_def split: if_splits)
  consider "b0 = 0xF0" | "1 \<le> b0 - 0xF0" "b0 - 0xF0 \<le> 3" | "b0 = 0xF4" using assms(1,2) by linarith
  then show ?thesis unfolding scalar_def using b by cases linarith+
qed

lemma scalar_first_rune: "scalar (fst (first_rune b r))"
proof -
  have "b < 0x80 \<Longrightarrow> scalar b" by (simp add: scalar_def)
  then show ?thesis
    by (simp add: first_rune_def scalar_error scalar_two scalar_three scalar_four split: list.splits)
qed

lemma scalar_byte_runes: "list_all scalar (byte_runes bs)"
  by (induction bs rule: byte_runes.induct) (simp_all add: scalar_first_rune)

lemma scalar_utf8: "list_all scalar (utf8_runes s)"
  by (simp add: utf8_runes_def scalar_byte_runes)

lemma char_byte_char [simp]: "char_byte (byte_char b) = b"
  by (simp add: char_byte_def byte_char_def unsigned_less [of b, simplified])

lemma from_le16_unit [simp]: "from_le16 (le16 r @ s) = r # from_le16 s"
proof -
  have "or (ucast (ucast r :: 8 word)) (push_bit 8 (ucast (ucast (drop_bit 8 r) :: 8 word))) = r" for r :: "16 word"
    by (rule bit_word_eqI) (auto simp: bit_simps)
  then show ?thesis by (simp add: le16_def)
qed

lemma from_le16_units: "from_le16 (concat (map le16 us)) = us"
  by (induction us) simp_all

lemma utf16_decode_single:
  "\<not> (0xD800 \<le> u \<and> u < 0xDC00) \<Longrightarrow> utf16_decode (u # us) = unat u # utf16_decode us"
  by (cases us) auto

lemma unit_of_nat:
  assumes "n < 0x10000"
  shows "unat (of_nat n :: 16 word) = n" and "(of_nat n :: 16 word) < 0xDC00 \<longleftrightarrow> n < 0xDC00"
    and "0xD800 \<le> (of_nat n :: 16 word) \<longleftrightarrow> 0xD800 \<le> n" and "0xDC00 \<le> (of_nat n :: 16 word) \<longleftrightarrow> 0xDC00 \<le> n"
    and "(of_nat n :: 16 word) < 0xE000 \<longleftrightarrow> n < 0xE000"
proof -
  show u: "unat (of_nat n :: 16 word) = n" using assms by (simp add: unat_of_nat)
  show "(of_nat n :: 16 word) < 0xDC00 \<longleftrightarrow> n < 0xDC00" "0xD800 \<le> (of_nat n :: 16 word) \<longleftrightarrow> 0xD800 \<le> n"
    "0xDC00 \<le> (of_nat n :: 16 word) \<longleftrightarrow> 0xDC00 \<le> n" "(of_nat n :: 16 word) < 0xE000 \<longleftrightarrow> n < 0xE000"
    by (simp_all add: word_less_nat_alt word_le_nat_alt u)
qed

lemma utf16_decode_pair:
  assumes "a < 0x400" and "b < 0x400"
  shows "utf16_decode (of_nat (0xD800 + a) # of_nat (0xDC00 + b) # us) = (0x10000 + a * 0x400 + b) # utf16_decode us"
  using assms unit_of_nat [of "0xD800 + a"] unit_of_nat [of "0xDC00 + b"] by (simp del: of_nat_add)

lemma utf16_decode_units:
  assumes "scalar r"
  shows "utf16_decode (utf16_units r @ us) = r # utf16_decode us"
proof (cases "r < 0x10000")
  case True
  then show ?thesis using assms
    by (auto simp: utf16_units_def scalar_def utf16_decode_single unit_of_nat)
next
  case False
  let ?q = "r - 0x10000"
  have r: "?q < 0x100000" using assms False by (simp add: scalar_def)
  have m: "?q div 0x400 mod 0x400 < 0x400" "?q mod 0x400 < 0x400" by simp_all
  have q: "?q div 0x400 mod 0x400 = ?q div 0x400" using r by simp
  have "?q div 0x400 * 0x400 + ?q mod 0x400 = ?q" by simp
  then have e: "0x10000 + ?q div 0x400 mod 0x400 * 0x400 + ?q mod 0x400 = r" using q False by linarith
  have "utf16_units r = [of_nat (0xD800 + ?q div 0x400 mod 0x400), of_nat (0xDC00 + ?q mod 0x400)]"
    using assms False by (simp add: utf16_units_def scalar_def)
  then show ?thesis using utf16_decode_pair [OF m, of us] e by simp
qed

lemma utf16_roundtrip: "list_all scalar rs \<Longrightarrow> utf16_decode (utf16_encode rs) = rs"
  by (induction rs) (simp_all add: utf16_encode_def utf16_decode_units)

end
