(* ===== verification/WinOps.thy ===== *)
theory WinOps
  imports Cli GoUtf
begin

text \<open>
  The Windows implementation of the platform interface, \<open>platform_windows.go\<close>, with the two platform
  factories, \<open>update_windows.go\<close> and the helper process \<open>cmd/theta-agent-helper\<close>, which swaps the binary
  of a self-update. Theory WinLogin holds \<open>ConfigureLDAP\<close>.
\<close>

text \<open>\<open>wo_suspend\<close> is the error of \<open>SetSuspendState\<close>, \<open>wo_start\<close> that of starting a detached process and
  \<open>wo_copy\<close> that of closing a copied file. Tunnel name, configuration path and temporary names are
  those of theory LinuxOps.\<close>

record windows_ops =
  wo_lo :: linux_ops
  wo_helper :: string
  wo_service :: string
  wo_wg_exe :: string
  wo_suspend :: "string option"
  wo_start :: "command \<Rightarrow> string option"
  wo_copy :: "string \<Rightarrow> string option"

abbreviation wo_env :: "windows_ops \<Rightarrow> env" where "wo_env wo \<equiv> lo_env (wo_lo wo)"
abbreviation wo_run :: "windows_ops \<Rightarrow> world \<Rightarrow> string \<Rightarrow> string list \<Rightarrow> outcome \<times> world" where
  "wo_run wo w c args \<equiv> run_cmd (wo_env wo) w c args"

subsection \<open>Factories\<close>

definition tunnel_of :: "config \<Rightarrow> string" where
  "tunnel_of cfg = (if wg_tunnel_name (wireguard cfg) = [] then ''theta-mesh'' else wg_tunnel_name (wireguard cfg))"

definition conf_of :: "string option \<Rightarrow> config \<Rightarrow> string" where
  "conf_of windows cfg = (if wg_conf (wireguard cfg) = [] then default_wireguard_conf_path windows (tunnel_of cfg)
     else wg_conf (wireguard cfg))"

definition new_linux_ops :: "env \<Rightarrow> (string \<Rightarrow> bool) \<Rightarrow> (world \<Rightarrow> string) \<Rightarrow> config \<Rightarrow> linux_ops" where
  "new_linux_ops e look rand cfg =
     \<lparr>lo_env = e, lo_tunnel = tunnel_of cfg, lo_conf = conf_of None cfg, lo_look_path = look, lo_rand = rand\<rparr>"

definition new_windows_ops ::
  "env \<Rightarrow> (string \<Rightarrow> bool) \<Rightarrow> (world \<Rightarrow> string) \<Rightarrow> string \<Rightarrow> string option \<Rightarrow> (command \<Rightarrow> string option) \<Rightarrow>
   (string \<Rightarrow> string option) \<Rightarrow> config \<Rightarrow> windows_ops" where
  "new_windows_ops e look rand pd suspend start copy cfg =
     \<lparr>wo_lo = \<lparr>lo_env = e, lo_tunnel = tunnel_of cfg, lo_conf = conf_of (Some pd) cfg, lo_look_path = look, lo_rand = rand\<rparr>,
      wo_helper = desktop_helper cfg, wo_service = service_name cfg, wo_wg_exe = wg_executable (wireguard cfg),
      wo_suspend = suspend, wo_start = start, wo_copy = copy\<rparr>"

subsection \<open>Commands\<close>

definition wn_reboot :: "windows_ops \<Rightarrow> outcome op" where
  "wn_reboot wo w = wo_run wo w ''shutdown'' [''/r'', ''/t'', ''0'']"

definition wn_shutdown :: "windows_ops \<Rightarrow> outcome op" where
  "wn_shutdown wo w = wo_run wo w ''shutdown'' [''/s'', ''/t'', ''0'']"

text \<open>A script goes to PowerShell as base64 of its UTF-16 units, least significant byte first.\<close>

definition encoded_script :: "string \<Rightarrow> string" where
  "encoded_script script = b64_encode (concat (map le16 (utf16_encode (utf8_runes script))))"

definition run_powershell :: "windows_ops \<Rightarrow> string \<Rightarrow> outcome op" where
  "run_powershell wo script w =
     wo_run wo w ''powershell'' [''-NoProfile'', ''-NonInteractive'', ''-ExecutionPolicy'', ''Bypass'', ''-EncodedCommand'',
       encoded_script script]"

definition wn_run_script :: "windows_ops \<Rightarrow> string \<Rightarrow> outcome op" where
  "wn_run_script wo script = run_powershell wo script"

definition wn_fetch_logs :: "windows_ops \<Rightarrow> string \<Rightarrow> int \<Rightarrow> outcome op" where
  "wn_fetch_logs wo service lines = run_powershell wo
     (''Get-WinEvent -LogName Application -MaxEvents '' @ itoa lines
      @ '' -ErrorAction SilentlyContinue | Format-List TimeCreated, ProviderName, Id, LevelDisplayName, Message'')"

definition wn_service_control :: "windows_ops \<Rightarrow> string \<Rightarrow> string \<Rightarrow> outcome op" where
  "wn_service_control wo service action w =
     (if action = ''status'' then wo_run wo w ''sc.exe'' [''query'', service]
      else if action = ''restart'' then
        (case wo_run wo w ''sc.exe'' [''stop'', service] of (stopped, w1) \<Rightarrow>
          (case wo_run wo w1 ''sc.exe'' [''start'', service] of
             ((out, Some err), w2) \<Rightarrow> ((out, if str_contains out ''1056'' then None else Some err), w2)
           | ((out, None), w2) \<Rightarrow> ((out, None), w2)))
      else wo_run wo w ''sc.exe'' [action, service])"

definition wn_zpool_scrub :: "windows_ops \<Rightarrow> string \<Rightarrow> outcome op" where
  "wn_zpool_scrub wo pool w = (([], Some ''zpool_scrub is not supported on Windows''), w)"

definition desktop_verb :: "string \<Rightarrow> string option" where
  "desktop_verb a =
     (if a = ''lock_session'' \<or> a = ''lock'' then Some ''lock''
      else if a = ''display_off'' then Some ''display_off''
      else if a = ''logout_user'' \<or> a = ''logout'' then Some ''logout'' else None)"

definition wn_desktop_control :: "windows_ops \<Rightarrow> string \<Rightarrow> string \<Rightarrow> outcome op" where
  "wn_desktop_control wo action target w =
     (if action = ''sleep_host'' \<or> action = ''sleep'' then (([], wo_suspend wo), w)
      else (case desktop_verb action of
          None \<Rightarrow> (([], Some (''unknown desktop action '' @ [SQ] @ action @ [SQ])), w)
        | Some verb \<Rightarrow>
            if wo_helper wo = []
            then (([], Some ''desktop control requires theta-agent-helper (desktop_helper not configured)''), w)
            else wo_run wo w (wo_helper wo) (verb # (if target = [] then [] else [target]))))"

subsection \<open>Self-update\<close>

definition move_file :: "windows_ops \<Rightarrow> string \<Rightarrow> string \<Rightarrow> string option op" where
  "move_file wo src dst w =
     (case rename_file (wo_env wo) w src dst of
        (None, w1) \<Rightarrow> (None, w1)
      | (Some err, w1) \<Rightarrow>
          (case read_file (wo_env wo) w1 src of
             Inl err \<Rightarrow> (Some err, w1)
           | Inr s \<Rightarrow>
               (case write_file (wo_env wo) w1 dst s 0x1ED of
                  (Some err, w2) \<Rightarrow>
                    (Some err, if e_torn (wo_env wo) dst = None then w2 else snd (remove_file (wo_env wo) w2 dst))
                | (None, w2) \<Rightarrow>
                    (case wo_copy wo dst of
                       Some err \<Rightarrow> (Some err, snd (remove_file (wo_env wo) w2 dst))
                     | None \<Rightarrow> remove_file (wo_env wo) w2 src))))"

text \<open>A detached process: it is started, and its output is nobody's.\<close>

definition spawn_detached :: "windows_ops \<Rightarrow> string \<Rightarrow> string list \<Rightarrow> string option op" where
  "spawn_detached wo exe args w =
     (let c = \<lparr>c_prog = exe, c_args = args, c_stdin = []\<rparr> in
      case wo_start wo c of Some err \<Rightarrow> (Some err, w) | None \<Rightarrow> (None, w\<lparr>w_cmds := w_cmds w @ [c]\<rparr>))"

definition wn_apply_update :: "windows_ops \<Rightarrow> update_env \<Rightarrow> string \<Rightarrow> string \<Rightarrow> string option op" where
  "wn_apply_update wo ue url checksum w =
     (case ue_self ue of
        Inl err \<Rightarrow> (Some (wrap_err ''failed to resolve current binary path'' err), w)
      | Inr self \<Rightarrow>
          (case download_binary (wo_lo wo) ue w url checksum (win_dir self) of
             (Inl err, w1) \<Rightarrow> (Some err, w1)
           | (Inr tmp, w1) \<Rightarrow>
               (case move_file wo tmp (self @ ''.new'') w1 of
                  (Some err, w2) \<Rightarrow> (Some (wrap_err ''failed to stage new binary'' err), w2)
                | (None, w2) \<Rightarrow>
                    if wo_helper wo = [] then (Some ''desktop_helper not configured; cannot complete self-update'', w2)
                    else (case spawn_detached wo (wo_helper wo) [''update'', self @ ''.new'', self,
                             if wo_service wo = [] then ''theta-agent'' else wo_service wo] w2 of
                        (Some err, w3) \<Rightarrow> (Some (wrap_err ''failed to launch updater helper'' err), w3)
                      | (None, w3) \<Rightarrow> (None, w3)))))"

text \<open>The command line's \<open>swapUpdatedBinary\<close>; true says that the caller need not restart anything.\<close>

definition swap_updated_binary_windows :: "windows_ops \<Rightarrow> config \<Rightarrow> string \<Rightarrow> string \<Rightarrow> world \<Rightarrow> bool result \<times> world" where
  "swap_updated_binary_windows wo cfg tmp bin w =
     (let new = bin @ ''.new''; service = (if service_name cfg = [] then ''theta-agent'' else service_name cfg) in
      case move_file wo tmp new w of
        (Some err, w1) \<Rightarrow> (Inl (wrap_err ''stage new binary'' err), w1)
      | (None, w1) \<Rightarrow>
          if desktop_helper cfg = []
          then (Inl (''desktop_helper is not configured; stop the '' @ service @ '' service, replace '' @ bin @ '' with '' @ new
            @ '', then start it again''), w1)
          else (case spawn_detached wo (desktop_helper cfg) [''update'', new, bin, service] w1 of
              (Some err, w2) \<Rightarrow> (Inl (wrap_err ''launch updater helper'' err), w2)
            | (None, w2) \<Rightarrow> (Inr True, w2)))"

subsection \<open>WireGuard\<close>

definition default_wireguard_exe :: string where
  "default_wireguard_exe = ''C:'' @ BSL # ''Program Files'' @ BSL # ''WireGuard'' @ BSL # ''wireguard.exe''"

definition wireguard_exe :: "windows_ops \<Rightarrow> world \<Rightarrow> string" where
  "wireguard_exe wo w =
     (if wo_wg_exe wo \<noteq> [] then wo_wg_exe wo
      else case stat (wo_env wo) w default_wireguard_exe of
        Inr info \<Rightarrow> default_wireguard_exe | Inl err \<Rightarrow> ''wireguard.exe'')"

definition wn_persist_wg :: "windows_ops \<Rightarrow> string \<Rightarrow> string option op" where
  "wn_persist_wg wo conf w =
     (let path = lo_conf (wo_lo wo) in
      case mkdir_all (wo_env wo) w (win_dir path) of
        Some err \<Rightarrow> (Some (wrap_err ''wireguard: create config dir'' err), w)
      | None \<Rightarrow>
          (case write_file (wo_env wo) w path conf 0x180 of
             (Some err, w1) \<Rightarrow> (Some (wrap_err ''wireguard: persist config'' err), w1)
           | (None, w1) \<Rightarrow> (None, w1)))"

definition wn_wg_state :: "windows_ops \<Rightarrow> bool op" where
  "wn_wg_state wo w =
     (case wo_run wo w ''sc.exe'' [''query'', ''WireGuardTunnel$'' @ lo_tunnel (wo_lo wo)] of
        ((out, Some err), w1) \<Rightarrow> (False, w1)
      | ((out, None), w1) \<Rightarrow> (str_contains (to_upper out) ''RUNNING'', w1))"

text \<open>One call of the WireGuard client; \<open>note\<close> is added to the error.\<close>

definition tunnel_service :: "windows_ops \<Rightarrow> string \<Rightarrow> string list \<Rightarrow> string \<Rightarrow> string option op" where
  "tunnel_service wo verb rest note w =
     (let name = lo_tunnel (wo_lo wo) in
      case wo_run wo w (wireguard_exe wo w) ((CHR ''/'' # verb) # name # rest) of
        ((out, Some err), w1) \<Rightarrow> (Some (''wireguard: '' @ verb @ '' '' @ name @ note @ '': '' @ err @ '': '' @ out), w1)
      | ((out, None), w1) \<Rightarrow> (None, w1))"

definition wn_apply_wg :: "windows_ops \<Rightarrow> string \<Rightarrow> string option op" where
  "wn_apply_wg wo conf w =
     (let install = tunnel_service wo ''installtunnelservice'' [lo_conf (wo_lo wo)] [] in
      case wn_persist_wg wo conf w of
        (Some err, w1) \<Rightarrow> (Some err, w1)
      | (None, w1) \<Rightarrow>
          (case wn_wg_state wo w1 of
             (False, w2) \<Rightarrow> install w2
           | (True, w2) \<Rightarrow>
               (case tunnel_service wo ''uninstalltunnelservice'' [] '' (before re-applying)'' w2 of
                  (Some err, w3) \<Rightarrow> (Some err, w3)
                | (None, w3) \<Rightarrow> install w3)))"

definition wn_remove_wg :: "windows_ops \<Rightarrow> string option op" where
  "wn_remove_wg wo = tunnel_service wo ''uninstalltunnelservice'' [] []"

definition wn_connect_wg :: "windows_ops \<Rightarrow> string option op" where
  "wn_connect_wg wo w =
     (case wn_wg_state wo w of
        (True, w1) \<Rightarrow> (None, w1)
      | (False, w1) \<Rightarrow>
          (case read_file (wo_env wo) w1 (lo_conf (wo_lo wo)) of
             Inl err \<Rightarrow> (Some (wrap_err (''wireguard: no persisted config at '' @ lo_conf (wo_lo wo)) err), w1)
           | Inr conf \<Rightarrow> wn_apply_wg wo conf w1))"

definition wn_disconnect_wg :: "windows_ops \<Rightarrow> string option op" where
  "wn_disconnect_wg wo w =
     (case wn_wg_state wo w of (False, w1) \<Rightarrow> (None, w1) | (True, w1) \<Rightarrow> wn_remove_wg wo w1)"

text \<open>The auto-VPN policy may rely on the same contract as on Linux.\<close>

interpretation windows_wg: wg_driver "wn_wg_state wo" "wn_connect_wg wo" "wn_disconnect_wg wo" for wo
  by unfold_locales (auto simp: wn_connect_wg_def wn_disconnect_wg_def split: prod.splits bool.splits)

subsection \<open>The helper\<close>

text \<open>
  Times are in milliseconds. A pause lasts as long as asked or longer: \<open>he_lag\<close> says how much, the query
  before it included. \<open>he_locked\<close> says at each attempt whether Windows still holds the executable.
\<close>

record helper_env =
  he_env :: env
  he_lag :: "int \<Rightarrow> nat"
  he_locked :: "nat \<Rightarrow> world \<Rightarrow> bool"

definition service_running :: "env \<Rightarrow> string \<Rightarrow> bool op" where
  "service_running e name w =
     (case run_cmd e w ''sc'' [''query'', name] of
        ((out, Some err), w1) \<Rightarrow> (False, w1)
      | ((out, None), w1) \<Rightarrow>
          (str_contains (to_upper out) ''RUNNING'' \<or> str_contains (to_upper out) ''START_PENDING'', w1))"

function wait_stopped :: "helper_env \<Rightarrow> string \<Rightarrow> int \<Rightarrow> int \<Rightarrow> world \<Rightarrow> world" where
  "wait_stopped he svc deadline now w =
     (if now < deadline then
        (case service_running (he_env he) svc w of
           (False, w1) \<Rightarrow> w1
         | (True, w1) \<Rightarrow> wait_stopped he svc deadline (now + 500 + int (he_lag he now)) w1)
      else w)"
  by pat_completeness auto
termination by (relation "measure (\<lambda>(he, svc, deadline, now, w). nat (deadline - now))") auto

declare wait_stopped.simps [simp del]

fun swap_retry :: "helper_env \<Rightarrow> string \<Rightarrow> string \<Rightarrow> nat \<Rightarrow> nat \<Rightarrow> world \<Rightarrow> bool \<times> world" where
  "swap_retry he new cur i 0 w = (False, w)"
| "swap_retry he new cur i (Suc n) w =
     (if he_locked he i w then swap_retry he new cur (Suc i) n w
      else (case rename_file (he_env he) w new cur of
          (None, w1) \<Rightarrow> (True, w1)
        | (Some err, w1) \<Rightarrow> swap_retry he new cur (Suc i) n w1))"

definition do_update :: "helper_env \<Rightarrow> string \<Rightarrow> string \<Rightarrow> string \<Rightarrow> int \<Rightarrow> world \<Rightarrow> cli_run \<times> world" where
  "do_update he new cur service now w =
     (let svc = (if service = [] then ''theta-agent'' else service);
          w1 = wait_stopped he svc (now + 90000) now w
      in case swap_retry he new cur 0 40 w1 of
        (False, w2) \<Rightarrow> (\<lparr>cr_code = 1, cr_err = [''update: could not replace '' @ cur @ '' (is the service still running?)''], cr_out = []\<rparr>, w2)
      | (True, w2) \<Rightarrow>
          (case run_cmd (he_env he) w2 ''sc'' [''start'', svc] of
             ((out, Some err), w3) \<Rightarrow>
               (\<lparr>cr_code = 1, cr_err = [''update: sc start '' @ svc @ '': '' @ err @ '': '' @ out], cr_out = []\<rparr>, w3)
           | ((out, None), w3) \<Rightarrow> (done_run [''update: swapped '' @ cur @ '' and restarted '' @ svc], w3)))"

text \<open>The calls into Windows: whether each succeeds, the console's session, the sessions with their users.\<close>

record helper_api =
  ha_lock :: bool
  ha_display_off :: bool
  ha_suspend :: bool
  ha_console :: nat
  ha_sessions :: "(nat \<times> string) list result"
  ha_logoff :: "nat \<Rightarrow> bool"

definition helper_failed :: "string \<Rightarrow> cli_run" where
  "helper_failed msg = \<lparr>cr_code = 1, cr_err = [msg], cr_out = []\<rparr>"

definition api_call :: "bool \<Rightarrow> string \<Rightarrow> cli_run" where
  "api_call ok name = (if ok then done_run [] else helper_failed (name @ '' failed''))"

definition sessions_for_user :: "helper_api \<Rightarrow> string \<Rightarrow> nat list result" where
  "sessions_for_user ha user =
     (case ha_sessions ha of
        Inl err \<Rightarrow> Inl (wrap_err ''WTSEnumerateSessionsW'' err)
      | Inr ss \<Rightarrow>
          (let ids = map fst (filter (\<lambda>s. snd s \<noteq> [] \<and> to_lower (snd s) = to_lower user) ss) in
           if ids = [] then Inl (''no active session for user '' @ go_quote user) else Inr ids))"

fun logoff_sessions :: "helper_api \<Rightarrow> nat list \<Rightarrow> string list \<Rightarrow> cli_run" where
  "logoff_sessions ha [] out = done_run out"
| "logoff_sessions ha (i # ids) out =
     (if ha_logoff ha i then logoff_sessions ha ids (out @ [''logged off session '' @ show_nat i])
      else \<lparr>cr_code = 1, cr_err = [''WTSLogoffSession('' @ show_nat i @ '') failed''], cr_out = out\<rparr>)"

definition logout_session :: "helper_api \<Rightarrow> string \<Rightarrow> cli_run" where
  "logout_session ha user =
     (case (if user = [] then Inr (if ha_console ha \<noteq> 0 then [ha_console ha] else []) else sessions_for_user ha user) of
        Inl err \<Rightarrow> helper_failed (''logout: '' @ err)
      | Inr ids \<Rightarrow> if ids = [] then helper_failed ''logout: no active session to log off'' else logoff_sessions ha ids [])"

definition helper_main :: "helper_env \<Rightarrow> helper_api \<Rightarrow> string list \<Rightarrow> int \<Rightarrow> world \<Rightarrow> cli_run \<times> world" where
  "helper_main he ha args now w =
     (case args of
        [] \<Rightarrow> (helper_failed ''usage: theta-agent-helper <lock|display_off|logout|update|sleep> [args...]'', w)
      | a # rest \<Rightarrow>
          if a = ''lock'' then (api_call (ha_lock ha) ''LockWorkStation'', w)
          else if a = ''display_off'' then (api_call (ha_display_off ha) ''SendMessage(SC_MONITORPOWER)'', w)
          else if a = ''logout'' then (logout_session ha (case rest of [] \<Rightarrow> [] | u # _ \<Rightarrow> u), w)
          else if a = ''sleep'' then (api_call (ha_suspend ha) ''SetSuspendState'', w)
          else if a = ''update'' then
            (case rest of
               new # cur # svc # _ \<Rightarrow> do_update he new cur svc now w
             | _ \<Rightarrow> (helper_failed ''usage: theta-agent-helper update <newExe> <currentExe> <serviceName>'', w))
          else (helper_failed (''unknown action '' @ go_quote a), w))"

subsection \<open>Laws\<close>

lemma spawn_files: "spawn_detached wo exe args w = (r, w') \<Longrightarrow> w_files w' = w_files w"
  by (auto simp: spawn_detached_def Let_def split: option.splits)

lemma move_file_ok:
  assumes "move_file wo src dst w = (None, w')" and "src \<noteq> dst"
  shows "map_option f_content (w_files w' dst) = map_option f_content (w_files w src)" and "w_files w src \<noteq> None"
    and "q \<noteq> src \<Longrightarrow> q \<noteq> dst \<Longrightarrow> w_files w' q = w_files w q"
  using assms
  by (auto simp: move_file_def rename_file_def read_file_def write_file_def remove_file_def split: option.splits)

lemma move_file_other:
  assumes "move_file wo src dst w = (r, w')" "q \<noteq> src" "q \<noteq> dst"
  shows "w_files w' q = w_files w q"
  using assms
  by (auto simp: move_file_def rename_file_def read_file_def write_file_def remove_file_def split: option.splits)

lemma service_running_files: "w_files (snd (service_running e n w)) = w_files w"
  by (auto simp: service_running_def run_cmd_frame split: prod.splits option.splits) (metis run_cmd_files)+

lemma wait_stopped_files: "w_files (wait_stopped he svc deadline now w) = w_files w"
proof (induction he svc deadline now w rule: wait_stopped.induct)
  case (1 he svc deadline now w)
  show ?case
    using 1 service_running_files [of "he_env he" svc w]
    by (subst wait_stopped.simps) (auto split: prod.splits bool.splits)
qed

text \<open>Every attempt either leaves the files alone or is the one that swaps them.\<close>

lemma swap_retry_result:
  assumes "swap_retry he new cur i n w = (ok, w')"
  shows "if ok then w_files w new \<noteq> None \<and> w_files w' = (w_files w)(new := None, cur := w_files w new) else w_files w' = w_files w"
  using assms
proof (induction n arbitrary: i w)
  case (Suc n)
  show ?case
  proof (cases "he_locked he i w \<or> fst (rename_file (he_env he) w new cur) \<noteq> None")
    case True
    then have "swap_retry he new cur i (Suc n) w = swap_retry he new cur (Suc i) n w"
      by (auto simp: rename_file_def split: option.splits)
    with Suc.prems have "swap_retry he new cur (Suc i) n w = (ok, w')" by (simp only:)
    then show ?thesis by (rule Suc.IH)
  next
    case False
    with Suc.prems show ?thesis by (auto simp: rename_file_def split: option.splits)
  qed
qed simp

lemma do_update_result:
  assumes "do_update he new cur svc now w = (r, w')"
  shows "w_files w' = w_files w \<and> cr_code r = 1 \<or>
    w_files w new \<noteq> None \<and> w_files w' = (w_files w)(new := None, cur := w_files w new)"
proof -
  let ?svc = "if svc = [] then ''theta-agent'' else svc"
  obtain ok w2 where s: "swap_retry he new cur 0 40 (wait_stopped he ?svc (now + 90000) now w) = (ok, w2)" by fastforce
  have "w_files w' = w_files w2 \<and> (ok \<or> cr_code r = 1)"
    using assms s by (auto simp: do_update_def Let_def run_cmd_files split: prod.splits bool.splits option.splits)
  then show ?thesis using swap_retry_result [OF s] by (auto simp: wait_stopped_files split: if_splits)
qed

text \<open>The commands of the helper: at most 180 queries, and one start if it swapped.\<close>

lemma service_running_cmds:
  "w_cmds (snd (service_running e n w)) = w_cmds w @ [\<lparr>c_prog = ''sc'', c_args = [''query'', n], c_stdin = []\<rparr>]"
  by (simp add: service_running_def run_cmd_def run_stdin_def Let_def split: prod.splits option.splits)

lemma wait_stopped_cmds:
  "\<exists>k. w_cmds (wait_stopped he svc deadline now w) =
     w_cmds w @ replicate k \<lparr>c_prog = ''sc'', c_args = [''query'', svc], c_stdin = []\<rparr> \<and>
     int k * 500 < max 0 (deadline - now) + 500"
proof (induction he svc deadline now w rule: wait_stopped.induct)
  case (1 he svc deadline now w)
  let ?q = "\<lparr>c_prog = ''sc'', c_args = [''query'', svc], c_stdin = []\<rparr>"
  show ?case
  proof (cases "now < deadline")
    case False
    then show ?thesis by (subst wait_stopped.simps) (auto intro!: exI [of _ 0])
  next
    case True
    obtain up w1 where s: "service_running (he_env he) svc w = (up, w1)" by fastforce
    then have c: "w_cmds w1 = w_cmds w @ [?q]" using service_running_cmds [of "he_env he" svc w] by simp
    show ?thesis
    proof (cases up)
      case up: True
      from 1 [OF True s [symmetric]] up obtain k where
        "w_cmds (wait_stopped he svc deadline (now + 500 + int (he_lag he now)) w1) = w_cmds w1 @ replicate k ?q"
        and k: "int k * 500 < max 0 (deadline - (now + 500 + int (he_lag he now))) + 500" by auto
      moreover have "int k * 500 < deadline - now"
      proof (cases "deadline \<le> now + 500 + int (he_lag he now)")
        case True
        then have "k = 0" using k by simp
        then show ?thesis using \<open>now < deadline\<close> by simp
      next
        case False
        then show ?thesis using k by simp
      qed
      ultimately show ?thesis
        using True s up c by (subst wait_stopped.simps) (auto intro!: exI [of _ "Suc k"])
    next
      case False
      then show ?thesis
        using True s c by (subst wait_stopped.simps) (auto intro!: exI [of _ 1])
    qed
  qed
qed

lemma do_update_cmds:
  assumes "do_update he new cur svc now w = (r, w')" and "svc \<noteq> []"
  shows "\<exists>k swapped. k \<le> 180 \<and> w_cmds w' = w_cmds w @ replicate k \<lparr>c_prog = ''sc'', c_args = [''query'', svc], c_stdin = []\<rparr>
     @ (if swapped then [\<lparr>c_prog = ''sc'', c_args = [''start'', svc], c_stdin = []\<rparr>] else []) \<and> (cr_code r = 0 \<longrightarrow> swapped)"
proof -
  let ?w1 = "wait_stopped he svc (now + 90000) now w"
  obtain k where k: "w_cmds ?w1 = w_cmds w @ replicate k \<lparr>c_prog = ''sc'', c_args = [''query'', svc], c_stdin = []\<rparr>"
    "int k * 500 < 90500" using wait_stopped_cmds [of he svc "now + 90000" now w] by auto
  have c: "w_cmds (snd (swap_retry he new cur i n u)) = w_cmds u" for i n u
    by (induction n arbitrary: i u) (auto simp: rename_file_def split: option.splits)
  obtain ok w2 where s: "swap_retry he new cur 0 40 ?w1 = (ok, w2)" by fastforce
  then have w2: "w_cmds w2 = w_cmds ?w1" using c [of 0 40 ?w1] by simp
  have "k \<le> 180" using k(2) by linarith
  then show ?thesis
    using assms s k(1) w2 by (intro exI [of _ k] exI [of _ ok])
      (auto simp: do_update_def run_cmd_def run_stdin_def Let_def split: prod.splits option.splits)
qed

lemma win_update_stages:
  assumes "ue_self ue = Inr self" and "wn_apply_update wo ue url chk w = (r, w1)"
    and "self \<noteq> win_dir self @ ''/'' @ ''theta-agent-update-'' @ lo_rand (wo_lo wo) w"
    and "self @ ''.new'' \<noteq> win_dir self @ ''/'' @ ''theta-agent-update-'' @ lo_rand (wo_lo wo) w"
  shows "w_files w1 self = w_files w self \<and> (r = None \<longrightarrow> (\<exists>resp. ue_get ue url = Inr resp \<and> hr_code resp = 200 \<and>
      hr_broken resp = None \<and> to_lower (ue_sha ue (hr_body resp)) = to_lower (trim_space chk) \<and>
      map_option f_content (w_files w1 (self @ ''.new'')) = Some (hr_body resp)))"
proof (cases "download_binary (wo_lo wo) ue w url chk (win_dir self)")
  case (Pair a w2)
  show ?thesis
  proof (cases a)
    case (Inl err)
    then show ?thesis
      using assms Pair download_binary_err [of "wo_lo wo" ue w url chk "win_dir self" err w2 self] by (auto simp: wn_apply_update_def)
  next
    case (Inr tmp)
    then obtain resp where resp: "ue_get ue url = Inr resp" "hr_code resp = 200" "hr_broken resp = None"
      "to_lower (ue_sha ue (hr_body resp)) = to_lower (trim_space chk)" "map_option f_content (w_files w2 tmp) = Some (hr_body resp)"
      "\<forall>q. q \<noteq> tmp \<longrightarrow> w_files w2 q = w_files w q" "tmp \<noteq> self" "tmp \<noteq> self @ ''.new''"
      using download_binary_ok [of "wo_lo wo" ue w url chk "win_dir self" tmp w2] Pair assms(3,4) by auto
    obtain m w3 where m: "move_file wo tmp (self @ ''.new'') w2 = (m, w3)" by fastforce
    have w1: "w_files w1 = w_files w3" "r = None \<Longrightarrow> m = None"
      using assms(1,2) Pair Inr m by (auto simp: wn_apply_update_def spawn_files split: option.splits if_splits prod.splits)
    have "w_files w3 self = w_files w self"
      using move_file_other [OF m, of self] resp(6,7) by auto
    moreover have "m = None \<Longrightarrow> map_option f_content (w_files w3 (self @ ''.new'')) = Some (hr_body resp)"
      using move_file_ok(1) [of wo tmp "self @ ''.new''" w2 w3] m resp(5,8) by simp
    ultimately show ?thesis using w1 resp by auto
  qed
qed

subsection \<open>Properties\<close>

text \<open>C16: PowerShell receives the script: the one command that is run decodes, as base64 of little-endian
  UTF-16, to the runes of the script, whatever quotes, ampersands or surrogate pairs it has.\<close>

theorem powershell_receives_script:
  "\<exists>arg bytes. w_cmds (snd (run_powershell wo script w)) = w_cmds w @ [\<lparr>c_prog = ''powershell'',
       c_args = [''-NoProfile'', ''-NonInteractive'', ''-ExecutionPolicy'', ''Bypass'', ''-EncodedCommand'', arg], c_stdin = []\<rparr>] \<and>
     b64_decode arg = Some bytes \<and> utf16_decode (from_le16 bytes) = utf8_runes script"
proof -
  have "utf16_decode (from_le16 (concat (map le16 (utf16_encode (utf8_runes script))))) = utf8_runes script"
    by (simp add: from_le16_units utf16_roundtrip scalar_utf8)
  then show ?thesis
    by (intro exI [of _ "encoded_script script"] exI [of _ "concat (map le16 (utf16_encode (utf8_runes script)))"])
      (simp add: run_powershell_def encoded_script_def b64_decode_encode)
qed

text \<open>C6: a staged update and the helper's swap install verified bytes or nothing. Up to the helper the
  executable is untouched; after it the executable is the complete body of a 200 response with the
  signed digest, or what it was, and an exit status of 0 means that it was swapped. The helper looks
  at the service at most 180 times before it tries.\<close>

theorem windows_update_swaps_verified:
  assumes "ue_self ue = Inr self" and "wn_apply_update wo ue url chk w = (r, w1)"
    and "self \<noteq> win_dir self @ ''/'' @ ''theta-agent-update-'' @ lo_rand (wo_lo wo) w"
    and "self @ ''.new'' \<noteq> win_dir self @ ''/'' @ ''theta-agent-update-'' @ lo_rand (wo_lo wo) w"
    and "w_files w2 = w_files w1" and "do_update he (self @ ''.new'') self svc now w2 = (run, w3)"
  shows "w_files w1 self = w_files w self \<and>
    (r = None \<longrightarrow> (\<exists>resp. ue_get ue url = Inr resp \<and> hr_code resp = 200 \<and> hr_broken resp = None \<and>
       to_lower (ue_sha ue (hr_body resp)) = to_lower (trim_space chk) \<and>
       (map_option f_content (w_files w3 self) = Some (hr_body resp) \<or> cr_code run = 1 \<and> w_files w3 self = w_files w self)))"
proof -
  note st = win_update_stages [OF assms(1-4)]
  from do_update_result [OF assms(6)] show ?thesis
    using st assms(5) by fastforce
qed

text \<open>A Windows host with its helper, whose service stops after the third query.\<close>

definition sc_answers :: "command list \<Rightarrow> command \<Rightarrow> string \<times> string option" where
  "sc_answers h c = ((if c_args c = [''query'', ''theta-agent''] \<and> length h < 4 then ''STATE : 4  RUNNING'' else ''STOPPED''), None)"

definition windows_env :: env where
  "windows_env = quiet_env\<lparr>e_exec := sc_answers\<rparr>"

definition sample_windows :: windows_ops where
  "sample_windows = \<lparr>wo_lo = sample_ops\<lparr>lo_env := windows_env\<rparr>, wo_helper = ''helper.exe'', wo_service = [], wo_wg_exe = [],
     wo_suspend = None, wo_start = (\<lambda>_. None), wo_copy = (\<lambda>_. None)\<rparr>"

definition sample_helper :: helper_env where
  "sample_helper = \<lparr>he_env = windows_env, he_lag = (\<lambda>_. 7), he_locked = (\<lambda>i w. i < 2)\<rparr>"

definition agent_exe :: string where "agent_exe = ''C:'' @ BSL # ''agent.exe''"

definition windows_update :: update_env where
  "windows_update = sample_update\<lparr>ue_self := Inr agent_exe\<rparr>"

lemma windows_update_swaps_verified_witness:
  "\<exists>w1 run w3. wn_apply_update sample_windows windows_update ''u'' ''ab'' (one_file agent_exe ''old'' 0) = (None, w1) \<and>
     do_update sample_helper (agent_exe @ ''.new'') agent_exe ''theta-agent'' 0 w1 = (run, w3) \<and> cr_code run = 0 \<and>
     map_option f_content (w_files w3 agent_exe) = Some ''new''"
proof -
  let ?a = "wn_apply_update sample_windows windows_update ''u'' ''ab'' (one_file agent_exe ''old'' 0)"
  let ?d = "do_update sample_helper (agent_exe @ ''.new'') agent_exe ''theta-agent'' 0 (snd ?a)"
  have "fst ?a = None" by code_simp
  then have a: "?a = (None, snd ?a)" by (metis prod.collapse)
  have d: "?d = (fst ?d, snd ?d)" by simp
  have z: "cr_code (fst ?d) = 0" by code_simp
  have s: "ue_self windows_update = Inr agent_exe" "ue_get windows_update ''u'' = Inr \<lparr>hr_code = 200, hr_status = ''200 OK'', hr_body = ''new'', hr_broken = None\<rparr>"
    by (simp_all add: windows_update_def sample_update_def)
  have t: "agent_exe \<noteq> win_dir agent_exe @ ''/'' @ ''theta-agent-update-'' @ lo_rand (wo_lo sample_windows) (one_file agent_exe ''old'' 0)"
    "agent_exe @ ''.new'' \<noteq> win_dir agent_exe @ ''/'' @ ''theta-agent-update-'' @ lo_rand (wo_lo sample_windows) (one_file agent_exe ''old'' 0)"
    by code_simp+
  from windows_update_swaps_verified [OF s(1) a t refl d] have "map_option f_content (w_files (snd ?d) agent_exe) = Some ''new''"
    using s(2) z by auto
  then show ?thesis using a d z by blast
qed

text \<open>What the code lets through. On the command line nobody stops the service: the command's only command is
  the helper's start, and the helper only asks and waits, so with the service up and its executable
  locked the update ends with the old binary, after \<open>update\<close> reported success. A restart counts as done
  when the output has 1056 anywhere, in the service's name for one. Logs are the whole application
  log, whatever the service.\<close>

lemma cli_update_stops_nothing:
  assumes "swap_updated_binary_windows wo cfg tmp bin w = (Inr restarted, w1)"
  shows "restarted \<and> w_cmds w1 = w_cmds w @ [\<lparr>c_prog = desktop_helper cfg,
     c_args = [''update'', bin @ ''.new'', bin, if service_name cfg = [] then ''theta-agent'' else service_name cfg], c_stdin = []\<rparr>]"
proof -
  have "w_cmds (snd (move_file wo tmp d w)) = w_cmds w" for d
    by (auto simp: move_file_def rename_file_def write_file_def remove_file_def split: option.splits sum.splits)
  then show ?thesis using assms
    by (auto simp: swap_updated_binary_windows_def spawn_detached_def Let_def split: option.splits if_splits prod.splits)
      (metis snd_conv)+
qed

lemma update_waits_for_nobody:
  assumes "do_update he new cur svc now w = (r, w')" and "\<And>i u. he_locked he i u"
  shows "cr_code r = 1 \<and> w_files w' = w_files w"
proof -
  have "swap_retry he new cur i n u = (False, u)" for i n u
    by (induction n arbitrary: i) (simp_all add: assms(2))
  then show ?thesis using assms(1) by (auto simp: do_update_def Let_def wait_stopped_files)
qed

lemma restart_of_1056:
  "e_exec (wo_env wo) (w_cmds w @ [\<lparr>c_prog = ''sc.exe'', c_args = [''stop'', s], c_stdin = []\<rparr>])
     \<lparr>c_prog = ''sc.exe'', c_args = [''start'', s], c_stdin = []\<rparr> = (out, Some err) \<Longrightarrow>
   str_contains out ''1056'' \<Longrightarrow> fst (wn_service_control wo s ''restart'' w) = (out, None)"
  by (simp add: wn_service_control_def run_cmd_def run_stdin_def Let_def case_prod_beta)

lemma logs_of_any_service: "wn_fetch_logs wo s n = wn_fetch_logs wo t n"
  by (simp add: wn_fetch_logs_def)

end
