(* ===== verification/WinLogin.thy ===== *)
theory WinLogin
  imports WinOps
begin

text \<open>
  Directory logon on Windows: \<open>configure_login.go\<close>, \<open>configure_login_windows.go\<close>, \<open>cp_branding_windows.go\<close>,
  \<open>ConfigureLDAP\<close> of \<open>platform_windows.go\<close> and the configure-login command. OpenCredential, the credential
  provider, keeps its configuration in the registry.
\<close>

subsection \<open>The registry\<close>

datatype reg_data = RegDword "32 word" | RegMulti "string list" | RegStr string

text \<open>Values by key and name; the empty name is a key's default value.\<close>

type_synonym registry = "string \<times> string \<Rightarrow> reg_data option"

datatype reg_op = RegOpen | RegCreate | RegSet | RegEnum

record reg_value =
  rv_key :: string
  rv_name :: string
  rv_multi :: "string list"
  rv_str :: string
  rv_dword :: "32 word"
  rv_is_dword :: bool

text \<open>What Windows answers: the error of an operation on a key, and the names of a key's sub-keys.\<close>

record login_env =
  le_env :: env
  le_decode :: "string \<Rightarrow> config result"
  le_fault :: "reg_op \<Rightarrow> string \<Rightarrow> string option"
  le_subkeys :: "string \<Rightarrow> string list"
  le_org :: string

definition sub_key :: "string \<Rightarrow> string \<Rightarrow> string" where
  "sub_key root k = (if k = [] then root else root @ BSL # k)"

subsection \<open>OpenCredential's values\<close>

definition ldap_uuid :: string where "ldap_uuid = ''0F52390B-C781-43AE-BD62-553C77FA4CF7''"
definition local_machine_uuid :: string where "local_machine_uuid = ''12FA152D-A2E3-4C8D-9535-5DCD49DFCB6D''"
definition state_authenticate :: "32 word" where "state_authenticate = 2"
definition state_gateway :: "32 word" where "state_gateway = 8"
definition open_credential_root :: string where
  "open_credential_root = ''SOFTWARE'' @ BSL # ''OpenCredential3''"

definition plugin_key :: "string \<Rightarrow> string" where "plugin_key uuid = ''Plugins'' @ BSL # uuid"

abbreviation multi_value :: "string \<Rightarrow> string \<Rightarrow> string list \<Rightarrow> reg_value" where
  "multi_value k n v \<equiv> \<lparr>rv_key = k, rv_name = n, rv_multi = v, rv_str = [], rv_dword = 0, rv_is_dword = False\<rparr>"
abbreviation str_value :: "string \<Rightarrow> string \<Rightarrow> string \<Rightarrow> reg_value" where
  "str_value k n v \<equiv> \<lparr>rv_key = k, rv_name = n, rv_multi = [], rv_str = v, rv_dword = 0, rv_is_dword = False\<rparr>"
abbreviation dword_value :: "string \<Rightarrow> string \<Rightarrow> 32 word \<Rightarrow> reg_value" where
  "dword_value k n v \<equiv> \<lparr>rv_key = k, rv_name = n, rv_multi = [], rv_str = [], rv_dword = v, rv_is_dword = True\<rparr>"

definition open_credential_values :: "string \<Rightarrow> string \<Rightarrow> string \<Rightarrow> reg_value list" where
  "open_credential_values base admin local_admin =
     (let k = plugin_key ldap_uuid; admin_dn = ''cn='' @ admin @ '',ou=groups,'' @ base in
      [multi_value [] ''IPluginAuthentication_Order'' [ldap_uuid, local_machine_uuid],
       multi_value [] ''IPluginAuthenticationGateway_Order'' [ldap_uuid],
       dword_value k [] (or state_authenticate state_gateway),
       dword_value (plugin_key local_machine_uuid) [] state_authenticate,
       multi_value k ''LdapHost'' [''127.0.0.1''],
       dword_value k ''LdapPort'' 389, dword_value k ''LdapTimeout'' 10, dword_value k ''EncryptionMethod'' 0,
       dword_value k ''RequireCert'' 0, dword_value k ''DoSearch'' 0,
       str_value k ''DnPattern'' (''uid=%u,ou=people,'' @ base),
       str_value k ''GroupDnPattern'' (''cn=%g,ou=groups,'' @ base),
       str_value k ''GroupMemberAttrib'' ''member'',
       dword_value k ''AuthzApplyToAllUsers'' 1,
       multi_value k ''GroupAuthzRules'' [NL # ''2'' @ NL # ''1''],
       multi_value k ''GroupGatewayRules'' [admin_dn @ NL # ''0'' @ NL # local_admin]])"

text \<open>A value is written with the type its fields ask for; one without content is left alone.\<close>

definition reg_data_of :: "reg_value \<Rightarrow> reg_data option" where
  "reg_data_of v =
     (if rv_is_dword v then Some (RegDword (rv_dword v))
      else if rv_multi v \<noteq> [] then Some (RegMulti (rv_multi v))
      else if rv_str v \<noteq> [] then Some (RegStr (rv_str v)) else None)"

fun write_reg_values :: "login_env \<Rightarrow> string \<Rightarrow> reg_value list \<Rightarrow> registry \<Rightarrow> string option \<times> registry" where
  "write_reg_values le root [] reg = (None, reg)"
| "write_reg_values le root (v # vs) reg =
     (let key = sub_key root (rv_key v) in
      case (if rv_key v = [] then None else le_fault le RegCreate key) of
        Some err \<Rightarrow> (Some (wrap_err (''create key '' @ rv_key v) err), reg)
      | None \<Rightarrow>
          (case reg_data_of v of
             None \<Rightarrow> write_reg_values le root vs reg
           | Some d \<Rightarrow>
               (case le_fault le RegSet key of
                  Some err \<Rightarrow> (Some (wrap_err (''set '' @ rv_key v @ BSL # rv_name v) err), reg)
                | None \<Rightarrow> write_reg_values le root vs (reg((key, rv_name v) := Some d)))))"

definition seed_open_credential :: "login_env \<Rightarrow> string \<Rightarrow> string \<Rightarrow> string \<Rightarrow> registry \<Rightarrow> string option \<times> registry" where
  "seed_open_credential le base admin local_admin reg =
     (case le_fault le RegCreate open_credential_root of
        Some err \<Rightarrow> (Some (wrap_err (''open '' @ open_credential_root) err), reg)
      | None \<Rightarrow> write_reg_values le open_credential_root (open_credential_values base admin local_admin) reg)"

subsection \<open>The logon tile\<close>

definition credential_providers_root :: string where
  "credential_providers_root = join [BSL] [''SOFTWARE'', ''Microsoft'', ''Windows'', ''CurrentVersion'', ''Authentication'',
     ''Credential Providers'']"

definition credential_provider_dll :: "login_env \<Rightarrow> string \<Rightarrow> string \<Rightarrow> registry \<Rightarrow> string" where
  "credential_provider_dll le root sub reg =
     (let k = root @ BSL # sub @ BSL # ''InprocServer32'' in
      case le_fault le RegOpen k of Some err \<Rightarrow> []
      | None \<Rightarrow> (case reg (k, []) of Some (RegStr s) \<Rightarrow> s | _ \<Rightarrow> []))"

definition is_open_credential :: "login_env \<Rightarrow> string \<Rightarrow> registry \<Rightarrow> string \<Rightarrow> bool" where
  "is_open_credential le root reg sub = str_contains (to_lower (credential_provider_dll le root sub reg)) ''opencredential''"

definition brand_credential_provider :: "login_env \<Rightarrow> string \<Rightarrow> string \<Rightarrow> registry \<Rightarrow> string option \<times> registry" where
  "brand_credential_provider le root name reg =
     (case le_fault le RegEnum root of
        Some err \<Rightarrow> (Some (wrap_err ''enumerate credential providers'' err), reg)
      | None \<Rightarrow>
          (case find (is_open_credential le root reg) (le_subkeys le root) of
             None \<Rightarrow> (Some (''no OpenCredential credential provider registered under '' @ credential_providers_root), reg)
           | Some sub \<Rightarrow>
               (let k = root @ BSL # sub in
                case le_fault le RegOpen k of
                  Some err \<Rightarrow> (Some (wrap_err (''open provider '' @ sub) err), reg)
                | None \<Rightarrow>
                    (case le_fault le RegSet k of
                       Some err \<Rightarrow> (Some (wrap_err ''set provider display name'' err), reg)
                     | None \<Rightarrow> (None, reg((k, []) := Some (RegStr name)))))))"

definition apply_branding :: "login_env \<Rightarrow> string \<Rightarrow> registry \<Rightarrow> string option \<times> registry" where
  "apply_branding le name reg =
     (if trim_space name = [] then (None, reg)
      else (case le_fault le RegOpen credential_providers_root of
          Some err \<Rightarrow> (Some (wrap_err (''open '' @ credential_providers_root) err), reg)
        | None \<Rightarrow> brand_credential_provider le credential_providers_root name reg))"

text \<open>The name the directory pushed wins over agent.yml's; a failure is only logged.\<close>

definition maybe_apply_branding :: "login_env \<Rightarrow> config option \<Rightarrow> registry \<Rightarrow> registry" where
  "maybe_apply_branding le cfg reg =
     (let name = (if le_org le = [] then (case cfg of None \<Rightarrow> [] | Some c \<Rightarrow> credential_provider_name c) else le_org le)
      in if name = [] then reg else snd (apply_branding le name reg))"

definition or_default :: "string \<Rightarrow> string \<Rightarrow> string" where
  "or_default s d = (if s = [] then d else s)"

definition seed_from_config :: "login_env \<Rightarrow> config \<Rightarrow> string \<Rightarrow> registry \<Rightarrow> string option \<times> registry" where
  "seed_from_config le cfg base reg =
     (case seed_open_credential le base (or_default (ldap_admin_group cfg) ''admins'')
             (or_default (ldap_local_admin_group cfg) ''Administrators'') reg of
        (Some err, reg1) \<Rightarrow> (Some err, reg1)
      | (None, reg1) \<Rightarrow> (None, maybe_apply_branding le (Some cfg) reg1))"

subsection \<open>Editing agent.yml\<close>

definition capability_re :: "string \<Rightarrow> rx" where
  "capability_re name = rseq [RBol, RGrp 1 rspaces, rlit (name @ '':''), rspaces, rplus (RSet is_word), rdots, REol]"

definition capabilities_re :: rx where
  "capabilities_re = rseq [RBol, RGrp 1 (rlit ''capabilities:''), rspaces, REol]"

definition ensure_capability :: "string \<Rightarrow> string \<Rightarrow> string" where
  "ensure_capability doc name =
     (if rx_matches (capability_re name) doc
      then replace_tmpl (capability_re name) (''${1}'' @ name @ '': true'') doc
      else if rx_matches capabilities_re doc
      then replace_tmpl capabilities_re (''$1'' @ NL # ''  '' @ name @ '': true'') doc
      else (if has_suffix doc [NL] then doc else doc @ [NL])
        @ ''capabilities:'' @ NL # ''  '' @ name @ '': true'' @ [NL])"

definition ensure_ldap_tunnel :: "string \<Rightarrow> string" where
  "ensure_ldap_tunnel doc = ensure_capability doc ''ldap_tunnel''"

definition rlit_fold :: "string \<Rightarrow> rx" where
  "rlit_fold s = rseq (map (\<lambda>c. RSet (\<lambda>d. lower_char d = lower_char c)) s)"

definition search_base_re :: rx where
  "search_base_re = rseq [RBol, rspaces, rlit_fold ''ldap_search_base'', rspaces, rlit ''='', rspaces,
     RGrp 1 (rplus (RSet (\<lambda>c. \<not> rspace c))), rspaces, REol]"

definition parse_sssd_base_dn :: "string \<Rightarrow> string" where
  "parse_sssd_base_dn conf =
     (case rx_find search_base_re [] conf of
        None \<Rightarrow> []
      | Some (m, groups) \<Rightarrow> (case map_of groups 1 of None \<Rightarrow> [] | Some s \<Rightarrow> trim_space s))"

definition persist_ldap_capabilities :: "login_env \<Rightarrow> config_manager \<Rightarrow> world \<Rightarrow> string option \<times> world \<times> config_manager" where
  "persist_ldap_capabilities le cm w =
     (case read_file (le_env le) w (cm_path cm) of
        Inl err \<Rightarrow> (Some err, w, cm)
      | Inr raw \<Rightarrow>
          (case write_file (le_env le) w (cm_path cm)
                  (ensure_capability (ensure_capability raw ''configure_ldap'') ''ldap_tunnel'') 0x180 of
             (Some err, w1) \<Rightarrow> (Some err, w1, cm)
           | (None, w1) \<Rightarrow> (case reload (le_decode le) (le_env le) w1 cm of (r, cm1) \<Rightarrow> (r, w1, cm1))))"

subsection \<open>Commands\<close>

text \<open>The base name is read from the configuration as it was before the capabilities were turned on.\<close>

definition configure_login ::
  "login_env \<Rightarrow> config_manager \<Rightarrow> world \<Rightarrow> registry \<Rightarrow> string option \<times> world \<times> config_manager \<times> registry" where
  "configure_login le cm w reg =
     (let cfg = cm_current cm in
      case persist_ldap_capabilities le cm w of
        (Some err, w1, cm1) \<Rightarrow> (Some (wrap_err ''enable LDAP capabilities'' err), w1, cm1, reg)
      | (None, w1, cm1) \<Rightarrow>
          (let reg1 = maybe_apply_branding le (Some cfg) reg in
           if ldap_base_dn cfg = [] then (None, w1, cm1, reg1)
           else (case seed_from_config le (cm_current cm1) (ldap_base_dn cfg) reg1 of
               (r, reg2) \<Rightarrow> (r, w1, cm1, reg2))))"

definition configure_login_other :: "string option" where
  "configure_login_other = Some ''configure-login is only meaningful on Windows''"

definition run_configure_login :: "login_env \<Rightarrow> string \<Rightarrow> string list \<Rightarrow> world \<Rightarrow> registry \<Rightarrow> cli_run \<times> world \<times> registry" where
  "run_configure_login le dflt args w reg =
     (let path = (case args of a # _ \<Rightarrow> if a \<noteq> [] \<and> \<not> has_prefix a ''-'' then a else dflt | [] \<Rightarrow> dflt) in
      case new_config_manager (le_decode le) (le_env le) w path of
        Inl err \<Rightarrow> (helper_failed (''configure-login: '' @ err), w, reg)
      | Inr cm \<Rightarrow>
          (case configure_login le cm w reg of
             (Some err, w1, cm1, reg1) \<Rightarrow> (helper_failed (''configure-login: '' @ err), w1, reg1)
           | (None, w1, cm1, reg1) \<Rightarrow> (done_run [], w1, reg1)))"

text \<open>\<open>ConfigureLDAP\<close>: a base name that cannot be stored is used all the same.\<close>

definition store_base_dn :: "login_env \<Rightarrow> string \<Rightarrow> config_manager \<Rightarrow> world \<Rightarrow> world \<times> config_manager" where
  "store_base_dn le base cm w =
     (case read_file (le_env le) w (cm_path cm) of
        Inl err \<Rightarrow> (w, cm)
      | Inr raw \<Rightarrow>
          (case write_file (le_env le) w (cm_path cm) (set_yaml_scalar raw ''ldap_base_dn'' base) 0x180 of
             (Some err, w1) \<Rightarrow> (w1, cm)
           | (None, w1) \<Rightarrow> (w1, snd (reload (le_decode le) (le_env le) w1 cm))))"

definition wn_configure_ldap ::
  "login_env \<Rightarrow> string \<Rightarrow> config_manager option \<Rightarrow> world \<Rightarrow> registry \<Rightarrow>
   string option \<times> world \<times> config_manager option \<times> registry" where
  "wn_configure_ldap le conf ocm w reg =
     (let base = parse_sssd_base_dn conf in
      if base = [] then (Some ''configure_ldap: no ldap_search_base in pushed config'', w, ocm, reg)
      else (case ocm of
          None \<Rightarrow> (case seed_open_credential le base ''admins'' ''Administrators'' reg of (r, reg1) \<Rightarrow> (r, w, None, reg1))
        | Some cm \<Rightarrow>
            (case store_base_dn le base cm w of (w1, cm1) \<Rightarrow>
              (case seed_from_config le (cm_current cm1) base reg of (r, reg1) \<Rightarrow> (r, w1, Some cm1, reg1)))))"

subsection \<open>Laws\<close>

abbreviation reg_slot :: "string \<Rightarrow> reg_value \<Rightarrow> string \<times> string" where
  "reg_slot root v \<equiv> (sub_key root (rv_key v), rv_name v)"

text \<open>A successful write leaves the last of the values written under a name; other names keep theirs.\<close>

lemma write_reg_values_ok:
  assumes "write_reg_values le root vs reg = (None, reg')"
  shows "reg' s = (case find (\<lambda>v. reg_slot root v = s \<and> reg_data_of v \<noteq> None) (rev vs) of None \<Rightarrow> reg s | Some v \<Rightarrow> reg_data_of v)"
  using assms
proof (induction vs arbitrary: reg)
  case (Cons v vs)
  have f: "find P (xs @ [x]) = (case find P xs of None \<Rightarrow> if P x then Some x else None | Some y \<Rightarrow> Some y)" for P xs and x :: reg_value
    by (induction xs) auto
  show ?case
  proof (cases "reg_data_of v")
    case None
    with Cons show ?thesis by (auto simp: f Let_def split: option.splits if_splits)
  next
    case (Some d)
    then have "write_reg_values le root vs (reg(reg_slot root v \<mapsto> d)) = (None, reg')"
      using Cons.prems by (auto simp: Let_def split: option.splits if_splits)
    from Cons.IH [OF this] Some show ?thesis by (auto simp: f split: option.splits)
  qed
qed simp

lemma write_reg_values_frame:
  assumes "write_reg_values le root vs reg = (r, reg')" and "s \<notin> reg_slot root ` set vs"
  shows "reg' s = reg s"
  using assms
  by (induction vs arbitrary: reg) (auto simp: Let_def split: option.splits if_splits)

lemma branding_frame:
  assumes "\<forall>sub. s \<noteq> (credential_providers_root @ BSL # sub, [])"
  shows "maybe_apply_branding le cfg reg s = reg s"
  using assms
  by (auto simp: maybe_apply_branding_def apply_branding_def brand_credential_provider_def Let_def split: option.splits)

text \<open>The slots of OpenCredential: its root and the keys of two plugins.\<close>

definition credential_slot :: "string \<times> string \<Rightarrow> bool" where
  "credential_slot s = (fst s \<in> {open_credential_root, open_credential_root @ BSL # plugin_key ldap_uuid,
     open_credential_root @ BSL # plugin_key local_machine_uuid})"

lemma credential_slots: "s \<in> reg_slot open_credential_root ` set (open_credential_values base admin local) \<Longrightarrow> credential_slot s"
  by (auto simp: open_credential_values_def Let_def sub_key_def plugin_key_def credential_slot_def)

lemma credential_slot_not_tile: "credential_slot s \<Longrightarrow> s \<noteq> (credential_providers_root @ BSL # sub, [])"
  by (auto simp: credential_slot_def open_credential_root_def credential_providers_root_def)

lemma seeded_values:
  assumes "seed_open_credential le base admin local reg = (None, reg')"
  shows "reg' (open_credential_root, ''IPluginAuthentication_Order'') = Some (RegMulti [ldap_uuid, local_machine_uuid])"
    and "reg' (open_credential_root @ BSL # plugin_key local_machine_uuid, []) = Some (RegDword state_authenticate)"
    and "reg' (open_credential_root @ BSL # plugin_key ldap_uuid, []) = Some (RegDword (or state_authenticate state_gateway))"
    and "reg' (open_credential_root @ BSL # plugin_key ldap_uuid, ''LdapHost'') = Some (RegMulti [''127.0.0.1''])"
    and "reg' (open_credential_root @ BSL # plugin_key ldap_uuid, ''DnPattern'') = Some (RegStr (''uid=%u,ou=people,'' @ base))"
    and "reg' (open_credential_root @ BSL # plugin_key ldap_uuid, ''GroupGatewayRules'') =
      Some (RegMulti [(''cn='' @ admin @ '',ou=groups,'' @ base) @ NL # ''0'' @ NL # local])"
proof -
  have w: "write_reg_values le open_credential_root (open_credential_values base admin local) reg = (None, reg')"
    using assms by (auto simp: seed_open_credential_def split: option.splits)
  note simps = write_reg_values_ok [OF w] Let_def open_credential_values_def sub_key_def plugin_key_def reg_data_of_def
    ldap_uuid_def local_machine_uuid_def open_credential_root_def
  show "reg' (open_credential_root, ''IPluginAuthentication_Order'') = Some (RegMulti [ldap_uuid, local_machine_uuid])"
    by (simp add: simps)
  show "reg' (open_credential_root @ BSL # plugin_key local_machine_uuid, []) = Some (RegDword state_authenticate)"
    by (simp add: simps)
  show "reg' (open_credential_root @ BSL # plugin_key ldap_uuid, []) = Some (RegDword (or state_authenticate state_gateway))"
    by (simp add: simps)
  show "reg' (open_credential_root @ BSL # plugin_key ldap_uuid, ''LdapHost'') = Some (RegMulti [''127.0.0.1''])"
    by (simp add: simps)
  show "reg' (open_credential_root @ BSL # plugin_key ldap_uuid, ''DnPattern'') = Some (RegStr (''uid=%u,ou=people,'' @ base))"
    by (simp add: simps)
  show "reg' (open_credential_root @ BSL # plugin_key ldap_uuid, ''GroupGatewayRules'') =
      Some (RegMulti [(''cn='' @ admin @ '',ou=groups,'' @ base) @ NL # ''0'' @ NL # local])"
    by (simp add: simps)
qed

lemma seed_frame:
  assumes "seed_open_credential le base admin local reg = (r, reg')" and "\<not> credential_slot s"
  shows "reg' s = reg s"
  using assms credential_slots [of s base admin local]
  by (auto simp: seed_open_credential_def split: option.splits dest: write_reg_values_frame)

lemma seed_from_config_result:
  assumes "seed_from_config le cfg base reg = (r, reg')"
  obtains reg1 where "seed_open_credential le base (or_default (ldap_admin_group cfg) ''admins'')
      (or_default (ldap_local_admin_group cfg) ''Administrators'') reg = (r, reg1)"
    and "reg' = reg1 \<or> reg' = maybe_apply_branding le (Some cfg) reg1"
  using assms by (auto simp: seed_from_config_def split: prod.splits option.splits)

lemma configure_ldap_cases:
  assumes "wn_configure_ldap le conf ocm w reg = (r, w', ocm', reg')"
  obtains "r \<noteq> None" "reg' = reg" "w' = w"
    | reg1 admin local cfg where "parse_sssd_base_dn conf \<noteq> []"
      "seed_open_credential le (parse_sssd_base_dn conf) admin local reg = (r, reg1)"
      "reg' = reg1 \<or> reg' = maybe_apply_branding le cfg reg1"
      "\<forall>p. (\<forall>cm. ocm = Some cm \<longrightarrow> p \<noteq> cm_path cm) \<longrightarrow> w_files w' p = w_files w p"
proof (cases "parse_sssd_base_dn conf = []")
  case True
  then show ?thesis using assms that(1) by (auto simp: wn_configure_ldap_def)
next
  case base: False
  show ?thesis
  proof (cases ocm)
    case None
    then show ?thesis using assms base that(2) by (auto simp: wn_configure_ldap_def Let_def split: prod.splits)
  next
    case (Some cm)
    obtain w1 cm1 where s: "store_base_dn le (parse_sssd_base_dn conf) cm w = (w1, cm1)" by fastforce
    then have f: "\<forall>p. p \<noteq> cm_path cm \<longrightarrow> w_files w1 p = w_files w p"
      by (auto simp: store_base_dn_def write_file_def split: sum.splits option.splits)
    have q: "seed_from_config le (cm_current cm1) (parse_sssd_base_dn conf) reg = (r, reg')" "w' = w1"
      using assms base Some s by (auto simp: wn_configure_ldap_def Let_def split: prod.splits)
    from seed_from_config_result [OF q(1)] show ?thesis
      using that(2) base f q(2) Some by metis
  qed
qed

subsection \<open>Properties\<close>

text \<open>C18: a pushed LDAP configuration never locks the local administrators out. When ConfigureLDAP succeeds the
  provider asks the directory first and the local machine second, both enabled, over the loopback
  tunnel, with the base name of the pushed configuration in the user pattern; and whether it succeeds
  or not, no value outside OpenCredential's keys and the logon tiles' names has changed, and no file
  but agent.yml.\<close>

theorem pushed_ldap_keeps_local_logon:
  assumes "wn_configure_ldap le conf ocm w reg = (r, w', ocm', reg')"
  shows "(r = None \<longrightarrow> parse_sssd_base_dn conf \<noteq> [] \<and>
      reg' (open_credential_root, ''IPluginAuthentication_Order'') = Some (RegMulti [ldap_uuid, local_machine_uuid]) \<and>
      reg' (open_credential_root @ BSL # plugin_key local_machine_uuid, []) = Some (RegDword state_authenticate) \<and>
      reg' (open_credential_root @ BSL # plugin_key ldap_uuid, []) = Some (RegDword (or state_authenticate state_gateway)) \<and>
      reg' (open_credential_root @ BSL # plugin_key ldap_uuid, ''LdapHost'') = Some (RegMulti [''127.0.0.1'']) \<and>
      reg' (open_credential_root @ BSL # plugin_key ldap_uuid, ''DnPattern'') =
        Some (RegStr (''uid=%u,ou=people,'' @ parse_sssd_base_dn conf))) \<and>
    (\<forall>s. \<not> credential_slot s \<and> (\<forall>sub. s \<noteq> (credential_providers_root @ BSL # sub, [])) \<longrightarrow> reg' s = reg s) \<and>
    (\<forall>p. (\<forall>cm. ocm = Some cm \<longrightarrow> p \<noteq> cm_path cm) \<longrightarrow> w_files w' p = w_files w p)"
proof -
  let ?b = "parse_sssd_base_dn conf"
  from configure_ldap_cases [OF assms] show ?thesis
  proof cases
    case (2 reg1 admin local cfg)
    have same: "reg' s = reg1 s" if "\<forall>sub. s \<noteq> (credential_providers_root @ BSL # sub, [])" for s
      using 2(3) branding_frame [OF that] by auto
    have kept: "credential_slot s \<Longrightarrow> reg' s = reg1 s" for s
      using same credential_slot_not_tile by blast
    have slots: "credential_slot (open_credential_root, n)" "credential_slot (open_credential_root @ BSL # plugin_key ldap_uuid, n)"
      "credential_slot (open_credential_root @ BSL # plugin_key local_machine_uuid, n)" for n
      by (simp_all add: credential_slot_def)
    show ?thesis
      using 2(1,2,4) seeded_values [of le ?b admin local reg reg1] seed_frame [OF 2(2)] same kept slots by auto
  qed auto
qed

definition sample_login :: login_env where
  "sample_login = \<lparr>le_env = quiet_env, le_decode = (\<lambda>_. Inr zero_config), le_fault = (\<lambda>_ _. None), le_subkeys = (\<lambda>_. []), le_org = []\<rparr>"

definition pushed_conf :: string where
  "pushed_conf = join [NL] [''[domain/theta]'', ''LDAP_search_base = dc=theta,dc=test '', ''id_provider = ldap'']"

lemma pushed_ldap_keeps_local_logon_witness:
  "\<exists>w' ocm' reg'. wn_configure_ldap sample_login pushed_conf (Some \<lparr>cm_current = zero_config, cm_path = ''agent.yml'', cm_last_size = 0,
       cm_last_mod = None\<rparr>) (one_file ''agent.yml'' ''a: 1'' 0) Map.empty = (None, w', ocm', reg') \<and>
     reg' (open_credential_root @ BSL # plugin_key ldap_uuid, ''DnPattern'') = Some (RegStr ''uid=%u,ou=people,dc=theta,dc=test'') \<and>
     reg' (open_credential_root, ''IPluginAuthentication_Order'') = Some (RegMulti [ldap_uuid, local_machine_uuid])"
proof -
  let ?c = "wn_configure_ldap sample_login pushed_conf (Some \<lparr>cm_current = zero_config, cm_path = ''agent.yml'', cm_last_size = 0,
       cm_last_mod = None\<rparr>) (one_file ''agent.yml'' ''a: 1'' 0) Map.empty"
  obtain r w' ocm' reg' where c: "?c = (r, w', ocm', reg')" by (metis prod.collapse)
  have "fst ?c = None" by code_simp
  then have r: "r = None" using c by simp
  have b: "parse_sssd_base_dn pushed_conf = ''dc=theta,dc=test''" by code_simp
  from pushed_ldap_keeps_local_logon [OF c] r b c show ?thesis by auto
qed

text \<open>What the code lets through. A base name with a blank in it is not found; an inline capabilities map is
  followed by a second capabilities key, and a block indented by four is given an entry at two, which
  are not YAML any more, after the file has been overwritten.\<close>

lemma base_with_blank_lost: "parse_sssd_base_dn ''ldap_search_base = o=My Org,c=de'' = []"
  by code_simp

lemma inline_capabilities_doubled:
  "ensure_capability (''capabilities: {}'' @ [NL]) ''ldap_tunnel'' =
     join [NL] [''capabilities: {}'', ''capabilities:'', ''  ldap_tunnel: true'', []]"
  "ensure_capability (join [NL] [''capabilities:'', ''    reboot: true'']) ''ldap_tunnel'' =
     join [NL] [''capabilities:'', ''  ldap_tunnel: true'', ''    reboot: true'']"
  by code_simp+

end
