(* ===== verification/Telemetry.thy ===== *)
theory Telemetry
  imports ServiceReg
begin

text \<open>
  What the agent reports: the collectors and the telemetry loop of \<open>telemetry.go\<close>, with
  \<open>telemetry_collect_unix.go\<close>. The host as the measuring library shows it is an argument; so is
  the arithmetic on floats, whose results are JSON values here.
\<close>

subsection \<open>The host\<close>

record iface =
  if_name :: string
  if_loopback :: bool
  if_mac :: string
  if_addrs :: "nat list list result"

record cpu_details =
  cd_model :: string
  cd_cores :: int
  cd_threads :: int
  cd_mhz :: json

record cpu_info =
  ci_model_name :: string
  ci_model :: string
  ci_cores :: int
  ci_mhz :: json

record mem_info =
  mi_total :: "64 word"
  mi_used :: "64 word"
  mi_free :: "64 word"
  mi_buffers :: "64 word"
  mi_cached :: "64 word"

record disk_part =
  dp_device :: string
  dp_mount :: string
  dp_fstype :: string

record disk_usage =
  du_path :: string
  du_fstype :: string
  du_total :: "64 word"
  du_used :: "64 word"
  du_free :: "64 word"
  du_percent :: json

record logged_user =
  lu_user :: string
  lu_terminal :: string
  lu_host :: string
  lu_started :: int

record host_info =
  hi_hostname :: string
  hi_os :: string
  hi_platform :: string
  hi_kernel :: string

text \<open>\<open>hv_ratio a b\<close> is \<open>a / b * 100\<close>, \<open>hv_gib\<close> divides by 2^30, \<open>hv_float\<close> reads a float, \<open>hv_cpu\<close> is a
  CPU reading as a number, and \<open>hv_float64\<close> is what passing through a \<open>float64\<close> makes of a value.\<close>

record host_view =
  hv_env :: env
  hv_info :: "host_info option"
  hv_ifaces :: "iface list result"
  hv_cpus :: "cpu_info list"
  hv_num_cpu :: int
  hv_logical :: "int option"
  hv_physical :: "int option"
  hv_mem :: "mem_info option"
  hv_parts :: "disk_part list result"
  hv_usage :: "string \<Rightarrow> disk_usage option"
  hv_users :: "logged_user list option"
  hv_uptime :: "nat result"
  hv_public_ip :: "string \<Rightarrow> (nat \<times> string) result"
  hv_cpu_percent :: "json list"
  hv_windows :: bool
  hv_look_path :: "string \<Rightarrow> bool"
  hv_wg_state :: "bool op option"
  hv_ratio :: "64 word \<Rightarrow> 64 word \<Rightarrow> json"
  hv_gib :: "64 word \<Rightarrow> json"
  hv_float :: "string \<Rightarrow> json"
  hv_cpu :: "cpu_reading \<Rightarrow> json"
  hv_float64 :: "json \<Rightarrow> json"
  hv_now :: int
  hv_timestamp :: string

definition agent_version :: string where "agent_version = ''v2.22.3''"

subsection \<open>Addresses\<close>

definition virtual_interface_prefixes :: "string list" where
  "virtual_interface_prefixes = [''docker'', ''br-'', ''veth'', ''cni'', ''flannel'', ''virbr'', ''podman'', ''tun'',
     ''tap'', ''lxcbr'', ''vnet'']"

definition is_virtual_interface_name :: "string \<Rightarrow> bool" where
  "is_virtual_interface_name name = list_ex (has_prefix (to_lower name)) virtual_interface_prefixes"

definition ipv4_text :: "nat list \<Rightarrow> string" where
  "ipv4_text q = join ''.'' (map show_nat q)"

definition ipv4_addrs :: "nat list list \<Rightarrow> string list" where
  "ipv4_addrs ips =
     map (\<lambda>ip. ipv4_text (the (to4 ip))) (filter (\<lambda>ip. \<not> ip_is_loopback ip \<and> to4 ip \<noteq> None) ips)"

fun iface_ips :: "iface list \<Rightarrow> string list" where
  "iface_ips [] = []"
| "iface_ips (i # is) =
     (if is_virtual_interface_name (if_name i) then iface_ips is
      else (case if_addrs i of Inl err \<Rightarrow> iface_ips is | Inr ips \<Rightarrow> ipv4_addrs ips @ iface_ips is))"

definition collect_ips :: "host_view \<Rightarrow> string list" where
  "collect_ips hv = (case hv_ifaces hv of Inl err \<Rightarrow> [] | Inr is \<Rightarrow> iface_ips is)"

definition mac_candidate :: "iface \<Rightarrow> bool" where
  "mac_candidate i = (\<not> is_virtual_interface_name (if_name i) \<and> \<not> if_loopback i \<and> if_mac i \<noteq> [])"

definition collect_primary_mac :: "host_view \<Rightarrow> string" where
  "collect_primary_mac hv =
     (case hv_ifaces hv of Inl err \<Rightarrow> []
      | Inr is \<Rightarrow> (case find mac_candidate is of None \<Rightarrow> [] | Some i \<Rightarrow> if_mac i))"

definition public_ip_endpoints :: "string list" where
  "public_ip_endpoints = [''https://api.ipify.org'', ''https://ifconfig.me/ip'', ''https://icanhazip.com'']"

fun get_public_ip :: "(string \<Rightarrow> (nat \<times> string) result) \<Rightarrow> string list \<Rightarrow> string" where
  "get_public_ip get [] = []"
| "get_public_ip get (ep # eps) =
     (case get ep of Inl err \<Rightarrow> get_public_ip get eps
      | Inr (code, body) \<Rightarrow>
          if code = 200 \<and> parse_ip (trim_space body) \<noteq> None then trim_space body else get_public_ip get eps)"

definition equal_slices :: "string list \<Rightarrow> string list \<Rightarrow> bool" where
  "equal_slices a b = (length a = length b \<and> list_all2 (=) a b)"

subsection \<open>Processor, memory, disks\<close>

fun cpuinfo_model :: "string list \<Rightarrow> string option" where
  "cpuinfo_model [] = None"
| "cpuinfo_model (l # ls) =
     (if has_prefix l ''model name'' \<and> length (split_on (CHR '':'') l) > 1
      then Some (trim_space (split_on (CHR '':'') l ! 1)) else cpuinfo_model ls)"

definition cpu_model :: "host_view \<Rightarrow> world \<Rightarrow> cpu_info \<Rightarrow> string" where
  "cpu_model hv w ci =
     (let m = ci_model_name ci;
          m1 = (if m = [] \<or> trim_space m = ''154'' \<or> length m < 4
                then (case read_file (hv_env hv) w ''/proc/cpuinfo'' of Inl err \<Rightarrow> m
                  | Inr s \<Rightarrow> (case cpuinfo_model (split_on NL s) of None \<Rightarrow> m | Some x \<Rightarrow> x)) else m)
      in if m1 = [] then ci_model ci else m1)"

definition positive :: "int option \<Rightarrow> int \<Rightarrow> int" where
  "positive c d = (case c of None \<Rightarrow> d | Some n \<Rightarrow> if n > 0 then n else d)"

definition collect_cpu_details :: "host_view \<Rightarrow> world \<Rightarrow> cpu_details" where
  "collect_cpu_details hv w =
     (let threads = positive (hv_logical hv) (hv_num_cpu hv);
          cores = (case hv_cpus hv of [] \<Rightarrow> 0 | c # _ \<Rightarrow> ci_cores c)
      in \<lparr>cd_model = (case hv_cpus hv of [] \<Rightarrow> ''Unknown'' | c # _ \<Rightarrow> cpu_model hv w c),
          cd_cores = (if cores \<le> 0 then positive (hv_physical hv) threads else cores),
          cd_threads = threads, cd_mhz = (case hv_cpus hv of [] \<Rightarrow> JNum 0 | c # _ \<Rightarrow> ci_mhz c)\<rparr>)"

abbreviation json_word :: "64 word \<Rightarrow> json" where "json_word n \<equiv> JNum (uint n)"

text \<open>Buffers and cache add up in 64 bits; percentages of an unknown total are 0.\<close>

definition collect_ram_details :: "host_view \<Rightarrow> fields_map" where
  "collect_ram_details hv =
     (let z = \<lparr>mi_total = 0, mi_used = 0, mi_free = 0, mi_buffers = 0, mi_cached = 0\<rparr>;
          vm = (case hv_mem hv of None \<Rightarrow> z | Some vm \<Rightarrow> vm); bc = mi_buffers vm + mi_cached vm;
          pct = (\<lambda>n. if mi_total vm = 0 then JNum 0 else hv_ratio hv n (mi_total vm))
      in [(''total_bytes'', json_word (mi_total vm)), (''used_bytes'', json_word (mi_used vm)),
          (''buffers_cache_bytes'', json_word bc), (''free_bytes'', json_word (mi_free vm)),
          (''used_percent'', pct (mi_used vm)), (''buffers_cache_percent'', pct bc), (''free_percent'', pct (mi_free vm))])"

definition path_base :: "string \<Rightarrow> string" where
  "path_base p =
     (if p = [] then ''.''
      else (let q = trim_right_when (\<lambda>c. c = CHR ''/'') p in
        if q = [] then ''/'' else last (split_on (CHR ''/'') q)))"

definition get_drive_type :: "env \<Rightarrow> world \<Rightarrow> string \<Rightarrow> string" where
  "get_drive_type e w device =
     (let dev = trim_right_when (\<lambda>c. is_digit c \<or> c = CHR ''p'') (path_base device) in
      if has_prefix dev ''nvme'' then ''NVMe''
      else (case read_file e w (path_join [''/sys/block'', dev, ''queue/rotational'']) of
          Inl err \<Rightarrow> ''SSD/HDD''
        | Inr s \<Rightarrow> if trim_space s = ''0'' then ''SSD'' else if trim_space s = ''1'' then ''HDD'' else ''SSD/HDD''))"

record disk_item =
  dk_mount :: string
  dk_device :: string
  dk_fstype :: string
  dk_drive :: string
  dk_usage :: disk_usage

definition root_disk :: "host_view \<Rightarrow> world \<Rightarrow> disk_item list" where
  "root_disk hv w =
     (case hv_usage hv ''/'' of None \<Rightarrow> []
      | Some d \<Rightarrow> [\<lparr>dk_mount = ''/'', dk_device = du_path d, dk_fstype = du_fstype d,
          dk_drive = get_drive_type (hv_env hv) w (du_path d), dk_usage = d\<rparr>])"

fun disk_items :: "host_view \<Rightarrow> world \<Rightarrow> string list \<Rightarrow> disk_part list \<Rightarrow> disk_item list" where
  "disk_items hv w seen [] = []"
| "disk_items hv w seen (p # ps) =
     (if \<not> has_prefix (dp_device p) ''/dev/'' \<or> has_prefix (dp_device p) ''/dev/loop'' \<or> dp_mount p \<in> set seen
      then disk_items hv w seen ps
      else (case hv_usage hv (dp_mount p) of
          None \<Rightarrow> disk_items hv w (dp_mount p # seen) ps
        | Some u \<Rightarrow>
            if du_total u = 0 then disk_items hv w (dp_mount p # seen) ps
            else \<lparr>dk_mount = dp_mount p, dk_device = dp_device p,
                  dk_fstype = (if dp_fstype p = [] then du_fstype u else dp_fstype p),
                  dk_drive = get_drive_type (hv_env hv) w (dp_device p), dk_usage = u\<rparr>
                 # disk_items hv w (dp_mount p # seen) ps))"

definition collect_disk_items :: "host_view \<Rightarrow> world \<Rightarrow> disk_item list" where
  "collect_disk_items hv w =
     (case hv_parts hv of
        Inr (p # ps) \<Rightarrow> (let items = disk_items hv w [] (p # ps) in if items = [] then root_disk hv w else items)
      | _ \<Rightarrow> root_disk hv w)"

subsection \<open>Users and host\<close>

fun keep_new :: "('a \<Rightarrow> string) \<Rightarrow> string list \<Rightarrow> 'a list \<Rightarrow> 'a list" where
  "keep_new key seen [] = []"
| "keep_new key seen (x # xs) =
     (if key x \<in> set seen then keep_new key seen xs else x # keep_new key (key x # seen) xs)"

definition login_user :: "int \<Rightarrow> string list \<Rightarrow> logged_user option" where
  "login_user now fs =
     (if length fs < 3 then None
      else Some \<lparr>lu_user = fs ! 2, lu_terminal = (if 5 \<le> length fs \<and> fs ! 4 \<noteq> ''-'' then fs ! 4 else []),
        lu_host = ''localhost'', lu_started = now\<rparr>)"

definition who_user :: "int \<Rightarrow> string list \<Rightarrow> logged_user option" where
  "who_user now fs =
     (if length fs < 2 then None
      else Some \<lparr>lu_user = fs ! 0, lu_terminal = fs ! 1,
        lu_host = (if 5 \<le> length fs then trim_when (\<lambda>c. c = CHR ''('' \<or> c = CHR '')'') (fs ! 4) else []),
        lu_started = now\<rparr>)"

definition short_key :: "logged_user \<Rightarrow> string" where
  "short_key u = lu_user u @ CHR ''@'' # lu_terminal u"

definition long_key :: "logged_user \<Rightarrow> string" where
  "long_key u = short_key u @ CHR '':'' # lu_host u"

definition user_lines :: "(string list \<Rightarrow> logged_user option) \<Rightarrow> string \<times> string option \<Rightarrow> logged_user list" where
  "user_lines f r = (case r of (out, Some err) \<Rightarrow> [] | (out, None) \<Rightarrow> List.map_filter (\<lambda>l. f (str_fields l)) (split_on NL out))"

definition collect_logged_users :: "host_view \<Rightarrow> logged_user list op" where
  "collect_logged_users hv w =
     (case run_cmd (hv_env hv) w ''loginctl'' [''list-sessions'', ''--no-legend''] of (r, w1) \<Rightarrow>
       (let l1 = keep_new short_key [] (user_lines (login_user (hv_now hv)) r) in
        if l1 \<noteq> [] then (l1, w1)
        else (let l2 = keep_new long_key [] (case hv_users hv of None \<Rightarrow> [] | Some us \<Rightarrow> us) in
          if l2 \<noteq> [] then (l2, w1)
          else (case run_cmd (hv_env hv) w1 ''who'' [] of (r2, w2) \<Rightarrow>
            (keep_new long_key [] (user_lines (who_user (hv_now hv)) r2), w2)))))"

text \<open>The labels of \<open>hostnamectl\<close> with the fields they fill, and the files that fill the gaps.\<close>

definition host_labels :: "(string \<times> string) list" where
  "host_labels = [(''Static hostname'', ''static_hostname''), (''Icon name'', ''icon_name''), (''Chassis'', ''chassis''),
     (''Machine ID'', ''machine_id''), (''Boot ID'', ''boot_id''), (''Operating System'', ''os''), (''Kernel'', ''kernel''),
     (''Architecture'', ''arch''), (''Hardware Vendor'', ''hardware_vendor''), (''Hardware Model'', ''hardware_model''),
     (''Firmware Version'', ''firmware_version''), (''Firmware Date'', ''firmware_date'')]"

definition dmi_files :: "(string \<times> string) list" where
  "dmi_files = [(''hardware_vendor'', ''/sys/class/dmi/id/sys_vendor''), (''hardware_model'', ''/sys/class/dmi/id/product_name''),
     (''firmware_version'', ''/sys/class/dmi/id/bios_version''), (''firmware_date'', ''/sys/class/dmi/id/bios_date'')]"

definition host_line :: "(string \<Rightarrow> string) \<Rightarrow> string \<Rightarrow> (string \<Rightarrow> string)" where
  "host_line d l =
     (case cut_on (CHR '':'') l of None \<Rightarrow> d
      | Some (k, v) \<Rightarrow> (case map_of host_labels (trim_space k) of None \<Rightarrow> d | Some f \<Rightarrow> d(f := trim_space v)))"

definition dmi_gap :: "env \<Rightarrow> world \<Rightarrow> (string \<Rightarrow> string) \<Rightarrow> string \<times> string \<Rightarrow> (string \<Rightarrow> string)" where
  "dmi_gap e w d fp =
     (if d (fst fp) = [] then (case read_file e w (snd fp) of Inl err \<Rightarrow> d | Inr s \<Rightarrow> d(fst fp := trim_space s)) else d)"

definition collect_host_details :: "host_view \<Rightarrow> (string \<Rightarrow> string) op" where
  "collect_host_details hv w =
     (case run_cmd (hv_env hv) w ''hostnamectl'' [] of ((out, err), w1) \<Rightarrow>
       (let d = (if err = None then foldl host_line (\<lambda>_. []) (split_on NL out) else (\<lambda>_. []))
        in (foldl (dmi_gap (hv_env hv) w1) d dmi_files, w1)))"

definition collect_zfs_health :: "env \<Rightarrow> string op" where
  "collect_zfs_health e w =
     (case run_cmd e w ''zpool'' [''list'', ''-H'', ''-o'', ''health''] of
        ((out, Some err), w1) \<Rightarrow> (''unknown'', w1)
      | ((out, None), w1) \<Rightarrow> (hd (split_on NL (trim_space out)), w1))"

definition collect_gpu_usage :: "host_view \<Rightarrow> json op" where
  "collect_gpu_usage hv w =
     (case run_cmd (hv_env hv) w ''nvidia-smi'' [''--query-gpu=utilization.gpu'', ''--format=csv,noheader,nounits''] of
        ((out, Some err), w1) \<Rightarrow> (JNum (- 1), w1)
      | ((out, None), w1) \<Rightarrow> (hv_float hv (trim_space out), w1))"

definition collect_uptime_seconds :: "host_view \<Rightarrow> nat" where
  "collect_uptime_seconds hv = (case hv_uptime hv of Inl err \<Rightarrow> 0 | Inr n \<Rightarrow> n)"

definition collect_wireguard :: "host_view \<Rightarrow> (bool \<times> bool) op" where
  "collect_wireguard hv w =
     (let ready = wireguard_tools_ready (hv_windows hv) (hv_look_path hv) (hv_env hv) w in
      case hv_wg_state hv of None \<Rightarrow> ((False, ready), w)
      | Some st \<Rightarrow> if ready then (case st w of (a, w1) \<Rightarrow> ((a, ready), w1)) else ((False, ready), w))"

subsection \<open>Frames\<close>

text \<open>A nil slice is encoded as null; a field with \<open>omitempty\<close> is left out when it is zero.\<close>

definition json_slice :: "json list \<Rightarrow> json" where
  "json_slice xs = (if xs = [] then JNull else JArr xs)"

definition omit_empty :: "string \<Rightarrow> string \<Rightarrow> fields_map" where
  "omit_empty k v = (if v = [] then [] else [(k, JStr v)])"

definition cpu_fields :: "cpu_details \<Rightarrow> fields_map" where
  "cpu_fields c = [(''model'', JStr (cd_model c)), (''cores'', JNum (cd_cores c)), (''threads'', JNum (cd_threads c)),
     (''mhz'', cd_mhz c)]"

definition disk_fields :: "disk_item \<Rightarrow> fields_map" where
  "disk_fields d = [(''mountpoint'', JStr (dk_mount d)), (''device'', JStr (dk_device d)), (''fstype'', JStr (dk_fstype d)),
     (''drivetype'', JStr (dk_drive d)), (''total_bytes'', json_word (du_total (dk_usage d))),
     (''used_bytes'', json_word (du_used (dk_usage d))), (''free_bytes'', json_word (du_free (dk_usage d))),
     (''usage_percent'', du_percent (dk_usage d))]"

definition user_fields :: "logged_user \<Rightarrow> fields_map" where
  "user_fields u = [(''user'', JStr (lu_user u)), (''terminal'', JStr (lu_terminal u)), (''host'', JStr (lu_host u)),
     (''started'', JNum (lu_started u))]"

definition host_fields :: "(string \<Rightarrow> string) \<Rightarrow> fields_map" where
  "host_fields d = map (\<lambda>f. (f, JStr (d f))) (map snd host_labels)"

definition metric_fields :: "host_view \<Rightarrow> service_metric \<Rightarrow> fields_map" where
  "metric_fields hv m =
     [(''name'', JStr (sm_name m)), (''active'', JBool (sm_active m))]
     @ omit_empty ''substate'' (sm_substate m) @ omit_empty ''load_state'' (sm_loadstate m) @ omit_empty ''subtype'' (sm_subtype m)
     @ [(''cpu_usage_percent'', hv_cpu hv (sm_cpu m)), (''cpu_ns'', JNum (sm_cpu_ns m)),
        (''memory_bytes'', json_word (sm_memory m)), (''n_restarts'', json_word (sm_restarts m)),
        (''uptime_seconds'', JNum (sm_uptime m))]
     @ omit_empty ''next_run'' (sm_next m) @ omit_empty ''last_run'' (sm_last m)
     @ [(''triggered_count'', json_word (sm_triggered m))] @ omit_empty ''status'' (sm_status m)"

definition objs :: "('a \<Rightarrow> fields_map) \<Rightarrow> 'a list \<Rightarrow> json list" where
  "objs f xs = map (\<lambda>x. JObj (f x)) xs"

definition capability_fields :: "capabilities \<Rightarrow> bool \<Rightarrow> fields_map" where
  "capability_fields c ready =
     [(''telemetry'', JBool (cap_telemetry c)), (''configure_ldap'', JBool (cap_configure_ldap c)),
      (''ldap_tunnel'', JBool (cap_ldap_tunnel c)), (''secrets'', JBool (cap_secrets c)), (''iam'', JBool (cap_iam c)),
      (''reboot'', JBool (cap_reboot c)), (''shutdown'', JBool (cap_reboot c)), (''desktop_controls'', JBool True),
      (''storage'', JBool (cap_storage c)), (''service_control'', json_slice (map JStr (cap_service_control c))),
      (''service_registration'', JBool (cap_service_registration c)), (''arbitrary_bash'', JBool (cap_arbitrary_bash c)),
      (''wireguard'', JBool (wireguard_enabled c)), (''wireguard_ready'', JBool ready)]"

text \<open>The disk that counts: the one mounted at the root, or the first when that measure is zero.\<close>

definition root_measure :: "(disk_item \<Rightarrow> json) \<Rightarrow> disk_item list \<Rightarrow> json" where
  "root_measure f ds =
     (let v = (case find (\<lambda>d. dk_mount d = ''/'') ds of None \<Rightarrow> JNum 0 | Some d \<Rightarrow> f d)
      in if v = JNum 0 \<and> ds \<noteq> [] then f (hd ds) else v)"

definition collect_discovery_data :: "host_view \<Rightarrow> config \<Rightarrow> fields_map op" where
  "collect_discovery_data hv cfg w =
     (let h = (case hv_info hv of None \<Rightarrow> \<lparr>hi_hostname = [], hi_os = [], hi_platform = [], hi_kernel = []\<rparr> | Some h \<Rightarrow> h);
          ram = collect_ram_details hv; disks = collect_disk_items hv w; cpu = collect_cpu_details hv w;
          pub = (if detect_public_ip cfg then get_public_ip (hv_public_ip hv) public_ip_endpoints else []);
          total = (case hv_mem hv of None \<Rightarrow> 0 | Some vm \<Rightarrow> mi_total vm)
      in case collect_logged_users hv w of (users, w1) \<Rightarrow>
        (case collect_host_details hv w1 of (host, w2) \<Rightarrow>
          ([(''hostname'', JStr (hi_hostname h)), (''ip_addresses'', json_slice (map JStr (collect_ips hv))),
            (''public_ip'', JStr pub), (''mac_address'', JStr (collect_primary_mac hv)),
            (''os'', JStr (hi_os h @ CHR '' '' # hi_platform h)), (''kernel'', JStr (hi_kernel h)),
            (''cpu'', JStr (cd_model cpu)), (''cpu_details'', JObj (cpu_fields cpu)), (''ram_total_gb'', hv_gib hv total),
            (''ram_details'', JObj ram), (''disk_total_gb'', root_measure (\<lambda>d. hv_gib hv (du_total (dk_usage d))) disks),
            (''disks'', json_slice (objs disk_fields disks)), (''logged_users'', json_slice (objs user_fields users)),
            (''host_details'', JObj (host_fields host)), (''version'', JStr agent_version), (''location'', JStr (location cfg)),
            (''capabilities'', JObj (capability_fields (caps cfg)
               (wireguard_tools_ready (hv_windows hv) (hv_look_path hv) (hv_env hv) w2)))], w2)))"

text \<open>The data goes through \<open>map[string]interface{}\<close>, where every number is a \<open>float64\<close>.\<close>

fun through_map :: "(json \<Rightarrow> json) \<Rightarrow> json \<Rightarrow> json" where
  "through_map fl (JNum n) = fl (JNum n)"
| "through_map fl (JDec t) = fl (JDec t)"
| "through_map fl (JArr vs) = JArr (map (through_map fl) vs)"
| "through_map fl (JObj ms) = JObj (map (\<lambda>(k, v). (k, through_map fl v)) ms)"
| "through_map fl v = v"

definition discovery_frame :: "host_view \<Rightarrow> fields_map \<Rightarrow> ws_message" where
  "discovery_frame hv d = \<lparr>ws_type = ''discovery'', ws_payload = map (\<lambda>(k, v). (k, through_map (hv_float64 hv) v)) d\<rparr>"

record telemetry_data =
  td_fields :: fields_map
  td_version :: string
  td_uptime :: nat
  td_wireguard :: "bool \<times> bool"

definition telemetry_fields ::
  "host_view \<Rightarrow> logged_user list \<Rightarrow> (string \<Rightarrow> string) \<Rightarrow> string \<Rightarrow> json \<Rightarrow> disk_item list \<Rightarrow> cpu_details \<Rightarrow>
   service_metric list \<Rightarrow> fields_map" where
  "telemetry_fields hv users host zfs gpu disks cpu ms =
     [(''cpu_usage_percent'', case hv_cpu_percent hv of [] \<Rightarrow> JNum 0 | x # _ \<Rightarrow> x),
      (''cpu_details'', JObj (cpu_fields cpu)), (''ram_usage_percent'', the (map_of (collect_ram_details hv) ''used_percent'')),
      (''ram_details'', JObj (collect_ram_details hv)), (''disk_usage_percent'', root_measure (\<lambda>d. du_percent (dk_usage d)) disks),
      (''disks'', json_slice (objs disk_fields disks)), (''logged_users'', json_slice (objs user_fields users)),
      (''host_details'', JObj (host_fields host)), (''zfs_health'', JStr zfs), (''gpu_usage_percent'', gpu),
      (''services'', JArr (objs (metric_fields hv) ms)), (''timestamp'', JStr (hv_timestamp hv))]"

text \<open>The host is read first, then the services; the reading awaits their metrics.\<close>

definition read_host :: "host_view \<Rightarrow> (service_metric list \<Rightarrow> telemetry_data) op" where
  "read_host hv w =
     (case collect_logged_users hv w of (users, w1) \<Rightarrow>
      (case collect_host_details hv w1 of (host, w2) \<Rightarrow>
      (case collect_wireguard hv w2 of (wg, w3) \<Rightarrow>
      (case collect_zfs_health (hv_env hv) w3 of (zfs, w4) \<Rightarrow>
      (case collect_gpu_usage hv w4 of (gpu, w5) \<Rightarrow>
        (\<lambda>ms. \<lparr>td_fields = telemetry_fields hv users host zfs gpu (collect_disk_items hv w) (collect_cpu_details hv w) ms,
              td_version = agent_version, td_uptime = collect_uptime_seconds hv, td_wireguard = wg\<rparr>, w5))))))"

definition collect_telemetry_data ::
  "host_view \<Rightarrow> probe_env \<Rightarrow> registered_service list \<Rightarrow> probe_state \<Rightarrow> (telemetry_data \<times> probe_state) option" where
  "collect_telemetry_data hv pe svcs ps =
     (case read_host hv (ps_world ps) of (reading, w) \<Rightarrow> do {
        (ms, ps') \<leftarrow> collect_service_metrics pe svcs (ps\<lparr>ps_world := w\<rparr>);
        Some (reading ms, ps') })"

text \<open>What \<open>pushTelemetry\<close> puts into the frame: the fields, without version, uptime and tunnel.\<close>

definition telemetry_frame :: "telemetry_data \<Rightarrow> ws_message" where
  "telemetry_frame td = \<lparr>ws_type = ''telemetry'', ws_payload = td_fields td\<rparr>"

subsection \<open>The loop\<close>

record reporter =
  rp_cm :: config_manager
  rp_probe :: probe_state
  rp_ips :: "string list"
  rp_streaming :: bool
  rp_sent :: "ws_message list"

text \<open>A failing write is logged or ignored: \<open>rp_sent\<close> is what was handed to the connection.\<close>

definition push_discovery :: "host_view \<Rightarrow> reporter \<Rightarrow> reporter" where
  "push_discovery hv rp =
     (case collect_discovery_data hv (cm_current (rp_cm rp)) (ps_world (rp_probe rp)) of (d, w) \<Rightarrow>
        rp\<lparr>rp_probe := (rp_probe rp)\<lparr>ps_world := w\<rparr>, rp_sent := rp_sent rp @ [discovery_frame hv d]\<rparr>)"

definition push_telemetry :: "host_view \<Rightarrow> probe_env \<Rightarrow> reporter \<Rightarrow> reporter option" where
  "push_telemetry hv pe rp = do {
     (td, ps) \<leftarrow> collect_telemetry_data hv pe (services (cm_current (rp_cm rp))) (rp_probe rp);
     Some (rp\<lparr>rp_probe := ps, rp_sent := rp_sent rp @ [telemetry_frame td]\<rparr>) }"

definition reload_reporter :: "(string \<Rightarrow> config result) \<Rightarrow> host_view \<Rightarrow> reporter \<Rightarrow> reporter" where
  "reload_reporter decode hv rp =
     rp\<lparr>rp_cm := snd (reload_if_changed decode (hv_env hv) (ps_world (rp_probe rp)) (rp_cm rp))\<rparr>"

text \<open>\<open>StartTelemetryLoop\<close>: one frame of each kind, and a stream only with the capability on.\<close>

definition start_telemetry ::
  "(string \<Rightarrow> config result) \<Rightarrow> host_view \<Rightarrow> probe_env \<Rightarrow> config_manager \<Rightarrow> probe_state \<Rightarrow> reporter option" where
  "start_telemetry decode hv pe cm ps = do {
     let rp = reload_reporter decode hv \<lparr>rp_cm = cm, rp_probe = ps, rp_ips = [], rp_streaming = False, rp_sent = []\<rparr>;
     rp1 \<leftarrow> push_telemetry hv pe (push_discovery hv rp);
     Some (rp1\<lparr>rp_streaming := cap_telemetry (caps (cm_current (rp_cm rp1)))\<rparr>) }"

text \<open>A tick: what the host looks like then, and what others did to it since the last one.\<close>

record telemetry_tick =
  tt_host :: host_view
  tt_probe :: probe_env
  tt_edits :: "world \<Rightarrow> world"

definition network_change :: "host_view \<Rightarrow> reporter \<Rightarrow> reporter" where
  "network_change hv rp =
     (if equal_slices (rp_ips rp) (collect_ips hv) then rp
      else (push_discovery hv rp)\<lparr>rp_ips := collect_ips hv\<rparr>)"

definition telemetry_step :: "(string \<Rightarrow> config result) \<Rightarrow> telemetry_tick \<Rightarrow> reporter \<Rightarrow> reporter option" where
  "telemetry_step decode t rp =
     (if \<not> rp_streaming rp then Some rp
      else (let hv = tt_host t;
                rp1 = reload_reporter decode hv (rp\<lparr>rp_probe := (rp_probe rp)\<lparr>ps_world := tt_edits t (ps_world (rp_probe rp))\<rparr>\<rparr>)
        in if \<not> cap_telemetry (caps (cm_current (rp_cm rp1))) then Some rp1
           else push_telemetry hv (tt_probe t) (network_change hv rp1)))"

fun telemetry_run :: "(string \<Rightarrow> config result) \<Rightarrow> telemetry_tick list \<Rightarrow> reporter \<Rightarrow> reporter option" where
  "telemetry_run decode [] rp = Some rp"
| "telemetry_run decode (t # ts) rp = do { rp1 \<leftarrow> telemetry_step decode t rp; telemetry_run decode ts rp1 }"

subsection \<open>Lemmas\<close>

lemma equal_slices_eq [simp]: "equal_slices a b = (a = b)"
  by (auto simp: equal_slices_def list_all2_conv_all_nth list_eq_iff_nth_eq)

text \<open>What a frame says of a capability, and which capability it reports for which command.\<close>

definition frame_capability :: "ws_message \<Rightarrow> string \<Rightarrow> json option" where
  "frame_capability f k =
     (case map_of (ws_payload f) ''capabilities'' of Some (JObj m) \<Rightarrow> map_of m k | _ \<Rightarrow> None)"

definition capability_keys :: "(string \<times> string) list" where
  "capability_keys =
     [(''reboot'', ''reboot''), (''shutdown'', ''shutdown''), (''configure_ldap'', ''configure_ldap''), (''render_secrets'', ''secrets''),
      (''iam_apply'', ''iam''), (''register_service'', ''service_registration''), (''unregister_service'', ''service_registration''),
      (''wireguard_apply'', ''wireguard''), (''wireguard_remove'', ''wireguard''), (''arbitrary_bash'', ''arbitrary_bash''),
      (''zpool_scrub'', ''storage''), (''desktop_control'', ''desktop_controls''), (''lock_session'', ''desktop_controls''),
      (''logout_user'', ''desktop_controls''), (''display_off'', ''desktop_controls''), (''sleep_host'', ''desktop_controls'')]"

lemma reported_capability:
  "frame_capability (discovery_frame hv (fst (collect_discovery_data hv cfg w))) k =
     map_option (through_map (hv_float64 hv))
       (map_of (capability_fields (caps cfg)
          (wireguard_tools_ready (hv_windows hv) (hv_look_path hv) (hv_env hv)
             (snd (collect_host_details hv (snd (collect_logged_users hv w)))))) k)"
  by (simp add: frame_capability_def discovery_frame_def collect_discovery_data_def Let_def case_prod_beta map_of_map)

text \<open>The gate of each command, and the field that reports it.\<close>

definition gates :: "(string \<times> string \<times> (capabilities \<Rightarrow> bool)) list" where
  "gates =
     [(''reboot'', ''reboot'', cap_reboot), (''shutdown'', ''shutdown'', cap_reboot),
      (''configure_ldap'', ''configure_ldap'', cap_configure_ldap), (''render_secrets'', ''secrets'', cap_secrets),
      (''iam_apply'', ''iam'', cap_iam), (''register_service'', ''service_registration'', cap_service_registration),
      (''unregister_service'', ''service_registration'', cap_service_registration),
      (''wireguard_apply'', ''wireguard'', wireguard_enabled), (''wireguard_remove'', ''wireguard'', wireguard_enabled),
      (''arbitrary_bash'', ''arbitrary_bash'', cap_arbitrary_bash), (''zpool_scrub'', ''storage'', cap_storage),
      (''desktop_control'', ''desktop_controls'', \<lambda>c. True), (''lock_session'', ''desktop_controls'', \<lambda>c. True),
      (''logout_user'', ''desktop_controls'', \<lambda>c. True), (''display_off'', ''desktop_controls'', \<lambda>c. True),
      (''sleep_host'', ''desktop_controls'', \<lambda>c. True)]"

lemma gates_keys: "capability_keys = map (\<lambda>(t, k, g). (t, k)) gates"
  by (simp add: capability_keys_def gates_def)

lemma gates_enforced: "list_all (\<lambda>(t, k, g). map_of command_caps t = Some g) gates"
  unfolding gates_def list.pred_inject list.pred_True prod.case
  by (intro conjI TrueI) (simp_all add: command_caps_def)

lemma gates_reported: "list_all (\<lambda>(t, k, g). map_of (capability_fields c ready) k = Some (JBool (g c))) gates"
  unfolding gates_def list.pred_inject list.pred_True prod.case
  by (intro conjI TrueI) (simp_all add: capability_fields_def)

lemma capability_keys_gate:
  assumes "(t, k) \<in> set capability_keys"
  shows "map_of (capability_fields c ready) k = Some (JBool (the (map_of command_caps t) c)) \<and> map_of command_caps t \<noteq> None"
proof -
  obtain g where "(t, k, g) \<in> set gates" using assms by (auto simp: gates_keys)
  then show ?thesis using gates_enforced gates_reported [of c ready] by (fastforce simp: list_all_iff)
qed

lemma signed_types: "map_of command_caps t \<noteq> None \<Longrightarrow>
    t \<notin> {''ldap_tunnel'', ''reload_config'', ''fetch_logs'', ''config'', ''systemd_action'', ''heartbeat_ack''}"
  by (auto simp: command_caps_def)

lemma capability_refused:
  assumes "ag_cm (dm_agent d) = Some cm" "map_of command_caps (ws_type msg) = Some cap" "\<not> cap (caps (cm_current cm))"
  shows "\<exists>m. handle_command ce msg d = respond_error m d"
proof -
  obtain h where h: "signed_handler cm (ws_type msg) = Some h" "guarded_handler h cap"
    using signed_handler_fits [of cm "ws_type msg"] assms(2) by (auto simp: fits_def split: option.splits)
  have "handle_command ce msg d = h ce (cm_current cm) msg d"
    using signed_types [of "ws_type msg"] assms(1,2) h(1) by (simp add: handle_command_def dispatch_def)
  then show ?thesis using guarded_handler.disabled [OF h(2) assms(3)] by metis
qed

text \<open>What the collectors leave alone, and what a push adds.\<close>

lemma push_discovery_simps [simp]:
  "rp_cm (push_discovery hv rp) = rp_cm rp" "rp_ips (push_discovery hv rp) = rp_ips rp"
  "rp_streaming (push_discovery hv rp) = rp_streaming rp"
  "map ws_type (rp_sent (push_discovery hv rp)) = map ws_type (rp_sent rp) @ [''discovery'']"
  by (simp_all add: push_discovery_def discovery_frame_def split: prod.splits)

definition reports :: "host_view \<Rightarrow> registered_service list \<Rightarrow> ws_message \<Rightarrow> bool" where
  "reports hv svcs f =
     (ws_type f = ''telemetry'' \<and> (\<exists>ms. map_of (ws_payload f) ''services'' = Some (JArr (objs (metric_fields hv) ms)) \<and>
        map sm_name ms = filter (\<lambda>n. n \<noteq> []) (map rs_name svcs)))"

lemma services_field: "map_of (telemetry_fields hv us h z g ds c ms) ''services'' = Some (JArr (objs (metric_fields hv) ms))"
  by (simp add: telemetry_fields_def)

lemma collect_telemetry_services:
  assumes "collect_telemetry_data hv pe svcs ps = Some (td, ps')"
  shows "\<exists>us h z g ds c ms w. td_fields td = telemetry_fields hv us h z g ds c ms \<and>
    collect_service_metrics pe svcs (ps\<lparr>ps_world := w\<rparr>) = Some (ms, ps')"
proof -
  obtain reading w where r: "read_host hv (ps_world ps) = (reading, w)" by fastforce
  obtain us w1 where 1: "collect_logged_users hv (ps_world ps) = (us, w1)" by fastforce
  obtain h w2 where 2: "collect_host_details hv w1 = (h, w2)" by fastforce
  obtain wg w3 where 3: "collect_wireguard hv w2 = (wg, w3)" by fastforce
  obtain z w4 where 4: "collect_zfs_health (hv_env hv) w3 = (z, w4)" by fastforce
  obtain g w5 where 5: "collect_gpu_usage hv w4 = (g, w5)" by fastforce
  have "td_fields (reading ms) = telemetry_fields hv us h z g
      (collect_disk_items hv (ps_world ps)) (collect_cpu_details hv (ps_world ps)) ms" for ms
    using r by (auto simp: read_host_def 1 2 3 4 5)
  then have "\<exists>us h z g ds c. \<forall>ms. td_fields (reading ms) = telemetry_fields hv us h z g ds c ms" by blast
  moreover obtain ms where "collect_service_metrics pe svcs (ps\<lparr>ps_world := w\<rparr>) = Some (ms, ps')" "td = reading ms"
    using assms r by (auto simp: collect_telemetry_data_def split: bind_splits)
  ultimately show ?thesis by blast
qed

lemma push_telemetry_frame:
  assumes "push_telemetry hv pe rp = Some rp'"
  shows "\<exists>f. rp_sent rp' = rp_sent rp @ [f] \<and> reports hv (services (cm_current (rp_cm rp))) f \<and>
    rp_cm rp' = rp_cm rp \<and> rp_ips rp' = rp_ips rp \<and> rp_streaming rp' = rp_streaming rp"
proof -
  obtain td ps where td: "collect_telemetry_data hv pe (services (cm_current (rp_cm rp))) (rp_probe rp) = Some (td, ps)"
    and rp': "rp' = rp\<lparr>rp_probe := ps, rp_sent := rp_sent rp @ [telemetry_frame td]\<rparr>"
    using assms by (auto simp: push_telemetry_def split: bind_splits)
  from collect_telemetry_services [OF td] obtain us h z g ds c ms w where
    t: "td_fields td = telemetry_fields hv us h z g ds c ms"
    and "collect_service_metrics pe (services (cm_current (rp_cm rp))) ((rp_probe rp)\<lparr>ps_world := w\<rparr>) = Some (ms, ps)" by blast
  from collect_laws [OF this(2)] services_field [of hv us h z g ds c ms] show ?thesis
    by (auto simp: reports_def telemetry_frame_def rp' t)
qed

text \<open>A tick with the capability on: a discovery iff the addresses changed, then one telemetry frame.\<close>

lemma network_change_simps:
  "rp_cm (network_change hv rp) = rp_cm rp" "rp_ips (network_change hv rp) = collect_ips hv"
  "rp_streaming (network_change hv rp) = rp_streaming rp"
  "map ws_type (rp_sent (network_change hv rp)) =
     map ws_type (rp_sent rp) @ (if rp_ips rp = collect_ips hv then [] else [''discovery''])"
  by (simp_all add: network_change_def)

definition reloaded :: "(string \<Rightarrow> config result) \<Rightarrow> telemetry_tick \<Rightarrow> reporter \<Rightarrow> config_manager" where
  "reloaded decode t rp =
     snd (reload_if_changed decode (hv_env (tt_host t)) (tt_edits t (ps_world (rp_probe rp))) (rp_cm rp))"

lemma telemetry_step_frames:
  assumes "telemetry_step decode t rp = Some rp'" and "rp_streaming rp"
    and "cap_telemetry (caps (cm_current (reloaded decode t rp)))"
  shows "\<exists>f ds. rp_sent rp' = rp_sent rp @ ds @ [f] \<and> reports (tt_host t) (services (cm_current (reloaded decode t rp))) f \<and>
    map ws_type ds = (if rp_ips rp = collect_ips (tt_host t) then [] else [''discovery'']) \<and>
    rp_cm rp' = reloaded decode t rp \<and> rp_ips rp' = collect_ips (tt_host t) \<and> rp_streaming rp'"
proof -
  let ?hv = "tt_host t"
  let ?rp = "reload_reporter decode ?hv (rp\<lparr>rp_probe := (rp_probe rp)\<lparr>ps_world := tt_edits t (ps_world (rp_probe rp))\<rparr>\<rparr>)"
  have r: "rp_cm ?rp = reloaded decode t rp" "rp_sent ?rp = rp_sent rp" "rp_ips ?rp = rp_ips rp" "rp_streaming ?rp = rp_streaming rp"
    by (simp_all add: reload_reporter_def reloaded_def)
  have "push_telemetry ?hv (tt_probe t) (network_change ?hv ?rp) = Some rp'"
    using assms by (simp add: telemetry_step_def Let_def r)
  from push_telemetry_frame [OF this] obtain f where f: "rp_sent rp' = rp_sent (network_change ?hv ?rp) @ [f]"
    "reports ?hv (services (cm_current (reloaded decode t rp))) f" "rp_cm rp' = reloaded decode t rp"
    "rp_ips rp' = collect_ips ?hv" "rp_streaming rp'"
    by (auto simp: network_change_simps r assms(2))
  have "\<exists>ds. rp_sent (network_change ?hv ?rp) = rp_sent rp @ ds \<and>
      map ws_type ds = (if rp_ips rp = collect_ips ?hv then [] else [''discovery''])"
    by (auto simp: network_change_def r push_discovery_def discovery_frame_def split: prod.splits)
  with f show ?thesis by fastforce
qed

subsection \<open>Properties\<close>

text \<open>The frames a stream owes for the address lists of its ticks.\<close>

fun owed :: "string list \<Rightarrow> string list list \<Rightarrow> string list" where
  "owed ips0 [] = []"
| "owed ips0 (ips # r) = (if ips0 = ips then [] else [''discovery'']) @ [''telemetry''] @ owed ips r"

text \<open>The stream keeps its promise: over any ticks with the capability on, one telemetry frame per tick and
  a discovery frame before it exactly when the reachable addresses differ from the tick before (a
  change is reported once, a quiet network not at all).\<close>

theorem telemetry_stream_owes:
  assumes "telemetry_run decode ts rp = Some rp'" and "rp_streaming rp"
    and "cap_telemetry (caps (cm_current (rp_cm rp)))"
    and "\<And>s cfg. decode s = Inr cfg \<Longrightarrow> cap_telemetry (caps cfg)"
  shows "map ws_type (rp_sent rp') = map ws_type (rp_sent rp) @ owed (rp_ips rp) (map (\<lambda>t. collect_ips (tt_host t)) ts)"
  using assms(1-3)
proof (induction ts arbitrary: rp)
  case (Cons t ts)
  from Cons.prems obtain rp1 where rp1: "telemetry_step decode t rp = Some rp1" "telemetry_run decode ts rp1 = Some rp'"
    by (auto split: bind_splits)
  have cap: "cap_telemetry (caps (cm_current (reloaded decode t rp)))"
    using Cons.prems(3) assms(4) by (fastforce simp: reloaded_def reload_if_changed_def load_config_def split: sum.splits)
  from telemetry_step_frames [OF rp1(1) Cons.prems(2) cap] obtain f ds where
    s: "rp_sent rp1 = rp_sent rp @ ds @ [f]" "ws_type f = ''telemetry''"
      "map ws_type ds = (if rp_ips rp = collect_ips (tt_host t) then [] else [''discovery''])"
      "rp_cm rp1 = reloaded decode t rp" "rp_ips rp1 = collect_ips (tt_host t)" "rp_streaming rp1"
    by (auto simp: reports_def)
  from Cons.IH [OF rp1(2) s(6)] s cap show ?case by simp
qed simp


text \<open>C12: The agent reports what it enforces: for every command type with a capability, the discovery frame
  says what the dispatcher's gate says, and a capability reported off means that the command is
  refused, signed or not, with an error and without effect.\<close>

theorem reported_capabilities_are_gates:
  assumes "(ws_type msg, k) \<in> set capability_keys" and "ag_cm (dm_agent d) = Some cm"
  shows "\<exists>b. frame_capability (discovery_frame hv (fst (collect_discovery_data hv (cm_current cm) w))) k = Some (JBool b) \<and>
    b = the (map_of command_caps (ws_type msg)) (caps (cm_current cm)) \<and>
    (b \<or> (\<exists>m. handle_command ce msg d = respond_error m d))"
proof -
  obtain cap where c: "map_of command_caps (ws_type msg) = Some cap"
    using capability_keys_gate [OF assms(1)] by blast
  show ?thesis
    using capability_keys_gate [OF assms(1)] capability_refused [OF assms(2) c]
    by (simp add: reported_capability c) blast
qed

text \<open>A host that moves from one network to another, and the registration of nginx seen by its agent.\<close>

definition sample_iface :: "nat list \<Rightarrow> iface list" where
  "sample_iface ip = [\<lparr>if_name = ''docker0'', if_loopback = False, if_mac = ''02:42'', if_addrs = Inr [[172, 17, 0, 1]]\<rparr>,
     \<lparr>if_name = ''lo'', if_loopback = True, if_mac = [], if_addrs = Inr [[127, 0, 0, 1]]\<rparr>,
     \<lparr>if_name = ''wlan0'', if_loopback = False, if_mac = ''aa:bb'', if_addrs = Inl ''down''\<rparr>,
     \<lparr>if_name = ''eth0'', if_loopback = False, if_mac = ''cc:dd'', if_addrs = Inr [ip]\<rparr>]"

definition sample_host :: "nat list \<Rightarrow> host_view" where
  "sample_host ip = \<lparr>hv_env = quiet_env, hv_info = None, hv_ifaces = Inr (sample_iface ip), hv_cpus = [], hv_num_cpu = 2,
     hv_logical = None, hv_physical = None, hv_mem = None, hv_parts = Inl ''none'', hv_usage = (\<lambda>_. None), hv_users = None,
     hv_uptime = Inr 5, hv_public_ip = (\<lambda>_. Inl ''offline''), hv_cpu_percent = [], hv_windows = False, hv_look_path = (\<lambda>_. False),
     hv_wg_state = None, hv_ratio = (\<lambda>_ _. JNum 0), hv_gib = (\<lambda>_. JNum 0), hv_float = (\<lambda>_. JNum 0), hv_cpu = (\<lambda>_. JNum 0),
     hv_float64 = id, hv_now = 0, hv_timestamp = ''now''\<rparr>"

definition nginx_config :: config where
  "nginx_config = zero_config\<lparr>server_url := ''http://d'', services := [\<lparr>rs_name = ''nginx'', rs_subtype = []\<rparr>],
     caps := zero_caps\<lparr>cap_telemetry := True\<rparr>\<rparr>"

definition net_tick :: "nat list \<Rightarrow> world \<Rightarrow> telemetry_tick" where
  "net_tick ip w = \<lparr>tt_host = sample_host ip, tt_probe = sample_probe_env, tt_edits = (\<lambda>_. w)\<rparr>"

definition sample_reporter :: reporter where
  "sample_reporter = \<lparr>rp_cm = \<lparr>cm_current = nginx_config, cm_path = ''agent.yml'', cm_last_size = 0, cm_last_mod = None\<rparr>,
     rp_probe = fresh_probe sample_reg_world, rp_ips = [], rp_streaming = True, rp_sent = []\<rparr>"

definition moving :: "telemetry_tick list" where
  "moving = [net_tick [10, 0, 0, 5] sample_reg_world, net_tick [10, 0, 0, 5] sample_reg_world,
     net_tick [192, 168, 1, 7] sample_reg_world]"

lemma telemetry_stream_owes_witness:
  "\<exists>rp'. telemetry_run (\<lambda>_. Inr nginx_config) moving sample_reporter = Some rp' \<and>
     map ws_type (rp_sent rp') = [''discovery'', ''telemetry'', ''telemetry'', ''discovery'', ''telemetry'']"
proof -
  have "case telemetry_run (\<lambda>_. Inr nginx_config) moving sample_reporter of None \<Rightarrow> False | Some rp \<Rightarrow> True" by code_simp
  then obtain rp' where run: "telemetry_run (\<lambda>_. Inr nginx_config) moving sample_reporter = Some rp'"
    by (auto split: option.splits)
  have s: "rp_streaming sample_reporter" "cap_telemetry (caps (cm_current (rp_cm sample_reporter)))"
    "\<And>s cfg. Inr nginx_config = Inr cfg \<Longrightarrow> cap_telemetry (caps cfg)"
    by (simp_all add: sample_reporter_def nginx_config_def)
  have "owed (rp_ips sample_reporter) (map (\<lambda>t. collect_ips (tt_host t)) moving) =
      [''discovery'', ''telemetry'', ''telemetry'', ''discovery'', ''telemetry'']" by code_simp
  with telemetry_stream_owes [OF run s] run show ?thesis by (simp add: sample_reporter_def)
qed

definition nginx_reg :: reg_env where
  "nginx_reg = sample_reg\<lparr>re_decode := \<lambda>_. Inr nginx_config\<rparr>"

definition nginx_edited :: "cli_run \<times> world \<times> sending list" where
  "nginx_edited = register_service nginx_reg ''systemd'' ''nginx'' False sample_reg_world"


lemma reported_capabilities_are_gates_witness:
  "\<exists>m. handle_command sample_env \<lparr>ws_type = ''reboot'', ws_payload = []\<rparr> enrolled_daemon = respond_error m enrolled_daemon"
proof -
  let ?msg = "\<lparr>ws_type = ''reboot'', ws_payload = []\<rparr>"
  obtain cm where cm: "ag_cm (dm_agent enrolled_daemon) = Some cm" "\<not> cap_reboot (caps (cm_current cm))"
    by (simp add: enrolled_daemon_def zero_config_def zero_caps_def)
  have k: "(ws_type ?msg, ''reboot'') \<in> set capability_keys" by (simp add: capability_keys_def)
  have c: "map_of command_caps ''reboot'' = Some cap_reboot" by (simp add: command_caps_def)
  from reported_capabilities_are_gates [OF k cm(1), of "sample_host []" sample_reg_world sample_env] cm(2)
  show ?thesis by (auto simp: c)
qed

lemma mac_of_other_interface:
  "collect_primary_mac (sample_host [10, 0, 0, 5]) = ''aa:bb'' \<and> collect_ips (sample_host [10, 0, 0, 5]) = [''10.0.0.5'']"
  by code_simp

text \<open>What the frames do not say. The telemetry frame carries neither uptime nor tunnel state nor version,
  which the collector gathers for it; the address of the primary interface may belong to an
  interface without addresses; and a loop started with the capability off never looks again.\<close>

lemma telemetry_frame_lacks:
  "collect_telemetry_data hv pe svcs ps = Some (td, ps') \<Longrightarrow> k \<in> {''uptime_seconds'', ''wireguard'', ''version''} \<Longrightarrow>
     map_of (ws_payload (telemetry_frame td)) k = None"
  by (auto simp: telemetry_frame_def telemetry_fields_def dest!: collect_telemetry_services)

lemma stopped_stays_stopped: "\<not> rp_streaming rp \<Longrightarrow> telemetry_run decode ts rp = Some rp"
  by (induction ts) (simp_all add: telemetry_step_def)

end
