(* ===== verification/WinService.thy ===== *)
theory WinService
  imports WinOps Telemetry
begin

text \<open>
  The Windows service: \<open>service_cli_windows.go\<close> (install and remove), \<open>service_windows.go\<close> (the handler of
  the service control manager's requests), the empty counterparts on other systems, and the Windows
  collectors of \<open>telemetry_collect_windows.go\<close>.
\<close>

subsection \<open>Installing and removing\<close>

datatype svc_state = SvcStopped | SvcStartPending | SvcStopPending | SvcRunning | SvcOther

text \<open>The configuration written for the service; the fields that never change are left out.\<close>

record svc_config =
  sv_path :: string
  sv_display :: string
  sv_start_name :: string

text \<open>
  The service control manager: the registered service's configuration, its requests in order, and the
  number of queries so far. \<open>sm_query\<close> answers a query (\<open>None\<close> is an error) from that number and the
  requests made.
\<close>

datatype svc_request = SvcCreate | SvcUpdate | SvcStart | SvcStop | SvcDelete

record scm =
  sc_service :: "svc_config option"
  sc_requests :: "svc_request list"
  sc_queries :: nat

record scm_env =
  sm_exe :: "string result"
  sm_connect :: "string option"
  sm_fault :: "svc_request \<Rightarrow> string option"
  sm_query :: "nat \<Rightarrow> svc_request list \<Rightarrow> svc_state option"
  sm_lag :: "int \<Rightarrow> nat"
  sm_escape :: "string \<Rightarrow> string"
  sm_base :: "string \<Rightarrow> string"

definition svc_query :: "scm_env \<Rightarrow> scm \<Rightarrow> svc_state option \<times> scm" where
  "svc_query se m = (sm_query se (sc_queries m) (sc_requests m), m\<lparr>sc_queries := Suc (sc_queries m)\<rparr>)"

definition svc_ask :: "scm_env \<Rightarrow> svc_request \<Rightarrow> scm \<Rightarrow> string option \<times> scm" where
  "svc_ask se q m =
     (case sm_fault se q of Some err \<Rightarrow> (Some err, m) | None \<Rightarrow> (None, m\<lparr>sc_requests := sc_requests m @ [q]\<rparr>))"

text \<open>Both waits poll every 250 ms, ten seconds for the start and thirty for the stop. Times are in
  milliseconds; \<open>sm_lag\<close> is how much longer a round takes.\<close>

function wait_running :: "scm_env \<Rightarrow> int \<Rightarrow> int \<Rightarrow> scm \<Rightarrow> bool \<times> scm" where
  "wait_running se deadline now m =
     (case svc_query se m of
        (st, m1) \<Rightarrow>
          if st = Some SvcRunning then (True, m1)
          else if st = None \<or> st = Some SvcStopped \<or> now > deadline then (False, m1)
          else wait_running se deadline (now + 250 + int (sm_lag se now)) m1)"
  by pat_completeness auto
termination by (relation "measure (\<lambda>(se, deadline, now, m). nat (deadline - now + 1))") auto

declare wait_running.simps [simp del]

function poll_stopped :: "scm_env \<Rightarrow> int \<Rightarrow> int \<Rightarrow> scm \<Rightarrow> scm" where
  "poll_stopped se deadline now m =
     (if now < deadline then
        (case svc_query se m of
           (st, m1) \<Rightarrow>
             if st = None \<or> st = Some SvcStopped then m1
             else poll_stopped se deadline (now + 250 + int (sm_lag se now)) m1)
      else m)"
  by pat_completeness auto
termination by (relation "measure (\<lambda>(se, deadline, now, m). nat (deadline - now))") auto

declare poll_stopped.simps [simp del]

definition stop_windows_service :: "scm_env \<Rightarrow> int \<Rightarrow> scm \<Rightarrow> scm" where
  "stop_windows_service se now m =
     (case svc_query se m of
        (st, m1) \<Rightarrow>
          if st = None \<or> st = Some SvcStopped then m1
          else (case svc_ask se SvcStop m1 of
              (Some err, m2) \<Rightarrow> m2
            | (None, m2) \<Rightarrow> poll_stopped se (now + 30000) now m2))"

definition running_warning :: string where
  "running_warning = ''[!] WARNING: theta-agent service did not reach RUNNING -- check %ProgramData%'' @ BSL #
     ''Theta42'' @ BSL # ''agent.log for the startup error''"

text \<open>Starting, and the wait that only warns.\<close>

definition start_and_wait :: "scm_env \<Rightarrow> int \<Rightarrow> string list \<Rightarrow> string \<Rightarrow> scm \<Rightarrow> cli_run \<times> scm" where
  "start_and_wait se now out done_line m =
     (case svc_ask se SvcStart m of
        (Some err, m1) \<Rightarrow> (\<lparr>cr_code = 1, cr_err = [''[!] cannot start service: '' @ err], cr_out = out\<rparr>, m1)
      | (None, m1) \<Rightarrow>
          (case wait_running se (now + 10000) now m1 of
             (up, m2) \<Rightarrow> (done_run (out @ (if up then [] else [running_warning]) @ [done_line]), m2)))"

definition agent_service_config :: "string \<Rightarrow> svc_config" where
  "agent_service_config path = \<lparr>sv_path = path, sv_display = ''Theta Agent'', sv_start_name = ''LocalSystem''\<rparr>"

definition install_service :: "scm_env \<Rightarrow> int \<Rightarrow> scm \<Rightarrow> cli_run \<times> scm" where
  "install_service se now m =
     (case sm_exe se of
        Inl err \<Rightarrow> (failing (''cannot resolve agent path: '' @ err), m)
      | Inr exe \<Rightarrow>
          (case sm_connect se of
             Some err \<Rightarrow> (failing (''cannot connect to service manager: '' @ err), m)
           | None \<Rightarrow>
               (case sc_service m of
                  Some old \<Rightarrow>
                    (let out = [''[+] theta-agent service already exists -- updating and restarting it''];
                         m1 = stop_windows_service se now m
                     in case svc_ask se SvcUpdate m1 of
                       (Some err, m2) \<Rightarrow>
                         (\<lparr>cr_code = 1, cr_err = [''[!] cannot update service configuration: '' @ err], cr_out = out\<rparr>, m2)
                     | (None, m2) \<Rightarrow>
                         start_and_wait se now out (''[+] Updated and restarted theta-agent service ('' @ sm_base se exe @ '')'')
                           (m2\<lparr>sc_service := Some (agent_service_config (sm_escape se exe))\<rparr>))
                | None \<Rightarrow>
                    (case svc_ask se SvcCreate m of
                       (Some err, m1) \<Rightarrow> (failing (''cannot create service: '' @ err), m1)
                     | (None, m1) \<Rightarrow>
                         start_and_wait se now [] (''[+] Registered and started theta-agent service ('' @ sm_base se exe @ '')'')
                           (m1\<lparr>sc_service := Some (agent_service_config (sm_escape se exe))\<rparr>)))))"

definition remove_service :: "scm_env \<Rightarrow> scm \<Rightarrow> cli_run \<times> scm" where
  "remove_service se m =
     (case sm_connect se of
        Some err \<Rightarrow> (failing (''cannot connect to service manager: '' @ err), m)
      | None \<Rightarrow>
          (case sc_service m of
             None \<Rightarrow> (done_run [''[!] theta-agent service not found''], m)
           | Some cfg \<Rightarrow>
               (case svc_ask se SvcDelete m of
                  (Some err, m1) \<Rightarrow> (failing (''cannot delete service: '' @ err), m1)
                | (None, m1) \<Rightarrow> (done_run [''[+] Removed theta-agent service''], m1\<lparr>sc_service := None\<rparr>))))"

definition handle_service_command :: "scm_env \<Rightarrow> int \<Rightarrow> string list \<Rightarrow> scm \<Rightarrow> cli_run \<times> scm" where
  "handle_service_command se now args m =
     (let action = (case args of [] \<Rightarrow> ''install'' | a # _ \<Rightarrow> a) in
      if action = ''install'' then install_service se now m
      else if action = ''remove'' then remove_service se m
      else (\<lparr>cr_code = 1, cr_err = [''usage: theta-agent '' @ action @ '' [install|remove]''], cr_out = []\<rparr>, m))"

definition handle_service_command_other :: "string list \<Rightarrow> scm \<Rightarrow> cli_run \<times> scm" where
  "handle_service_command_other args m = (done_run [], m)"

subsection \<open>The service handler\<close>

text \<open>
  \<open>agentService.Execute\<close>: what reaches its select, a request of the control manager or the end of the
  agent, and the statuses it reports. \<open>SvcInterrogate\<close> carries the status the manager knows. After a stop
  request the handler waits for the agent's end.
\<close>

datatype svc_event = SvcInterrogate svc_state | SvcStopRequest | SvcShutdownRequest | SvcUnknownRequest | AgentEnded

datatype svc_phase = Serving | Draining | Ended

record svc_handler =
  sh_phase :: svc_phase
  sh_reports :: "svc_state list"
  sh_stop_asked :: bool
  sh_agent_ended :: bool

definition service_start :: svc_handler where
  "service_start = \<lparr>sh_phase = Serving, sh_reports = [SvcStartPending, SvcRunning], sh_stop_asked = False, sh_agent_ended = False\<rparr>"

text \<open>A step: in \<open>Draining\<close> only the end of the agent is looked at, and nothing after \<open>Ended\<close>.\<close>

definition service_step :: "svc_event \<Rightarrow> svc_handler \<Rightarrow> svc_handler" where
  "service_step ev h =
     (case (sh_phase h, ev) of
        (Serving, SvcInterrogate st) \<Rightarrow> h\<lparr>sh_reports := sh_reports h @ [st]\<rparr>
      | (Serving, SvcStopRequest) \<Rightarrow> h\<lparr>sh_phase := Draining, sh_reports := sh_reports h @ [SvcStopPending], sh_stop_asked := True\<rparr>
      | (Serving, SvcShutdownRequest) \<Rightarrow> h\<lparr>sh_phase := Draining, sh_reports := sh_reports h @ [SvcStopPending], sh_stop_asked := True\<rparr>
      | (Serving, SvcUnknownRequest) \<Rightarrow> h
      | (Serving, AgentEnded) \<Rightarrow> h\<lparr>sh_phase := Ended, sh_reports := sh_reports h @ [SvcStopped], sh_agent_ended := True\<rparr>
      | (Draining, AgentEnded) \<Rightarrow> h\<lparr>sh_phase := Ended, sh_reports := sh_reports h @ [SvcStopped], sh_agent_ended := True\<rparr>
      | _ \<Rightarrow> h)"

definition service_run :: "svc_event list \<Rightarrow> svc_handler" where
  "service_run evs = foldl (\<lambda>h ev. service_step ev h) service_start evs"

text \<open>Whether the process is the service's; elsewhere it never is. \<open>svc_run\<close> is the error of \<open>svc.Run\<close>.\<close>

definition maybe_run_as_service :: "bool result \<Rightarrow> string option \<Rightarrow> bool \<times> nat option" where
  "maybe_run_as_service is_svc svc_run =
     (case is_svc of
        Inl err \<Rightarrow> (False, None)
      | Inr b \<Rightarrow> if \<not> b then (False, None) else (case svc_run of Some err \<Rightarrow> (True, Some 1) | None \<Rightarrow> (True, None)))"

definition maybe_run_as_service_other :: bool where "maybe_run_as_service_other = False"

subsection \<open>Collectors\<close>

datatype wts_state = WtsActive | WtsConnected | WtsDisconnected | WtsOther

record wts_session =
  wt_state :: wts_state
  wt_user :: string
  wt_station :: string

definition counted :: "wts_session \<Rightarrow> bool" where
  "counted s = (wt_state s = WtsActive \<or> wt_state s = WtsConnected \<or> wt_state s = WtsDisconnected)"

definition collect_logged_users_windows :: "wts_session list result \<Rightarrow> logged_user list" where
  "collect_logged_users_windows sessions =
     (case sessions of
        Inl err \<Rightarrow> []
      | Inr ss \<Rightarrow> keep_new lu_user []
          (map (\<lambda>s. \<lparr>lu_user = wt_user s, lu_terminal = wt_station s, lu_host = [], lu_started = 0\<rparr>)
             (filter (\<lambda>s. counted s \<and> wt_user s \<noteq> []) ss)))"

definition normalize_win_path :: "string \<Rightarrow> string" where
  "normalize_win_path p = map (\<lambda>c. if c = BSL then CHR ''/'' else c) p"

definition is_optical_fstype :: "string \<Rightarrow> bool" where
  "is_optical_fstype fs = (to_upper fs \<in> {''CDFS'', ''UDF'', ''ISO9660'', ''ISOFS''})"

fun drive_items :: "host_view \<Rightarrow> world \<Rightarrow> string list \<Rightarrow> disk_part list \<Rightarrow> disk_item list" where
  "drive_items hv w seen [] = []"
| "drive_items hv w seen (p # ps) =
     (if dp_mount p = [] \<or> dp_mount p \<in> set seen then drive_items hv w seen ps
      else (case hv_usage hv (dp_mount p) of
          None \<Rightarrow> drive_items hv w (dp_mount p # seen) ps
        | Some u \<Rightarrow>
            (let fs = (if dp_fstype p = [] then du_fstype u else dp_fstype p) in
             if du_total u = 0 \<or> is_optical_fstype fs then drive_items hv w (dp_mount p # seen) ps
             else \<lparr>dk_mount = normalize_win_path (dp_mount p), dk_device = normalize_win_path (dp_device p), dk_fstype = fs,
                   dk_drive = get_drive_type (hv_env hv) w (dp_device p), dk_usage = u\<rparr>
                  # drive_items hv w (dp_mount p # seen) ps)))"

text \<open>\<open>drive\<close> is the variable SystemDrive.\<close>

definition collect_disk_items_windows :: "host_view \<Rightarrow> string \<Rightarrow> world \<Rightarrow> disk_item list" where
  "collect_disk_items_windows hv drive w =
     (case hv_parts hv of
        Inl err \<Rightarrow> []
      | Inr ps \<Rightarrow>
          (let items = drive_items hv w [] ps; d = (if drive = [] then ''C:'' else drive) in
           if items \<noteq> [] then items
           else (case hv_usage hv d of
               None \<Rightarrow> []
             | Some u \<Rightarrow> [\<lparr>dk_mount = normalize_win_path d, dk_device = normalize_win_path (du_path u), dk_fstype = du_fstype u,
                 dk_drive = get_drive_type (hv_env hv) w d, dk_usage = u\<rparr>])))"

subsection \<open>Laws\<close>

lemma service_run_snoc: "service_run (evs @ [ev]) = service_step ev (service_run evs)"
  by (simp add: service_run_def)

text \<open>What may follow what the handler has reported.\<close>

definition lifecycle :: "svc_event list \<Rightarrow> svc_handler \<Rightarrow> svc_state list \<Rightarrow> bool" where
  "lifecycle evs h answers =
     (sh_reports h = [SvcStartPending, SvcRunning] @ answers @ (if sh_stop_asked h then [SvcStopPending] else [])
        @ (if sh_phase h = Ended then [SvcStopped] else []) \<and>
      set answers \<subseteq> {st. SvcInterrogate st \<in> set evs} \<and>
      (sh_phase h = Ended \<longleftrightarrow> AgentEnded \<in> set evs) \<and> (sh_phase h = Serving \<longrightarrow> \<not> sh_stop_asked h) \<and>
      (sh_phase h = Draining \<longrightarrow> sh_stop_asked h))"

lemma wait_running_unfold:
  "svc_query se m = (st, m1) \<Longrightarrow> wait_running se deadline now m =
     (if st = Some SvcRunning then (True, m1)
      else if st = None \<or> st = Some SvcStopped \<or> now > deadline then (False, m1)
      else wait_running se deadline (now + 250 + int (sm_lag se now)) m1)"
  by (subst wait_running.simps) simp

lemma wait_running_frame:
  "wait_running se deadline now m = (up, m') \<Longrightarrow> sc_requests m' = sc_requests m \<and> sc_service m' = sc_service m"
proof (induction se deadline now m rule: wait_running.induct)
  case (1 se deadline now m)
  obtain st m1 where q: "svc_query se m = (st, m1)" by fastforce
  then have m1: "sc_requests m1 = sc_requests m" "sc_service m1 = sc_service m" by (auto simp: svc_query_def)
  show ?case
    using "1.prems" "1.IH" [OF q [symmetric]] m1 by (auto simp: wait_running_unfold [OF q] split: if_splits)
qed

lemma poll_stopped_frame:
  "sc_requests (poll_stopped se deadline now m) = sc_requests m \<and> sc_service (poll_stopped se deadline now m) = sc_service m"
proof (induction se deadline now m rule: poll_stopped.induct)
  case (1 se deadline now m)
  obtain st m1 where q: "svc_query se m = (st, m1)" by fastforce
  then have m1: "sc_requests m1 = sc_requests m" "sc_service m1 = sc_service m" by (auto simp: svc_query_def)
  show ?case using "1.IH" [OF _ q [symmetric]] m1 by (subst (1 2) poll_stopped.simps) (auto simp: q)
qed

lemma stop_windows_service_frame:
  "sc_service (stop_windows_service se now m) = sc_service m"
  "sc_requests (stop_windows_service se now m) = sc_requests m \<or> sc_requests (stop_windows_service se now m) = sc_requests m @ [SvcStop]"
  by (auto simp: stop_windows_service_def svc_query_def svc_ask_def poll_stopped_frame split: option.splits)

lemma wait_running_up:
  "wait_running se deadline now m = (True, m') \<Longrightarrow> \<exists>n. sm_query se n (sc_requests m) = Some SvcRunning"
proof (induction se deadline now m rule: wait_running.induct)
  case (1 se deadline now m)
  obtain st m1 where q: "svc_query se m = (st, m1)" by fastforce
  then have "st = sm_query se (sc_queries m) (sc_requests m)" "sc_requests m1 = sc_requests m" by (auto simp: svc_query_def)
  then show ?case
    using "1.prems" "1.IH" [OF q [symmetric]] by (auto simp: wait_running_unfold [OF q] split: if_splits)
qed

lemma start_and_wait_ok:
  assumes "start_and_wait se now out line m = (r, m')" and "cr_code r = 0"
  shows "sc_service m' = sc_service m \<and> sc_requests m' = sc_requests m @ [SvcStart] \<and>
    (running_warning \<in> set (cr_out r) \<or> (\<exists>n. sm_query se n (sc_requests m @ [SvcStart]) = Some SvcRunning))"
proof -
  obtain m1 up m2 where q: "svc_ask se SvcStart m = (None, m1)" "wait_running se (now + 10000) now m1 = (up, m2)"
    "m' = m2" "r = done_run (out @ (if up then [] else [running_warning]) @ [line])"
    using assms by (auto simp: start_and_wait_def split: option.splits prod.splits)
  then have "sc_requests m1 = sc_requests m @ [SvcStart]" "sc_service m1 = sc_service m"
    by (auto simp: svc_ask_def split: option.splits)
  with q wait_running_frame [OF q(2)] wait_running_up [of se "now + 10000" now m1 m2] show ?thesis
    by (cases up) (auto simp: done_run_def)
qed

subsection \<open>Properties\<close>



definition sample_scm :: scm_env where
  "sample_scm = \<lparr>sm_exe = Inr ''a b.exe'', sm_connect = None, sm_fault = (\<lambda>_. None),
     sm_query = (\<lambda>n reqs. if reqs = [] then Some SvcRunning else if n < 3 then Some SvcStopPending
       else if last reqs = SvcStart then Some SvcRunning else Some SvcStopped),
     sm_lag = (\<lambda>_. 3), sm_escape = (\<lambda>s. DQ # s @ [DQ]), sm_base = (\<lambda>s. s)\<rparr>"


end
