(* ===== verification/CliMain.thy ===== *)
theory CliMain
  imports CliFlags CliHelp Completions WinLogin WinService
begin

text \<open>
  A whole invocation of the command line: \<open>handleCLI\<close> (\<open>cli.go\<close>) with the commands it calls, on the state
  they share: the files and commands of the host, its registry and service manager, and what was sent to
  the daemon or the directory.
\<close>

subsection \<open>The host and its environment\<close>

record host =
  ho_world :: world
  ho_registry :: registry
  ho_scm :: scm
  ho_sent :: "sending list"

record cli_env =
  cl_os :: string
  cl_arch :: string
  cl_version :: string
  cl_path :: string
  cl_key :: string
  cl_decode :: "string \<Rightarrow> config result"
  cl_verify :: verify_env
  cl_ops :: linux_ops
  cl_update :: update_env
  cl_windows :: windows_ops
  cl_secrets :: secrets_env
  cl_walk :: "(string \<times> fields_map) list \<Rightarrow> (string \<times> fields_map) list"
  cl_secrets_json :: "(string \<times> string) list \<Rightarrow> string list"
  cl_yaml_error :: "string \<Rightarrow> string option"
  cl_duration :: "string \<Rightarrow> int option"
  cl_heard :: "int \<Rightarrow> mdns_entry list"
  cl_sites_json :: "announcement list \<Rightarrow> string list"
  cl_reg :: reg_env
  cl_login :: login_env
  cl_scm :: scm_env
  cl_now :: int

abbreviation on_windows :: "cli_env \<Rightarrow> bool" where "on_windows ce \<equiv> cl_os ce = ''windows''"
abbreviation cl_env :: "cli_env \<Rightarrow> env" where "cl_env ce \<equiv> lo_env (cl_ops ce)"

definition cli_swap :: "cli_env \<Rightarrow> config \<Rightarrow> string \<Rightarrow> string \<Rightarrow> world \<Rightarrow> bool result \<times> world" where
  "cli_swap ce = (if on_windows ce then swap_updated_binary_windows (cl_windows ce) else swap_updated_binary_other (cl_env ce))"

definition run_configure_login_other :: "(string \<Rightarrow> config result) \<Rightarrow> env \<Rightarrow> string \<Rightarrow> world \<Rightarrow> cli_run" where
  "run_configure_login_other decode e path w =
     (case new_config_manager decode e w path of
        Inl err \<Rightarrow> helper_failed (''configure-login: '' @ err)
      | Inr cm \<Rightarrow> helper_failed (''configure-login: '' @ the configure_login_other))"

definition login_path :: "string \<Rightarrow> string list \<Rightarrow> string" where
  "login_path dflt args = (case args of a # _ \<Rightarrow> if a \<noteq> [] \<and> \<not> has_prefix a ''-'' then a else dflt | [] \<Rightarrow> dflt)"

subsection \<open>The commands\<close>

definition on_world :: "(world \<Rightarrow> cli_run \<times> world) \<Rightarrow> host \<Rightarrow> cli_run \<times> host" where
  "on_world f h = (case f (ho_world h) of (r, w) \<Rightarrow> (r, h\<lparr>ho_world := w\<rparr>))"

definition on_scm :: "(scm \<Rightarrow> cli_run \<times> scm) \<Rightarrow> host \<Rightarrow> cli_run \<times> host" where
  "on_scm f h = (case f (ho_scm h) of (r, m) \<Rightarrow> (r, h\<lparr>ho_scm := m\<rparr>))"

definition cli_registration :: "cli_env \<Rightarrow> bool \<Rightarrow> string list \<Rightarrow> host \<Rightarrow> cli_run \<times> host" where
  "cli_registration ce remove args h =
     (case run_registration (cl_reg ce) remove args (ho_world h) of
        (r, w, sent) \<Rightarrow> (r, h\<lparr>ho_world := w, ho_sent := ho_sent h @ sent\<rparr>))"

definition cli_login :: "cli_env \<Rightarrow> string list \<Rightarrow> host \<Rightarrow> cli_run \<times> host" where
  "cli_login ce args h =
     (if on_windows ce
      then (case run_configure_login (cl_login ce) (cl_path ce) args (ho_world h) (ho_registry h) of
          (r, w, reg) \<Rightarrow> (r, h\<lparr>ho_world := w, ho_registry := reg\<rparr>))
      else (run_configure_login_other (cl_decode ce) (cl_env ce) (login_path (cl_path ce) args) (ho_world h), h))"

definition cli_secrets :: "cli_env \<Rightarrow> world \<Rightarrow> (string \<times> string) list result" where
  "cli_secrets ce w = fetch_agent_secrets (cl_walk ce) (cl_decode ce) (cl_secrets ce) (cl_path ce) w"

fun run_verb :: "cli_env \<Rightarrow> cli_verb \<Rightarrow> string list \<Rightarrow> host \<Rightarrow> cli_run \<times> host" where
  "run_verb ce GetSecret args h = (run_get_secret (cli_secrets ce (ho_world h)) args, h)"
| "run_verb ce GetSecrets args h = (run_get_secrets (cl_secrets_json ce) (cli_secrets ce (ho_world h)) args, h)"
| "run_verb ce SelfUpdate args h =
     on_world (run_self_update (cli_swap ce) (cl_os ce) (cl_arch ce) (cl_decode ce) (cl_ops ce) (cl_update ce) (cl_path ce)) h"
| "run_verb ce Reinitialize args h = on_world (run_reinitialize (on_windows ce) (cl_env ce) (cl_path ce) args) h"
| "run_verb ce ServiceCommand args h =
     on_scm (if on_windows ce then handle_service_command (cl_scm ce) (cl_now ce) args else handle_service_command_other args) h"
| "run_verb ce ConfigureLogin args h = cli_login ce args h"
| "run_verb ce Register args h = cli_registration ce False args h"
| "run_verb ce Unregister args h = cli_registration ce True args h"
| "run_verb ce ListServices args h = (run_list_services (cl_decode ce) (cl_env ce) (cl_path ce) (ho_world h), h)"
| "run_verb ce ConfigSet args h = on_world (run_config_set (cl_yaml_error ce) (cl_env ce) (cl_path ce) args) h"
| "run_verb ce InstallCompletions args h = on_world (install_completions (cl_os ce = ''linux'') (cl_env ce)) h"
| "run_verb ce Discover args h = (run_discover (cl_duration ce) (cl_sites_json ce) (cl_heard ce) args, h)"
| "run_verb ce ShowVersion args h = (done_run [''Theta Agent '' @ cl_version ce], h)"
| "run_verb ce HelpCommand args h = (run_help (cl_version ce) args, h)"
| "run_verb ce Verify args h = (verify_command (cl_verify ce) (cl_path ce) args (ho_world h), h)"
| "run_verb ce ResetEnrollment args h =
     on_world (reset_enrollment_command (cl_decode ce) (cl_env ce) (cl_path ce) (cl_key ce) args) h"

text \<open>\<open>None\<close>: the process goes on as the daemon.\<close>

definition run_cli :: "cli_env \<Rightarrow> string list \<Rightarrow> host \<Rightarrow> (cli_run \<times> host) option" where
  "run_cli ce args h =
     (case handle_cli args of
        RunDaemon \<Rightarrow> None
      | CommandHelp c \<Rightarrow> Some (done_run (command_help c), h)
      | Call v rest \<Rightarrow> Some (run_verb ce v rest h))"

subsection \<open>What a command may touch\<close>

fun may_write :: "cli_env \<Rightarrow> world \<Rightarrow> cli_verb \<Rightarrow> string list \<Rightarrow> string \<Rightarrow> bool" where
  "may_write ce w SelfUpdate args p =
     (let bin = update_target (cl_update ce) in
      p = own_dir (cl_os ce) bin @ ''/theta-agent-update-'' @ lo_rand (cl_ops ce) w
      \<or> p = (if on_windows ce then bin @ ''.new'' else bin))"
| "may_write ce w Reinitialize args p = (p = cl_path ce)"
| "may_write ce w ConfigureLogin args p = (on_windows ce \<and> p = login_path (cl_path ce) args)"
| "may_write ce w Register args p = (p = re_config (cl_reg ce))"
| "may_write ce w Unregister args p = (p = re_config (cl_reg ce))"
| "may_write ce w ConfigSet args p =
     (case config_set_args args (cl_path ce) [] of Inl err \<Rightarrow> False | Inr (path, ps) \<Rightarrow> p = path \<or> p = path @ ''.tmp'')"
| "may_write ce w InstallCompletions args p = (p = bash_path \<or> p = zsh_path)"
| "may_write ce w ResetEnrollment args p =
     (case parse_flags (reset_flags (cl_path ce)) args [] of
        Inl st \<Rightarrow> False
      | Inr vs \<Rightarrow> p = flag_text (reset_flags (cl_path ce)) vs ''path'' \<or> flag_on vs ''keys'' \<and> p = cl_key ce)"
| "may_write ce w v args p = False"

subsection \<open>Frames of the commands\<close>

lemma on_world_simps [simp]:
  "ho_registry (snd (on_world f h)) = ho_registry h" "ho_scm (snd (on_world f h)) = ho_scm h"
  "ho_sent (snd (on_world f h)) = ho_sent h" "ho_world (snd (on_world f h)) = snd (f (ho_world h))"
  by (simp_all add: on_world_def split: prod.splits)

lemma on_scm_simps [simp]:
  "ho_world (snd (on_scm f h)) = ho_world h" "ho_registry (snd (on_scm f h)) = ho_registry h"
  "ho_sent (snd (on_scm f h)) = ho_sent h" "ho_scm (snd (on_scm f h)) = snd (f (ho_scm h))"
  by (simp_all add: on_scm_def split: prod.splits)

lemma swap_frame:
  assumes "p \<noteq> tmp" and "p \<noteq> (if on_windows ce then bin @ ''.new'' else bin)"
  shows "w_files (snd (cli_swap ce cfg tmp bin w)) p = w_files w p"
proof (cases "on_windows ce")
  case True
  obtain r w1 where mv: "move_file (cl_windows ce) tmp (bin @ ''.new'') w = (r, w1)"
    by (cases "move_file (cl_windows ce) tmp (bin @ ''.new'') w")
  then have "w_files w1 p = w_files w p" using move_file_other [OF mv, of p] assms True by simp
  then show ?thesis using True mv
    by (auto simp: cli_swap_def swap_updated_binary_windows_def spawn_detached_def Let_def split: option.splits)
next
  case False
  then show ?thesis using assms
    by (auto simp: cli_swap_def swap_updated_binary_other_def rename_file_def split: option.splits)
qed

lemma update_frame:
  assumes "p \<noteq> own_dir os (update_target ue) @ ''/theta-agent-update-'' @ lo_rand lo w"
    and swap: "\<And>cfg tmp w1. p \<noteq> tmp \<Longrightarrow> w_files (snd (swap cfg tmp (update_target ue) w1)) p = w_files w1 p"
  shows "w_files (snd (run_self_update swap os arch decode lo ue path w)) p = w_files w p"
proof (cases "new_config_manager decode (lo_env lo) w path")
  case (Inr cm)
  let ?bin = "update_target ue"
  let ?dir = "http_base (server_url (cm_current cm)) @ ''/resources/theta-agent/''"
  show ?thesis
  proof (cases "http_base (server_url (cm_current cm)) = [] \<or> (\<exists>err. fetch_manifest_sha ue (?dir @ ''SHA256SUMS'') (artifact_name os arch) = Inl err)")
    case True
    with Inr show ?thesis by (auto simp: run_self_update_def Let_def)
  next
    case False
    then obtain sha where sha: "http_base (server_url (cm_current cm)) \<noteq> []"
      "fetch_manifest_sha ue (?dir @ ''SHA256SUMS'') (artifact_name os arch) = Inr sha"
      by (cases "fetch_manifest_sha ue (?dir @ ''SHA256SUMS'') (artifact_name os arch)") auto
    obtain a w1 where d: "download_binary lo ue w (?dir @ artifact_name os arch) sha (own_dir os ?bin) = (a, w1)"
      by (cases "download_binary lo ue w (?dir @ artifact_name os arch) sha (own_dir os ?bin)")
    show ?thesis
    proof (cases a)
      case (Inl err)
      then have "w_files w1 p = w_files w p"
        using download_binary_err [OF d [unfolded Inl]] assms(1) by simp
      then show ?thesis using Inr sha d Inl by (simp add: run_self_update_def Let_def)
    next
      case tmp: (Inr tmp)
      then have t: "p \<noteq> tmp" "w_files w1 p = w_files w p"
        using download_binary_ok [OF d [unfolded tmp]] assms(1) by auto
      obtain b w2 where b: "swap (cm_current cm) tmp ?bin w1 = (b, w2)" by (cases "swap (cm_current cm) tmp ?bin w1")
      then have "w_files w2 p = w_files w p" using swap [OF t(1), of "cm_current cm" w1] t(2) by simp
      then show ?thesis using Inr sha d tmp b t(1)
        by (cases b) (simp_all add: run_self_update_def Let_def restart_files remove_file_frame)
    qed
  qed
qed (simp add: run_self_update_def Let_def)

lemma reinitialize_frame:
  "p \<noteq> path \<Longrightarrow> w_files (snd (run_reinitialize windows e path args w)) p = w_files w p"
  by (auto simp: run_reinitialize_def write_file_def restart_files split: sum.splits option.splits prod.splits)

lemma apply_values_frame:
  assumes "p \<noteq> path" and "p \<noteq> path @ ''.tmp''"
  shows "w_files (snd (apply_config_values yaml_error e w path ps)) p = w_files w p"
proof -
  have wr: "w_files (snd (write_file e w (path @ ''.tmp'') doc m)) p = w_files w p" for doc m
    using assms by (auto simp: write_file_def split: option.splits)
  have rn: "w_files (snd (rename_file e w1 (path @ ''.tmp'') path)) p = w_files w1 p" for w1
    using assms by (auto simp: rename_file_def split: option.splits)
  have rm: "w_files (snd (remove_file e w1 (path @ ''.tmp''))) p = w_files w1 p" for w1
    using assms by (simp add: remove_file_frame)
  show ?thesis
    by (auto simp: apply_config_values_def Let_def rm split: sum.splits option.splits prod.splits)
      (metis wr rn snd_conv)+
qed

lemma config_set_frame:
  assumes "case config_set_args args dflt [] of Inl err \<Rightarrow> True | Inr (path, ps) \<Rightarrow> p \<noteq> path \<and> p \<noteq> path @ ''.tmp''"
  shows "w_files (snd (run_config_set yaml_error e dflt args w)) p = w_files w p"
proof (cases "config_set_args args dflt []")
  case (Inr a)
  then obtain path ps where a: "config_set_args args dflt [] = Inr (path, ps)" by (cases a) auto
  with assms have "w_files (snd (apply_config_values yaml_error e w path ps)) p = w_files w p"
    by (intro apply_values_frame) auto
  then show ?thesis using a by (auto simp: run_config_set_def split: prod.splits option.splits)
qed (simp add: run_config_set_def)

lemma completions_frame:
  "p \<noteq> bash_path \<Longrightarrow> p \<noteq> zsh_path \<Longrightarrow> w_files (snd (install_completions linux e w)) p = w_files w p"
  by (auto simp: install_completions_def write_file_def run_cmd_def run_stdin_def Let_def split: option.splits)

lemma persist_service_frame:
  assumes "persist_service decode e w cm n t rm = (r, w', cm')" and "p \<noteq> cm_path cm"
  shows "w_files w' p = w_files w p"
  using assms by (auto simp: persist_service_def split: option.splits sum.splits if_splits)
    (metis fst_conv snd_conv write_and_reload_frame)+

lemma register_frame:
  assumes "register_service re t n remove w = (r, w', sent)"
  shows "(p \<noteq> re_config re \<longrightarrow> w_files w' p = w_files w p) \<and> length sent \<le> 1"
proof -
  let ?e = "pv_env (re_probe re)"
  obtain v w1 where v: "(if remove then (None, w) else validate_service_exists (re_probe re) t n w) = (v, w1)"
    by (cases "if remove then (None, w) else validate_service_exists (re_probe re) t n w")
  then have w1: "w_files w1 = w_files w" using validate_files [of "re_probe re" t n w] by (auto split: if_splits)
  show ?thesis
  proof (cases "\<not> re_linux re \<or> v \<noteq> None \<or> (\<exists>err. new_config_manager (re_decode re) ?e w1 (re_config re) = Inl err)")
    case True
    then show ?thesis using assms v w1 by (auto simp: register_service_def split: if_splits option.splits)
  next
    case False
    then obtain cm where cm: "re_linux re" "v = None" "new_config_manager (re_decode re) ?e w1 (re_config re) = Inr cm"
      by (cases "new_config_manager (re_decode re) ?e w1 (re_config re)") auto
    obtain q w2 cm1 where q: "persist_service (re_decode re) ?e w1 cm n t remove = (q, w2, cm1)"
      by (cases "persist_service (re_decode re) ?e w1 cm n t remove")
    obtain res s where s: "push_service_registration re cm1 n t remove = (res, s)"
      by (cases "push_service_registration re cm1 n t remove")
    have "w' = w2" "sent = [] \<or> sent = s"
      using assms cm v q s by (auto simp: register_service_def split: option.splits)
    then show ?thesis
      using persist_service_frame [OF q, of p] push_sends [OF s] new_manager_path [OF cm(3)] w1 by auto
  qed
qed

lemma registration_frame:
  assumes "run_registration re remove args w = (r, w', sent)"
  shows "p \<noteq> re_config re \<Longrightarrow> w_files w' p = w_files w p" and "length sent \<le> 1"
proof -
  have f: "(p \<noteq> re_config re \<longrightarrow> w_files w' p = w_files w p) \<and> length sent \<le> 1"
  proof (cases "parse_service_args args")
    case (Inr a)
    obtain t n where tn: "parse_service_args args = Inr (t, n)" using Inr by (cases a) auto
    then have "register_service re t n remove w = (r, w', sent)" using assms by (simp add: run_registration_def)
    then show ?thesis by (rule register_frame)
  qed (use assms in \<open>simp add: run_registration_def\<close>)
  then show "p \<noteq> re_config re \<Longrightarrow> w_files w' p = w_files w p" "length sent \<le> 1" by auto
qed

lemma login_frame:
  assumes "run_configure_login le dflt args w reg = (r, w', reg')" and "p \<noteq> login_path dflt args"
  shows "w_files w' p = w_files w p"
proof (cases "new_config_manager (le_decode le) (le_env le) w (login_path dflt args)")
  case (Inl err)
  then show ?thesis using assms by (simp add: run_configure_login_def Let_def login_path_def)
next
  case (Inr cm)
  obtain r1 w1 cm1 where c: "persist_ldap_capabilities le cm w = (r1, w1, cm1)" by (cases "persist_ldap_capabilities le cm w")
  then have "w_files w1 p = w_files w p"
    using assms(2) new_manager_path [OF Inr]
    by (auto simp: persist_ldap_capabilities_def write_file_def split: sum.splits option.splits prod.splits)
  moreover have "w' = w1"
    using assms(1) Inr c
    by (auto simp: run_configure_login_def configure_login_def Let_def login_path_def
      split: option.splits prod.splits if_splits)
  ultimately show ?thesis by simp
qed

lemma reset_frame:
  assumes "case parse_flags (reset_flags d) args [] of Inl st \<Rightarrow> True
      | Inr vs \<Rightarrow> p \<noteq> flag_text (reset_flags d) vs ''path'' \<and> \<not> (flag_on vs ''keys'' \<and> p = key)"
  shows "w_files (snd (reset_enrollment_command decode e d key args w)) p = w_files w p"
proof (cases "parse_flags (reset_flags d) args []")
  case (Inr vs)
  with assms show ?thesis by (intro reset_command_frame) auto
qed (simp add: reset_enrollment_command_def)

lemma service_command_other: "snd (handle_service_command_other args m) = m"
  by (simp add: handle_service_command_other_def)

lemmas verb_frames = update_frame swap_frame reinitialize_frame config_set_frame completions_frame reset_frame

lemma verb_files:
  assumes "\<not> may_write ce (ho_world h) v args p"
  shows "w_files (ho_world (snd (run_verb ce v args h))) p = w_files (ho_world h) p"
proof (cases v)
  case SelfUpdate
  then show ?thesis using assms by (auto simp: Let_def intro!: update_frame swap_frame split: if_splits)
next
  case ConfigureLogin
  then show ?thesis using assms by (auto simp: cli_login_def login_frame split: prod.splits)
next
  case Register
  then show ?thesis using assms by (auto simp: cli_registration_def registration_frame(1) split: prod.splits)
next
  case Unregister
  then show ?thesis using assms by (auto simp: cli_registration_def registration_frame(1) split: prod.splits)
qed (use assms in \<open>auto intro!: verb_frames split: sum.splits prod.splits\<close>)

lemma verb_registry:
  assumes "v \<noteq> ConfigureLogin \<or> \<not> on_windows ce"
  shows "ho_registry (snd (run_verb ce v args h)) = ho_registry h"
  using assms by (cases v) (auto simp: cli_login_def cli_registration_def split: prod.splits)

lemma verb_scm:
  assumes "v \<noteq> ServiceCommand \<or> \<not> on_windows ce"
  shows "ho_scm (snd (run_verb ce v args h)) = ho_scm h"
  using assms by (cases v) (auto simp: cli_login_def cli_registration_def service_command_other split: prod.splits)

lemma verb_sent:
  "\<exists>sent. ho_sent (snd (run_verb ce v args h)) = ho_sent h @ sent \<and> length sent \<le> 1 \<and>
    (sent \<noteq> [] \<longrightarrow> v = Register \<or> v = Unregister)"
  by (cases v) (auto simp: cli_login_def cli_registration_def split: prod.splits dest: registration_frame(2))

definition reads_only :: "cli_verb \<Rightarrow> bool" where
  "reads_only v = (v \<in> {GetSecret, GetSecrets, ListServices, Discover, ShowVersion, HelpCommand, Verify})"

lemma verb_reads_only: "reads_only v \<Longrightarrow> snd (run_verb ce v args h) = h"
  by (auto simp: reads_only_def)

lemma help_shown:
  assumes "to_lower n \<in> set documented" and "to_lower n \<notin> {''help'', ''--help'', ''-h'', ''version''}" and "wants_help rest"
  shows "\<exists>c\<in>set commands. answers_to (to_lower n) c \<and> run_cli ce (n # rest) h = Some (done_run (command_help c), h)"
proof -
  obtain c where "c \<in> set commands" "lookup_command (to_lower n) = Some c" "answers_to (to_lower n) c"
    using documented_lookup [OF assms(1)] by blast
  then show ?thesis using assms(2,3) by (auto simp: run_cli_def handle_cli_def Let_def)
qed

subsection \<open>Property\<close>


definition sample_cli :: cli_env where
  "sample_cli = \<lparr>cl_os = ''linux'', cl_arch = ''amd64'', cl_version = ''2.9'', cl_path = ''agent.yml'', cl_key = ''key'',
     cl_decode = (\<lambda>_. Inr enrolled_config), cl_verify = sample_verify, cl_ops = sample_ops, cl_update = mirrored,
     cl_windows = sample_windows, cl_secrets = sample_secrets, cl_walk = (\<lambda>x. x), cl_secrets_json = (\<lambda>_. []),
     cl_yaml_error = (\<lambda>_. None), cl_duration = (\<lambda>_. None), cl_heard = (\<lambda>_. []), cl_sites_json = (\<lambda>_. []),
     cl_reg = sample_reg, cl_login = sample_login, cl_scm = sample_scm, cl_now = 0\<rparr>"

definition sample_host :: host where
  "sample_host = \<lparr>ho_world = verified_world, ho_registry = (\<lambda>_. None),
     ho_scm = \<lparr>sc_service = None, sc_requests = [], sc_queries = 0\<rparr>, ho_sent = []\<rparr>"


end
