(* ===== verification/TrayMenu.thy ===== *)
theory TrayMenu
  imports TrayCommands ServiceReg "HOL-Library.AList"
begin

text \<open>
  The tray's "Internet exit" submenu, \<open>cmd/theta-agent-tray/exit_menu.go\<close>: which choices it shows,
  which of them is ticked, and which site a click asks the daemon for. The menu toolkit is what the
  source uses of it: an item is appended, removed, ticked, and its clicks reach the one goroutine that
  waits for them until the channel \<open>done\<close> it was started with is closed.
\<close>

subsection \<open>The menu\<close>

text \<open>An item carries the site id its goroutine sends (\<open>None\<close> is local breakout) and the number of the
  \<open>done\<close> channel that goroutine waits on. \<open>em_gen\<close> counts those channels: all but the last are closed.
  \<open>em_items\<close> is the map from site ids to items, by number.\<close>

record exit_item =
  ei_id :: nat
  ei_label :: string
  ei_checked :: bool
  ei_site :: "int option"
  ei_gen :: nat

record exit_menu =
  em_root :: bool
  em_visible :: bool
  em_shown :: "exit_item list"
  em_local :: "nat option"
  em_items :: "(int \<times> nat) list"
  em_next :: nat
  em_gen :: nat
  em_sig :: string

definition no_exit_menu :: exit_menu where
  "no_exit_menu = \<lparr>em_root = False, em_visible = False, em_shown = [], em_local = None, em_items = [],
     em_next = 0, em_gen = 0, em_sig = []\<rparr>"

definition init_exit_menu :: "exit_menu \<Rightarrow> exit_menu" where
  "init_exit_menu m = m\<lparr>em_root := True, em_items := [], em_visible := False\<rparr>"

definition exit_label :: "tray_exit \<Rightarrow> string" where
  "exit_label e =
     (let places = filter (\<lambda>p. p \<noteq> []) [te_city e, te_country e] in
      te_name e @ (if places = [] then [] else '' ('' @ join '', '' places @ '')'')
      @ (if te_is_local e then '' '' @ dash_utf8 @ '' this site'' else []))"

definition exit_signature :: "tray_exit list \<Rightarrow> string" where
  "exit_signature xs = concat (map (\<lambda>e. itoa (te_site_id e) @ '':'' @ exit_label e @ ''|'') xs)"

subsection \<open>Rebuilding\<close>

definition add_item :: "string \<Rightarrow> int option \<Rightarrow> exit_menu \<Rightarrow> nat \<times> exit_menu" where
  "add_item label site m =
     (em_next m, m\<lparr>em_shown := em_shown m @
        [\<lparr>ei_id = em_next m, ei_label = label, ei_checked = False, ei_site = site, ei_gen = em_gen m\<rparr>],
      em_next := Suc (em_next m)\<rparr>)"

definition remove_items :: "nat list \<Rightarrow> exit_menu \<Rightarrow> exit_menu" where
  "remove_items ids m = m\<lparr>em_shown := filter (\<lambda>i. ei_id i \<notin> set ids) (em_shown m)\<rparr>"

definition add_exit :: "tray_exit \<Rightarrow> exit_menu \<Rightarrow> exit_menu" where
  "add_exit e m =
     (case add_item (exit_label e) (Some (te_site_id e)) m of
        (i, m') \<Rightarrow> m'\<lparr>em_items := AList.update (te_site_id e) i (em_items m')\<rparr>)"

definition local_label :: string where
  "local_label = ''Local breakout (no exit)''"

definition rebuild_exit_items :: "tray_exit list \<Rightarrow> exit_menu \<Rightarrow> exit_menu" where
  "rebuild_exit_items xs m =
     (let m1 = m\<lparr>em_gen := Suc (em_gen m)\<rparr>;
          m2 = (remove_items (map snd (em_items m1)) m1)\<lparr>em_items := []\<rparr>;
          m3 = (case em_local m2 of None \<Rightarrow> m2 | Some i \<Rightarrow> remove_items [i] m2)
      in case add_item local_label None m3 of
           (i, m4) \<Rightarrow> fold add_exit xs (m4\<lparr>em_local := Some i\<rparr>))"

subsection \<open>Ticking, updating, clicking\<close>

definition set_check :: "nat \<times> bool \<Rightarrow> exit_menu \<Rightarrow> exit_menu" where
  "set_check p m =
     m\<lparr>em_shown := map (\<lambda>i. if ei_id i = fst p then i\<lparr>ei_checked := snd p\<rparr> else i) (em_shown m)\<rparr>"

definition mark_current_exit :: "int option \<Rightarrow> exit_menu \<Rightarrow> exit_menu" where
  "mark_current_exit cur m =
     fold set_check (map (\<lambda>(site, i). (i, cur = Some site)) (em_items m))
       (case em_local m of None \<Rightarrow> m | Some i \<Rightarrow> set_check (i, cur = None) m)"

definition sync_exit_menu :: "tray_status \<Rightarrow> exit_menu \<Rightarrow> exit_menu" where
  "sync_exit_menu s m =
     (if \<not> em_root m then m
      else if ts_exits s = [] then m\<lparr>em_visible := False\<rparr>
      else
        (let m1 = m\<lparr>em_visible := True\<rparr>;
             m2 = (if exit_signature (ts_exits s) \<noteq> em_sig m1
               then rebuild_exit_items (ts_exits s) (m1\<lparr>em_sig := exit_signature (ts_exits s)\<rparr>) else m1)
         in mark_current_exit (ts_current_exit s) m2))"

definition set_exit_command :: "int option \<Rightarrow> tray_command" where
  "set_exit_command site =
     \<lparr>tc_command = ''set_exit'', tc_value = False, tc_site_id = site, tc_service = [], tc_subtype = []\<rparr>"

text \<open>What a click on an item has its goroutine send: nothing once that goroutine has returned.\<close>

definition watch_exit_click :: "exit_menu \<Rightarrow> exit_item \<Rightarrow> tray_command list" where
  "watch_exit_click m i = (if ei_gen i = em_gen m then [set_exit_command (ei_site i)] else [])"

subsection \<open>The signature tells the offered sets apart\<close>

text \<open>A label that has no \<open>|\<close> of its own: then the signature determines every site id and label.\<close>

definition plain_exit :: "tray_exit \<Rightarrow> bool" where
  "plain_exit e = (CHR ''|'' \<notin> set (te_name e @ te_city e @ te_country e))"

definition exit_face :: "tray_exit \<Rightarrow> int \<times> string" where
  "exit_face e = (te_site_id e, exit_label e)"

lemma plain_exit_label: "plain_exit e \<Longrightarrow> CHR ''|'' \<notin> set (exit_label e)"
  by (auto simp: plain_exit_def exit_label_def dash_utf8_def Let_def)

lemma itoa_plain: "CHR '':'' \<notin> set (itoa n)" "CHR ''|'' \<notin> set (itoa n)"
  using itoa_chars(1) [of n] by (auto simp: list_all_iff is_digit_def)

lemma cut_at_mark:
  "d \<notin> set a \<Longrightarrow> d \<notin> set b \<Longrightarrow> a @ d # s = b @ d # t \<longleftrightarrow> a = b \<and> s = t"
proof (induction a arbitrary: b)
  case Nil
  then show ?case by (cases b) auto
next
  case (Cons c a)
  then show ?case by (cases b) auto
qed

lemma exit_signature_Cons:
  "exit_signature (e # xs) = (itoa (te_site_id e) @ CHR '':'' # exit_label e) @ CHR ''|'' # exit_signature xs"
  by (simp add: exit_signature_def)

lemma exit_signature_inj:
  "\<forall>e\<in>set xs \<union> set ys. plain_exit e \<Longrightarrow> exit_signature xs = exit_signature ys \<Longrightarrow>
     map exit_face xs = map exit_face ys"
proof (induction xs arbitrary: ys)
  case Nil
  then show ?case by (cases ys) (simp_all add: exit_signature_Cons, simp add: exit_signature_def)
next
  case (Cons x xs)
  from Cons.prems(2) obtain y ys' where ys: "ys = y # ys'"
    by (cases ys) (simp_all add: exit_signature_Cons, simp add: exit_signature_def)
  have "itoa (te_site_id x) @ CHR '':'' # exit_label x = itoa (te_site_id y) @ CHR '':'' # exit_label y
      \<and> exit_signature xs = exit_signature ys'"
    using Cons.prems ys plain_exit_label itoa_plain
    by (subst cut_at_mark [symmetric, where d = "CHR ''|''"]) (auto simp: exit_signature_Cons)
  then have "exit_face x = exit_face y" "exit_signature xs = exit_signature ys'"
    using itoa_plain itoa_inj by (auto simp: cut_at_mark exit_face_def)
  with Cons ys show ?case by simp
qed

subsection \<open>What a rebuild leaves\<close>

primrec exit_items :: "nat \<Rightarrow> nat \<Rightarrow> tray_exit list \<Rightarrow> exit_item list" where
  "exit_items g k [] = []"
| "exit_items g k (e # xs) = \<lparr>ei_id = k, ei_label = exit_label e, ei_checked = False,
     ei_site = Some (te_site_id e), ei_gen = g\<rparr> # exit_items g (Suc k) xs"

primrec exit_keys :: "nat \<Rightarrow> tray_exit list \<Rightarrow> (int \<times> nat) list" where
  "exit_keys k [] = []"
| "exit_keys k (e # xs) = (te_site_id e, k) # exit_keys (Suc k) xs"

lemma update_fresh_key: "k \<notin> fst ` set al \<Longrightarrow> AList.update k v al = al @ [(k, v)]"
  by (induction al) auto

lemma fold_add_exit:
  "distinct (map te_site_id xs) \<Longrightarrow> te_site_id ` set xs \<inter> fst ` set (em_items m) = {} \<Longrightarrow>
   fold add_exit xs m = m\<lparr>em_shown := em_shown m @ exit_items (em_gen m) (em_next m) xs,
     em_items := em_items m @ exit_keys (em_next m) xs,
     em_next := em_next m + length xs\<rparr>"
proof (induction xs arbitrary: m)
  case Nil
  then show ?case by simp
next
  case (Cons x xs)
  let ?m = "add_exit x m"
  have m: "?m = m\<lparr>em_shown := em_shown m @ exit_items (em_gen m) (em_next m) [x],
      em_items := em_items m @ [(te_site_id x, em_next m)], em_next := Suc (em_next m)\<rparr>"
    using Cons.prems by (simp add: add_exit_def add_item_def update_fresh_key)
  have "fold add_exit xs ?m = ?m\<lparr>em_shown := em_shown ?m @ exit_items (em_gen ?m) (em_next ?m) xs,
     em_items := em_items ?m @ exit_keys (em_next ?m) xs,
     em_next := em_next ?m + length xs\<rparr>"
    using Cons.prems by (intro Cons.IH) (auto simp: m)
  then show ?case by (simp add: m)
qed

text \<open>Every item shown is one the menu knows: by its map, or as the local one.\<close>

definition no_orphans :: "exit_menu \<Rightarrow> bool" where
  "no_orphans m \<longleftrightarrow> ei_id ` set (em_shown m) \<subseteq> snd ` set (em_items m) \<union> set_option (em_local m)"

lemma rebuild_items:
  assumes "no_orphans m" and "distinct (map te_site_id xs)"
  shows "rebuild_exit_items xs m =
    m\<lparr>em_shown := \<lparr>ei_id = em_next m, ei_label = local_label, ei_checked = False, ei_site = None, ei_gen = Suc (em_gen m)\<rparr>
         # exit_items (Suc (em_gen m)) (Suc (em_next m)) xs,
       em_local := Some (em_next m),
       em_items := exit_keys (Suc (em_next m)) xs,
       em_next := Suc (em_next m) + length xs, em_gen := Suc (em_gen m)\<rparr>"
proof -
  have e: "em_shown (case em_local m2 of None \<Rightarrow> m2 | Some i \<Rightarrow> remove_items [i] m2) = []"
    if "m2 = (remove_items (map snd (em_items m)) (m\<lparr>em_gen := Suc (em_gen m)\<rparr>))\<lparr>em_items := []\<rparr>" for m2
    using assms(1) that by (cases "em_local m") (auto simp: no_orphans_def remove_items_def filter_empty_conv)
  show ?thesis
    using assms(2) e [OF refl] by (cases "em_local m")
      (simp_all add: rebuild_exit_items_def Let_def remove_items_def add_item_def fold_add_exit)
qed

subsection \<open>What the user sees\<close>

definition tick :: "(nat \<times> bool) list \<Rightarrow> exit_item \<Rightarrow> exit_item" where
  "tick ps i = (case map_of (rev ps) (ei_id i) of None \<Rightarrow> i | Some b \<Rightarrow> i\<lparr>ei_checked := b\<rparr>)"

definition ticks :: "int option \<Rightarrow> exit_menu \<Rightarrow> (nat \<times> bool) list" where
  "ticks cur m = (case em_local m of None \<Rightarrow> [] | Some i \<Rightarrow> [(i, cur = None)])
     @ map (\<lambda>(site, i). (i, cur = Some site)) (em_items m)"

lemma fold_set_check: "fold set_check ps m = m\<lparr>em_shown := map (tick ps) (em_shown m)\<rparr>"
proof (induction ps rule: rev_induct)
  case Nil
  then show ?case by (simp add: tick_def)
next
  case (snoc p ps)
  then show ?case by (cases p) (simp add: set_check_def, auto simp: tick_def split: option.splits)
qed

lemma mark_current_ticks: "mark_current_exit cur m = m\<lparr>em_shown := map (tick (ticks cur m)) (em_shown m)\<rparr>"
proof -
  have "mark_current_exit cur m = fold set_check (ticks cur m) m"
    by (simp add: mark_current_exit_def ticks_def split: option.splits)
  then show ?thesis by (simp add: fold_set_check)
qed

text \<open>An item as the user meets it: its label, its tick, and what a click sends.\<close>

definition item_view :: "exit_menu \<Rightarrow> exit_item \<Rightarrow> string \<times> bool \<times> tray_command list" where
  "item_view m i = (ei_label i, ei_checked i, watch_exit_click m i)"

definition exit_choices :: "tray_status \<Rightarrow> (string \<times> bool \<times> tray_command list) list" where
  "exit_choices s = (local_label, ts_current_exit s = None, [set_exit_command None]) #
     map (\<lambda>e. (exit_label e, ts_current_exit s = Some (te_site_id e), [set_exit_command (Some (te_site_id e))])) (ts_exits s)"

definition rendered :: "tray_exit list \<Rightarrow> exit_menu \<Rightarrow> bool" where
  "rendered xs m \<longleftrightarrow> em_root m \<and> em_sig m = exit_signature xs \<and>
     (\<exists>k. em_local m = Some k \<and> em_items m = exit_keys (Suc k) xs \<and>
        map (\<lambda>i. i\<lparr>ei_checked := False\<rparr>) (em_shown m) =
          \<lparr>ei_id = k, ei_label = local_label, ei_checked = False, ei_site = None, ei_gen = em_gen m\<rparr>
          # exit_items (em_gen m) (Suc k) xs)"

lemma exit_keys_ge: "p \<in> set (exit_keys k xs) \<Longrightarrow> k \<le> snd p"
  by (induction xs arbitrary: k) (auto dest: Suc_leD)

lemma exit_keys_distinct: "distinct (map snd (exit_keys k xs))"
proof (induction xs arbitrary: k)
  case (Cons x xs)
  then show ?case using exit_keys_ge [of _ "Suc k" xs] by fastforce
qed simp

lemma exit_items_ids: "map ei_id (exit_items g k xs) = map snd (exit_keys k xs)"
  by (induction xs arbitrary: k) auto

lemma unchecked_id: "map ei_id is = map ei_id (map (\<lambda>i. i\<lparr>ei_checked := False\<rparr>) is)"
  by simp

lemma rendered_no_orphans:
  assumes "rendered xs m"
  shows "no_orphans m"
proof -
  obtain k where k: "em_local m = Some k" "em_items m = exit_keys (Suc k) xs"
    "map ei_id (em_shown m) = k # map snd (exit_keys (Suc k) xs)"
    using assms by (subst (asm) rendered_def) (auto simp: exit_items_ids simp del: map_map dest!: arg_cong [where f = "map ei_id"] simp flip: unchecked_id)
  then have "ei_id ` set (em_shown m) = insert k (snd ` set (exit_keys (Suc k) xs))"
    by (metis list.set(2) set_map)
  with k show ?thesis by (auto simp: no_orphans_def)
qed

lemma tick_keeps: "(tick ps i)\<lparr>ei_checked := False\<rparr> = i\<lparr>ei_checked := False\<rparr>"
  by (simp add: tick_def split: option.splits)

lemma rendered_mark: "rendered xs (mark_current_exit cur m) = rendered xs m"
  by (simp add: mark_current_ticks rendered_def comp_def tick_keeps)

lemma rendered_visible [simp]: "rendered xs (m\<lparr>em_visible := b\<rparr>) = rendered xs m"
  by (simp add: rendered_def)

lemma tick_list:
  assumes "map (\<lambda>i. i\<lparr>ei_checked := False\<rparr>) is = exit_items (em_gen m) k xs"
    and "\<And>site i. (site, i) \<in> set (exit_keys k xs) \<Longrightarrow> map_of (rev ps) i = Some (cur = Some site)"
  shows "map (\<lambda>i. item_view m (tick ps i)) is =
    map (\<lambda>e. (exit_label e, cur = Some (te_site_id e), [set_exit_command (Some (te_site_id e))])) xs"
  using assms
proof (induction xs arbitrary: "is" k)
  case (Cons x xs)
  then obtain i is' where i: "is = i # is'" "map (\<lambda>i. i\<lparr>ei_checked := False\<rparr>) is' = exit_items (em_gen m) (Suc k) xs"
    "i\<lparr>ei_checked := False\<rparr> = \<lparr>ei_id = k, ei_label = exit_label x, ei_checked = False,
       ei_site = Some (te_site_id x), ei_gen = em_gen m\<rparr>"
    by (auto simp: map_eq_Cons_conv)
  have "item_view m (tick ps i) = (exit_label x, cur = Some (te_site_id x), [set_exit_command (Some (te_site_id x))])"
    using i(3) Cons.prems(2) [of "te_site_id x" k] by (cases i) (simp add: item_view_def tick_def watch_exit_click_def)
  with Cons.IH [OF i(2)] Cons.prems(2) i(1) show ?case by simp
qed simp

lemma rendered_view:
  assumes "rendered (ts_exits s) m"
  shows "map (item_view (mark_current_exit (ts_current_exit s) m)) (em_shown (mark_current_exit (ts_current_exit s) m)) = exit_choices s"
proof -
  let ?cur = "ts_current_exit s" and ?xs = "ts_exits s"
  let ?ps = "ticks ?cur m"
  obtain k where k: "em_local m = Some k" "em_items m = exit_keys (Suc k) ?xs"
    "map (\<lambda>i. i\<lparr>ei_checked := False\<rparr>) (em_shown m) =
       \<lparr>ei_id = k, ei_label = local_label, ei_checked = False, ei_site = None, ei_gen = em_gen m\<rparr>
       # exit_items (em_gen m) (Suc k) ?xs"
    using assms by (auto simp: rendered_def)
  then obtain i is' where i: "em_shown m = i # is'"
    "i\<lparr>ei_checked := False\<rparr> = \<lparr>ei_id = k, ei_label = local_label, ei_checked = False, ei_site = None, ei_gen = em_gen m\<rparr>"
    "map (\<lambda>i. i\<lparr>ei_checked := False\<rparr>) is' = exit_items (em_gen m) (Suc k) ?xs"
    by (auto simp: map_eq_Cons_conv)
  have ps: "?ps = (k, ?cur = None) # map (\<lambda>(site, i). (i, ?cur = Some site)) (exit_keys (Suc k) ?xs)"
    by (simp add: ticks_def k)
  have "map fst ?ps = k # map snd (exit_keys (Suc k) ?xs)" by (simp add: ps comp_def case_prod_beta)
  then have "distinct (map fst ?ps)"
    using exit_keys_distinct [of "Suc k" ?xs] exit_keys_ge [of _ "Suc k" ?xs] by fastforce
  then have d: "p \<in> set ?ps \<Longrightarrow> map_of (rev ?ps) (fst p) = Some (snd p)" for p
    by (metis distinct_rev map_of_is_SomeI prod.collapse rev_map set_rev)
  have "item_view m (tick ?ps i) = (local_label, ?cur = None, [set_exit_command None])"
    using d [of "(k, ?cur = None)"] i(2) by (cases i) (simp add: ps item_view_def tick_def watch_exit_click_def)
  moreover have "map (\<lambda>i. item_view m (tick ?ps i)) is' = tl (exit_choices s)"
    unfolding exit_choices_def list.sel using i(3)
  proof (rule tick_list)
    show "map_of (rev ?ps) i = Some (?cur = Some site)" if "(site, i) \<in> set (exit_keys (Suc k) ?xs)" for site i
      using d [of "(i, ?cur = Some site)"] that by (force simp: ps)
  qed
  moreover have "item_view (m\<lparr>em_shown := z\<rparr>) = item_view m" for z
    by (simp add: item_view_def watch_exit_click_def fun_eq_iff)
  ultimately show ?thesis by (simp add: mark_current_ticks i(1) exit_choices_def comp_def)
qed

subsection \<open>The menu follows the statuses\<close>

text \<open>Two sets with the same faces are rendered alike.\<close>

lemma exit_faces_render:
  assumes "map exit_face xs = map exit_face ys"
  shows "exit_items g k xs = exit_items g k ys" "exit_keys k xs = exit_keys k ys"
proof -
  from assms have l: "length xs = length ys" by (rule map_eq_imp_length_eq)
  from l assms show "exit_items g k xs = exit_items g k ys"
    by (induction xs ys arbitrary: k rule: list_induct2) (simp_all add: exit_face_def)
  from l assms show "exit_keys k xs = exit_keys k ys"
    by (induction xs ys arbitrary: k rule: list_induct2) (simp_all add: exit_face_def)
qed

definition good_exits :: "tray_exit list \<Rightarrow> bool" where
  "good_exits xs \<longleftrightarrow> distinct (map te_site_id xs) \<and> list_all plain_exit xs"

text \<open>The menu renders the last set offered, if there was one.\<close>

definition menu_ok :: "exit_menu \<Rightarrow> bool" where
  "menu_ok m \<longleftrightarrow> em_root m \<and> (em_sig m = [] \<and> no_orphans m \<or> (\<exists>xs. good_exits xs \<and> rendered xs m))"

lemma menu_okI: "good_exits xs \<Longrightarrow> rendered xs m \<Longrightarrow> menu_ok m"
  by (auto simp: menu_ok_def rendered_def)

lemma rebuild_rendered:
  assumes "no_orphans m" and "good_exits xs" and "em_root m"
  shows "rendered xs (rebuild_exit_items xs (m\<lparr>em_sig := exit_signature xs\<rparr>))"
proof -
  have "map (\<lambda>i. i\<lparr>ei_checked := False\<rparr>) (exit_items g k xs) = exit_items g k xs" for g k
    by (induction xs arbitrary: k) auto
  moreover have "no_orphans (m\<lparr>em_sig := exit_signature xs\<rparr>)" using assms(1) by (simp add: no_orphans_def)
  ultimately show ?thesis using assms by (simp add: rebuild_items good_exits_def rendered_def)
qed

lemma sync_rendered:
  assumes "menu_ok m" and "good_exits (ts_exits s)" and "ts_exits s \<noteq> []"
  shows "\<exists>m'. rendered (ts_exits s) m' \<and> em_visible m' \<and> sync_exit_menu s m = mark_current_exit (ts_current_exit s) m'"
proof -
  let ?xs = "ts_exits s" and ?v = "m\<lparr>em_visible := True\<rparr>"
  have r: "em_root m" and o: "no_orphans m"
    using assms(1) rendered_no_orphans by (auto simp: menu_ok_def)
  show ?thesis
  proof (cases "exit_signature ?xs = em_sig m")
    case False
    have "no_orphans ?v" using o by (simp add: no_orphans_def)
    from rebuild_rendered [OF this assms(2)] r
    have "rendered ?xs (rebuild_exit_items ?xs (?v\<lparr>em_sig := exit_signature ?xs\<rparr>))" by simp
    moreover have "em_visible (rebuild_exit_items ?xs (?v\<lparr>em_sig := exit_signature ?xs\<rparr>))"
      using o assms(2) by (subst rebuild_items) (simp_all add: no_orphans_def good_exits_def)
    ultimately show ?thesis using False r assms(3) by (auto simp: sync_exit_menu_def Let_def)
  next
    case True
    have "exit_signature ?xs \<noteq> []" using assms(3) by (cases ?xs) (simp_all add: exit_signature_Cons)
    with True assms(1) obtain ys where ys: "good_exits ys" "rendered ys m" by (auto simp: menu_ok_def)
    then have "map exit_face ys = map exit_face ?xs"
      using True assms(2) by (intro exit_signature_inj) (auto simp: good_exits_def list_all_iff rendered_def)
    with ys(2) True have "rendered ?xs m"
      by (simp add: rendered_def exit_faces_render [of ys ?xs])
    with True r assms(3) show ?thesis by (intro exI [of _ ?v]) (simp add: sync_exit_menu_def Let_def)
  qed
qed

lemma sync_keeps_ok:
  assumes "menu_ok m" and "good_exits (ts_exits s)"
  shows "menu_ok (sync_exit_menu s m)"
proof (cases "ts_exits s = []")
  case True
  with assms(1) show ?thesis by (auto simp: sync_exit_menu_def menu_ok_def no_orphans_def)
next
  case False
  with sync_rendered [OF assms] assms(2) show ?thesis
    by (auto simp: rendered_mark intro!: menu_okI)
qed

definition fresh_exit_menu :: exit_menu where
  "fresh_exit_menu = init_exit_menu no_exit_menu"

lemma sync_all_ok:
  "\<forall>s\<in>set ss. good_exits (ts_exits s) \<Longrightarrow> menu_ok (fold sync_exit_menu ss fresh_exit_menu)"
proof (induction ss rule: rev_induct)
  case Nil
  then show ?case by (simp add: menu_ok_def fresh_exit_menu_def init_exit_menu_def no_exit_menu_def no_orphans_def)
qed (simp add: sync_keeps_ok)

subsection \<open>Where the menu is not what was offered\<close>

definition named_exit :: "int \<Rightarrow> string \<Rightarrow> tray_exit" where
  "named_exit i name = \<lparr>te_site_id = i, te_name = name, te_country = [], te_city = [], te_is_local = False\<rparr>"

definition offering :: "tray_exit list \<Rightarrow> int option \<Rightarrow> tray_status" where
  "offering xs cur = sample_status\<lparr>ts_exits := xs, ts_current_exit := cur\<rparr>"

definition shown_labels :: "tray_status list \<Rightarrow> string list" where
  "shown_labels ss = map ei_label (em_shown (fold sync_exit_menu ss fresh_exit_menu))"

text \<open>A site whose name contains the signature's own punctuation hides a change of the offered set:
  two exits are offered, the menu still has the one.\<close>

lemma separator_in_name_hides_change:
  "shown_labels [offering [named_exit 1 ''Oslo|2:Bergen''] None,
     offering [named_exit 1 ''Oslo'', named_exit 2 ''Bergen''] None] = [local_label, ''Oslo|2:Bergen'']"
  by code_simp

text \<open>Two exits of one site id: the first one's item is lost to the map and stays in the menu forever.\<close>

lemma repeated_site_leaves_item:
  "shown_labels [offering [named_exit 1 ''Oslo'', named_exit 1 ''Bergen''] None, offering [named_exit 2 ''Paris''] None] =
     [''Oslo'', local_label, ''Paris'']"
  by code_simp

subsection \<open>Properties\<close>



end
