(* ===== verification/TrayGui.thy ===== *)
theory TrayGui
  imports TrayMenu Cli
begin

text \<open>
  The desktop tray, \<open>cmd/theta-agent-tray/main.go\<close>: the statuses it reads from the daemon's socket,
  what it shows of them, and what its menu sends back. Icons are in theory TrayIcons.
\<close>

subsection \<open>Reading a status\<close>

text \<open>The value a status line denotes, and \<open>json.Unmarshal\<close> into the struct. The colour is a string in
  the source; any that is none of the four is shown as red, which is what decoding makes of it here.\<close>

definition exit_value :: "tray_exit \<Rightarrow> json" where
  "exit_value e = JObj [(''site_id'', JNum (te_site_id e)), (''name'', JStr (te_name e)),
     (''country'', JStr (te_country e)), (''city'', JStr (te_city e)), (''is_local'', JBool (te_is_local e))]"

definition tray_status_value :: "tray_status \<Rightarrow> json" where
  "tray_status_value s = JObj
     ([(''color'', JStr (color_text (ts_color s))), (''connected'', JBool (ts_connected s)),
       (''is_home'', JBool (ts_is_home s)), (''vpn_active'', JBool (ts_vpn_active s)),
       (''auto_vpn'', JBool (ts_auto_vpn s)), (''site_name'', JStr (ts_site_name s)),
       (''agent_public_ip'', JStr (ts_agent_public_ip s)), (''home_public_ip'', JStr (ts_home_public_ip s)),
       (''organization_name'', JStr (ts_organization_name s)), (''status_text'', JStr (ts_status_text s)),
       (''config_path'', JStr (ts_config_path s))]
      @ (if ts_exits s = [] then [] else [(''exits'', JArr (map exit_value (ts_exits s)))])
      @ (case ts_current_exit s of None \<Rightarrow> [] | Some i \<Rightarrow> [(''current_exit_site_id'', JNum i)]))"

definition color_of :: "string \<Rightarrow> tray_color" where
  "color_of t = (case find (\<lambda>c. color_text c = t) [ColorYellow, ColorGreen, ColorBlue] of
     Some c \<Rightarrow> c | None \<Rightarrow> ColorRed)"

definition dec_tray_exit :: "fields_map \<Rightarrow> tray_exit option" where
  "dec_tray_exit m =
     (case (dec_int (struct_field m ''site_id''), dec_str (struct_field m ''name''),
            dec_str (struct_field m ''country''), dec_str (struct_field m ''city''),
            dec_bool (struct_field m ''is_local'')) of
        (Some i, Some n, Some c, Some t, Some l) \<Rightarrow>
          Some \<lparr>te_site_id = i, te_name = n, te_country = c, te_city = t, te_is_local = l\<rparr>
      | _ \<Rightarrow> None)"

definition dec_tray_status :: "fields_map \<Rightarrow> tray_status option" where
  "dec_tray_status m =
     (case map (\<lambda>k. dec_bool (struct_field m k)) [''connected'', ''is_home'', ''vpn_active'', ''auto_vpn''] of
        [Some co, Some ho, Some vp, Some au] \<Rightarrow>
          (case map (\<lambda>k. dec_str (struct_field m k)) [''color'', ''site_name'', ''agent_public_ip'',
                  ''home_public_ip'', ''organization_name'', ''status_text'', ''config_path''] of
             [Some cl, Some sn, Some ai, Some hi, Some og, Some tx, Some pa] \<Rightarrow>
               (case (dec_list (dec_struct dec_tray_exit) (struct_field m ''exits''),
                      dec_opt_int (struct_field m ''current_exit_site_id'')) of
                  (Some xs, Some cur) \<Rightarrow>
                    Some \<lparr>ts_color = color_of cl, ts_connected = co, ts_is_home = ho, ts_vpn_active = vp,
                      ts_auto_vpn = au, ts_site_name = sn, ts_agent_public_ip = ai, ts_home_public_ip = hi,
                      ts_organization_name = og, ts_status_text = tx, ts_config_path = pa, ts_exits = xs,
                      ts_current_exit = cur\<rparr>
                | _ \<Rightarrow> None)
           | _ \<Rightarrow> None)
      | _ \<Rightarrow> None)"

definition decode_tray_status :: "(string \<Rightarrow> json option) \<Rightarrow> string \<Rightarrow> tray_status option" where
  "decode_tray_status parse line =
     (case parse line of None \<Rightarrow> None | Some v \<Rightarrow> dec_struct dec_tray_status v)"

subsection \<open>The daemon's listeners, the agent's own reader\<close>

text \<open>\<open>Start\<close> of \<open>tray_server.go\<close>: the sockets it listens on, those whose \<open>net.Listen\<close> succeeds; with
  none of them the tray is disabled. \<open>receiveTrayStatus\<close>: the statuses handed to the callback from the
  connection's lines, and the error; \<open>io.EOF\<close> is none.\<close>

definition tray_start :: "(string \<Rightarrow> string option) \<Rightarrow> string list \<Rightarrow> string list" where
  "tray_start listen paths = filter (\<lambda>p. listen p = None) paths"

definition receive_tray_status ::
  "(string \<Rightarrow> json option) \<Rightarrow> (string \<Rightarrow> (string list \<times> string option) result) \<Rightarrow> string list \<Rightarrow> tray_status list \<times> string option" where
  "receive_tray_status parse dial paths =
     (case dial_tray dial paths None of
        Inl err \<Rightarrow> ([], Some err)
      | Inr (lines, scan_err) \<Rightarrow> (List.map_filter (decode_tray_status parse) lines, scan_err))"

text \<open>A tray reaches the daemon on whichever of its sockets the daemon could bind.\<close>

lemma tray_finds_daemon:
  assumes "\<And>p. dial p = (if p \<in> set (tray_start listen paths) then Inr (conn p) else Inl (err p))"
    and "tray_start listen paths \<noteq> []"
  shows "dial_tray dial paths prev = Inr (conn (hd (tray_start listen paths)))"
proof -
  have "dial_tray dial qs prev = Inr (conn (hd (tray_start listen qs)))"
    if "tray_start listen qs \<noteq> []" "set qs \<subseteq> set paths" for qs prev
    using that
  proof (induction qs arbitrary: prev)
    case (Cons q qs)
    then show ?case
      by (cases "listen q") (auto simp: tray_start_def assms(1)) 
  qed (simp add: tray_start_def)
  with assms(2) show ?thesis by blast
qed

subsection \<open>Paths\<close>

definition gui_socket_paths :: "string option \<Rightarrow> string list" where
  "gui_socket_paths windows =
     (case windows of
        Some pd \<Rightarrow> [(if pd = [] then ''C:'' @ BSL # ''ProgramData'' else pd) @ BSL # ''Theta42'' @ BSL # ''tray.sock'']
      | None \<Rightarrow> [''/run/theta/tray.sock'', ''/tmp/theta-tray.sock''])"

definition default_config_path_for_os :: "string option \<Rightarrow> string" where
  "default_config_path_for_os windows =
     (case windows of
        Some pd \<Rightarrow> (if pd = [] then ''C:'' @ BSL # ''ProgramData'' else pd) @ BSL # ''Theta42'' @ BSL # ''agent.yml''
      | None \<Rightarrow> ''/etc/theta42/agent.yml'')"

lemma both_ends_agree:
  "gui_socket_paths windows = tray_socket_paths (map_option windows_tray_socket_path windows)"
  "default_config_path_for_os windows = default_config_path windows"
  by (simp_all add: gui_socket_paths_def tray_socket_paths_def windows_tray_socket_path_def windows_data_dir_def
      default_config_path_for_os_def default_config_path_def split: option.splits)

subsection \<open>The tray's state\<close>

text \<open>\<open>gu_status\<close> is \<open>currentStatus\<close>, \<open>gu_conn\<close> the connection \<open>ipcConn\<close>; the rest is what is on screen,
  the lines written to each connection, and the commands started.\<close>

record gui =
  gu_status :: tray_status
  gu_conn :: "nat option"
  gu_icon :: tray_color
  gu_title :: string
  gu_tooltip :: string
  gu_status_title :: string
  gu_auto_checked :: bool
  gu_vpn_shown :: bool
  gu_vpn_title :: string
  gu_menu :: exit_menu
  gu_sent :: "(nat \<times> string) list"
  gu_started :: "command list"

record gui_env =
  gn_os :: string
  gn_programdata :: string
  gn_parse :: "string \<Rightarrow> json option"
  gn_write :: "nat \<Rightarrow> bool"
  gn_exists :: "string \<Rightarrow> bool"
  gn_start :: "command \<Rightarrow> bool"

definition gui_windows :: "gui_env \<Rightarrow> string option" where
  "gui_windows ge = (if gn_os ge = ''windows'' then Some (gn_programdata ge) else None)"

text \<open>\<open>main\<close> exits at once on a host without a graphical session.\<close>

definition tray_runs :: "gui_env \<Rightarrow> string \<Rightarrow> string \<Rightarrow> bool" where
  "tray_runs ge display wayland = (\<not> (gn_os ge \<noteq> ''windows'' \<and> display = [] \<and> wayland = []))"

definition zero_status :: tray_status where
  "zero_status = \<lparr>ts_color = ColorRed, ts_connected = False, ts_is_home = False, ts_vpn_active = False,
     ts_auto_vpn = False, ts_site_name = [], ts_agent_public_ip = [], ts_home_public_ip = [],
     ts_organization_name = [], ts_status_text = [], ts_config_path = [], ts_exits = [], ts_current_exit = None\<rparr>"

definition org_title :: "tray_status \<Rightarrow> string" where
  "org_title s = (if ts_organization_name s \<noteq> [] then ts_organization_name s else ''Theta Agent'')"

definition ellipsis_utf8 :: string where
  "ellipsis_utf8 = [CHR 0xE2, CHR 0x80, CHR 0xA6]"

definition on_ready :: gui where
  "on_ready = \<lparr>gu_status = zero_status, gu_conn = None, gu_icon = ColorRed, gu_title = ''Theta Agent'',
     gu_tooltip = ''Theta Agent '' @ dash_utf8 @ '' connecting'' @ ellipsis_utf8,
     gu_status_title = ''Connecting to directory'' @ ellipsis_utf8, gu_auto_checked = False,
     gu_vpn_shown = True, gu_vpn_title = ''Connect VPN'', gu_menu = init_exit_menu no_exit_menu,
     gu_sent = [], gu_started = []\<rparr>"

definition update_ui :: "tray_status \<Rightarrow> gui \<Rightarrow> gui" where
  "update_ui s g =
     (let g1 = g\<lparr>gu_status := s, gu_menu := sync_exit_menu s (gu_menu g), gu_icon := ts_color s\<rparr>;
          tip = ts_status_text s @ (if ts_agent_public_ip s = [] then [] else '' (IP: '' @ ts_agent_public_ip s @ '')'');
          g2 = g1\<lparr>gu_tooltip := org_title s @ '' '' @ dash_utf8 @ '' '' @ tip\<rparr>;
          g3 = (if ts_organization_name s = [] then g2 else g2\<lparr>gu_title := ts_organization_name s\<rparr>);
          g4 = g3\<lparr>gu_status_title := ts_status_text s, gu_auto_checked := ts_auto_vpn s\<rparr>
      in if ts_is_home s then g4\<lparr>gu_vpn_shown := False\<rparr>
         else g4\<lparr>gu_vpn_shown := True, gu_vpn_title := (if ts_vpn_active s then ''Disconnect VPN'' else ''Connect VPN'')\<rparr>)"

definition send_cmd :: "gui_env \<Rightarrow> tray_command \<Rightarrow> gui \<Rightarrow> gui" where
  "send_cmd ge c g =
     (case gu_conn g of None \<Rightarrow> g
      | Some n \<Rightarrow> if gn_write ge n then g\<lparr>gu_sent := gu_sent g @ [(n, tray_command_line c)]\<rparr> else g)"

subsection \<open>The connection\<close>

text \<open>\<open>connectWithRetry\<close> with \<open>streamStatus\<close>: one attempt on the sockets, the lines of the stream, and its
  end. A line of 64 KiB or more ends the scanner, as a lost connection does.\<close>

definition dial_round :: "gui_env \<Rightarrow> (string \<Rightarrow> nat result) \<Rightarrow> gui \<Rightarrow> gui" where
  "dial_round ge dial g =
     (case dial_tray dial (gui_socket_paths (gui_windows ge)) None of
        Inl err \<Rightarrow> update_ui (zero_status\<lparr>ts_status_text := ''Daemon not running''\<rparr>) g
      | Inr c \<Rightarrow> g\<lparr>gu_conn := Some c\<rparr>)"

definition status_line :: "gui_env \<Rightarrow> string \<Rightarrow> gui \<Rightarrow> gui" where
  "status_line ge line g =
     (if length line \<ge> 65536 then g\<lparr>gu_conn := None\<rparr>
      else (case decode_tray_status (gn_parse ge) line of None \<Rightarrow> g | Some s \<Rightarrow> update_ui s g))"

subsection \<open>The menu\<close>

definition plain_command :: "string \<Rightarrow> bool \<Rightarrow> tray_command" where
  "plain_command c v = \<lparr>tc_command = c, tc_value = v, tc_site_id = None, tc_service = [], tc_subtype = []\<rparr>"

definition click_auto_vpn :: "gui_env \<Rightarrow> gui \<Rightarrow> gui" where
  "click_auto_vpn ge g =
     (let v = (\<not> ts_auto_vpn (gu_status g)) in
      send_cmd ge (plain_command ''set_auto_vpn'' v)
        (g\<lparr>gu_status := (gu_status g)\<lparr>ts_auto_vpn := v\<rparr>, gu_auto_checked := v\<rparr>))"

definition click_vpn :: "gui_env \<Rightarrow> gui \<Rightarrow> gui" where
  "click_vpn ge g =
     send_cmd ge (plain_command (if ts_vpn_active (gu_status g) then ''vpn_disconnect'' else ''vpn_connect'') False) g"

definition open_config_locally :: "gui_env \<Rightarrow> gui \<Rightarrow> gui" where
  "open_config_locally ge g =
     (let path = (if ts_config_path (gu_status g) = [] then default_config_path_for_os (gui_windows ge)
                  else ts_config_path (gu_status g));
          cmd = (if gn_os ge = ''windows'' then \<lparr>c_prog = ''explorer'', c_args = [''/select,'' @ path], c_stdin = []\<rparr>
                 else if gn_os ge = ''darwin'' then \<lparr>c_prog = ''open'', c_args = [''-R'', path], c_stdin = []\<rparr>
                 else \<lparr>c_prog = ''xdg-open'', c_args = [path], c_stdin = []\<rparr>)
      in if \<not> gn_exists ge path \<or> \<not> gn_start ge cmd then g
         else g\<lparr>gu_started := gu_started g @ [cmd]\<rparr>)"

definition click_exit :: "gui_env \<Rightarrow> nat \<Rightarrow> gui \<Rightarrow> gui" where
  "click_exit ge j g =
     (if j < length (em_shown (gu_menu g))
      then fold (send_cmd ge) (watch_exit_click (gu_menu g) (em_shown (gu_menu g) ! j)) g else g)"

text \<open>Lines arrive only on a connection; a dial is tried only without one.\<close>

datatype gui_event = Dial "string \<Rightarrow> nat result" | Line string | Lost
  | Click_auto | Click_vpn | Click_config | Click_reinit | Click_exit nat

fun gui_step :: "gui_env \<Rightarrow> gui_event \<Rightarrow> gui \<Rightarrow> gui" where
  "gui_step ge (Dial dial) g = (if gu_conn g = None then dial_round ge dial g else g)"
| "gui_step ge (Line line) g = (if gu_conn g = None then g else status_line ge line g)"
| "gui_step ge Lost g = g\<lparr>gu_conn := None\<rparr>"
| "gui_step ge Click_auto g = click_auto_vpn ge g"
| "gui_step ge Click_vpn g = click_vpn ge g"
| "gui_step ge Click_config g = open_config_locally ge g"
| "gui_step ge Click_reinit g = send_cmd ge (plain_command ''reinit'' False) g"
| "gui_step ge (Click_exit j) g = click_exit ge j g"

definition gui_run :: "(gui_env \<times> gui_event) list \<Rightarrow> gui" where
  "gui_run evs = fold (\<lambda>(ge, ev). gui_step ge ev) evs on_ready"

text \<open>The statuses its connections brought.\<close>

definition heard :: "(gui_env \<times> gui_event) list \<Rightarrow> tray_status list" where
  "heard evs = concat (map (\<lambda>(ge, ev). case ev of
       Line line \<Rightarrow> (case decode_tray_status (gn_parse ge) line of None \<Rightarrow> [] | Some s \<Rightarrow> [s]) | _ \<Rightarrow> []) evs)"

text \<open>An invariant of the tray: it holds at the start, for every status shown, and whatever a click does.\<close>

lemma gui_run_snoc: "gui_run (evs @ [(ge, ev)]) = gui_step ge ev (gui_run evs)"
  by (simp add: gui_run_def)

lemma click_exit_cases:
  "click_exit ge j g = g \<or> (\<exists>i\<in>set (em_shown (gu_menu g)). click_exit ge j g = send_cmd ge (set_exit_command (ei_site i)) g)"
  by (auto simp: click_exit_def watch_exit_click_def)

lemma gui_invariant:
  assumes "P on_ready"
    and "\<And>g n. P g \<Longrightarrow> P (g\<lparr>gu_conn := n\<rparr>)" and "\<And>g xs. P g \<Longrightarrow> P (g\<lparr>gu_started := xs\<rparr>)"
    and "\<And>g s. P g \<Longrightarrow> ok s \<Longrightarrow> P (update_ui s g)"
    and "\<And>g v. P g \<Longrightarrow> P (g\<lparr>gu_status := (gu_status g)\<lparr>ts_auto_vpn := v\<rparr>, gu_auto_checked := v\<rparr>)"
    and "\<And>g ge c. P g \<Longrightarrow> tc_command c \<in> {''set_auto_vpn'', ''vpn_connect'', ''vpn_disconnect'', ''reinit''} \<and> tc_site_id c = None \<or>
           (\<exists>i\<in>set (em_shown (gu_menu g)). c = set_exit_command (ei_site i)) \<Longrightarrow> P (send_cmd ge c g)"
    and "\<And>t. ok (zero_status\<lparr>ts_status_text := t\<rparr>)"
    and "\<forall>s\<in>set (heard evs). ok s"
  shows "P (gui_run evs)"
  using assms(8)
proof (induction evs rule: rev_induct)
  case Nil
  show ?case by (simp add: gui_run_def assms(1))
next
  case (snoc e evs)
  obtain ge ev where e: "e = (ge, ev)" by (cases e)
  from snoc have g: "P (gui_run evs)" and
    l: "ev = Line line \<Longrightarrow> decode_tray_status (gn_parse ge) line = Some s \<Longrightarrow> ok s" for line s
    by (auto simp: e heard_def)
  have "P (gui_step ge ev (gui_run evs))"
  proof (cases ev)
    case (Dial dial)
    with g assms(2,4,7) show ?thesis by (auto simp: dial_round_def split: sum.splits)
  next
    case (Line line)
    with g l assms(2,4) show ?thesis by (auto simp: status_line_def split: option.splits)
  next
    case (Click_exit j)
    have "P (send_cmd ge (set_exit_command (ei_site i)) (gui_run evs))" if "i \<in> set (em_shown (gu_menu (gui_run evs)))" for i
      using that by (intro assms(6) [OF g]) blast
    with Click_exit g click_exit_cases [of ge j "gui_run evs"] show ?thesis by auto
  qed (use g in \<open>auto simp: click_auto_vpn_def click_vpn_def open_config_locally_def Let_def plain_command_def
      intro!: assms(2,3,5,6)\<close>)
  then show ?case by (simp add: e gui_run_snoc)
qed

lemma update_ui_frame [simp]:
  "gu_status (update_ui s g) = s" "gu_menu (update_ui s g) = sync_exit_menu s (gu_menu g)"
  "gu_sent (update_ui s g) = gu_sent g" "gu_conn (update_ui s g) = gu_conn g"
  by (simp_all add: update_ui_def Let_def)

lemma send_cmd_frame [simp]:
  "gu_status (send_cmd ge c g) = gu_status g" "gu_menu (send_cmd ge c g) = gu_menu g"
  "gu_conn (send_cmd ge c g) = gu_conn g" "gu_icon (send_cmd ge c g) = gu_icon g"
  "gu_auto_checked (send_cmd ge c g) = gu_auto_checked g" "gu_vpn_shown (send_cmd ge c g) = gu_vpn_shown g"
  "gu_vpn_title (send_cmd ge c g) = gu_vpn_title g"
  by (simp_all add: send_cmd_def split: option.splits)

subsection \<open>What is on screen\<close>

definition screen_ok :: "gui \<Rightarrow> bool" where
  "screen_ok g \<longleftrightarrow> (let s = gu_status g in
     gu_icon g = ts_color s \<and> gu_auto_checked g = ts_auto_vpn s \<and>
     (if ts_is_home s then \<not> gu_vpn_shown g
      else gu_vpn_shown g \<and> gu_vpn_title g = (if ts_vpn_active s then ''Disconnect VPN'' else ''Connect VPN'')))"

text \<open>The submenu, when every set offered has site ids of its own and plain texts.\<close>

definition submenu_ok :: "gui \<Rightarrow> bool" where
  "submenu_ok g \<longleftrightarrow> (let s = gu_status g; m = gu_menu g in
     menu_ok m \<and> good_exits (ts_exits s) \<and> (em_visible m \<longleftrightarrow> ts_exits s \<noteq> []) \<and>
     (em_visible m \<longrightarrow> map (item_view m) (em_shown m) = exit_choices s))"

lemma exit_choices_cong [simp]: "exit_choices (s\<lparr>ts_auto_vpn := v\<rparr>) = exit_choices s"
  by (simp add: exit_choices_def)

lemma submenu_ok_update:
  assumes "submenu_ok g" and "good_exits (ts_exits s)"
  shows "submenu_ok (update_ui s g)"
proof -
  from assms(1) have ok: "menu_ok (gu_menu g)" by (simp add: submenu_ok_def Let_def)
  show ?thesis
  proof (cases "ts_exits s = []")
    case True
    with sync_keeps_ok [OF ok assms(2)] ok assms(2) show ?thesis
      by (auto simp: submenu_ok_def Let_def sync_exit_menu_def menu_ok_def)
  next
    case False
    from sync_rendered [OF ok assms(2) False] obtain m' where
      "rendered (ts_exits s) m'" "em_visible m'" "sync_exit_menu s (gu_menu g) = mark_current_exit (ts_current_exit s) m'" by auto
    with rendered_view [of s m'] sync_keeps_ok [OF ok assms(2)] False assms(2) show ?thesis
      by (simp add: submenu_ok_def Let_def mark_current_ticks)
  qed
qed

lemma submenu_run:
  assumes "\<forall>s\<in>set (heard evs). good_exits (ts_exits s)"
  shows "submenu_ok (gui_run evs)"
proof (rule gui_invariant [where ok = "\<lambda>s. good_exits (ts_exits s)", OF _ _ _ _ _ _ _ assms])
  show "submenu_ok on_ready"
    by (simp add: submenu_ok_def on_ready_def zero_status_def good_exits_def menu_ok_def init_exit_menu_def
        no_exit_menu_def no_orphans_def)
  show "submenu_ok g \<Longrightarrow> submenu_ok (send_cmd ge c g)" for ge c g by (simp add: submenu_ok_def)
  show "good_exits (ts_exits (zero_status\<lparr>ts_status_text := t\<rparr>))" for t by (simp add: zero_status_def good_exits_def)
qed (simp_all add: submenu_ok_update, simp_all add: submenu_ok_def Let_def)

subsection \<open>What is sent\<close>

definition offered_sites :: "tray_status list \<Rightarrow> int set" where
  "offered_sites ss = (\<Union>s\<in>set ss. te_site_id ` set (ts_exits s))"

definition menu_commands :: "int set \<Rightarrow> tray_command set" where
  "menu_commands sites =
     {c. tc_command c \<in> {''set_auto_vpn'', ''vpn_connect'', ''vpn_disconnect'', ''reinit''} \<and> tc_site_id c = None}
     \<union> set_exit_command ` insert None (Some ` sites)"

definition asks_offered :: "int set \<Rightarrow> gui \<Rightarrow> bool" where
  "asks_offered sites g \<longleftrightarrow> ei_site ` set (em_shown (gu_menu g)) \<subseteq> insert None (Some ` sites) \<and>
     snd ` set (gu_sent g) \<subseteq> tray_command_line ` menu_commands sites"

lemma shown_sites_fold:
  "ei_site ` set (em_shown (fold add_exit xs m)) = ei_site ` set (em_shown m) \<union> Some ` te_site_id ` set xs"
  by (induction xs arbitrary: m) (auto simp: add_exit_def add_item_def)

lemma shown_sites_sync:
  "ei_site ` set (em_shown (sync_exit_menu s m)) \<subseteq> ei_site ` set (em_shown m) \<union> insert None (Some ` te_site_id ` set (ts_exits s))"
proof -
  have r: "em_shown (remove_items ids m) = filter (\<lambda>i. ei_id i \<notin> set ids) (em_shown m)" for ids m by (simp add: remove_items_def)
  have b: "ei_site ` set (em_shown (rebuild_exit_items xs m)) \<subseteq> ei_site ` set (em_shown m) \<union> insert None (Some ` te_site_id ` set xs)" for xs m
    by (auto simp: rebuild_exit_items_def Let_def add_item_def shown_sites_fold r split: option.splits)
  have "ei_site (tick ps i) = ei_site i" for ps i by (simp add: tick_def split: option.splits)
  then have t: "ei_site ` set (em_shown (mark_current_exit cur m)) = ei_site ` set (em_shown m)" for cur m
    by (simp add: mark_current_ticks image_image)
  show ?thesis
    using b [of "ts_exits s" "m\<lparr>em_visible := True, em_sig := exit_signature (ts_exits s)\<rparr>"]
    by (simp add: sync_exit_menu_def Let_def t) (simp add: subset_insertI2)
qed

lemma asks_run: "asks_offered (offered_sites (heard evs)) (gui_run evs)"
proof (rule gui_invariant [where ok = "\<lambda>s. te_site_id ` set (ts_exits s) \<subseteq> offered_sites (heard evs)" and evs = evs])
  let ?S = "offered_sites (heard evs)"
  show "asks_offered ?S (update_ui s g)" if "asks_offered ?S g" "te_site_id ` set (ts_exits s) \<subseteq> ?S" for s g
  proof -
    have 1: "ei_site ` set (em_shown (gu_menu g)) \<subseteq> insert None (Some ` ?S)" using that(1) by (simp add: asks_offered_def)
    have 2: "insert None (Some ` te_site_id ` set (ts_exits s)) \<subseteq> insert None (Some ` ?S)"
      using image_mono [OF that(2), of Some] by (rule insert_mono)
    show ?thesis using order_trans [OF shown_sites_sync Un_least [OF 1 2]] that(1) by (simp add: asks_offered_def)
  qed
  show "asks_offered ?S (send_cmd ge c g)"
    if "asks_offered ?S g" "tc_command c \<in> {''set_auto_vpn'', ''vpn_connect'', ''vpn_disconnect'', ''reinit''} \<and> tc_site_id c = None \<or>
           (\<exists>i\<in>set (em_shown (gu_menu g)). c = set_exit_command (ei_site i))" for g ge c
  proof -
    have "c \<in> menu_commands ?S" using that by (auto simp: menu_commands_def asks_offered_def)
    with that(1) show ?thesis by (auto simp: asks_offered_def send_cmd_def split: option.splits)
  qed
  show "\<forall>s\<in>set (heard evs). te_site_id ` set (ts_exits s) \<subseteq> ?S" by (auto simp: offered_sites_def)
qed (simp_all add: asks_offered_def on_ready_def init_exit_menu_def no_exit_menu_def zero_status_def)

subsection \<open>Statuses and clicks across the socket\<close>

lemma color_of_text [simp]: "color_of (color_text c) = c"
  by (cases c) (simp_all add: color_of_def)

lemma those_map_inverse: "(\<And>x. x \<in> set xs \<Longrightarrow> f (g x) = Some x) \<Longrightarrow> those (map f (map g xs)) = Some xs"
  by (induction xs) auto

lemma status_keys:
  "distinct [''color'', ''connected'', ''is_home'', ''vpn_active'', ''auto_vpn'', ''site_name'', ''agent_public_ip'',
     ''home_public_ip'', ''organization_name'', ''status_text'', ''config_path'', ''exits'', ''current_exit_site_id'']"
  "list_all (\<lambda>k. to_lower k = k) [''color'', ''connected'', ''is_home'', ''vpn_active'', ''auto_vpn'', ''site_name'',
     ''agent_public_ip'', ''home_public_ip'', ''organization_name'', ''status_text'', ''config_path'', ''exits'',
     ''current_exit_site_id'', ''site_id'', ''name'', ''country'', ''city'', ''is_local'']"
  by code_simp+

lemma dec_tray_exit_value:
  assumes "go_int (te_site_id e)"
  shows "dec_struct dec_tray_exit (exit_value e) = Some e"
proof -
  obtain m where m: "exit_value e = JObj m"
    and d: "distinct (map fst m)" "\<forall>p\<in>set m. to_lower (fst p) = fst p"
    and f: "map_of m ''site_id'' = Some (JNum (te_site_id e))" "map_of m ''name'' = Some (JStr (te_name e))"
      "map_of m ''country'' = Some (JStr (te_country e))" "map_of m ''city'' = Some (JStr (te_city e))"
      "map_of m ''is_local'' = Some (JBool (te_is_local e))"
    using status_keys(2) by (simp add: exit_value_def)
  show ?thesis using assms
    by (simp add: m dec_struct_def dec_tray_exit_def struct_field_map_of [OF d] f dec_str_def dec_bool_def dec_int_def go_int_def)
qed

lemma click_exit_sends:
  assumes "submenu_ok g" and "ts_exits (gu_status g) \<noteq> []" and "j \<le> length (ts_exits (gu_status g))"
    and "gu_conn g = Some n" and "gn_write ge n"
  shows "gu_sent (click_exit ge j g) = gu_sent g @ [(n, tray_command_line (set_exit_command
    ((None # map (\<lambda>e. Some (te_site_id e)) (ts_exits (gu_status g))) ! j)))]"
proof -
  let ?m = "gu_menu g" and ?xs = "ts_exits (gu_status g)"
  have v: "map (item_view ?m) (em_shown ?m) = exit_choices (gu_status g)"
    using assms(1,2) by (auto simp: submenu_ok_def Let_def)
  then have l: "j < length (em_shown ?m)" using assms(3)
    by (auto simp: exit_choices_def dest!: arg_cong [where f = length])
  have "watch_exit_click ?m (em_shown ?m ! j) = snd (snd (exit_choices (gu_status g) ! j))"
    using l by (simp flip: v add: item_view_def)
  also have "\<dots> = [set_exit_command ((None # map (\<lambda>e. Some (te_site_id e)) ?xs) ! j)]"
    using assms(3) by (cases j) (simp_all add: exit_choices_def)
  finally show ?thesis using l assms(4,5) by (simp add: click_exit_def send_cmd_def)
qed

text \<open>The auto-VPN click on a tray without a daemon: the box is ticked, nothing is sent.\<close>

lemma auto_vpn_click_unheard:
  "gu_conn g = None \<Longrightarrow> gu_auto_checked (click_auto_vpn ge g) = (\<not> ts_auto_vpn (gu_status g)) \<and>
     gu_sent (click_auto_vpn ge g) = gu_sent g"
  by (simp add: click_auto_vpn_def Let_def send_cmd_def)

text \<open>"Clear enrollment" asks for a command the daemon takes from root alone, and the tray is the desktop user's.\<close>

lemma clear_enrollment_click_refused:
  "tv_euid te \<noteq> 0 \<Longrightarrow> handle_tray_command te (plain_command ''reinit'' False) d = d"
  by (simp add: handle_tray_command_def plain_command_def is_privileged_admin_command_def)

subsection \<open>Types\<close>

text \<open>The site ids of the tray are Go ints: whatever text a status came from, decoding refuses any other number.\<close>

definition typed_status :: "tray_status \<Rightarrow> bool" where
  "typed_status s \<longleftrightarrow> list_all go_int (map te_site_id (ts_exits s)) \<and> pred_option go_int (ts_current_exit s)"

definition gui_typed :: "gui \<Rightarrow> bool" where
  "gui_typed g \<longleftrightarrow> typed_status (gu_status g) \<and> list_all (pred_option go_int) (map ei_site (em_shown (gu_menu g)))"

lemma dec_int_typed: "dec_int v = Some n \<Longrightarrow> go_int n"
  by (auto simp: dec_int_def go_int_def split: json.splits if_splits)

lemma dec_list_elems: "dec_list f v = Some xs \<Longrightarrow> x \<in> set xs \<Longrightarrow> \<exists>u. f u = Some x"
proof -
  have "those (map f vs) = Some xs \<Longrightarrow> x \<in> set xs \<Longrightarrow> \<exists>u. f u = Some x" for vs
    by (induction vs arbitrary: xs) (auto split: option.splits)
  then show "dec_list f v = Some xs \<Longrightarrow> x \<in> set xs \<Longrightarrow> \<exists>u. f u = Some x"
    by (auto simp: dec_list_def split: json.splits)
qed

lemma dec_struct_some: "dec_struct f v = Some x \<Longrightarrow> \<exists>m. f m = Some x"
  by (cases v) (auto simp: dec_struct_def)

lemma dec_tray_exit_typed: "dec_tray_exit m = Some e \<Longrightarrow> go_int (te_site_id e)"
  by (auto simp: dec_tray_exit_def dest: dec_int_typed split: option.splits)

lemma dec_tray_status_typed: "dec_tray_status m = Some s \<Longrightarrow> typed_status s"
proof -
  assume s: "dec_tray_status m = Some s"
  then obtain xs cur where x: "dec_list (dec_struct dec_tray_exit) (struct_field m ''exits'') = Some xs"
    "dec_opt_int (struct_field m ''current_exit_site_id'') = Some cur" "ts_exits s = xs" "ts_current_exit s = cur"
    unfolding dec_tray_status_def by (auto split: option.splits list.splits prod.splits)
  have "go_int (te_site_id e)" if "e \<in> set xs" for e
    using dec_list_elems [OF x(1) that] dec_tray_exit_typed by (blast dest: dec_struct_some)
  moreover have "pred_option go_int cur"
    using x(2) by (auto simp: dec_opt_int_def dest: dec_int_typed split: json.splits)
  ultimately show ?thesis by (simp add: typed_status_def x list_all_iff)
qed

lemma heard_typed:
  assumes "s \<in> set (heard evs)"
  shows "typed_status s"
proof -
  from assms obtain ge :: gui_env and line where "decode_tray_status (gn_parse ge) line = Some s"
    unfolding heard_def by (auto split: gui_event.splits option.splits)
  then show ?thesis
    by (auto simp: decode_tray_status_def split: option.splits dest!: dec_struct_some dec_tray_status_typed)
qed

lemma typed_run: "gui_typed (gui_run evs)"
proof (rule gui_invariant [where ok = typed_status and evs = evs])
  show "gui_typed (update_ui s g)" if "gui_typed g" "typed_status s" for s g
    using that shown_sites_sync [of s "gu_menu g"]
    by (auto simp: gui_typed_def typed_status_def list_all_iff dest!: subsetD [OF _ imageI])
qed (simp_all add: gui_typed_def heard_typed, simp_all add: typed_status_def on_ready_def zero_status_def init_exit_menu_def
    no_exit_menu_def)

subsection \<open>Properties\<close>


text \<open>Whatever happens, in any order (statuses, refused and lost connections, clicks), the icon
  has the colour of the status the tray holds, the auto-VPN box its preference, and the VPN entry is
  hidden at home and otherwise names the verb opposite to the tunnel's state.\<close>

theorem tray_shows_status: "screen_ok (gui_run evs)"
proof (rule gui_invariant [where ok = "\<lambda>_. True" and evs = evs])
  show "screen_ok (send_cmd ge c g)" if "screen_ok g" for ge c g
    using that by (simp add: screen_ok_def Let_def)
qed (simp_all add: screen_ok_def on_ready_def zero_status_def update_ui_def Let_def)

text \<open>C28: every line the tray ever writes is one of the four plain commands or a \<open>set_exit\<close> for local
  breakout or for a site that some status of the daemon offered; no click asks for anything else.\<close>

theorem tray_asks_only_offered:
  "snd ` set (gu_sent (gui_run evs)) \<subseteq> tray_command_line ` menu_commands (offered_sites (heard evs))"
  using asks_run by (simp add: asks_offered_def)

text \<open>Every status the daemon can hold arrives at the tray as it was: colour, flags, texts, the
  offered exits in order and the current one, with no exit offered and no current exit kept apart
  from site 0.\<close>

theorem tray_status_roundtrip:
  assumes "list_all go_int (map te_site_id (ts_exits s))" and "pred_option go_int (ts_current_exit s)"
  shows "dec_struct dec_tray_status (tray_status_value s) = Some s"
proof -
  obtain m where m: "tray_status_value s = JObj m"
    and d: "distinct (map fst m)" "\<forall>p\<in>set m. to_lower (fst p) = fst p"
    and f: "map_of m ''color'' = Some (JStr (color_text (ts_color s)))" "map_of m ''connected'' = Some (JBool (ts_connected s))"
      "map_of m ''is_home'' = Some (JBool (ts_is_home s))" "map_of m ''vpn_active'' = Some (JBool (ts_vpn_active s))"
      "map_of m ''auto_vpn'' = Some (JBool (ts_auto_vpn s))" "map_of m ''site_name'' = Some (JStr (ts_site_name s))"
      "map_of m ''agent_public_ip'' = Some (JStr (ts_agent_public_ip s))"
      "map_of m ''home_public_ip'' = Some (JStr (ts_home_public_ip s))"
      "map_of m ''organization_name'' = Some (JStr (ts_organization_name s))"
      "map_of m ''status_text'' = Some (JStr (ts_status_text s))" "map_of m ''config_path'' = Some (JStr (ts_config_path s))"
      "map_of m ''exits'' = (if ts_exits s = [] then None else Some (JArr (map exit_value (ts_exits s))))"
      "map_of m ''current_exit_site_id'' = map_option JNum (ts_current_exit s)"
    using status_keys by (simp add: tray_status_value_def split: option.splits)
  have x: "dec_list (dec_struct dec_tray_exit) (struct_field m ''exits'') = Some (ts_exits s)"
    using assms(1) by (simp add: struct_field_map_of [OF d] f dec_list_def list_all_iff those_map_inverse dec_tray_exit_value del: map_map)
  have c: "dec_opt_int (struct_field m ''current_exit_site_id'') = Some (ts_current_exit s)"
    using assms(2) by (cases "ts_current_exit s") (simp_all add: struct_field_map_of [OF d] f dec_opt_int_def dec_int_def go_int_def)
  have b: "map (\<lambda>k. dec_bool (struct_field m k)) [''connected'', ''is_home'', ''vpn_active'', ''auto_vpn''] =
      map Some [ts_connected s, ts_is_home s, ts_vpn_active s, ts_auto_vpn s]"
    and t: "map (\<lambda>k. dec_str (struct_field m k)) [''color'', ''site_name'', ''agent_public_ip'', ''home_public_ip'',
        ''organization_name'', ''status_text'', ''config_path''] =
      map Some [color_text (ts_color s), ts_site_name s, ts_agent_public_ip s, ts_home_public_ip s,
        ts_organization_name s, ts_status_text s, ts_config_path s]"
    by (simp_all add: struct_field_map_of [OF d] f dec_str_def dec_bool_def)
  have "dec_tray_status m = Some s"
    unfolding dec_tray_status_def b t x c by simp
  then show ?thesis by (simp add: m dec_struct_def)
qed

lemma tray_status_roundtrip_witness:
  "dec_struct dec_tray_status (tray_status_value (offering [named_exit 0 ''Oslo''] (Some 0))) =
     Some (offering [named_exit 0 ''Oslo''] (Some 0))"
  by (rule tray_status_roundtrip) (simp_all add: offering_def named_exit_def go_int_def)


text \<open>A user's tray that has heard of one exit.\<close>

definition sample_gui_env :: gui_env where
  "sample_gui_env = \<lparr>gn_os = ''linux'', gn_programdata = [],
     gn_parse = (\<lambda>_. Some (tray_status_value (offering [named_exit 5 ''Oslo''] None))),
     gn_write = (\<lambda>_. True), gn_exists = (\<lambda>_. True), gn_start = (\<lambda>_. True)\<rparr>"

definition sample_clicks :: "(gui_env \<times> gui_event) list" where
  "sample_clicks = map (Pair sample_gui_env) [Click_auto, Dial (\<lambda>_. Inr 7), Line ''status'']"


end
