(* ===== verification/TrayIcons.thy ===== *)
theory TrayIcons
  imports GoJson GoPath
begin

text \<open>
  Icons: the conversion of the tray's PNG badges into Windows icons in
  \<open>cmd/theta-agent-tray/main.go\<close>, and that of the generator \<open>cmd/icon-gen/main.go\<close>, which writes
  the installer's icon. The two programs have their own copies of the box filter and the encoders;
  decoding and encoding a PNG are arguments. The generator's drawing and its run are theory IconGen.
\<close>

unbundle bit_operations_syntax

subsection \<open>Little-endian numbers\<close>

type_synonym bytes = "8 word list"

text \<open>The tray shifts the int, the generator converts it to 32 bits first.\<close>

definition put_u32le :: "int \<Rightarrow> bytes" where
  "put_u32le v = map (\<lambda>k. word_of_int (drop_bit k v)) [0, 8, 16, 24]"

definition put_u16le :: "int \<Rightarrow> bytes" where
  "put_u16le v = map (\<lambda>k. word_of_int (drop_bit k v)) [0, 8]"

definition u32le :: "int \<Rightarrow> bytes" where
  "u32le v = (let u = word_of_int v :: 32 word in map (\<lambda>k. ucast (drop_bit k u)) [0, 8, 16, 24])"

definition u16le :: "int \<Rightarrow> bytes" where
  "u16le v = [word_of_int v, word_of_int (drop_bit 8 v)]"

definition le_int :: "bytes \<Rightarrow> int" where
  "le_int bs = foldr (\<lambda>b n. uint b + 256 * n) bs 0"

lemma u32le_eq: "u32le v = put_u32le v"
proof -
  have "ucast (drop_bit k (word_of_int v :: 32 word)) = (word_of_int (drop_bit k v) :: 8 word)" if "k \<le> 24" for k
    using that by (intro bit_word_eqI) (auto simp: bit_simps)
  then show ?thesis unfolding u32le_def put_u32le_def Let_def by (intro map_cong refl) auto
qed

lemma le_lengths [simp]:
  "length (put_u32le v) = 4" "length (put_u16le v) = 2" "length (u16le v) = 2" "length (u32le v) = 4"
  by (simp_all add: put_u32le_def put_u16le_def u16le_def u32le_def Let_def)

lemma drop_bit_bytes:
  "drop_bit 8 v = (v :: int) div 256" "drop_bit 16 v = (v :: int) div 256 div 256"
  "drop_bit 24 v = (v :: int) div 256 div 256 div 256"
proof -
  show "drop_bit 8 v = v div 256" unfolding drop_bit_eq_div by simp
  show "drop_bit 16 v = v div 256 div 256" unfolding drop_bit_eq_div using zdiv_zmult2_eq [of 256 v 256] by simp
  show "drop_bit 24 v = v div 256 div 256 div 256"
    unfolding drop_bit_eq_div using zdiv_zmult2_eq [of 65536 v 256] zdiv_zmult2_eq [of 256 "v div 256" 256] by simp
qed

lemma le_int_u32:
  assumes "0 \<le> v" and "v < 2 ^ 32"
  shows "le_int (put_u32le v) = v"
proof -
  let ?a = "v div 256" and ?b = "v div 256 div 256" and ?c = "v div 256 div 256 div 256"
  have u: "uint (word_of_int x :: 8 word) = x mod 256" for x by (simp add: uint_word_of_int)
  have "le_int (put_u32le v) = v mod 256 + 256 * (?a mod 256 + 256 * (?b mod 256 + 256 * (?c mod 256)))"
    by (simp add: le_int_def put_u32le_def drop_bit_bytes u)
  moreover have "?c mod 256 = ?c"
    using assms unfolding drop_bit_bytes(3) [symmetric] drop_bit_eq_div by (intro mod_pos_pos_trivial) simp_all
  ultimately show ?thesis by (simp only: mod_mult_div_eq)
qed

subsection \<open>Fixed-width codecs\<close>

text \<open>Records of one width written one after the other: the \<open>k\<close>-th is found where the widths say.\<close>

locale fixed_codec =
  fixes enc :: "'a \<Rightarrow> bytes" and decode :: "bytes \<Rightarrow> 'a" and width :: nat and ok :: "'a \<Rightarrow> bool"
  assumes width: "length (enc x) = width"
    and inverse: "ok x \<Longrightarrow> decode (enc x) = x"
begin

lemma length_all: "length (concat (map enc xs)) = length xs * width"
  by (induction xs) (simp_all add: width)

lemma nth_record:
  "k < length xs \<Longrightarrow> take width (drop (k * width) (concat (map enc xs) @ rest)) = enc (xs ! k)"
proof (induction xs arbitrary: k)
  case (Cons x xs)
  then show ?case by (cases k) (simp_all add: width add.commute)
qed simp

lemma decode_record:
  "k < length xs \<Longrightarrow> ok (xs ! k) \<Longrightarrow> decode (take width (drop (k * width) (concat (map enc xs) @ rest))) = xs ! k"
  by (simp only: nth_record inverse)

end

interpretation le32: fixed_codec put_u32le le_int 4 "\<lambda>v. 0 \<le> v \<and> v < 2 ^ 32"
  by unfold_locales (simp_all add: le_int_u32)

subsection \<open>Images\<close>

record pixel =
  px_r :: "8 word"
  px_g :: "8 word"
  px_b :: "8 word"
  px_a :: "8 word"

text \<open>\<open>image.RGBA\<close> with its origin at (0, 0), rows from the top; and any \<open>image.Image\<close>, whose \<open>At\<close> gives
  channels of 16 bits.\<close>

record rgba_image =
  ri_width :: nat
  ri_height :: nat
  ri_pix :: "pixel list"

record image =
  im_minx :: int
  im_miny :: int
  im_width :: nat
  im_height :: nat
  im_at :: "int \<Rightarrow> int \<Rightarrow> nat \<times> nat \<times> nat \<times> nat"

definition zero_pixel :: pixel where
  "zero_pixel = \<lparr>px_r = 0, px_g = 0, px_b = 0, px_a = 0\<rparr>"

definition rgba_at :: "rgba_image \<Rightarrow> int \<Rightarrow> int \<Rightarrow> pixel" where
  "rgba_at img x y =
     (if 0 \<le> x \<and> x < int (ri_width img) \<and> 0 \<le> y \<and> y < int (ri_height img)
      then ri_pix img ! (nat y * ri_width img + nat x) else zero_pixel)"

text \<open>\<open>color.RGBA.RGBA\<close> doubles each byte.\<close>

definition channels :: "pixel \<Rightarrow> nat \<times> nat \<times> nat \<times> nat" where
  "channels p = (257 * unat (px_r p), 257 * unat (px_g p), 257 * unat (px_b p), 257 * unat (px_a p))"

definition as_image :: "rgba_image \<Rightarrow> image" where
  "as_image img = \<lparr>im_minx = 0, im_miny = 0, im_width = ri_width img, im_height = ri_height img,
     im_at = (\<lambda>x y. channels (rgba_at img x y))\<rparr>"

definition grid :: "nat \<Rightarrow> nat \<Rightarrow> (nat \<Rightarrow> nat \<Rightarrow> 'a) \<Rightarrow> 'a list" where
  "grid w h f = concat (map (\<lambda>y. map (\<lambda>x. f x y) [0..<w]) [0..<h])"

definition map_channels :: "(nat \<Rightarrow> nat) \<Rightarrow> nat \<times> nat \<times> nat \<times> nat \<Rightarrow> nat \<times> nat \<times> nat \<times> nat" where
  "map_channels f c = (case c of (r, g, b, a) \<Rightarrow> (f r, f g, f b, f a))"

definition add_channels :: "nat \<times> nat \<times> nat \<times> nat \<Rightarrow> nat \<times> nat \<times> nat \<times> nat \<Rightarrow> nat \<times> nat \<times> nat \<times> nat" where
  "add_channels c d = (case (c, d) of ((r, g, b, a), (r', g', b', a')) \<Rightarrow> (r + r', g + g', b + b', a + a'))"

definition byte_pixel :: "nat \<times> nat \<times> nat \<times> nat \<Rightarrow> pixel" where
  "byte_pixel c = (case c of (r, g, b, a) \<Rightarrow>
     \<lparr>px_r = of_nat r, px_g = of_nat g, px_b = of_nat b, px_a = of_nat a\<rparr>)"

text \<open>\<open>byte(v >> 8)\<close> of every channel.\<close>

definition eight_bit :: "nat \<times> nat \<times> nat \<times> nat \<Rightarrow> pixel" where
  "eight_bit c = byte_pixel (map_channels (\<lambda>v. v div 2 ^ 8) c)"

lemma eight_bit_channels [simp]: "eight_bit (channels p) = p"
proof -
  have "257 * unat b div 256 = unat b" for b :: "8 word"
  proof -
    have "unat b < 2 ^ LENGTH(8)" by (rule unsigned_less)
    then have "unat b < 256" by simp
    moreover have "257 * unat b = unat b + 256 * unat b" by simp
    ultimately show ?thesis by (simp only: div_mult_self2 div_less)
  qed
  then show ?thesis by (simp add: eight_bit_def byte_pixel_def map_channels_def channels_def)
qed

subsection \<open>The box filter\<close>

text \<open>The channels of one box summed up, row by row; then the filter. \<open>None\<close> is the division by zero
  of a target larger than the source.\<close>

definition box_sum :: "(int \<Rightarrow> int \<Rightarrow> nat \<times> nat \<times> nat \<times> nat) \<Rightarrow> nat \<Rightarrow> nat \<Rightarrow> nat \<Rightarrow> nat \<Rightarrow> nat \<times> nat \<times> nat \<times> nat" where
  "box_sum at fx fy x y =
     fold (\<lambda>sy acc. fold (\<lambda>sx acc.
         add_channels acc (map_channels (\<lambda>v. v div 2 ^ 8) (at (int (x * fx + sx)) (int (y * fy + sy)))))
       [0..<fx] acc) [0..<fy] (0, 0, 0, 0)"

definition scale_box :: "image \<Rightarrow> nat \<Rightarrow> rgba_image option" where
  "scale_box src w =
     (let fx = im_width src div w; fy = im_height src div w; n = fx * fy in
      if n = 0 then None
      else Some \<lparr>ri_width = w, ri_height = w, ri_pix = grid w w (\<lambda>x y.
        byte_pixel (map_channels (\<lambda>v. v div n)
          (box_sum (\<lambda>xx yy. im_at src (im_minx src + xx) (im_miny src + yy)) fx fy x y)))\<rparr>)"

definition rgba_scale_box :: "rgba_image \<Rightarrow> nat \<Rightarrow> rgba_image option" where
  "rgba_scale_box src w =
     (let fx = ri_width src div w; fy = ri_height src div w; n = fx * fy in
      if n = 0 then None
      else Some \<lparr>ri_width = w, ri_height = w, ri_pix = grid w w (\<lambda>x y.
        byte_pixel (map_channels (\<lambda>v. v div n) (box_sum (\<lambda>xx yy. channels (rgba_at src xx yy)) fx fy x y)))\<rparr>)"

lemma scale_box_rgba: "scale_box (as_image img) w = rgba_scale_box img w"
  by (simp add: scale_box_def rgba_scale_box_def as_image_def Let_def)

subsection \<open>Grids\<close>

lemma grid_rows: "grid w (Suc h) f = grid w h f @ map (\<lambda>x. f x h) [0..<w]"
  by (simp add: grid_def)

lemma length_grid [simp]: "length (grid w h f) = w * h"
  by (induction h) (simp_all add: grid_rows, simp add: grid_def)

lemma grid_bound: "x < w \<Longrightarrow> y < h \<Longrightarrow> y * w + x < w * (h :: nat)"
  using mult_le_mono1 [of "Suc y" h w] by (simp add: mult.commute)

lemma grid_nth: "x < w \<Longrightarrow> y < h \<Longrightarrow> grid w h f ! (y * w + x) = f x y"
proof (induction h)
  case (Suc h)
  show ?case
  proof (cases "y = h")
    case True
    with Suc.prems show ?thesis by (simp add: grid_rows nth_append mult.commute)
  next
    case False
    with Suc.prems have "y < h" by simp
    with Suc grid_bound [of x w y h] show ?thesis by (simp add: grid_rows nth_append)
  qed
qed simp

lemma grid_eqI: "(\<And>x y. x < w \<Longrightarrow> y < h \<Longrightarrow> f x y = g x y) \<Longrightarrow> grid w h f = grid w h g"
  unfolding grid_def by (intro arg_cong [where f = concat] map_cong refl) auto

lemma map_grid: "map k (grid w h f) = grid w h (\<lambda>x y. k (f x y))"
  by (simp add: grid_def map_concat comp_def)

lemma grid_index: "grid w h (\<lambda>x y. y * w + x) = [0..<w * h]"
proof (induction h)
  case (Suc h)
  have "map (\<lambda>x. h * w + x) [0..<w] = [h * w..<h * w + w]" using map_add_upt [of "h * w" w] by (simp add: add.commute)
  with Suc upt_add_eq_append [of 0 "h * w" w] show ?case by (simp add: grid_rows mult.commute add.commute)
qed (simp add: grid_def)

lemma grid_of_list:
  assumes "length xs = w * h"
  shows "grid w h (\<lambda>x y. xs ! (y * w + x)) = xs"
proof -
  have "grid w h (\<lambda>x y. xs ! (y * w + x)) = map ((!) xs) (grid w h (\<lambda>x y. y * w + x))" by (simp add: map_grid)
  also have "\<dots> = xs" using assms by (simp add: grid_index) (metis map_nth)
  finally show ?thesis .
qed

lemma fold_grid: "fold (\<lambda>y. fold (\<lambda>x. g (f x y)) [0..<w]) [0..<h] s = fold g (grid w h f) s"
  by (induction h arbitrary: s) (simp_all add: grid_rows fold_map comp_def, simp add: grid_def)

subsection \<open>The bitmap\<close>

definition and_row :: "nat \<Rightarrow> nat" where
  "and_row w = (w + 31) div 32 * 4"

text \<open>\<open>copy(hdr[o:], bs)\<close>, and the four assignments at \<open>o\<close>.\<close>

definition copy_at :: "nat \<Rightarrow> bytes \<Rightarrow> bytes \<Rightarrow> bytes" where
  "copy_at k bs hdr = take k hdr @ bs @ drop (k + length bs) hdr"

definition bgra :: "pixel \<Rightarrow> bytes" where
  "bgra p = [px_b p, px_g p, px_r p, px_a p]"

definition set_bgra :: "nat \<Rightarrow> bytes \<Rightarrow> bytes \<Rightarrow> bytes" where
  "set_bgra k c bs = bs[k + 0 := c ! 0, k + 1 := c ! 1, k + 2 := c ! 2, k + 3 := c ! 3]"

definition rgba_to_dib :: "image \<Rightarrow> bytes" where
  "rgba_to_dib img =
     (let w = im_width img; h = im_height img;
          hdr = copy_at 20 (put_u32le (int (w * h * 4 + and_row w * h)))
               (copy_at 14 (put_u16le 32) (copy_at 12 (put_u16le 1) (copy_at 8 (put_u32le (int (h * 2)))
               (copy_at 4 (put_u32le (int w)) (copy_at 0 (put_u32le 40) (replicate 40 0))))));
          xor = fold (\<lambda>y. fold (\<lambda>x bs. set_bgra (y * w * 4 + x * 4)
                  (bgra (eight_bit (im_at img (im_minx img + int x) (im_miny img + int (h - 1 - y))))) bs)
                [0..<w]) [0..<h] (replicate (w * h * 4) 0)
      in hdr @ xor @ replicate (and_row w * h) 0)"

definition to_dib :: "rgba_image \<Rightarrow> bytes" where
  "to_dib img =
     (let w = ri_width img; h = ri_height img in
      u32le 40 @ u32le (int w) @ u32le (int (h * 2)) @ u16le 1 @ u16le 32 @ [0, 0, 0, 0]
      @ u32le (int (w * h * 4 + and_row w * h)) @ replicate 16 0
      @ concat (grid w h (\<lambda>x y. bgra (eight_bit (channels (rgba_at img (int x) (int (h - 1 - y)))))))
      @ replicate (and_row w * h) 0)"

lemma set_bgra_append: "length c = 4 \<Longrightarrow> set_bgra (length a) c (a @ b0 # b1 # b2 # b3 # t) = a @ c @ t"
proof -
  assume "length c = 4"
  then obtain c0 c1 c2 c3 where "c = [c0, c1, c2, c3]"
    by (auto simp: numeral_eq_Suc length_Suc_conv)
  then show ?thesis by (simp add: set_bgra_def list_update_append)
qed

lemma fill_pixels:
  "\<forall>c\<in>set cs. length c = 4 \<Longrightarrow> k \<le> length cs \<Longrightarrow>
   fold (\<lambda>i. set_bgra (4 * i) (cs ! i)) [0..<k] (replicate (4 * length cs) 0) =
     concat (take k cs) @ replicate (4 * (length cs - k)) 0"
proof (induction k)
  case (Suc k)
  have l: "length (concat (take k cs)) = 4 * k"
    using Suc.prems by (induction k) (simp_all add: take_Suc_conv_app_nth)
  have "replicate (4 * (length cs - k)) 0 = 0 # 0 # 0 # 0 # (replicate (4 * (length cs - Suc k)) 0 :: bytes)"
    using Suc.prems(2) by (simp add: replicate_app_Cons_same flip: replicate_Suc)
  moreover have "length (cs ! k) = 4" using Suc.prems by auto
  ultimately show ?case
    using Suc set_bgra_append [of "cs ! k" "concat (take k cs)" 0 0 0 0] l by (simp add: take_Suc_conv_app_nth)
qed simp

lemma same_header:
  "copy_at 20 (put_u32le s) (copy_at 14 (put_u16le 32) (copy_at 12 (put_u16le 1) (copy_at 8 (put_u32le hh)
     (copy_at 4 (put_u32le ww) (copy_at 0 (put_u32le 40) (replicate 40 0)))))) =
   u32le 40 @ u32le ww @ u32le hh @ u16le 1 @ u16le 32 @ [0, 0, 0, 0] @ u32le s @ replicate 16 0"
proof -
  have "replicate 40 (0 :: 8 word) = replicate 4 0 @ replicate 4 0 @ replicate 4 0 @ replicate 2 0 @ replicate 2 0
      @ replicate 4 0 @ replicate 4 0 @ replicate 16 0"
    by (simp flip: replicate_add)
  moreover have "replicate 4 (0 :: 8 word) = [0, 0, 0, 0]" by (simp add: numeral_eq_Suc)
  ultimately show ?thesis by (simp add: copy_at_def u32le_eq u16le_def put_u16le_def)
qed

lemma to_dib_pixels:
  "to_dib img = (let w = ri_width img; h = ri_height img in
     (u32le 40 @ u32le (int w) @ u32le (int (h * 2)) @ u16le 1 @ u16le 32 @ [0, 0, 0, 0]
      @ u32le (int (w * h * 4 + and_row w * h)) @ replicate 16 0)
      @ concat (map bgra (grid w h (\<lambda>x y. rgba_at img (int x) (int (h - 1 - y)))))
      @ replicate (and_row w * h) 0)"
  by (simp add: to_dib_def Let_def map_grid)

lemma rgba_dib: "rgba_to_dib (as_image img) = to_dib img"
proof -
  let ?w = "ri_width img" and ?h = "ri_height img"
  let ?cs = "grid ?w ?h (\<lambda>x y. bgra (rgba_at img (int x) (int (?h - 1 - y))))"
  have e: "set_bgra (y * ?w * 4 + x * 4) (bgra (rgba_at img (int x) (int (?h - 1 - y)))) bs = set_bgra (4 * (y * ?w + x)) (?cs ! (y * ?w + x)) bs"
    if "x < ?w" "y < ?h" for x y bs
    by (simp only: grid_nth [OF that]) (simp add: distrib_left mult.commute)
  have "fold (\<lambda>y. fold (\<lambda>x. set_bgra (y * ?w * 4 + x * 4) (bgra (rgba_at img (int x) (int (?h - 1 - y))))) [0..<?w]) [0..<?h] s
      = fold (\<lambda>y. fold (\<lambda>x. (\<lambda>i. set_bgra (4 * i) (?cs ! i)) (y * ?w + x)) [0..<?w]) [0..<?h] s" for s :: bytes
    by (intro fold_cong refl ext) (simp only: e set_upt atLeastLessThan_iff)
  also have "\<dots> s = fold (\<lambda>i. set_bgra (4 * i) (?cs ! i)) [0..<length ?cs] s" for s
    by (simp only: fold_grid [where g = "\<lambda>i. set_bgra (4 * i) (?cs ! i)"] grid_index length_grid)
  also have "\<dots> (replicate (4 * length ?cs) 0) = concat ?cs"
    using fill_pixels [of ?cs "length ?cs"] by (simp add: grid_def bgra_def del: length_grid)
  finally show ?thesis
    by (simp add: rgba_to_dib_def to_dib_def as_image_def Let_def same_header mult.commute)
qed

subsection \<open>The icon file\<close>

definition icon_sizes :: "nat list" where
  "icon_sizes = [16, 24, 32, 48, 64, 128, 256]"

definition size_byte :: "nat \<Rightarrow> 8 word" where
  "size_byte s = (if s \<ge> 256 then 0 else of_nat s)"

text \<open>The tray: directory and bitmaps grow in step; \<open>None\<close> is the box filter's division by zero.\<close>

definition ico_step :: "image \<Rightarrow> nat \<Rightarrow> (bytes \<times> bytes) option \<Rightarrow> (bytes \<times> bytes) option" where
  "ico_step src s acc =
     (case acc of None \<Rightarrow> None
      | Some (dir, payload) \<Rightarrow> (case scale_box src s of None \<Rightarrow> None
         | Some im \<Rightarrow>
             (let bmp = rgba_to_dib (as_image im); off = 6 + length icon_sizes * 16 in
              Some (dir @ [size_byte s, size_byte s, 0, 0, 1, 0, 32, 0] @ put_u32le (int (length bmp))
                      @ put_u32le (int (off + length payload)), payload @ bmp))))"

definition encode_ico :: "image \<Rightarrow> bytes option" where
  "encode_ico src = map_option (\<lambda>(dir, payload). dir @ payload)
     (fold (ico_step src) icon_sizes (Some ([0, 0, 1, 0, of_nat (length icon_sizes), 0], [])))"

definition png_to_ico :: "(bytes \<Rightarrow> image option) \<Rightarrow> bytes \<Rightarrow> bytes option" where
  "png_to_ico decode_png png = (case decode_png png of None \<Rightarrow> Some png | Some src \<Rightarrow> encode_ico src)"

definition to_windows_icon :: "string \<Rightarrow> (bytes \<Rightarrow> image option) \<Rightarrow> bytes \<Rightarrow> bytes option" where
  "to_windows_icon goos decode_png png = (if goos \<noteq> ''windows'' then Some png else png_to_ico decode_png png)"

text \<open>The generator; \<open>create\<close> and \<open>write\<close> are the errors of the file's calls, the bytes are those written.\<close>

definition ico_sizes :: "nat list" where
  "ico_sizes = [16, 24, 32, 48, 64, 128, 256]"

definition write_ico_step :: "rgba_image \<Rightarrow> nat \<Rightarrow> (bytes \<times> bytes) option \<Rightarrow> (bytes \<times> bytes) option" where
  "write_ico_step src s acc =
     (case acc of None \<Rightarrow> None
      | Some (dir, payload) \<Rightarrow> (case rgba_scale_box src s of None \<Rightarrow> None
         | Some im \<Rightarrow>
             (let bmp = to_dib im; off = 6 + length ico_sizes * 16 in
              Some (dir @ [size_byte s, size_byte s, 0, 0, 1, 0, 32, 0] @ u32le (int (length bmp))
                      @ u32le (int (off + length payload)), payload @ bmp))))"

definition write_ico ::
  "(string \<Rightarrow> string option) \<Rightarrow> (bytes \<Rightarrow> string option) \<Rightarrow> rgba_image \<Rightarrow> string \<Rightarrow> (string option \<times> bytes) option" where
  "write_ico create write src path =
     map_option (\<lambda>(dir, payload).
        case create path of Some err \<Rightarrow> (Some err, [])
        | None \<Rightarrow> (case write dir of Some err \<Rightarrow> (Some err, [])
            | None \<Rightarrow> (case write payload of Some err \<Rightarrow> (Some err, dir) | None \<Rightarrow> (None, dir @ payload))))
       (fold (write_ico_step src) ico_sizes (Some ([0, 0, 1, 0, of_nat (length ico_sizes), 0], [])))"

lemma same_steps: "ico_step (as_image img) = write_ico_step img"
  by (intro ext) (simp add: ico_step_def write_ico_step_def scale_box_rgba rgba_dib u32le_eq icon_sizes_def ico_sizes_def
      split: option.splits)

subsection \<open>Reading an icon back\<close>

text \<open>The format's reader: the directory entry of 16 bytes gives size, length and offset of a bitmap,
  the bitmap's header its width and twice its height; pixels are blue, green, red, alpha, the lowest
  row first.\<close>

definition read_bgra :: "bytes \<Rightarrow> pixel" where
  "read_bgra bs = \<lparr>px_r = bs ! 2, px_g = bs ! 1, px_b = bs ! 0, px_a = bs ! 3\<rparr>"

definition read_dib :: "bytes \<Rightarrow> rgba_image" where
  "read_dib bs =
     (let w = nat (le_int (take 4 (drop 4 bs))); h = nat (le_int (take 4 (drop 8 bs))) div 2 in
      \<lparr>ri_width = w, ri_height = h,
       ri_pix = grid w h (\<lambda>x y. read_bgra (take 4 (drop (((h - 1 - y) * w + x) * 4) (drop 40 bs))))\<rparr>)"

definition entry_bytes :: "nat \<times> int \<times> int \<Rightarrow> bytes" where
  "entry_bytes e = (case e of (s, len, off) \<Rightarrow>
     [size_byte s, size_byte s, 0, 0, 1, 0, 32, 0] @ put_u32le len @ put_u32le off)"

definition read_entry :: "bytes \<Rightarrow> nat \<times> int \<times> int" where
  "read_entry bs = (if bs ! 0 = 0 then 256 else unat (bs ! 0), le_int (take 4 (drop 8 bs)), le_int (take 4 (drop 12 bs)))"

definition read_icon :: "bytes \<Rightarrow> nat \<Rightarrow> nat \<times> rgba_image" where
  "read_icon bs k = (case read_entry (take 16 (drop (k * 16) (drop 6 bs))) of
     (s, len, off) \<Rightarrow> (s, read_dib (take (nat len) (drop (nat off) bs))))"

interpretation bgra_codec: fixed_codec bgra read_bgra 4 "\<lambda>_. True"
  by unfold_locales (simp_all add: bgra_def read_bgra_def)

definition entry_ok :: "nat \<times> int \<times> int \<Rightarrow> bool" where
  "entry_ok e = (case e of (s, len, off) \<Rightarrow>
     0 < s \<and> s \<le> 256 \<and> 0 \<le> len \<and> len < 2 ^ 32 \<and> 0 \<le> off \<and> off < 2 ^ 32)"

lemma size_byte_read: "0 < s \<Longrightarrow> s \<le> 256 \<Longrightarrow> (if size_byte s = 0 then 256 else unat (size_byte s)) = s"
proof (cases "s = 256")
  case False
  assume "0 < s" "s \<le> 256"
  with False have "unat (of_nat s :: 8 word) = s" by (simp add: unat_of_nat)
  with \<open>0 < s\<close> \<open>s \<le> 256\<close> False show ?thesis by (auto simp: size_byte_def)
qed (simp add: size_byte_def)

interpretation entry_codec: fixed_codec entry_bytes read_entry 16 entry_ok
proof unfold_locales
  show "length (entry_bytes e) = 16" for e by (simp add: entry_bytes_def split: prod.split)
  show "entry_ok e \<Longrightarrow> read_entry (entry_bytes e) = e" for e
    using size_byte_read [of "fst e"] le_int_u32
    by (auto simp: entry_bytes_def read_entry_def entry_ok_def split: prod.splits)
qed

definition rgba_ok :: "rgba_image \<Rightarrow> bool" where
  "rgba_ok img \<longleftrightarrow> length (ri_pix img) = ri_width img * ri_height img \<and> ri_width img < 2 ^ 31 \<and> ri_height img < 2 ^ 31"

lemma read_dib_to_dib:
  assumes "rgba_ok img"
  shows "read_dib (to_dib img) = img"
proof -
  let ?w = "ri_width img" and ?h = "ri_height img"
  let ?ps = "grid ?w ?h (\<lambda>x y. rgba_at img (int x) (int (?h - 1 - y)))"
  obtain rest where d: "drop 40 (to_dib img) = concat (map bgra ?ps) @ rest"
    by (simp add: to_dib_pixels Let_def)
  have hd: "nat (le_int (take 4 (drop 4 (to_dib img)))) = ?w" "nat (le_int (take 4 (drop 8 (to_dib img)))) div 2 = ?h"
    using assms by (simp_all add: to_dib_def Let_def u32le_eq le_int_u32 rgba_ok_def)
  have "read_bgra (take 4 (drop (((?h - 1 - y) * ?w + x) * 4) (drop 40 (to_dib img)))) = ri_pix img ! (y * ?w + x)"
    if "x < ?w" "y < ?h" for x y
  proof -
    have l: "(?h - 1 - y) * ?w + x < length ?ps"
      using that grid_bound [of x ?w "?h - 1 - y" ?h] by simp
    have "?ps ! ((?h - 1 - y) * ?w + x) = rgba_at img (int x) (int (?h - 1 - (?h - 1 - y)))"
      using that by (intro grid_nth) auto
    also have "\<dots> = ri_pix img ! (y * ?w + x)" using that by (simp add: rgba_at_def)
    finally show ?thesis unfolding d bgra_codec.decode_record [OF l TrueI] .
  qed
  then have "grid ?w ?h (\<lambda>x y. read_bgra (take 4 (drop (((?h - 1 - y) * ?w + x) * 4) (drop 40 (to_dib img))))) =
      grid ?w ?h (\<lambda>x y. ri_pix img ! (y * ?w + x))"
    by (intro grid_eqI) blast
  with hd assms show ?thesis by (simp add: read_dib_def Let_def rgba_ok_def grid_of_list)
qed

text \<open>The directory a run of entries leaves: each one's offset is the end of the ones before.\<close>

fun ico_entries :: "nat \<Rightarrow> (nat \<times> bytes) list \<Rightarrow> (nat \<times> int \<times> int) list" where
  "ico_entries off [] = []"
| "ico_entries off ((s, b) # r) = (s, int (length b), int off) # ico_entries (off + length b) r"

lemma ico_entries_nth:
  "k < length es \<Longrightarrow> ico_entries off es ! k =
     (fst (es ! k), int (length (snd (es ! k))), int (off + length (concat (map snd (take k es)))))"
proof (induction off es arbitrary: k rule: ico_entries.induct)
  case (2 off s b r)
  then show ?case by (cases k) (simp_all add: ac_simps)
qed simp

lemma ico_entries_length [simp]: "length (ico_entries off es) = length es"
  by (induction off es rule: ico_entries.induct) simp_all

definition scaled :: "image \<Rightarrow> nat \<Rightarrow> nat \<times> bytes" where
  "scaled src s = (s, to_dib (the (scale_box src s)))"

lemma drop_two: "drop (length a + length b) (a @ b @ c) = c"
  by simp

lemma fold_ico_step:
  "\<forall>s\<in>set ss. scale_box src s \<noteq> None \<Longrightarrow>
   fold (ico_step src) ss (Some (dir, payload)) =
     Some (dir @ concat (map entry_bytes (ico_entries (118 + length payload) (map (scaled src) ss))),
       payload @ concat (map (\<lambda>s. snd (scaled src s)) ss))"
proof (induction ss arbitrary: dir payload)
  case (Cons s ss)
  then show ?case by (auto simp: ico_step_def scaled_def rgba_dib Let_def icon_sizes_def entry_bytes_def add.assoc)
qed simp

lemma scaled_length: "scale_box src s = Some im \<Longrightarrow> length (to_dib im) = 40 + s * s * 4 + and_row s * s"
  by (auto simp: scale_box_def Let_def to_dib_pixels bgra_codec.length_all split: if_splits)

lemma scaled_sizes:
  assumes "\<And>s. s \<in> set icon_sizes \<Longrightarrow> \<exists>im. scale_box src s = Some im"
  shows "(\<Sum>s\<leftarrow>icon_sizes. length (snd (scaled src s))) < 2 ^ 20"
proof -
  have "(\<Sum>s\<leftarrow>icon_sizes. length (snd (scaled src s))) = (\<Sum>s\<leftarrow>icon_sizes. 40 + s * s * 4 + and_row s * s)"
    using assms by (intro arg_cong [where f = sum_list] map_cong refl) (fastforce simp: scaled_def dest: scaled_length)
  also have "\<dots> < 2 ^ 20" by (simp add: icon_sizes_def and_row_def)
  finally show ?thesis .
qed

lemma scale_box_ok: "scale_box src s = Some im \<Longrightarrow> s < 2 ^ 31 \<Longrightarrow> rgba_ok im"
  by (auto simp: scale_box_def Let_def rgba_ok_def split: if_splits)

lemma all_sizes_scale:
  assumes "256 \<le> im_width src" and "256 \<le> im_height src" and "s \<in> set icon_sizes"
  shows "\<exists>im. scale_box src s = Some im"
proof -
  from assms(3) have "0 < s" "s \<le> 256" by (auto simp: icon_sizes_def)
  with assms(1,2) have "0 < im_width src div s" "0 < im_height src div s" by (simp_all add: div_greater_zero_iff)
  then show ?thesis by (simp add: scale_box_def Let_def)
qed

text \<open>The file: a header, the directory, the bitmaps; and where the \<open>k\<close>-th bitmap lies.\<close>

lemma encode_ico_layout:
  assumes "\<And>s. s \<in> set icon_sizes \<Longrightarrow> \<exists>im. scale_box src s = Some im"
  shows "encode_ico src = Some (([0, 0, 1, 0, 7, 0] @ concat (map entry_bytes (ico_entries 118 (map (scaled src) icon_sizes))))
    @ concat (map snd (map (scaled src) icon_sizes)))"
proof -
  have "fold (ico_step src) icon_sizes (Some ([0, 0, 1, 0, of_nat (length icon_sizes), 0], [])) =
      Some ([0, 0, 1, 0, of_nat (length icon_sizes), 0] @ concat (map entry_bytes (ico_entries 118 (map (scaled src) icon_sizes))),
        concat (map snd (map (scaled src) icon_sizes)))"
    using fold_ico_step [of icon_sizes src] assms by (auto simp: comp_def)
  then show ?thesis by (simp add: encode_ico_def icon_sizes_def)
qed

lemma payload_split:
  assumes "k < length icon_sizes" and "scale_box src (icon_sizes ! k) = Some im"
  shows "concat (map snd (map (scaled src) icon_sizes)) =
    concat (map snd (take k (map (scaled src) icon_sizes))) @ to_dib im @ concat (map snd (drop (Suc k) (map (scaled src) icon_sizes)))"
proof -
  have k: "k < length (map (scaled src) icon_sizes)" using assms(1) by simp
  have "snd (map (scaled src) icon_sizes ! k) = to_dib im" using assms by (simp only: nth_map scaled_def snd_conv option.sel)
  then show ?thesis
    by (subst id_take_nth_drop [OF k]) (simp only: map_append concat_append list.map concat.simps)
qed

lemma payload_small:
  assumes "k < length icon_sizes" and "scale_box src (icon_sizes ! k) = Some im"
    and "\<And>s. s \<in> set icon_sizes \<Longrightarrow> \<exists>im. scale_box src s = Some im"
  shows "length (to_dib im) < 2 ^ 20" and "length (concat (map snd (take k (map (scaled src) icon_sizes)))) < 2 ^ 20"
proof -
  have "length (concat (map snd (map (scaled src) icon_sizes))) = (\<Sum>s\<leftarrow>icon_sizes. length (snd (scaled src s)))"
    by (simp only: length_concat map_map comp_def)
  also have "\<dots> < 2 ^ 20" by (rule scaled_sizes) (rule assms(3))
  finally show "length (to_dib im) < 2 ^ 20" "length (concat (map snd (take k (map (scaled src) icon_sizes)))) < 2 ^ 20"
    unfolding payload_split [OF assms(1,2)] by simp_all
qed

subsection \<open>Properties\<close>

text \<open>C34: the tray and the icon generator, which each have their own box filter, number writers and
  bitmap encoder, make the same icon file of the same picture, byte for byte; and where one of them
  panics, so does the other.\<close>

theorem icon_programs_agree:
  "encode_ico (as_image img) = map_option snd (write_ico (\<lambda>_. None) (\<lambda>_. None) img path)"
  by (simp add: encode_ico_def write_ico_def same_steps option.map_comp)
    (simp add: icon_sizes_def ico_sizes_def comp_def case_prod_beta')

text \<open>C21: the icon the tray hands to Windows reads back as what was put in. For any picture of at least
  256 by 256 pixels the conversion returns an icon, and the \<open>k\<close>-th of its seven directory entries gives
  the \<open>k\<close>-th size and leads, by its offset and length, to a bitmap that decodes to exactly the
  picture scaled to that size.\<close>

theorem icon_reads_back:
  assumes "256 \<le> im_width src" and "256 \<le> im_height src" and "k < 7"
  shows "\<exists>out im. encode_ico src = Some out \<and> scale_box src (icon_sizes ! k) = Some im \<and>
    read_icon out k = (icon_sizes ! k, im)"
proof -
  let ?es = "map (scaled src) icon_sizes" and ?s = "icon_sizes ! k"
  let ?ents = "ico_entries 118 ?es" and ?pre = "concat (map snd (take k ?es))"
  let ?head = "[0, 0, 1, 0, 7, 0] @ concat (map entry_bytes ?ents)" and ?post = "concat (map snd (drop (Suc k) ?es))"
  note some = all_sizes_scale [OF assms(1,2)]
  have k: "k < length ?es" "k < length icon_sizes" using assms(3) by (simp_all add: icon_sizes_def)
  obtain im where im: "scale_box src ?s = Some im" using some [OF nth_mem [OF k(2)]] by auto
  have e: "?ents ! k = (?s, int (length (to_dib im)), int (118 + length ?pre))"
    using k im by (simp add: ico_entries_nth scaled_def)
  note pay = payload_split [OF k(2) im] and b = payload_small [OF k(2) im some]
  have ok: "entry_ok (?ents ! k)" using b nth_mem [OF k(2)] unfolding e by (auto simp: entry_ok_def icon_sizes_def)
  have "read_entry (take 16 (drop (k * 16) (drop 6 (?head @ concat (map snd ?es))))) = ?ents ! k"
    using entry_codec.decode_record [of k ?ents "concat (map snd ?es)", OF _ ok] k(1) by simp
  moreover have "drop (118 + length ?pre) (?head @ concat (map snd ?es)) = to_dib im @ ?post"
  proof -
    have "length ?head = 118" using entry_codec.length_all [of ?ents] by (simp add: icon_sizes_def)
    from drop_two [of ?head ?pre "to_dib im @ ?post", unfolded this] show ?thesis unfolding pay by (simp only: append_assoc)
  qed
  moreover have "rgba_ok im" using scale_box_ok [OF im] nth_mem [OF k(2)] by (auto simp: icon_sizes_def)
  ultimately have "read_icon (?head @ concat (map snd ?es)) k = (?s, im)"
    unfolding e by (simp only: read_icon_def prod.case nat_int append_take_drop_id take_append) (simp add: read_dib_to_dib)
  with encode_ico_layout [OF some] im show ?thesis by (simp only: append_assoc) blast
qed

lemma icon_reads_back_witness:
  "\<exists>out im. encode_ico (as_image \<lparr>ri_width = 256, ri_height = 256, ri_pix = []\<rparr>) = Some out \<and> read_icon out 3 = (48, im)"
  using icon_reads_back [of "as_image \<lparr>ri_width = 256, ri_height = 256, ri_pix = []\<rparr>" 3]
  by (auto simp: as_image_def icon_sizes_def)

subsection \<open>Sizes that do not divide the source\<close>

text \<open>Comments in both programs say that 256 is a multiple of every size. It is not one of 24 and 48: of a
  256 pixel badge these icons show the upper left 240 by 240 pixels only, whatever the rest holds.\<close>

lemma small_icons_crop:
  assumes "s \<in> {24, 48}" and "im_width a = 256" "im_height a = 256" "im_width b = 256" "im_height b = 256"
    and "im_minx a = 0" "im_miny a = 0" "im_minx b = 0" "im_miny b = 0"
    and same: "\<And>x y. x < 240 \<Longrightarrow> y < 240 \<Longrightarrow> im_at a (int x) (int y) = im_at b (int x) (int y)"
  shows "scale_box a s = scale_box b s"
proof -
  let ?f = "256 div s"
  have f: "s * ?f = 240" "0 < ?f" using assms(1) by auto
  have "im_at a (int (x * ?f + sx)) (int (y * ?f + sy)) = im_at b (int (x * ?f + sx)) (int (y * ?f + sy))"
    if "x < s" "y < s" "sx < ?f" "sy < ?f" for x y sx sy
    using that f grid_bound [of sx ?f x s] grid_bound [of sy ?f y s] by (intro same) (simp_all add: mult.commute)
  then have "box_sum (im_at a) ?f ?f x y = box_sum (im_at b) ?f ?f x y" if "x < s" "y < s" for x y
    using that unfolding box_sum_def by (intro fold_cong refl ext) simp
  then have "grid s s (\<lambda>x y. g (box_sum (im_at a) ?f ?f x y)) = grid s s (\<lambda>x y. g (box_sum (im_at b) ?f ?f x y))" for g :: "_ \<Rightarrow> pixel"
    by (intro grid_eqI) simp
  from this [of "\<lambda>v. byte_pixel (map_channels (\<lambda>u. u div (?f * ?f)) v)"] show ?thesis
    unfolding scale_box_def Let_def assms(2-9) add_0 by simp
qed

end
