(* ===== verification/IconGen.thy ===== *)
theory IconGen
  imports TrayIcons Complex_Main
begin

text \<open>
  The icon generator, \<open>cmd/icon-gen/main.go\<close>: drawing a state badge with floating-point geometry
  (\<open>renderBadge\<close>, \<open>inRoundedRect\<close>, \<open>inTheta\<close>, \<open>mix\<close>, \<open>clamp01\<close>), and the files it writes. A 64-bit float
  is the real number it stands for; an operation rounds the exact result. What the machine may choose
  is an argument: ties, whether a product and a sum are fused into one rounding, and the square root
  of \<open>math.Hypot\<close>. The library knows of them what IEEE 754 says: a result is representable, and no
  representable number is nearer. The badges of the palette do not depend on the rest: they are those
  of a reference in integers.
\<close>

subsection \<open>Floating point\<close>

record float_unit =
  fu_round :: "real \<Rightarrow> real"
  fu_fused :: "real \<Rightarrow> real \<Rightarrow> real \<Rightarrow> bool"
  fu_hypot :: "real \<Rightarrow> real \<Rightarrow> real"

definition fadd :: "float_unit \<Rightarrow> real \<Rightarrow> real \<Rightarrow> real" where
  "fadd fu x y = fu_round fu (x + y)"

definition fsub :: "float_unit \<Rightarrow> real \<Rightarrow> real \<Rightarrow> real" where
  "fsub fu x y = fu_round fu (x - y)"

definition fmul :: "float_unit \<Rightarrow> real \<Rightarrow> real \<Rightarrow> real" where
  "fmul fu x y = fu_round fu (x * y)"

definition fdiv :: "float_unit \<Rightarrow> real \<Rightarrow> real \<Rightarrow> real" where
  "fdiv fu x y = fu_round fu (x / y)"

text \<open>\<open>x * y + z\<close>: the compiler may fuse the two operations.\<close>

definition fmul_add :: "float_unit \<Rightarrow> real \<Rightarrow> real \<Rightarrow> real \<Rightarrow> real" where
  "fmul_add fu x y z = fadd fu (if fu_fused fu x y z then x * y else fmul fu x y) z"

text \<open>\<open>uint8(v)\<close> drops the fraction.\<close>

definition float_byte :: "real \<Rightarrow> 8 word" where
  "float_byte v = word_of_int (if 0 \<le> v then \<lfloor>v\<rfloor> else \<lceil>v\<rceil>)"

definition byte_float :: "8 word \<Rightarrow> real" where
  "byte_float b = real (unat b)"

subsection \<open>Drawing a badge\<close>

definition mix :: "float_unit \<Rightarrow> pixel \<Rightarrow> pixel \<Rightarrow> real \<Rightarrow> pixel" where
  "mix fu a b t =
     (let ch = (\<lambda>p q. float_byte (fmul_add fu (fsub fu (byte_float q) (byte_float p)) t (byte_float p)))
      in \<lparr>px_r = ch (px_r a) (px_r b), px_g = ch (px_g a) (px_g b), px_b = ch (px_b a) (px_b b), px_a = 0xFF\<rparr>)"

definition lerp :: "float_unit \<Rightarrow> pixel \<Rightarrow> pixel \<Rightarrow> real \<Rightarrow> pixel" where
  "lerp fu a b t = mix fu a b t"

definition clamp01 :: "real \<Rightarrow> real" where
  "clamp01 v = (if v < 0 then 0 else if 1 < v then 1 else v)"

definition in_rounded_rect :: "float_unit \<Rightarrow> real \<Rightarrow> real \<Rightarrow> real \<Rightarrow> real \<Rightarrow> real \<Rightarrow> real \<Rightarrow> bool" where
  "in_rounded_rect fu x y cx cy half r =
     (let dx = fsub fu \<bar>fsub fu x cx\<bar> (fsub fu half r);
          dy = fsub fu \<bar>fsub fu y cy\<bar> (fsub fu half r)
      in if dx \<le> 0 \<and> dy \<le> 0 then True else fmul_add fu dx dx (fmul fu dy dy) \<le> fmul fu r r)"

definition in_theta :: "float_unit \<Rightarrow> real \<Rightarrow> real \<Rightarrow> real \<Rightarrow> real \<Rightarrow> real \<Rightarrow> real \<Rightarrow> real \<Rightarrow> real \<Rightarrow> bool" where
  "in_theta fu x y cx cy ring_outer ring_inner bar_half bar_len =
     (let d = fu_hypot fu (fsub fu x cx) (fsub fu y cy);
          in_ring = ring_inner \<le> d \<and> d \<le> ring_outer;
          in_bar = \<bar>fsub fu y cy\<bar> \<le> bar_half \<and> \<bar>fsub fu x cx\<bar> \<le> bar_len
      in in_ring \<or> in_bar)"

definition white :: pixel where
  "white = \<lparr>px_r = 0xFF, px_g = 0xFF, px_b = 0xFF, px_a = 0xFF\<rparr>"

definition black :: pixel where
  "black = \<lparr>px_r = 0, px_g = 0, px_b = 0, px_a = 0xFF\<rparr>"

text \<open>The four sums of a pixel; one of the 4 by 4 samples of the pixel adds its colour, or nothing
  outside the badge.\<close>

type_synonym channel_sums = "real \<times> real \<times> real \<times> real"

definition sample :: "float_unit \<Rightarrow> pixel \<Rightarrow> pixel \<Rightarrow> nat \<Rightarrow> nat \<Rightarrow> nat \<Rightarrow> nat \<Rightarrow> channel_sums \<Rightarrow> channel_sums" where
  "sample fu upper lower px py sy sx acc =
     (let cx = 128; cy = 128; half = 120;
          x = fadd fu (real px) (fdiv fu (fadd fu (real sx) (1 / 2)) 4);
          y = fadd fu (real py) (fdiv fu (fadd fu (real sy) (1 / 2)) 4)
      in if \<not> in_rounded_rect fu x y cx cy half 52 then acc
      else
        let t = clamp01 (fdiv fu (fsub fu y (fsub fu cy half)) (fmul fu 2 half));
            col = (if in_theta fu x y cx cy 80 56 12 86 then white else lerp fu upper lower t)
        in case acc of (r, g, b, a) \<Rightarrow>
             (fadd fu r (byte_float (px_r col)), fadd fu g (byte_float (px_g col)),
              fadd fu b (byte_float (px_b col)), fadd fu a 255))"

definition badge_pixel :: "float_unit \<Rightarrow> pixel \<Rightarrow> pixel \<Rightarrow> nat \<Rightarrow> nat \<Rightarrow> pixel" where
  "badge_pixel fu upper lower px py =
     (case fold (\<lambda>sy. fold (sample fu upper lower px py sy) [0..<4]) [0..<4] (0, 0, 0, 0) of (r, g, b, a) \<Rightarrow>
        \<lparr>px_r = float_byte (fdiv fu r 16), px_g = float_byte (fdiv fu g 16),
         px_b = float_byte (fdiv fu b 16), px_a = float_byte (fdiv fu a 16)\<rparr>)"

definition render_badge :: "float_unit \<Rightarrow> pixel \<Rightarrow> rgba_image" where
  "render_badge fu base =
     (let upper = mix fu base white (fu_round fu (16 / 100));
          lower = mix fu base black (fu_round fu (20 / 100))
      in \<lparr>ri_width = 256, ri_height = 256, ri_pix = grid 256 256 (badge_pixel fu upper lower)\<rparr>)"

subsection \<open>The palette\<close>

definition palette :: "(string \<times> pixel) list" where
  "palette =
     [(''Red'', \<lparr>px_r = 0xEF, px_g = 0x44, px_b = 0x44, px_a = 0xFF\<rparr>),
      (''Yellow'', \<lparr>px_r = 0xEA, px_g = 0xB3, px_b = 0x08, px_a = 0xFF\<rparr>),
      (''Green'', \<lparr>px_r = 0x22, px_g = 0xC5, px_b = 0x5E, px_a = 0xFF\<rparr>),
      (''Blue'', \<lparr>px_r = 0x3B, px_g = 0x82, px_b = 0xF6, px_a = 0xFF\<rparr>)]"

subsection \<open>The reference, in integers\<close>

text \<open>Sample points in eighths of a pixel.\<close>

definition sample_at :: "nat \<Rightarrow> nat \<Rightarrow> int" where
  "sample_at p s = 8 * int p + 2 * int s + 1"

definition in_square :: "int \<Rightarrow> int \<Rightarrow> bool" where
  "in_square x y =
     (let dx = \<bar>x - 1024\<bar> - 544; dy = \<bar>y - 1024\<bar> - 544 in dx \<le> 0 \<and> dy \<le> 0 \<or> dx * dx + dy * dy \<le> 416 * 416)"

definition in_glyph :: "int \<Rightarrow> int \<Rightarrow> bool" where
  "in_glyph x y =
     (let d = (x - 1024) * (x - 1024) + (y - 1024) * (y - 1024) in
      448 * 448 \<le> d \<and> d \<le> 640 * 640 \<or> \<bar>y - 1024\<bar> \<le> 96 \<and> \<bar>x - 1024\<bar> \<le> 688)"

text \<open>The point \<open>n / m\<close> of the way from one byte to another, rounded down.\<close>

definition between :: "int \<Rightarrow> int \<Rightarrow> 8 word \<Rightarrow> 8 word \<Rightarrow> 8 word" where
  "between n m p q = word_of_int ((m * uint p + (uint q - uint p) * n) div m)"

definition mix_pixels :: "int \<Rightarrow> int \<Rightarrow> pixel \<Rightarrow> pixel \<Rightarrow> pixel" where
  "mix_pixels n m a b =
     \<lparr>px_r = between n m (px_r a) (px_r b), px_g = between n m (px_g a) (px_g b),
      px_b = between n m (px_b a) (px_b b), px_a = 0xFF\<rparr>"

definition exact_sample :: "pixel \<Rightarrow> pixel \<Rightarrow> nat \<Rightarrow> nat \<Rightarrow> nat \<Rightarrow> nat \<Rightarrow> nat \<times> nat \<times> nat \<times> nat \<Rightarrow> nat \<times> nat \<times> nat \<times> nat" where
  "exact_sample upper lower px py sy sx acc =
     (let x = sample_at px sx; y = sample_at py sy in
      if \<not> in_square x y then acc
      else
        let col = (if in_glyph x y then white else mix_pixels (y - 64) 1920 upper lower)
        in add_channels acc (unat (px_r col), unat (px_g col), unat (px_b col), 255))"

definition exact_pixel :: "pixel \<Rightarrow> pixel \<Rightarrow> nat \<Rightarrow> nat \<Rightarrow> pixel" where
  "exact_pixel upper lower px py =
     byte_pixel (map_channels (\<lambda>v. v div 16)
       (fold (\<lambda>sy. fold (exact_sample upper lower px py sy) [0..<4]) [0..<4] (0, 0, 0, 0)))"

definition exact_badge :: "pixel \<Rightarrow> rgba_image" where
  "exact_badge base =
     \<lparr>ri_width = 256, ri_height = 256,
      ri_pix = grid 256 256 (exact_pixel (mix_pixels 4 25 base white) (mix_pixels 1 5 base black))\<rparr>"

subsection \<open>What IEEE 754 promises\<close>

definition is_double :: "real \<Rightarrow> bool" where
  "is_double d \<longleftrightarrow> (\<exists>(k :: int) e. \<bar>k\<bar> < 2 ^ 53 \<and> (d = of_int k * 2 ^ e \<and> e \<le> 971 \<or> d = of_int k / 2 ^ e \<and> e \<le> 1074))"

text \<open>Without overflow an operation gives a nearest double. \<open>math.Hypot\<close> is a few operations: far from
  over- and underflow its relative error is small.\<close>

definition float_ok :: "float_unit \<Rightarrow> bool" where
  "float_ok fu \<longleftrightarrow>
     (\<forall>x. \<bar>x\<bar> \<le> 2 ^ 1000 \<longrightarrow> is_double (fu_round fu x) \<and> (\<forall>d. is_double d \<longrightarrow> \<bar>fu_round fu x - x\<bar> \<le> \<bar>d - x\<bar>)) \<and>
     (\<forall>p q. \<bar>p\<bar> \<in> {1 / 2 ^ 100..2 ^ 100} \<and> \<bar>q\<bar> \<in> {1 / 2 ^ 100..2 ^ 100} \<longrightarrow>
        \<bar>fu_hypot fu p q - sqrt (p\<^sup>2 + q\<^sup>2)\<bar> \<le> sqrt (p\<^sup>2 + q\<^sup>2) / 2 ^ 40)"

lemma double_dyadic: "\<bar>k\<bar> < 2 ^ 53 \<Longrightarrow> e \<le> 1074 \<Longrightarrow> is_double (of_int k / 2 ^ e)"
  unfolding is_double_def by blast

lemma round_nearest: "float_ok fu \<Longrightarrow> \<bar>x\<bar> \<le> 2 ^ 1000 \<Longrightarrow> is_double d \<Longrightarrow> \<bar>fu_round fu x - x\<bar> \<le> \<bar>d - x\<bar>"
  by (simp add: float_ok_def)

lemma big: "\<bar>x :: real\<bar> \<le> 2 ^ 60 \<Longrightarrow> \<bar>x\<bar> \<le> 2 ^ 1000"
  using power_increasing [of 60 1000 "2 :: real"] by simp

text \<open>A number of 53 bits is kept; any number within the picture is off by little; and next to an
  integer from 64 on there is nothing else to round to.\<close>

lemma round_dyadic:
  assumes "float_ok fu" and "\<bar>k\<bar> < 2 ^ 53" and "e \<le> 1074"
  shows "fu_round fu (of_int k / 2 ^ e) = of_int k / 2 ^ e"
proof -
  have "\<bar>of_int k :: real\<bar> \<le> 2 ^ 60"
    using assms(2) of_int_less_iff [of "\<bar>k\<bar>" "2 ^ 53", where ?'a = real] by simp
  moreover have "\<bar>of_int k / 2 ^ e :: real\<bar> \<le> \<bar>of_int k\<bar>"
    using divide_left_mono [of 1 "2 ^ e" "\<bar>of_int k\<bar> :: real"] by (simp add: abs_div_pos [symmetric])
  ultimately have "\<bar>of_int k / 2 ^ e :: real\<bar> \<le> 2 ^ 60" by linarith
  from round_nearest [OF assms(1) big [OF this] double_dyadic [OF assms(2,3)]] show ?thesis by simp
qed

lemma round_int: "float_ok fu \<Longrightarrow> \<bar>k\<bar> < 2 ^ 53 \<Longrightarrow> fu_round fu (of_int k) = of_int k"
  using round_dyadic [of fu k 0] by simp

lemma round_close:
  assumes "float_ok fu" and "\<bar>x\<bar> \<le> 2 ^ 12"
  shows "\<bar>fu_round fu x - x\<bar> \<le> 1 / 2 ^ 40"
proof -
  let ?k = "\<lfloor>x * 2 ^ 40\<rfloor>"
  have "\<bar>x * 2 ^ 40\<bar> \<le> 2 ^ 52" using assms(2) by (simp add: abs_mult)
  then have "\<bar>?k\<bar> < 2 ^ 53" by (simp add: abs_le_iff abs_less_iff) linarith
  from double_dyadic [OF this, of 40] have d: "is_double (of_int ?k / 2 ^ 40)" by simp
  have "\<bar>x\<bar> \<le> 2 ^ 60" using assms(2) by simp
  from round_nearest [OF assms(1) big [OF this] d] have "\<bar>fu_round fu x - x\<bar> \<le> \<bar>of_int ?k / 2 ^ 40 - x\<bar>" .
  moreover have "\<bar>of_int ?k - x * 2 ^ 40\<bar> \<le> 1" by linarith
  then have "\<bar>of_int ?k / 2 ^ 40 - x\<bar> \<le> 1 / 2 ^ 40" by (simp add: abs_le_iff field_simps)
  ultimately show ?thesis by linarith
qed

lemma round_near:
  assumes "float_ok fu" and "\<bar>x - of_int n\<bar> \<le> r" and "\<bar>n\<bar> < 2 ^ 53" and "r \<le> 1"
  shows "\<bar>fu_round fu x - of_int n\<bar> \<le> 2 * r"
proof -
  have "\<bar>of_int n :: real\<bar> < 2 ^ 53"
    using assms(3) of_int_less_iff [of "\<bar>n\<bar>" "2 ^ 53", where ?'a = real] by simp
  then have "\<bar>x\<bar> \<le> 2 ^ 60" using assms(2,4) by simp
  from round_nearest [OF assms(1) big [OF this] double_dyadic [OF assms(3), of 0]] assms(2) show ?thesis by simp
qed

lemma double_steps:
  assumes "is_double d" and "64 \<le> \<bar>d\<bar>"
  shows "\<exists>j :: int. d = of_int j / 2 ^ 46"
proof -
  obtain k :: int and e where k: "\<bar>k\<bar> < 2 ^ 53" "d = of_int k * 2 ^ e \<or> d = of_int k / 2 ^ e"
    using assms(1) unfolding is_double_def by blast
  from k(2) show ?thesis
  proof
    assume "d = of_int k * 2 ^ e"
    then have "d = of_int (k * 2 ^ e * 2 ^ 46) / 2 ^ 46" by simp
    then show ?thesis by blast
  next
    assume d: "d = of_int k / 2 ^ e"
    have "\<bar>of_int k :: real\<bar> < 2 ^ 53" using k(1) of_int_less_iff [of "\<bar>k\<bar>" "2 ^ 53", where ?'a = real] by simp
    moreover have "64 * 2 ^ e \<le> \<bar>of_int k :: real\<bar>" using assms(2) unfolding d by (simp add: field_simps)
    ultimately have "(2 :: real) ^ (6 + e) < 2 ^ 53" by (simp only: power_add) simp
    then have "6 + e < 53" by (rule power_less_imp_less_exp [rotated]) simp
    then have "46 = e + (46 - e)" by simp
    then have p: "(2 :: real) ^ 46 = 2 ^ e * 2 ^ (46 - e)" by (metis power_add)
    have "d = of_int (k * 2 ^ (46 - e)) / 2 ^ 46" unfolding d p by simp
    then show ?thesis by blast
  qed
qed

lemma round_snaps:
  assumes "float_ok fu" and "\<bar>x - of_int n\<bar> \<le> r" and "2 * r < 1 / 2 ^ 46" and "65 \<le> n" "n < 2 ^ 40"
  shows "fu_round fu x = of_int n"
proof -
  have near: "\<bar>fu_round fu x - of_int n\<bar> < 1 / 2 ^ 46" using round_near [OF assms(1,2)] assms(3-5) by force
  have n: "(65 :: real) \<le> of_int n" "(of_int n :: real) < 2 ^ 40" using assms(4,5) of_int_less_iff [of n "2 ^ 40", where ?'a = real] by simp_all
  then have "\<bar>x\<bar> \<le> 2 ^ 60" using assms(2,3) by (simp add: abs_le_iff) 
  then have "is_double (fu_round fu x)" using assms(1) big unfolding float_ok_def by blast
  moreover have "\<bar>fu_round fu x - of_int n\<bar> < 1" by (rule less_trans [OF near]) simp
  then have "64 \<le> \<bar>fu_round fu x\<bar>" using n(1) by linarith
  ultimately obtain j :: int where j: "fu_round fu x = of_int j / 2 ^ 46" using double_steps by blast
  have "\<bar>of_int j - of_int n * 2 ^ 46 :: real\<bar> < 1" using near unfolding j by (simp add: abs_less_iff field_simps)
  then have "j = n * 2 ^ 46" by (simp add: abs_less_iff)
  then show ?thesis unfolding j by simp
qed

text \<open>The difference of two bytes is exact; the product and the sum are off by a little each.\<close>

lemma byte_diff:
  assumes "float_ok fu"
  shows "fsub fu (byte_float q) (byte_float p) = of_int (uint q - uint p)" and "\<bar>uint q - uint (p :: 8 word)\<bar> \<le> 255"
proof -
  have "0 \<le> uint p" "uint p \<le> 255" "0 \<le> uint q" "uint q \<le> 255"
    using uint_bounded [of p] uint_bounded [of q] by simp_all
  then show "\<bar>uint q - uint p\<bar> \<le> 255" by linarith
  then show "fsub fu (byte_float q) (byte_float p) = of_int (uint q - uint p)"
    using round_int [OF assms, of "uint q - uint p"] by (simp add: fsub_def byte_float_def)
qed

lemma mul_add_close:
  assumes fu: "float_ok fu" and xy: "\<bar>x * y\<bar> \<le> 1000" and z: "\<bar>z\<bar> \<le> 1000"
  shows "\<bar>fmul_add fu x y z - (x * y + z)\<bar> \<le> 1 / 2 ^ 39"
proof -
  define u where "u = (if fu_fused fu x y z then x * y else fmul fu x y)"
  have small: "1 / 2 ^ 40 \<le> (1 :: real)" "1 / 2 ^ 40 + 1 / 2 ^ 40 = (1 / 2 ^ 39 :: real)" by simp_all
  have "\<bar>x * y\<bar> \<le> 2 ^ 12" using xy by simp
  from round_close [OF fu this] have u: "\<bar>u - x * y\<bar> \<le> 1 / 2 ^ 40" by (simp add: fmul_def u_def)
  with xy z small have "\<bar>u + z\<bar> \<le> 4096" by linarith
  then have "\<bar>u + z\<bar> \<le> 2 ^ 12" by simp
  from round_close [OF fu this] have "\<bar>fmul_add fu x y z - (u + z)\<bar> \<le> 1 / 2 ^ 40" by (simp only: fmul_add_def fadd_def u_def)
  with u small show ?thesis by linarith
qed

lemma mix_close:
  assumes fu: "float_ok fu" and t: "\<bar>t - r\<bar> \<le> 1 / 2 ^ 38" and r: "0 \<le> r" "r \<le> 1" and D: "\<bar>D\<bar> \<le> 255" and p: "\<bar>p\<bar> \<le> 255"
  shows "\<bar>fmul_add fu D t p - (p + D * r)\<bar> \<le> 1 / 2 ^ 29"
proof -
  have "\<bar>D * t - D * r\<bar> = \<bar>D\<bar> * \<bar>t - r\<bar>" by (simp only: right_diff_distrib [symmetric] abs_mult)
  also have "\<dots> \<le> 255 * (1 / 2 ^ 38)" using D t by (intro mult_mono) simp_all
  finally have x: "\<bar>D * t - D * r\<bar> \<le> 255 * (1 / 2 ^ 38)" .
  have small: "255 * (1 / 2 ^ 38) \<le> (1 :: real)" "255 * (1 / 2 ^ 38) + 1 / 2 ^ 39 \<le> (1 / 2 ^ 29 :: real)" by simp_all
  have "\<bar>D * r\<bar> \<le> 255 * 1" unfolding abs_mult using D r by (intro mult_mono) simp_all
  with x small have "\<bar>D * t\<bar> \<le> 1000" by linarith
  from mul_add_close [OF fu this, of p] p have "\<bar>fmul_add fu D t p - (D * t + p)\<bar> \<le> 1 / 2 ^ 39" by linarith
  with x small show ?thesis by linarith
qed

text \<open>Halfway colours are never whole where \<open>m\<close> does not divide: what is dropped is what the integers drop.\<close>

lemma float_byte_floor:
  assumes "of_int k \<le> v" and "v < of_int k + 1" and "0 \<le> k"
  shows "float_byte v = word_of_int k"
proof -
  have "\<lfloor>v\<rfloor> = k" using assms by linarith
  moreover have "0 \<le> v" using assms by linarith
  ultimately show ?thesis by (simp add: float_byte_def)
qed

lemma mix_byte:
  assumes fu: "float_ok fu" and t: "\<bar>t - of_int n / of_int m\<bar> \<le> 1 / 2 ^ 38"
    and m: "0 < m" "m \<le> 2 ^ 12" "0 \<le> n" "n \<le> m" and frac: "\<not> m dvd (uint q - uint p) * n"
  shows "float_byte (fmul_add fu (fsub fu (byte_float q) (byte_float p)) t (byte_float p)) = between n m p q"
proof -
  define D where "D = uint q - uint p"
  define N where "N = m * uint p + D * n"
  let ?w = "fmul_add fu (of_int D) t (byte_float p)" and ?k = "N div m" and ?s = "N mod m"
  have r: "0 \<le> real_of_int n / of_int m" "real_of_int n / of_int m \<le> 1" using m by simp_all
  have p: "0 \<le> uint p" "uint p \<le> 255" "0 \<le> uint q" using uint_bounded [of p] by simp_all
  have D: "\<bar>of_int D :: real\<bar> \<le> 255" using byte_diff(2) [OF fu, of q p] unfolding D_def by linarith
  have P: "byte_float p = of_int (uint p)" by (simp add: byte_float_def)
  have "\<bar>byte_float p\<bar> \<le> 255" using p(1,2) unfolding P by linarith
  from mix_close [OF fu t r D this] have w: "\<bar>?w - (of_int (uint p) + of_int D * (of_int n / of_int m))\<bar> \<le> 1 / 2 ^ 29"
    unfolding P .
  have "\<not> m dvd N" using frac unfolding N_def D_def by (simp only: dvd_add_right_iff dvd_triv_left) simp
  then have "?s \<noteq> 0" by (simp add: dvd_eq_mod_eq_0)
  then have s: "1 \<le> ?s" "?s \<le> m - 1" using m(1) pos_mod_bound [of m N] pos_mod_sign [of m N] by linarith+
  have split: "of_int (uint p) + of_int D * (of_int n / of_int m) = real_of_int ?k + of_int ?s / of_int m"
  proof -
    have "real_of_int N = of_int m * of_int ?k + of_int ?s" by (metis mult_div_mod_eq of_int_add of_int_mult)
    moreover have "real_of_int N = of_int m * of_int (uint p) + of_int D * of_int n" by (simp only: N_def of_int_add of_int_mult)
    moreover have "real_of_int m \<noteq> 0" using m(1) by simp
    ultimately show ?thesis by (simp add: field_simps)
  qed
  have "1 / 2 ^ 12 \<le> 1 / real_of_int m" using m(1,2) of_int_le_iff [of m "2 ^ 12", where ?'a = real] by (simp add: frac_le)
  moreover have "1 / real_of_int m \<le> of_int ?s / of_int m" "of_int ?s / of_int m \<le> 1 - 1 / real_of_int m"
    using s m(1) by (simp_all add: field_simps)
  moreover have "(1 / 2 ^ 29 :: real) < 1 / 2 ^ 12" by simp
  ultimately have "of_int ?k \<le> ?w" "?w < of_int ?k + 1" using w unfolding split by linarith+
  moreover have "N = uint p * (m - n) + uint q * n" by (simp add: N_def D_def algebra_simps)
  then have "0 \<le> ?k" using p m by (simp add: pos_imp_zdiv_nonneg_iff)
  ultimately have "float_byte ?w = word_of_int ?k" by (rule float_byte_floor)
  then show ?thesis by (simp only: byte_diff(1) [OF fu] between_def N_def D_def)
qed

lemma mix_byte_whole:
  assumes fu: "float_ok fu" and t: "\<bar>t - of_int n / of_int m\<bar> \<le> 1 / 2 ^ 56"
    and m: "0 < m" and d: "\<bar>uint q - uint p\<bar> \<le> 130" and whole: "(uint q - uint p) * n = m * c"
    and c: "65 \<le> uint p + c" "uint p + c \<le> 255"
  shows "float_byte (fmul_add fu (fsub fu (byte_float q) (byte_float p)) t (byte_float p)) = between n m p q"
proof -
  define D where "D = uint q - uint p"
  let ?r = "of_int n / of_int m :: real" and ?y = "if fu_fused fu (of_int D) t (byte_float p) then of_int D * t else fmul fu (of_int D) t"
  have P: "byte_float p = of_int (uint p)" by (simp add: byte_float_def)
  have p: "0 \<le> uint p" "uint p \<le> 255" using uint_bounded [of p] by simp_all
  have "real_of_int D * of_int n = of_int m * of_int c" using whole unfolding D_def [symmetric] by (metis of_int_mult)
  then have e: "of_int D * ?r = of_int c" using m by (simp add: field_simps)
  have "\<bar>of_int D * t - of_int D * ?r\<bar> = \<bar>of_int D\<bar> * \<bar>t - ?r\<bar>" by (simp only: right_diff_distrib [symmetric] abs_mult)
  also have "\<dots> \<le> 130 * (1 / 2 ^ 56)" using d t unfolding D_def [symmetric] by (intro mult_mono) linarith+
  finally have x: "\<bar>of_int D * t - of_int c\<bar> \<le> 130 / 2 ^ 56" unfolding e by simp
  have "\<bar>c\<bar> \<le> 255" using c p by linarith
  then have "\<bar>c\<bar> < 2 ^ 53" by simp
  then have "\<bar>?y - of_int c\<bar> \<le> 2 * (130 / 2 ^ 56)" using x round_near [OF fu x] by (auto simp: fmul_def)
  then have y: "\<bar>?y + byte_float p - of_int (uint p + c)\<bar> \<le> 2 * (130 / 2 ^ 56)" unfolding P of_int_add by linarith
  have "fmul_add fu (of_int D) t (byte_float p) = of_int (uint p + c)"
    unfolding fmul_add_def fadd_def by (rule round_snaps [OF fu y]) (use c in simp_all)
  then have "float_byte (fmul_add fu (of_int D) t (byte_float p)) = word_of_int (uint p + c)"
    using float_byte_floor [of "uint p + c" "of_int (uint p + c)"] c by simp
  moreover have "(m * uint p + D * n) div m = uint p + c"
    using whole m unfolding D_def [symmetric] by (simp add: distrib_left [symmetric])
  ultimately show ?thesis by (simp only: byte_diff(1) [OF fu] between_def D_def)
qed

subsection \<open>The shape is exact\<close>

lemma round_eq: "float_ok fu \<Longrightarrow> x = of_int k / 2 ^ e \<Longrightarrow> \<bar>k\<bar> < 2 ^ 53 \<Longrightarrow> e \<le> 1074 \<Longrightarrow> fu_round fu x = x"
  using round_dyadic by blast

lemma eighths:
  assumes fu: "float_ok fu" and X: "\<bar>X\<bar> < 2 ^ 20"
  shows "fsub fu (of_int X / 8) 128 = of_int (X - 1024) / 8"
    and "fsub fu (\<bar>of_int X / 8\<bar>) (fsub fu 120 52) = of_int (\<bar>X\<bar> - 544) / 8"
    and "fmul fu (of_int X / 8) (of_int X / 8) = of_int (X * X) / 64"
proof -
  have "fsub fu 120 52 = 68" unfolding fsub_def using round_eq [OF fu, of "120 - 52" 68 0] by simp
  moreover have "fu_round fu (\<bar>of_int X / 8\<bar> - 68) = \<bar>of_int X / 8\<bar> - 68"
    by (rule round_eq [OF fu, of _ "\<bar>X\<bar> - 544" 3]) (use X in auto)
  ultimately show "fsub fu (\<bar>of_int X / 8\<bar>) (fsub fu 120 52) = of_int (\<bar>X\<bar> - 544) / 8" by (simp add: fsub_def)
  have "fu_round fu (of_int X / 8 - 128) = of_int X / 8 - 128"
    by (rule round_eq [OF fu, of _ "X - 1024" 3]) (use X in auto)
  then show "fsub fu (of_int X / 8) 128 = of_int (X - 1024) / 8" by (simp add: fsub_def)
  have "\<bar>X\<bar> * \<bar>X\<bar> < 2 ^ 20 * 2 ^ 20" using X by (intro mult_strict_mono) auto
  then have "fu_round fu (of_int X / 8 * (of_int X / 8)) = of_int X / 8 * (of_int X / 8)"
    by (intro round_eq [OF fu, of _ "X * X" 6]) (simp_all add: abs_mult)
  then show "fmul fu (of_int X / 8) (of_int X / 8) = of_int (X * X) / 64" by (simp add: fmul_def)
qed

lemma sample_point:
  assumes fu: "float_ok fu" and "p < 256" "s < 4"
  shows "fadd fu (real p) (fdiv fu (fadd fu (real s) (1 / 2)) 4) = of_int (sample_at p s) / 8"
proof -
  have half: "fadd fu (real s) (1 / 2) = real s + 1 / 2" unfolding fadd_def
    by (rule round_eq [OF fu, of _ "2 * int s + 1" 1]) (use assms in auto)
  have quarter: "fdiv fu (real s + 1 / 2) 4 = (real s + 1 / 2) / 4" unfolding fdiv_def
    by (rule round_eq [OF fu, of _ "2 * int s + 1" 3]) (use assms in auto)
  have "fadd fu (real p) ((real s + 1 / 2) / 4) = real p + (real s + 1 / 2) / 4" unfolding fadd_def
    by (rule round_eq [OF fu, of _ "8 * int p + 2 * int s + 1" 3]) (use assms in auto)
  then show ?thesis unfolding half quarter by (simp add: sample_at_def)
qed

lemma sum_of_squares:
  assumes fu: "float_ok fu" and "\<bar>X\<bar> < 2 ^ 20" and "\<bar>Y\<bar> < 2 ^ 20"
  shows "fmul_add fu (of_int X / 8) (of_int X / 8) (fmul fu (of_int Y / 8) (of_int Y / 8)) = of_int (X * X + Y * Y) / 64"
proof -
  have "\<bar>X\<bar> * \<bar>X\<bar> < 2 ^ 20 * 2 ^ 20" "\<bar>Y\<bar> * \<bar>Y\<bar> < 2 ^ 20 * 2 ^ 20" using assms(2,3) by (intro mult_strict_mono; auto)+
  then have "fu_round fu (of_int (X * X) / 64 + of_int (Y * Y) / 64) = of_int (X * X) / 64 + of_int (Y * Y) / 64"
    by (intro round_eq [OF fu, of _ "X * X + Y * Y" 6]) (simp_all add: abs_mult add_divide_distrib)
  then show ?thesis
    unfolding fmul_add_def eighths(3) [OF fu assms(2)] eighths(3) [OF fu assms(3)] fadd_def by (simp add: add_divide_distrib)
qed

lemma rect_exact:
  assumes fu: "float_ok fu" and X: "\<bar>X\<bar> < 2 ^ 16" and Y: "\<bar>Y\<bar> < 2 ^ 16"
  shows "in_rounded_rect fu (of_int X / 8) (of_int Y / 8) 128 128 120 52 = in_square X Y"
proof -
  have b: "\<bar>X\<bar> < 2 ^ 20" "\<bar>Y\<bar> < 2 ^ 20" "\<bar>X - 1024\<bar> < 2 ^ 20" "\<bar>Y - 1024\<bar> < 2 ^ 20"
    "\<bar>\<bar>X - 1024\<bar> - 544\<bar> < 2 ^ 20" "\<bar>\<bar>Y - 1024\<bar> - 544\<bar> < 2 ^ 20"
    using X Y by auto
  have "fmul fu 52 52 = 2704" using round_int [OF fu, of 2704] by (simp add: fmul_def)
  moreover have "of_int k / 64 \<le> (2704 :: real) \<longleftrightarrow> k \<le> 416 * 416" for k by (simp add: field_simps) 
  moreover have "of_int k / 8 \<le> (0 :: real) \<longleftrightarrow> k \<le> 0" for k by simp
  ultimately show ?thesis
    unfolding in_rounded_rect_def in_square_def Let_def eighths(1) [OF fu b(1)] eighths(1) [OF fu b(2)]
      eighths(2) [OF fu b(3)] eighths(2) [OF fu b(4)] sum_of_squares [OF fu b(5,6)]
    by (simp only: if_True split: if_splits) blast
qed

subsection \<open>No sample lies on the ring's edge\<close>

lemma odd_squares: "odd a \<Longrightarrow> odd b \<Longrightarrow> (a * a + b * b) mod 8 = (2 :: int)"
proof -
  have "(a * a) mod 8 = 1" if "odd a" for a :: int
  proof -
    from that obtain c where c: "a = 2 * c + 1" by (elim oddE)
    have "even (c * (c + 1))" by simp
    then obtain d where "c * (c + 1) = 2 * d" by (elim evenE)
    then have "a * a = 8 * d + 1" unfolding c by (simp add: algebra_simps)
    then show ?thesis by simp
  qed
  then show "odd a \<Longrightarrow> odd b \<Longrightarrow> (a * a + b * b) mod 8 = 2" by (simp add: mod_add_eq [symmetric])
qed

lemma apart:
  assumes h: "\<bar>h - s\<bar> \<le> s / 2 ^ 40" and s: "0 \<le> s" "s \<le> 1000" and r: "0 \<le> r" "r \<le> 1000" and gap: "1 / 64 \<le> \<bar>s * s - r * r\<bar>"
  shows "(r \<le> h \<longleftrightarrow> r * r \<le> s * s) \<and> (h \<le> r \<longleftrightarrow> s * s \<le> r * (r :: real))"
proof -
  have eq: "\<bar>s * s - r * r\<bar> = \<bar>s - r\<bar> * (s + r)" using s r by (simp add: square_diff_square_factored abs_mult mult.commute)
  have "\<bar>s - r\<bar> * (s + r) \<le> \<bar>s - r\<bar> * 2000" using s r by (intro mult_left_mono) auto
  then have "1 / 64 \<le> \<bar>s - r\<bar> * 2000" using gap unfolding eq by (rule order_trans [rotated])
  then have far: "1 / 128000 \<le> \<bar>s - r\<bar>" by simp
  have "s / 2 ^ 40 \<le> 1000 / 2 ^ 40" using s by (simp add: divide_right_mono)
  moreover have "1000 / 2 ^ 40 < (1 / 128000 :: real)" by simp
  ultimately have "\<bar>h - s\<bar> < 1 / 128000" using h by linarith
  then have "r \<le> h \<longleftrightarrow> r \<le> s" "h \<le> r \<longleftrightarrow> s \<le> r" using far by linarith+
  moreover have "r \<le> s \<longleftrightarrow> r * r \<le> s * s" "s \<le> r \<longleftrightarrow> s * s \<le> r * r"
    using s r by (simp_all add: abs_le_square_iff [unfolded power2_eq_square, symmetric])
  ultimately show ?thesis by blast
qed

lemma theta_exact:
  assumes fu: "float_ok fu" and X: "odd X" "0 \<le> X" "X \<le> 2048" and Y: "odd Y" "0 \<le> Y" "Y \<le> 2048"
  shows "in_theta fu (of_int X / 8) (of_int Y / 8) 128 128 80 56 12 86 = in_glyph X Y"
proof -
  let ?a = "X - 1024" and ?b = "Y - 1024"
  let ?p = "of_int ?a / 8 :: real" and ?q = "of_int ?b / 8 :: real"
  let ?d = "?a * ?a + ?b * ?b"
  define s where "s = sqrt (?p\<^sup>2 + ?q\<^sup>2)"
  have lt: "\<bar>X\<bar> < 2 ^ 20" "\<bar>Y\<bar> < 2 ^ 20" using X Y by auto
  have ab: "\<bar>?a\<bar> \<le> 1024" "\<bar>?b\<bar> \<le> 1024" using X Y by auto
  have "s * s = ?p\<^sup>2 + ?q\<^sup>2" unfolding s_def power2_eq_square [of "sqrt _", symmetric] by (rule real_sqrt_pow2) simp
  then have ss: "s * s = of_int ?d / 64" by (simp add: power2_eq_square field_simps)
  have "?a \<noteq> 0" "?b \<noteq> 0" using X(1) Y(1) by auto
  then have "1 \<le> \<bar>real_of_int ?a\<bar>" "1 \<le> \<bar>real_of_int ?b\<bar>" "\<bar>real_of_int ?a\<bar> \<le> 1024" "\<bar>real_of_int ?b\<bar> \<le> 1024"
    using ab by linarith+
  then have "\<bar>?p\<bar> \<in> {1 / 2 ^ 100..2 ^ 100} \<and> \<bar>?q\<bar> \<in> {1 / 2 ^ 100..2 ^ 100}" by simp
  then have h: "\<bar>fu_hypot fu ?p ?q - s\<bar> \<le> s / 2 ^ 40" using fu unfolding float_ok_def s_def by blast
  have "?d \<le> 1024 * 1024 + 1024 * 1024"
    using abs_le_square_iff [of ?a 1024] abs_le_square_iff [of ?b 1024] ab unfolding power2_eq_square by linarith
  moreover have "real_of_int k / 64 \<le> 1000 * 1000" if "k \<le> 1024 * 1024 + 1024 * 1024" for k using that by linarith
  ultimately have "s * s \<le> 1000 * 1000" unfolding ss by blast
  then have s: "0 \<le> s" "s \<le> 1000" using abs_le_square_iff [of s 1000] by (auto simp: s_def power2_eq_square)
  have "?d mod 8 = 2" by (rule odd_squares) (use X Y in simp_all)
  then have ne: "?d \<noteq> 448 * 448" "?d \<noteq> 640 * 640" by auto
  have edge: "(real_of_int r / 8 \<le> fu_hypot fu ?p ?q \<longleftrightarrow> r * r \<le> ?d) \<and> (fu_hypot fu ?p ?q \<le> of_int r / 8 \<longleftrightarrow> ?d \<le> r * r)"
    if "0 \<le> r" "r \<le> 8000" "?d \<noteq> r * r" for r
  proof -
    have rr: "of_int r / 8 * (of_int r / 8) = (of_int (r * r) / 64 :: real)" by simp
    have "1 \<le> \<bar>?d - r * r\<bar>" using that(3) by linarith
    then have "1 \<le> \<bar>of_int ?d - of_int (r * r) :: real\<bar>" by linarith
    then have "1 / 64 \<le> \<bar>s * s - of_int r / 8 * (of_int r / 8)\<bar>" unfolding ss rr by (simp add: diff_divide_distrib [symmetric])
    moreover have "0 \<le> real_of_int r / 8" "real_of_int r / 8 \<le> 1000" using that(1,2) by simp_all
    moreover have "of_int i / 64 \<le> (of_int j / 64 :: real) \<longleftrightarrow> i \<le> j" for i j by simp
    ultimately show ?thesis using apart [OF h s, of "of_int r / 8"] unfolding ss rr by (simp only:)
  qed
  have bar: "\<bar>?q\<bar> \<le> 12 \<longleftrightarrow> \<bar>?b\<bar> \<le> 96" "\<bar>?p\<bar> \<le> 86 \<longleftrightarrow> \<bar>?a\<bar> \<le> 688" by auto
  show ?thesis
    unfolding in_theta_def in_glyph_def Let_def eighths(1) [OF fu lt(1)] eighths(1) [OF fu lt(2)] bar
    using edge [of 448] edge [of 640] ne by simp
qed

subsection \<open>The badge is the reference\<close>

definition slope_ok :: "8 word \<Rightarrow> 8 word \<Rightarrow> bool" where
  "slope_ok p q \<longleftrightarrow> \<not> 128 dvd (uint q - uint p)"

text \<open>The gradient of a row: the samples' heights are odd, so a slope that 128 does not divide never
  gives a whole colour.\<close>

lemma gradient_exact:
  assumes fu: "float_ok fu" and Y: "odd Y" "64 \<le> Y" "Y \<le> 1984"
    and slopes: "slope_ok (px_r a) (px_r b)" "slope_ok (px_g a) (px_g b)" "slope_ok (px_b a) (px_b b)"
  shows "lerp fu a b (clamp01 (fdiv fu (fsub fu (of_int Y / 8) (fsub fu 128 120)) (fmul fu 2 120))) =
    mix_pixels (Y - 64) 1920 a b"
proof -
  let ?t = "of_int (Y - 64) / of_int 1920 :: real"
  have c: "fsub fu 128 120 = 8" "fmul fu 2 120 = 240"
    using round_int [OF fu, of 8] round_int [OF fu, of 240] by (simp_all add: fsub_def fmul_def)
  have "fsub fu (of_int Y / 8) 8 = of_int Y / 8 - 8"
    unfolding fsub_def by (rule round_eq [OF fu, of _ "Y - 64" 3]) (use Y in auto)
  then have t: "fdiv fu (fsub fu (of_int Y / 8) 8) 240 = fu_round fu ?t" by (simp add: fdiv_def diff_divide_distrib)
  have "Y \<noteq> 64" "Y \<noteq> 1984" using Y(1) by auto
  then have Y': "65 \<le> Y" "Y \<le> 1983" using Y by simp_all
  then have r: "1 / 1920 \<le> ?t" "?t \<le> 1 - 1 / 1920" by simp_all
  then have "\<bar>?t\<bar> \<le> 2 ^ 12" by simp
  from round_close [OF fu this] have near: "\<bar>fu_round fu ?t - ?t\<bar> \<le> 1 / 2 ^ 40" .
  moreover have "(1 / 2 ^ 40 :: real) < 1 / 1920" "(1 / 2 ^ 40 :: real) \<le> 1 / 2 ^ 38" by simp_all
  ultimately have "0 \<le> fu_round fu ?t" "fu_round fu ?t \<le> 1" and t38: "\<bar>fu_round fu ?t - ?t\<bar> \<le> 1 / 2 ^ 38" using r by linarith+
  then have cl: "clamp01 (fu_round fu ?t) = fu_round fu ?t" by (simp add: clamp01_def)
  have frac: "\<not> 1920 dvd (uint q - uint p) * (Y - 64)" if "slope_ok p q" for p q
  proof
    assume "1920 dvd (uint q - uint p) * (Y - 64)"
    then have "2 ^ 7 dvd (uint q - uint p) * (Y - 64)" by (rule dvd_trans [rotated]) simp
    moreover have "coprime (2 ^ 7) (Y - 64)" unfolding coprime_power_left_iff using Y(1) by simp
    ultimately have "2 ^ 7 dvd uint q - uint p" by (simp add: coprime_dvd_mult_left_iff)
    with that show False by (simp add: slope_ok_def)
  qed
  have "float_byte (fmul_add fu (fsub fu (byte_float q) (byte_float p)) (fu_round fu ?t) (byte_float p)) = between (Y - 64) 1920 p q"
    if "slope_ok p q" for p q
    by (rule mix_byte [OF fu t38 _ _ _ _ frac [OF that]]) (use Y in simp_all)
  then show ?thesis unfolding c t cl by (simp add: lerp_def mix_def mix_pixels_def slopes)
qed

lemma in_square_rows: "in_square X Y \<Longrightarrow> 64 \<le> Y \<and> Y \<le> 1984"
proof -
  assume "in_square X Y"
  then have "\<bar>Y - 1024\<bar> - 544 \<le> 0 \<or> (\<bar>Y - 1024\<bar> - 544) * (\<bar>Y - 1024\<bar> - 544) \<le> 416 * 416"
    using zero_le_square [of "\<bar>X - 1024\<bar> - 544"] unfolding in_square_def Let_def by (elim disjE conjE) linarith+
  then have "\<bar>Y - 1024\<bar> - 544 \<le> 416"
    using abs_le_square_iff [of "\<bar>Y - 1024\<bar> - 544" 416] unfolding power2_eq_square by linarith
  then show ?thesis by linarith
qed

definition sums_ok :: "nat \<Rightarrow> channel_sums \<Rightarrow> nat \<times> nat \<times> nat \<times> nat \<Rightarrow> bool" where
  "sums_ok n acc c \<longleftrightarrow> (case c of (r, g, b, a) \<Rightarrow>
     acc = (real r, real g, real b, real a) \<and> r \<le> n \<and> g \<le> n \<and> b \<le> n \<and> a \<le> n)"

lemma add_exact:
  assumes "float_ok fu" and "m + k < 2 ^ 20"
  shows "fadd fu (real m) (real k) = real (m + k)"
  using round_int [OF assms(1), of "int (m + k)"] assms(2) by (simp add: fadd_def)

lemma sample_step:
  assumes fu: "float_ok fu" and pos: "px < 256" "py < 256" "sx < 4" "sy < 4"
    and slopes: "slope_ok (px_r a) (px_r b)" "slope_ok (px_g a) (px_g b)" "slope_ok (px_b a) (px_b b)"
    and ok: "sums_ok n acc c" and n: "n < 2 ^ 16"
  shows "sums_ok (n + 255) (sample fu a b px py sy sx acc) (exact_sample a b px py sy sx c)"
proof -
  let ?X = "sample_at px sx" and ?Y = "sample_at py sy"
  have X: "odd ?X" "0 \<le> ?X" "?X \<le> 2048" and Y: "odd ?Y" "0 \<le> ?Y" "?Y \<le> 2048"
    using pos by (simp_all add: sample_at_def)
  then have b16: "\<bar>?X\<bar> < 2 ^ 16" "\<bar>?Y\<bar> < 2 ^ 16" by simp_all
  define col where "col = (if in_glyph ?X ?Y then white else mix_pixels (?Y - 64) 1920 a b)"
  show ?thesis
  proof (cases "in_square ?X ?Y")
    case True
    have "(if in_theta fu (of_int ?X / 8) (of_int ?Y / 8) 128 128 80 56 12 86 then white
        else lerp fu a b (clamp01 (fdiv fu (fsub fu (of_int ?Y / 8) (fsub fu 128 120)) (fmul fu 2 120)))) = col"
      using in_square_rows [OF True] theta_exact [OF fu X Y] gradient_exact [OF fu Y(1) _ _ slopes] by (simp add: col_def)
    moreover have byte: "unat w \<le> 255" for w :: "8 word" using unsigned_less [of w, where ?'a = nat] by simp
    have "fadd fu (real m) (byte_float w) = real (m + unat w)" "fadd fu (real m) 255 = real (m + 255)" if "m \<le> n" for m w
      using add_exact [OF fu, of m "unat w"] add_exact [OF fu, of m 255] byte [of w] that n by (simp_all add: byte_float_def)
    ultimately show ?thesis
      using ok True byte
      by (simp add: sample_def exact_sample_def sample_point [OF fu] pos rect_exact [OF fu b16] sums_ok_def add_channels_def
        Let_def col_def [symmetric] add_mono split: prod.splits)
  next
    case False
    then show ?thesis
      using ok by (auto simp: sample_def exact_sample_def sample_point [OF fu] pos rect_exact [OF fu b16] sums_ok_def Let_def)
  qed
qed

lemma fold_sums:
  assumes "\<And>x n acc c. x \<in> set xs \<Longrightarrow> sums_ok n acc c \<Longrightarrow> n \<le> N \<Longrightarrow> sums_ok (n + k) (f x acc) (g x c)"
    and "sums_ok n acc c" and "n + k * length xs \<le> N"
  shows "sums_ok (n + k * length xs) (fold f xs acc) (fold g xs c)"
  using assms
proof (induction xs arbitrary: n acc c)
  case (Cons x xs)
  have "sums_ok (n + k) (f x acc) (g x c)" using Cons.prems(3) by (intro Cons.prems(1) Cons.prems(2)) simp_all
  from Cons.IH [OF Cons.prems(1) this] Cons.prems(3) show ?case by (simp add: add.assoc)
qed simp

lemma sixteenth:
  assumes "float_ok fu" and "r < 2 ^ 16"
  shows "float_byte (fdiv fu (real r) 16) = of_nat (r div 16)"
proof -
  have "fdiv fu (real r) 16 = real r / 16"
    unfolding fdiv_def by (rule round_eq [OF assms(1), of _ "int r" 4]) (use assms(2) in auto)
  moreover have "real r = 16 * real (r div 16) + real (r mod 16)"
    by (metis mult_div_mod_eq of_nat_add of_nat_mult of_nat_numeral)
  moreover have "real (r mod 16) < 16" by simp
  ultimately have "float_byte (fdiv fu (real r) 16) = word_of_int (int (r div 16))"
    by (intro float_byte_floor) simp_all
  then show ?thesis by simp
qed

lemma pixel_exact:
  assumes fu: "float_ok fu" and pos: "px < 256" "py < 256"
    and slopes: "slope_ok (px_r a) (px_r b)" "slope_ok (px_g a) (px_g b)" "slope_ok (px_b a) (px_b b)"
  shows "badge_pixel fu a b px py = exact_pixel a b px py"
proof -
  have row: "sums_ok (n + 1020) (fold (sample fu a b px py sy) [0..<4] acc) (fold (exact_sample a b px py sy) [0..<4] c)"
    if "sy \<in> set [0..<4]" "sums_ok n acc c" "n \<le> 5000" for sy n acc c
    using fold_sums [of "[0..<4]" 10000 255 "sample fu a b px py sy" "exact_sample a b px py sy", OF _ that(2)] that(1,3)
      sample_step [OF fu pos _ _ slopes] by simp
  have "sums_ok 0 (0, 0, 0, 0) (0, 0, 0, 0)" by (simp add: sums_ok_def)
  from fold_sums [of "[0..<4]" 5000 1020 "\<lambda>sy. fold (sample fu a b px py sy) [0..<4]" "\<lambda>sy. fold (exact_sample a b px py sy) [0..<4]", OF row this]
  show ?thesis
    by (auto simp: badge_pixel_def exact_pixel_def sums_ok_def byte_pixel_def map_channels_def sixteenth [OF fu] split: prod.splits)
qed

text \<open>The two ends of the gradient, for the colours of the palette. Two of their channels are whole: the
  decimals 0.16 and 0.20 are near enough that the sum snaps to the whole number.\<close>

lemma ends_exact:
  assumes fu: "float_ok fu" and "c \<in> snd ` set palette"
  shows "mix fu c white (fu_round fu (16 / 100)) = mix_pixels 4 25 c white"
    and "mix fu c black (fu_round fu (20 / 100)) = mix_pixels 1 5 c black"
proof -
  have d: "is_double (of_int 5764607523034235 / 2 ^ 55)" "is_double (of_int 3602879701896397 / 2 ^ 54)"
    by (rule double_dyadic; simp)+
  have t: "\<bar>fu_round fu (16 / 100) - of_int 4 / of_int 25\<bar> \<le> 1 / 2 ^ 56" "\<bar>fu_round fu (20 / 100) - of_int 1 / of_int 5\<bar> \<le> 1 / 2 ^ 56"
    using round_nearest [OF fu _ d(1), of "16 / 100"] round_nearest [OF fu _ d(2), of "20 / 100"] by (simp_all add: big)
  moreover have "(1 / 2 ^ 56 :: real) \<le> 1 / 2 ^ 38" by simp
  ultimately have t38: "\<bar>fu_round fu (16 / 100) - of_int 4 / of_int 25\<bar> \<le> 1 / 2 ^ 38" "\<bar>fu_round fu (20 / 100) - of_int 1 / of_int 5\<bar> \<le> 1 / 2 ^ 38"
    by linarith+
  show "mix fu c white (fu_round fu (16 / 100)) = mix_pixels 4 25 c white"
    using assms(2) mix_byte [OF fu t38(1)] mix_byte_whole [OF fu t(1), of "0xFF" "0x82" 20]
    by (auto simp: palette_def mix_def mix_pixels_def white_def)
  show "mix fu c black (fu_round fu (20 / 100)) = mix_pixels 1 5 c black"
    using assms(2) mix_byte [OF fu t38(2)] mix_byte_whole [OF fu t(2), of 0 "0x82" "-26"]
    by (auto simp: palette_def mix_def mix_pixels_def black_def)
qed

theorem badge_is_reference:
  assumes fu: "float_ok fu" and c: "c \<in> snd ` set palette"
  shows "render_badge fu c = exact_badge c"
proof -
  have "slope_ok (px_r (mix_pixels 4 25 c white)) (px_r (mix_pixels 1 5 c black))"
    "slope_ok (px_g (mix_pixels 4 25 c white)) (px_g (mix_pixels 1 5 c black))"
    "slope_ok (px_b (mix_pixels 4 25 c white)) (px_b (mix_pixels 1 5 c black))"
    using c by (auto simp: palette_def mix_pixels_def between_def white_def black_def slope_ok_def)
  from pixel_exact [OF fu _ _ this] ends_exact [OF assms] show ?thesis
    by (simp add: render_badge_def exact_badge_def Let_def cong: grid_eqI)
qed

text \<open>There are such machines: the doubles are finitely many, so each real has a nearest one.\<close>

lemma doubles_finite: "finite {d. is_double d}"
proof -
  let ?k = "{k :: int. \<bar>k\<bar> < 2 ^ 53}"
  have k: "finite ?k" by (rule finite_subset [of _ "{- (2 ^ 53)..2 ^ 53}"]) auto
  have "{d. is_double d} \<subseteq> (\<lambda>(k, e). of_int k * 2 ^ e) ` (?k \<times> {..971}) \<union> (\<lambda>(k, e). of_int k / 2 ^ e) ` (?k \<times> {..1074})"
    unfolding is_double_def by fastforce
  then show ?thesis by (rule finite_subset) (use k in simp)
qed

lemma float_ok_possible: "\<exists>fu. float_ok fu"
proof -
  have "\<exists>d. is_double d \<and> (\<forall>d'. is_double d' \<longrightarrow> \<bar>d - x\<bar> \<le> \<bar>d' - x\<bar>)" for x
  proof -
    have "is_double 0" using double_dyadic [of 0 0] by simp
    then have "{d. is_double d} \<noteq> {}" by blast
    from ex_min_if_finite [of "(\<lambda>d. \<bar>d - x\<bar>) ` {d. is_double d}"] this doubles_finite show ?thesis by fastforce
  qed
  then obtain f where "\<And>x. is_double (f x) \<and> (\<forall>d. is_double d \<longrightarrow> \<bar>f x - x\<bar> \<le> \<bar>d - x\<bar>)" by metis
  then have "float_ok \<lparr>fu_round = f, fu_fused = \<lambda>_ _ _. False, fu_hypot = \<lambda>p q. sqrt (p\<^sup>2 + q\<^sup>2)\<rparr>"
    by (simp add: float_ok_def)
  then show ?thesis by blast
qed

subsection \<open>The generated source\<close>

definition hex_byte :: "8 word \<Rightarrow> string" where
  "hex_byte b = [hex_digit (unat b div 16), hex_digit (unat b mod 16)]"

definition go_bytes :: "bytes \<Rightarrow> string" where
  "go_bytes b = ''[]byte{'' @
     concat (map (\<lambda>(i, x). (if i mod 12 = 0 then [NL, TAB, TAB] else []) @ ''0x'' @ hex_byte x @ '', '') (enumerate 0 b))
     @ [NL, TAB] @ ''}''"

fun read_literals :: "string \<Rightarrow> bytes" where
  "read_literals (a # b # c # d # r) =
     (if a = CHR ''0'' \<and> b = CHR ''x'' then of_nat (16 * hex_val c + hex_val d) # read_literals r
      else read_literals (b # c # d # r))"
| "read_literals r = []"

text \<open>The generator's run: its exit status and the files it wrote, in order. \<open>ig_float\<close> is the machine's floating
  point, \<open>ig_encode\<close> encodes a picture, \<open>ig_format\<close> is gofmt, \<open>ig_store\<close>, \<open>ig_create\<close> and \<open>ig_write\<close> are the errors of
  the file operations. A preview that cannot be written is only reported.\<close>

datatype gen_file = Preview string bytes | Source string string | Icon string bytes

record gen_env =
  ig_float :: float_unit
  ig_encode :: "rgba_image \<Rightarrow> bytes result"
  ig_format :: "string \<Rightarrow> string result"
  ig_store :: "string \<Rightarrow> string option"
  ig_create :: "string \<Rightarrow> string option"
  ig_write :: "bytes \<Rightarrow> string option"

definition write_png :: "gen_env \<Rightarrow> rgba_image \<Rightarrow> string \<Rightarrow> gen_file list" where
  "write_png ge img path =
     (case ig_create ge path of Some err \<Rightarrow> []
      | None \<Rightarrow> (case ig_encode ge img of Inl err \<Rightarrow> [Preview path []] | Inr b \<Rightarrow> [Preview path b]))"

text \<open>The loop over the palette: the files written, and the source text with the blue badge unless an
  encoding error ended the run.\<close>

fun gen_badges ::
  "gen_env \<Rightarrow> string \<Rightarrow> (string \<times> pixel) list \<Rightarrow> string \<Rightarrow> rgba_image option \<Rightarrow> gen_file list \<times> (string \<times> rgba_image option) option" where
  "gen_badges ge dir [] src blue = ([], Some (src @ '')'' @ [NL], blue))"
| "gen_badges ge dir ((name, base) # cs) src blue =
     (let img = render_badge (ig_float ge) base;
          files = write_png ge img (path_join [dir, ''icon-'' @ to_lower name @ ''.png'']);
          blue' = (if name = ''Blue'' then Some img else blue)
      in case ig_encode ge img of Inl err \<Rightarrow> (files, None)
         | Inr b \<Rightarrow> (case gen_badges ge dir cs (src @ [TAB] @ ''icon'' @ name @ '' = '' @ go_bytes b @ [NL]) blue' of
             (files', r) \<Rightarrow> (files @ files', r)))"

definition source_head :: string where
  "source_head = ''// Code generated by cmd/icon-gen; DO NOT EDIT.'' @ [NL] @ [NL] @ ''package main'' @ [NL, NL]
     @ ''// Theta Agent tray state badges, 256x256 PNG.'' @ [NL] @ ''var ('' @ [NL]"

text \<open>\<open>None\<close> is the box filter's panic.\<close>

definition icon_gen :: "gen_env \<Rightarrow> string list \<Rightarrow> (nat \<times> gen_file list) option" where
  "icon_gen ge args =
     (case args of [prog, dir, ico] \<Rightarrow>
        (case gen_badges ge dir palette source_head None of
           (files, Some (src, Some blue)) \<Rightarrow>
             (let out = path_join [dir, ''icons.go''] in
              case ig_format ge src of Inl err \<Rightarrow> Some (1, files)
              | Inr text \<Rightarrow>
                  if ig_store ge out \<noteq> None then Some (1, files)
                  else map_option (\<lambda>(err, bs).
                      (if err = None then 0 else 1,
                       files @ [Source out text] @ (if ig_create ge ico = None then [Icon ico bs] else [])))
                    (write_ico (ig_create ge) (ig_write ge) blue ico))
         | (files, _) \<Rightarrow> Some (1, files))
      | _ \<Rightarrow> Some (2, []))"

lemma hex_byte_read: "of_nat (16 * hex_val (hex_digit (unat b div 16)) + hex_val (hex_digit (unat b mod 16))) = (b :: 8 word)"
proof -
  have "unat b < 2 ^ LENGTH(8)" by (rule unsigned_less)
  then have "unat b div 16 < 16" by (simp add: less_mult_imp_div_less)
  then show ?thesis by (simp add: hex_val_digit mult.commute)
qed

lemma read_literals_skip: "a \<noteq> CHR ''0'' \<Longrightarrow> read_literals (a # r) = read_literals r"
  by (cases r rule: read_literals.cases) (auto split: if_splits)

lemma read_literal: "read_literals (''0x'' @ hex_byte b @ '', '' @ r) = b # read_literals r"
  using hex_byte_read [of b] by (simp add: hex_byte_def read_literals_skip)

text \<open>The byte literal the generator writes into the tray's source denotes the encoded picture.\<close>

lemma read_go_bytes: "read_literals (go_bytes b) = b"
proof -
  have "read_literals (concat (map (\<lambda>(i, x). (if i mod 12 = 0 then [NL, TAB, TAB] else []) @ ''0x'' @ hex_byte x @ '', '') (enumerate n b))
      @ [NL, TAB] @ ''}'') = b" for n
  proof (induction b arbitrary: n)
    case (Cons x b)
    from Cons [of "Suc n"] read_literal [of x] show ?case by (auto simp: read_literals_skip)
  qed simp
  then show ?thesis by (simp add: go_bytes_def read_literals_skip)
qed

text \<open>So the generator writes the same files on every machine: icons.go and the icon can be made anywhere.\<close>

theorem generator_reproducible:
  assumes "float_ok (ig_float ge)" and "float_ok fu"
  shows "icon_gen (ge\<lparr>ig_float := fu\<rparr>) args = icon_gen ge args"
proof -
  have png: "write_png (ge\<lparr>ig_float := fu\<rparr>) img path = write_png ge img path" for img path
    by (simp add: write_png_def cong: option.case_cong sum.case_cong)
  have "gen_badges (ge\<lparr>ig_float := fu\<rparr>) dir cs src blue = gen_badges ge dir cs src blue" if "set cs \<subseteq> set palette" for dir cs src blue
    using that
  proof (induction cs arbitrary: src blue)
    case (Cons c cs)
    then have "snd c \<in> snd ` set palette" by auto
    then have "render_badge fu (snd c) = render_badge (ig_float ge) (snd c)"
      using badge_is_reference [OF assms(1)] badge_is_reference [OF assms(2)] by simp
    with Cons show ?case by (cases c) (simp add: png Let_def cong: sum.case_cong)
  qed simp
  then have badges: "gen_badges (ge\<lparr>ig_float := fu\<rparr>) dir palette src blue = gen_badges ge dir palette src blue" for dir src blue
    by simp
  have rest: "ig_format (ge\<lparr>ig_float := fu\<rparr>) = ig_format ge" "ig_store (ge\<lparr>ig_float := fu\<rparr>) = ig_store ge"
    "ig_create (ge\<lparr>ig_float := fu\<rparr>) = ig_create ge" "ig_write (ge\<lparr>ig_float := fu\<rparr>) = ig_write ge"
    by simp_all
  show ?thesis unfolding icon_gen_def badges rest ..
qed

end
