(* ===== verification/AgentMain.thy ===== *)
theory AgentMain
  imports Session CliMain
begin

text \<open>
  The process from its start to its loops: \<open>main\<close> and \<open>runAgent\<close> of \<open>main.go\<close>. The loops themselves are the
  steps of the other theories; here is which of them a process starts, and with what configuration.
\<close>

subsection \<open>The daemon's start\<close>

datatype agent_task = TrayServerTask | WebSocketTask | HomeMonitorTask | DiscoveryTask | SignalTask

definition agent_tasks :: "agent_task list" where
  "agent_tasks = [TrayServerTask, WebSocketTask, HomeMonitorTask, DiscoveryTask, SignalTask]"

text \<open>What the process finds: the command's environment, the default path of the configuration, which
  arguments name an existing file or directory, the tray's status, the clock, the system, the tools.\<close>

record start_env =
  sn_command :: command_env
  sn_default_path :: string
  sn_exists :: "string \<Rightarrow> bool"
  sn_status :: tray_status
  sn_now :: int
  sn_windows :: bool
  sn_look_path :: "string \<Rightarrow> bool"

text \<open>The warning that the host cannot bring up the tunnel.\<close>

definition mesh_preflight :: "bool \<Rightarrow> (string \<Rightarrow> bool) \<Rightarrow> env \<Rightarrow> world \<Rightarrow> config \<Rightarrow> string option" where
  "mesh_preflight windows look_path e w cfg =
     (if wireguard_enabled (caps cfg) then check_wireguard_tools windows look_path e w else None)"

record running_agent =
  ra_node :: node
  ra_warning :: "string option"
  ra_tasks :: "agent_task list"

definition run_agent :: "start_env \<Rightarrow> string list \<Rightarrow> world \<Rightarrow> running_agent result" where
  "run_agent se args w =
     (let path = agent_config_path args (sn_exists se) (sn_default_path se) in
      case boot (sn_command se) path w (sn_status se) (sn_now se) of
        Inl err \<Rightarrow> Inl (wrap_err (''Error loading configuration from '' @ path) err)
      | Inr n \<Rightarrow> Inr \<lparr>ra_node = n,
          ra_warning = mesh_preflight (sn_windows se) (sn_look_path se) (ce_env (sn_command se)) w (nd_boot n),
          ra_tasks = agent_tasks\<rparr>)"

subsection \<open>The process\<close>

datatype process = RanCommand cli_run host | RanService "nat option" | RanDaemon running_agent | DiedAtStart string

text \<open>\<open>svc\<close> is the result of \<open>maybeRunAsService\<close>.\<close>

definition agent_main :: "cli_env \<Rightarrow> start_env \<Rightarrow> bool \<times> nat option \<Rightarrow> string list \<Rightarrow> host \<Rightarrow> process" where
  "agent_main ce se svc args h =
     (case run_cli ce args h of
        Some (r, h') \<Rightarrow> RanCommand r h'
      | None \<Rightarrow>
          if fst svc then RanService (snd svc)
          else (case run_agent se args (ho_world h) of Inl err \<Rightarrow> DiedAtStart err | Inr a \<Rightarrow> RanDaemon a))"

subsection \<open>Lemmas\<close>

text \<open>A first argument that is a flag or names nothing that exists changes nothing.\<close>

lemma stray_arguments_harmless:
  "has_prefix a ''-'' \<or> \<not> sn_exists se a \<Longrightarrow> run_agent se (a # args) w = run_agent se [] w"
  by (auto simp: run_agent_def agent_config_path_def)

text \<open>The arguments that old installations left in the Windows service.\<close>

lemma old_service_arguments: "handle_cli [''is'', ''auto''] = RunDaemon"
  by code_simp

lemma run_cli_None: "run_cli ce args h = None \<longleftrightarrow> handle_cli args = RunDaemon"
  by (simp add: run_cli_def split: cli_call.splits)

text \<open>A daemon that runs has loaded its configuration, starts disconnected, and runs every task.\<close>

lemma daemon_started:
  assumes "agent_main ce se svc args h = RanDaemon a"
  shows "handle_cli args = RunDaemon" and "\<not> fst svc" and "ra_tasks a = agent_tasks"
    and "nd_phase (ra_node a) = Dialling" and "\<not> nd_online (ra_node a)" and "loop_inv (ra_node a)"
    and "\<exists>cm. new_config_manager (ce_decode (sn_command se)) (ce_env (sn_command se)) (ho_world h)
           (agent_config_path args (sn_exists se) (sn_default_path se)) = Inr cm \<and> nd_boot (ra_node a) = cm_current cm"
proof -
  from assms have d: "handle_cli args = RunDaemon" "\<not> fst svc" "run_agent se args (ho_world h) = Inr a"
    by (auto simp: agent_main_def run_cli_None split: if_splits sum.splits option.splits prod.splits)
  then obtain n where b: "boot (sn_command se) (agent_config_path args (sn_exists se) (sn_default_path se)) (ho_world h)
      (sn_status se) (sn_now se) = Inr n" and a: "ra_node a = n" "ra_tasks a = agent_tasks"
    by (auto simp: run_agent_def Let_def split: sum.splits)
  have n: "nd_phase n = Dialling" "nd_log n = []" "\<not> nd_online n"
    using b by (auto simp: boot_def split: sum.splits)
  show "handle_cli args = RunDaemon" "\<not> fst svc" "ra_tasks a = agent_tasks" using d a by auto
  show "nd_phase (ra_node a) = Dialling" "\<not> nd_online (ra_node a)" using a n by auto
  show "loop_inv (ra_node a)" using a n loop_inv_start by simp
  show "\<exists>cm. new_config_manager (ce_decode (sn_command se)) (ce_env (sn_command se)) (ho_world h)
      (agent_config_path args (sn_exists se) (sn_default_path se)) = Inr cm \<and> nd_boot (ra_node a) = cm_current cm"
    unfolding a(1) using b by (auto simp: boot_def split: sum.splits)
qed

text \<open>Nothing is started when the configuration cannot be read.\<close>

lemma unreadable_configuration:
  assumes "handle_cli args = RunDaemon" and "\<not> fst svc"
    and "new_config_manager (ce_decode (sn_command se)) (ce_env (sn_command se)) (ho_world h) path = Inl err"
    and "path = agent_config_path args (sn_exists se) (sn_default_path se)"
  shows "agent_main ce se svc args h = DiedAtStart (''Error loading configuration from '' @ path @ '': '' @ err)"
  using assms by (simp add: agent_main_def run_cli_def run_agent_def boot_def wrap_err_def)

text \<open>\<open>run\<close> is the daemon, and its own word is then taken for the path of the configuration when it names
  something in the working directory.\<close>

lemma run_takes_file_for_configuration:
  "handle_cli [''run''] = RunDaemon"
  "sn_exists se ''run'' \<Longrightarrow> agent_config_path [''run''] (sn_exists se) (sn_default_path se) = ''run''"
proof -
  show "handle_cli [''run''] = RunDaemon" by code_simp
  show "sn_exists se ''run'' \<Longrightarrow> agent_config_path [''run''] (sn_exists se) (sn_default_path se) = ''run''"
    by (simp add: agent_config_path_def has_prefix_def)
qed

end
