(* ===== verification/Spec2Isabelle.thy ===== *)
theory Spec2Isabelle
  imports Config Signature Iam Hosts Discovery LocalNet Platform WgTools LinuxOps Home LdapTunnel Secrets ServiceControl TrayIpc
    WgIdentity Command WgEnroll MeshKey TrayCommands Session Probes ServiceReg Cli CliHelp CliFlags CliMain Telemetry
    WinOps WinLogin WinService TrayMenu TrayGui TrayIcons IconGen Completions AgentMain
begin

text \<open>
  A model of theta-agent (Go), with the theorems that make it correct. Paths are relative to the repository's root.

  \<^bold>\<open>The program.\<close> theta-agent runs as root on every host of a fleet. It keeps one outbound WebSocket to its directory,
  reports what the host is and does, executes the commands it receives, carries LDAP bytes between local clients and
  the directory, renders secrets into files, applies identity rules, and joins the WireGuard mesh. It runs as a daemon
  (\<open>main.go\<close>, \<open>runAgent\<close>) whose goroutines share one state: the socket's reconnect loop, the telemetry loop, the home
  monitor, local discovery, and a local socket on which desktop trays show the status and send a few commands. The same
  binary is the command line (\<open>cli.go\<close>); on Windows it is also the service, with a helper process that acts on desktop
  sessions and swaps the binary of an update. \<open>cmd/theta-agent-tray\<close> is the tray, \<open>cmd/icon-gen\<close> draws its icons.

  \<^bold>\<open>How the code is modelled.\<close> A Go string is a list of bytes (\<open>string\<close>), an \<open>int\<close> an \<open>int\<close> where no bound is near and a
  64-bit value with its wrap-around where one is (theory Cron), key bytes are \<open>8 word\<close>s; a struct is a record, an error
  a value of \<open>result\<close> (\<open>Inl\<close> the text) or \<open>string option\<close>. Every operation takes the state and returns it: \<open>world\<close>
  (files, commands run, clock; theory GoOs), \<open>config_manager\<close>, \<open>home_state\<close>, \<open>agent\<close>, \<open>daemon\<close>, \<open>node\<close>, the tray's
  \<open>gui\<close>, the command line's \<open>host\<close>. What the source cannot decide is an argument: which system calls fail, what a
  failing write leaves and what a command prints (\<open>env\<close>, a function of the history of commands), HTTP answers, random bytes, clocks and calendars,
  announcements on the network, the Win32 answers, and the third-party code: the YAML decoder, JSON's text parser,
  Ed25519, X25519, SHA-256, the PEM and PNG codecs, the measuring library. Every theorem holds for all of them.
  Mutexes make an operation atomic; what is concurrent is a list of events in any order, or a step relation.

  \<^bold>\<open>The theories\<close>, in the order of their imports.
  \<^item> Prelude: collections of rewrite rules, control characters, lemmas on lists and options.
  \<^item> GoStrings, GoRegexp, GoBase64, GoJson, GoPath, GoNet, GoOs, GoHttp, GoUtf: the standard library as far as the source
    uses it. GoRegexp gives patterns a leftmost-first semantics and a locale \<open>line_pattern\<close> for patterns that match whole
    lines; GoBase64 interprets the locale \<open>byte_codec\<close>; GoJson has the encoder, and that it is injective.
  \<^item> Config: \<open>config.go\<close>. The line edits of agent.yml are shown equal to maps over its lines; the operations of
    \<open>ConfigManager\<close> are shown to keep the running configuration on every error.
  \<^item> Signature: \<open>canonicalize\<close> and \<open>verifySignature\<close> of \<open>websocket.go\<close>; which command a signature fits.
  \<^item> Platform, LinuxOps, WinOps: \<open>platform_ops.go\<close> as a record of operations and its implementations
    (\<open>platform_linuxops.go\<close>, \<open>platform_windows.go\<close>, \<open>update_windows.go\<close>, \<open>cmd/theta-agent-helper\<close>); the locale
    \<open>wg_driver\<close> is the contract of a tunnel, interpreted on both. The self-updates install verified bytes only.
  \<^item> Iam, Hosts, Secrets, ServiceControl, WgTools, WgIdentity: \<open>iam.go\<close> and \<open>iam_windows.go\<close>, \<open>hosts_override*.go\<close>,
    \<open>secrets.go\<close>, \<open>service_control.go\<close>, \<open>wg_tools.go\<close>, \<open>wg_identity.go\<close>: files replaced as a whole or not at all,
    closed sets of commands, a key that is never lost.
  \<^item> Discovery, LocalNet: \<open>local_discovery.go\<close>, \<open>discovery_verify.go\<close>, \<open>local_route*.go\<close>: the polling loop as a step relation,
    with the invariant that an override is verified.
  \<^item> Home: \<open>home_detect.go\<close>, \<open>home_reach.go\<close>: the state all parts of the daemon share, the auto-VPN policy and its spacing.
  \<^item> LdapTunnel: \<open>ldap_tunnel.go\<close>: the listeners and pumps as events; each connection carries its bytes unchanged.
  \<^item> Command: \<open>handleCommand\<close> of \<open>websocket.go\<close>, one definition per command. The locale \<open>guarded_handler\<close> (signature,
    then capability) and \<open>answering_handler\<close> (one answer on every branch) are interpreted on the handlers.
  \<^item> WgEnroll, MeshKey: \<open>wg_enroll.go\<close> with its bounded retries, and where it meets wireguard_apply.
  \<^item> TrayIpc, TrayCommands: \<open>tray_ipc.go\<close>, \<open>tray_server.go\<close>, the peer check; what a desktop user may cause.
  \<^item> Session, AgentMain: \<open>connectWebSocket\<close>, \<open>runAgent\<close> and \<open>main\<close>: the inductive relation \<open>session_step\<close> over \<open>node\<close>
    with invariants by rule induction: back-off, liveness, flags; which process an invocation becomes.
  \<^item> Cron, Probes, Telemetry: \<open>cron_schedule.go\<close>, \<open>service_extra_probes.go\<close>, \<open>telemetry*.go\<close>: schedules, the probes under
    the locale \<open>service_probe\<close>, the discovery and telemetry frames and their loop.
  \<^item> ServiceReg, Cli, CliFlags, CliRegistry, CliHelp, Completions, CliMain: \<open>service_registration.go\<close>, \<open>verify.go\<close>,
    \<open>reset_enrollment.go\<close>, \<open>paths.go\<close>, \<open>cli.go\<close>, \<open>cli_help.go\<close>: every command, and a whole invocation on one host state.
  \<^item> WinLogin, WinService: \<open>configure_login*.go\<close>, \<open>cp_branding_windows.go\<close>, \<open>service_windows.go\<close>,
    \<open>service_cli_windows.go\<close>, \<open>telemetry_collect_windows.go\<close>: the registry as a map, the service manager as a request log.
  \<^item> TrayMenu, TrayGui, TrayIcons: the tray's submenu, its process and protocol end, and the icon encoders of the tray and
    of \<open>cmd/icon-gen\<close>; the locale \<open>fixed_codec\<close> is their numbers and pixels. The tray's theorems end at the daemon:
    a click is the request the directory receives.
  \<^item> IconGen: the rest of \<open>cmd/icon-gen\<close>, which draws the badges in floating point. \<open>float_ok\<close> is what IEEE 754 promises;
    under it the badges are those of a reference in integers (\<open>badge_is_reference\<close>), so the generator writes the same
    files wherever it runs.

  \<^bold>\<open>Bounds and fuel.\<close> Recursion is structural or has a measure: the 20 attempts of an enrolment, the ten and thirty
  seconds of the service waits, the 40 tries and 90 seconds of the helper's swap. The cron search is capped at the
  366 days of the code. The one loop of the code that may run for ever, the values of a cron field, is a
  \<open>partial_function\<close>: not returning is \<open>None\<close>, and \<open>cron_parse_returns\<close> says when it returns. Limits of the code are
  kept: 1024 entries of the CPU cache, frames of 2^20 bytes, downloads of 256 MiB, lines of 64 KiB.

  \<^bold>\<open>Defects.\<close> Where the code does less than it says, the model follows the code, and a lemma beside the theorems shows the
  case: among others a signed payload's own type field (\<open>type_field_replays_signature\<close>), the enrolment frame that needs
  no signature, paths built from pushed names (\<open>iam_path_traversal\<close>), the endless cron range, the dollar signs of
  config-set, \<open>reinitialize\<close> without a join key, files rewritten in place that a full disk empties, agent.yml by a
  desktop user's toggle (\<open>torn_toggle_loses_credentials\<close>, \<open>torn_override_empties_hosts\<close>). Where a property needs that
  no write stops half-way, \<open>e_torn\<close> in its statement says so.

  \<^bold>\<open>Not modelled.\<close> \<open>cmd/theta-agent-tray/icons.go\<close> is data that icon-gen writes (the bytes of four pictures). Win32 procedure addresses and the decoding of their
  structures, sockets and the HTTP client, the texts of library errors, log lines, signal delivery and the process
  exit have no state the model could speak of. The tests, the installers, the packaging and the demo are not Go code of
  the agent.
\<close>

subsection \<open>A property of enrolment, command and tunnel together\<close>

text \<open>C15: The tunnel runs with the key the directory knows. Once the host has enrolled, and as long as its key
  file stays, a wireguard_apply frame, whoever signed it and however it ends, changes no file but the tunnel's
  configuration; and that becomes the pushed text completed with the private key whose public key is the one
  every enrolment request named (a beginning of it, if the write stops half-way).\<close>

theorem tunnel_runs_enrolled_key:
  assumes "ensure_mesh_identity en s w = (Some (pub, res, run), w1)" and "\<And>bs. en_rand en = Inr bs \<Longrightarrow> length bs = 32"
    and "w_files (host_of d) (en_key_path en) = w_files w1 (en_key_path en)"
    and "ce_key_path ce = en_key_path en" and "ce_x25519 ce = en_x25519 en"
    and "e_fault (ce_env ce) OpRead (en_key_path en) = None"
    and "ce_platform ce = linux_platform lo ue" and "ws_type msg = ''wireguard_apply''"
  shows "\<exists>priv. public_from_private (en_x25519 en) priv = Inr pub \<and>
    (\<forall>q\<in>set (er_sent run). \<exists>cfg. q = enroll_request cfg pub) \<and>
    (\<forall>p. w_files (host_of (handle_command ce msg d)) p \<noteq> w_files (host_of d) p \<longrightarrow> p = lo_conf lo \<and>
      (map_option f_content (w_files (host_of (handle_command ce msg d)) p) = Some (completed_conf (text_field msg ''config'') priv) \<or>
       (\<exists>n. e_torn (lo_env lo) p = Some n \<and> map_option f_content (w_files (host_of (handle_command ce msg d)) p) =
          Some (take n (completed_conf (text_field msg ''config'') priv)))))"
proof -
  obtain kp where kp: "public_from_private (en_x25519 en) (kp_private kp) = Inr pub"
    "load_or_create_key (en_x25519 en) (ce_rand ce) (ce_env ce) (host_of d) (en_key_path en) = (Inr kp, host_of d)"
    using enrolled_key [OF assms(1,2,3,6)] by blast
  have "kp_private kp \<noteq> []" using kp(1) public_needs_private [of "en_x25519 en" pub] by auto
  from fill_known_key [OF kp(2) this] apply_frame_conf [OF assms(7,8)]
  have "only_conf lo (completed_conf (text_field msg ''config'') (kp_private kp)) (host_of d) (host_of (handle_command ce msg d))"
    by (simp add: assms(4,5))
  then show ?thesis
    using kp(1) requests_name_key [OF assms(1)] unfolding only_conf_def by blast
qed

text \<open>A host that enrolled, and a signed frame.\<close>

definition mesh_env :: command_env where
  "mesh_env = sample_env\<lparr>ce_x25519 := rev, ce_key_path := ''/etc/k''\<rparr>"

definition mesh_world :: world where
  "mesh_world = snd (ensure_mesh_identity sample_enroll zero_home (one_file ''/etc/agent.yml'' [] 0))"

definition mesh_daemon :: daemon where
  "mesh_daemon = sample_daemon\<lparr>dm_agent := (dm_agent sample_daemon)\<lparr>ag_world := mesh_world\<rparr>\<rparr>"

definition apply_msg :: ws_message where
  "apply_msg = \<lparr>ws_type = ''wireguard_apply'', ws_payload = [(''config'', JStr (''PrivateKey = '' @ key_placeholder)),
     (''signature'', JStr (b64_encode ''kkk''))]\<rparr>"

lemma tunnel_runs_enrolled_key_witness:
  "\<exists>pub priv res run w1. ensure_mesh_identity sample_enroll zero_home (one_file ''/etc/agent.yml'' [] 0) = (Some (pub, res, run), w1) \<and>
     length (er_sent run) = 1 \<and> public_from_private rev priv = Inr pub \<and>
     map_option f_content (w_files (host_of (handle_command mesh_env apply_msg mesh_daemon)) ''/etc/wireguard/theta-mesh.conf'') =
       Some (completed_conf (''PrivateKey = '' @ key_placeholder) priv)"
proof -
  let ?e = "ensure_mesh_identity sample_enroll zero_home (one_file ''/etc/agent.yml'' [] 0)" and ?c = "''/etc/wireguard/theta-mesh.conf''"
  have "length (er_sent (snd (snd (the (fst ?e))))) = 1 \<and> fst ?e \<noteq> None" by code_simp
  then obtain pub res run w1 where e: "?e = (Some (pub, res, run), w1)" and l: "length (er_sent run) = 1"
    by (cases ?e) auto
  have w: "host_of mesh_daemon = w1" by (simp add: mesh_daemon_def mesh_world_def e)
  have m: "ce_key_path mesh_env = en_key_path sample_enroll" "ce_x25519 mesh_env = en_x25519 sample_enroll"
    "e_fault (ce_env mesh_env) OpRead (en_key_path sample_enroll) = None"
    "ce_platform mesh_env = linux_platform sample_ops sample_update" "ws_type apply_msg = ''wireguard_apply''"
    "text_field apply_msg ''config'' = ''PrivateKey = '' @ key_placeholder" "en_x25519 sample_enroll = rev"
    "\<And>bs. en_rand sample_enroll = Inr bs \<Longrightarrow> length bs = 32" "\<And>p. e_torn (lo_env sample_ops) p = None"
    by (simp_all add: sample_ops_def mesh_env_def sample_env_def sample_enroll_def quiet_env_def apply_msg_def str_field_def get_str_def)
  have "w_files mesh_world ?c = None" by code_simp
  moreover have "w_files (host_of (handle_command mesh_env apply_msg mesh_daemon)) ?c \<noteq> None" by code_simp
  ultimately have n: "w_files (host_of (handle_command mesh_env apply_msg mesh_daemon)) ?c \<noteq> w_files (host_of mesh_daemon) ?c"
    by (simp add: mesh_daemon_def)
  from tunnel_runs_enrolled_key [OF e m(8) _ m(1-5), of mesh_daemon] w n e l m(6,7,9) show ?thesis by fastforce
qed

end
